(* ===== verification/Prelude.thy ===== *)
theory Prelude
  imports Main "HOL-Library.Word"
begin

text \<open>
  Shared vocabulary of the development.

  A Go function that can fail returns an \<open>outcome\<close>: \<open>Ok\<close> is the normal return, \<open>Err\<close> the
  return of a non-nil \<open>error\<close>, and \<open>Panic\<close> a run-time panic (nil dereference, index out of
  range, send on a closed channel), which no caller in the program recovers from.  A stateful
  function returns its outcome together with the new state, so that what a failing function has
  already changed stays visible.  \<open>and_then\<close> is the \<^verbatim>\<open>if err != nil { return err }\<close> ladder.
  The theory also collects generic facts on words, lists and maps used by every component.
\<close>

unbundle bit_operations_syntax

named_theorems go_simps \<open>equations of the Go run-time model\<close>
named_theorems layout_simps \<open>unfolding rules for structure layouts\<close>

type_synonym byte = "8 word"
type_synonym u16 = "16 word"
type_synonym u32 = "32 word"
type_synonym u64 = "64 word"

datatype goerr =
    IoEOF
  | ErrUnexpectedEOF
  | EINVAL
  | EIO
  | ENOSPC
  | ErrNotExist
  | Errno string
  | Errorf string

datatype gopanic =
    NilDereference
  | IndexOutOfRange
  | SliceBounds
  | NilMapWrite
  | SendOnClosed
  | DivideByZero
  | NegativeWaitGroup

datatype 'a outcome = Ok 'a | Err goerr | Panic gopanic

primrec is_ok :: "'a outcome \<Rightarrow> bool" where
  "is_ok (Ok x) = True"
| "is_ok (Err e) = False"
| "is_ok (Panic p) = False"

primrec is_panic :: "'a outcome \<Rightarrow> bool" where
  "is_panic (Ok x) = False"
| "is_panic (Err e) = False"
| "is_panic (Panic p) = True"

definition and_then ::
  "'a outcome \<times> 's \<Rightarrow> ('a \<Rightarrow> 's \<Rightarrow> 'b outcome \<times> 's) \<Rightarrow> 'b outcome \<times> 's" where
  "and_then r k =
     (case r of
        (Ok x, s) \<Rightarrow> k x s
      | (Err e, s) \<Rightarrow> (Err e, s)
      | (Panic p, s) \<Rightarrow> (Panic p, s))"

lemma and_then_simps [simp, go_simps]:
  "and_then (Ok x, s) k = k x s"
  "and_then (Err e, s) k = (Err e, s)"
  "and_then (Panic p, s) k = (Panic p, s)"
  by (simp_all add: and_then_def)

lemma and_then_Ok_iff:
  "and_then r k = (Ok y, t) \<longleftrightarrow> (\<exists>x s. r = (Ok x, s) \<and> k x s = (Ok y, t))"
  by (auto simp: and_then_def split: outcome.splits prod.splits)

text \<open>Sequencing without state.\<close>

definition bind_out :: "'a outcome \<Rightarrow> ('a \<Rightarrow> 'b outcome) \<Rightarrow> 'b outcome" where
  "bind_out r k = (case r of Ok x \<Rightarrow> k x | Err e \<Rightarrow> Err e | Panic p \<Rightarrow> Panic p)"

lemma bind_out_simps [simp, go_simps]:
  "bind_out (Ok x) k = k x"
  "bind_out (Err e) k = Err e"
  "bind_out (Panic p) k = Panic p"
  by (simp_all add: bind_out_def)

lemma bind_out_Ok_iff: "bind_out r k = Ok y \<longleftrightarrow> (\<exists>x. r = Ok x \<and> k x = Ok y)"
  by (auto simp: bind_out_def split: outcome.splits)

text \<open>Reading a slice element: Go panics out of range.\<close>

definition idx :: "'a list \<Rightarrow> nat \<Rightarrow> 'a outcome" where
  "idx xs i = (if i < length xs then Ok (xs ! i) else Panic IndexOutOfRange)"

lemma idx_Ok [simp, go_simps]: "i < length xs \<Longrightarrow> idx xs i = Ok (xs ! i)"
  by (simp add: idx_def)

lemma idx_Panic_iff: "idx xs i = Panic p \<longleftrightarrow> length xs \<le> i \<and> p = IndexOutOfRange"
  by (auto simp: idx_def)

section \<open>Sub-lists at an offset\<close>

definition sl :: "nat \<Rightarrow> nat \<Rightarrow> 'a list \<Rightarrow> 'a list" where
  "sl off n xs = take n (drop off xs)"

lemma length_sl [simp]: "length (sl off n xs) = min n (length xs - off)"
  by (simp add: sl_def)

lemma sl_append_left [simp]: "off + n \<le> length xs \<Longrightarrow> sl off n (xs @ ys) = sl off n xs"
  by (simp add: sl_def)

lemma sl_append_right: "length xs \<le> off \<Longrightarrow> sl off n (xs @ ys) = sl (off - length xs) n ys"
  by (simp add: sl_def)

lemma sl_0 [simp]: "length xs \<le> n \<Longrightarrow> sl 0 n xs = xs"
  by (simp add: sl_def)

lemma sl_split: "sl off n xs @ sl (off + n) m xs = sl off (n + m) xs"
  by (simp add: sl_def take_add add.commute [of off n])

lemma nth_sl: "i < n \<Longrightarrow> off + n \<le> length xs \<Longrightarrow> sl off n xs ! i = xs ! (off + i)"
  by (simp add: sl_def)

lemma sl_map_upt: "off + n \<le> m \<Longrightarrow> sl off n (map f [a..<a + m]) = map f [a + off..<a + off + n]"
  by (simp add: sl_def take_map drop_map)

section \<open>Words\<close>

lemma unat_of_nat_lt: "n < 2 ^ LENGTH('a) \<Longrightarrow> unat (word_of_nat n :: 'a::len word) = n"
  by (simp add: unat_of_nat)

lemma sint_eq_unat: "unat (w :: u64) < 2 ^ 63 \<Longrightarrow> sint w = int (unat w)"
proof -
  assume "unat w < 2 ^ 63"
  then have hi: "int (unat w) < int (2 ^ 63)" by (simp only: of_nat_less_iff)
  have "- (2 ^ 63) \<le> uint w" using uint_ge_0 [of w] by (rule order_trans [rotated]) simp
  with hi show ?thesis
    by (simp add: sint_uint signed_take_bit_int_eq_self)
qed

lemma unat_mult_lt: "unat a * unat b < 2 ^ LENGTH('a) \<Longrightarrow> unat (a * b :: 'a::len word) = unat a * unat b"
  by (simp add: unat_word_ariths)

lemma unat_add_lt: "unat a + unat b < 2 ^ LENGTH('a) \<Longrightarrow> unat (a + b :: 'a::len word) = unat a + unat b"
  by (simp add: unat_word_ariths)

lemma unat_sub_le: "unat b \<le> unat a \<Longrightarrow> unat (a - b :: 'a::len word) = unat a - unat b"
  by (simp add: unat_sub word_le_nat_alt)

lemma find_append:
  "List.find P (xs @ ys) = (case List.find P xs of None \<Rightarrow> List.find P ys | Some x \<Rightarrow> Some x)"
  by (induction xs) simp_all

lemma sum_list_update_less:
  assumes "i < length ws" and "f p < (f (ws ! i) :: nat)"
  shows "sum_list (map f (ws[i := p])) < sum_list (map f ws)"
proof -
  have ws: "ws = take i ws @ ws ! i # drop (Suc i) ws" using assms(1) by (rule id_take_nth_drop)
  have "ws[i := p] = take i ws @ p # drop (Suc i) ws" using assms(1) by (simp add: upd_conv_take_nth_drop)
  then show ?thesis using assms(2) by (subst (2) ws) simp
qed

end
