(* ===== verification/GoBinary.thy ===== *)
theory GoBinary
  imports Prelude
begin

text \<open>
  The parts of Go's \<open>encoding/binary\<close> and \<open>hash/crc32\<close> the program uses: little-endian
  integers of any width, and the IEEE CRC-32.  The locale \<open>codec\<close> is the interface between the
  fixed-size structures of \<open>types.go\<close> and the code that reads and writes them.
\<close>

section \<open>Little-endian integers\<close>

fun le_enc :: "nat \<Rightarrow> 'a::len word \<Rightarrow> byte list" where
  "le_enc 0 w = []"
| "le_enc (Suc n) w = ucast w # le_enc n (drop_bit 8 w)"

fun le_dec :: "byte list \<Rightarrow> 'a::len word" where
  "le_dec [] = 0"
| "le_dec (b # bs) = (ucast b OR push_bit 8 (le_dec bs))"

lemma length_le_enc [simp]: "length (le_enc n w) = n"
  by (induction n arbitrary: w) auto

lemma le_dec_enc: "le_dec (le_enc n w) = take_bit (8 * n) (w :: 'a::len word)"
proof (induction n arbitrary: w)
  case 0
  then show ?case by simp
next
  case (Suc n)
  show ?case
    by (rule bit_word_eqI)
      (auto simp: Suc bit_or_iff bit_ucast_iff bit_push_bit_iff bit_take_bit_iff bit_drop_bit_eq)
qed

lemma le_dec_enc_full [simp]:
  "LENGTH('a) \<le> 8 * n \<Longrightarrow> le_dec (le_enc n w) = (w :: 'a::len word)"
  by (rule bit_word_eqI) (auto simp: le_dec_enc bit_take_bit_iff)

lemma le_enc_cong:
  "(\<And>i. i < 8 * n \<Longrightarrow> bit v i = bit w i) \<Longrightarrow> le_enc n v = le_enc n (w :: 'a::len word)"
proof (induction n arbitrary: v w)
  case (Suc n)
  have "(ucast v :: byte) = ucast w"
    using Suc.prems by (intro bit_word_eqI) (auto simp: bit_ucast_iff)
  moreover have "le_enc n (drop_bit 8 v) = le_enc n (drop_bit 8 w)"
    using Suc.prems by (intro Suc.IH) (auto simp: bit_drop_bit_eq)
  ultimately show ?case by simp
qed simp

lemma le_enc_dec_length:
  "8 * length bs \<le> LENGTH('a) \<Longrightarrow> le_enc (length bs) (le_dec bs :: 'a::len word) = bs"
proof (induction bs)
  case Nil
  then show ?case by simp
next
  case (Cons b bs)
  have "ucast (ucast b OR push_bit 8 (le_dec bs) :: 'a word) = b"
    using Cons.prems by (intro bit_word_eqI)
      (auto simp: bit_or_iff bit_ucast_iff bit_push_bit_iff)
  moreover have "le_enc (length bs) (drop_bit 8 (ucast b OR push_bit 8 (le_dec bs) :: 'a word)) =
    le_enc (length bs) (le_dec bs :: 'a word)"
    using Cons.prems by (intro le_enc_cong)
      (auto simp: bit_or_iff bit_ucast_iff bit_push_bit_iff bit_drop_bit_eq dest: bit_imp_le_length)
  ultimately show ?case using Cons by simp
qed

lemma le_enc_dec [simp]:
  "length bs = n \<Longrightarrow> 8 * n \<le> LENGTH('a) \<Longrightarrow> le_enc n (le_dec bs :: 'a::len word) = bs"
  using le_enc_dec_length [of bs] by auto

section \<open>CRC-32 (IEEE)\<close>

definition crc_bit :: "u32 \<Rightarrow> u32" where
  "crc_bit c = (if bit c 0 then drop_bit 1 c XOR 0xEDB88320 else drop_bit 1 c)"

definition crc_byte :: "u32 \<Rightarrow> byte \<Rightarrow> u32" where
  "crc_byte c b =
     crc_bit (crc_bit (crc_bit (crc_bit (crc_bit (crc_bit (crc_bit (crc_bit (c XOR ucast b))))))))"

definition crc32 :: "byte list \<Rightarrow> u32" where
  "crc32 bs = NOT (foldl crc_byte (NOT 0) bs)"

text \<open>The check value of CRC-32/IEEE on the digits 1 to 9.\<close>

lemma crc32_check: "crc32 [0x31, 0x32, 0x33, 0x34, 0x35, 0x36, 0x37, 0x38, 0x39] = 0xCBF43926"
  by (simp add: crc32_def crc_byte_def crc_bit_def)

section \<open>Layout\<close>

lemma sl_le_enc [simp]: "sl 0 n (le_enc n w) = le_enc n w"
  by simp

lemma sl_at_append: "length xs = k \<Longrightarrow> k \<le> off \<Longrightarrow> sl off n (xs @ ys) = sl (off - k) n ys"
  by (simp add: sl_append_right)

lemma sl_prefix: "length xs = n \<Longrightarrow> sl 0 n (xs @ ys) = xs"
  by (simp add: sl_def)

lemma sl_Cons: "0 < off \<Longrightarrow> sl off n (x # xs) = sl (off - 1) n xs"
  by (cases off) (simp_all add: sl_def)

lemma le_dec_sl_Cons: "le_dec (sl 0 (Suc 0) (x # xs)) = (x :: byte)"
  by (simp add: sl_def)

lemmas layout_rules = sl_at_append sl_prefix sl_Cons le_dec_sl_Cons

text \<open>A list of the right length is the concatenation of its fields.\<close>

lemma sl_glue_end: "off' = off + n \<Longrightarrow> sl off n xs @ sl off' m xs = sl off (n + m) xs"
  using sl_split [of off n xs m] by simp

lemma sl_glue: "off' = off + n \<Longrightarrow> sl off n xs @ sl off' m xs @ ys = sl off (n + m) xs @ ys"
  using sl_split [of off n xs m] by (metis append.assoc)

lemma le_enc_1_dec: "off < length bs \<Longrightarrow> le_dec (sl off (Suc 0) bs) # xs = sl off (Suc 0) bs @ xs"
  for xs :: "byte list"
  by (cases "sl off (Suc 0) bs") (auto simp: sl_def take_Suc split: list.splits)

section \<open>The interface of a fixed-size structure\<close>

locale codec =
  fixes enc :: "'r \<Rightarrow> byte list"
    and dec :: "byte list \<Rightarrow> 'r"
    and size_of :: nat
    and wf :: "'r \<Rightarrow> bool"
  assumes enc_length: "wf r \<Longrightarrow> length (enc r) = size_of"
    and dec_enc: "wf r \<Longrightarrow> dec (enc r) = r"
    and enc_dec: "length bs = size_of \<Longrightarrow> enc (dec bs) = bs"
    and dec_wf: "length bs = size_of \<Longrightarrow> wf (dec bs)"
begin

lemma enc_inj: "wf r \<Longrightarrow> wf s \<Longrightarrow> enc r = enc s \<Longrightarrow> r = s"
  by (metis dec_enc)

lemma dec_inj: "length bs = size_of \<Longrightarrow> length cs = size_of \<Longrightarrow> dec bs = dec cs \<Longrightarrow> bs = cs"
  by (metis enc_dec)

end

end
