(* ===== verification/BlockDev.thy ===== *)
theory BlockDev
  imports GoBinary
begin

text \<open>
  An open block device: \<open>os.File\<close> as \<open>gpt.go\<close>, \<open>gptutil.go\<close> and \<open>disk.go\<close> use it.  A device has
  a fixed size, its bytes, and the offsets the hardware cannot access.  A handle adds the
  file position.  Reads past the end and writes past the end fail as the kernel makes them
  fail for a block device; a failing write has stored the bytes that fit.
\<close>

record dev =
  dsize :: nat
  dbyte :: "nat \<Rightarrow> byte"
  dbad :: "nat \<Rightarrow> bool"

record osfile =
  fdev :: dev
  fpos :: nat

definition bytes_at :: "dev \<Rightarrow> nat \<Rightarrow> nat \<Rightarrow> byte list" where
  "bytes_at d off n = map (dbyte d) [off..<off + n]"

definition put_bytes :: "nat \<Rightarrow> byte list \<Rightarrow> dev \<Rightarrow> dev" where
  "put_bytes off bs d =
     d\<lparr>dbyte := (\<lambda>i. if off \<le> i \<and> i < off + length bs then bs ! (i - off) else dbyte d i)\<rparr>"

definition any_bad :: "dev \<Rightarrow> nat \<Rightarrow> nat \<Rightarrow> bool" where
  "any_bad d off n = list_ex (dbad d) [off..<off + n]"

text \<open>\<open>Seek(off, 0)\<close> and \<open>Seek(0, 2)\<close>.\<close>

definition f_seek :: "int \<Rightarrow> osfile \<Rightarrow> nat outcome \<times> osfile" where
  "f_seek off f = (if off < 0 then (Err EINVAL, f) else (Ok (nat off), f\<lparr>fpos := nat off\<rparr>))"

definition f_seek_end :: "osfile \<Rightarrow> nat outcome \<times> osfile" where
  "f_seek_end f = (Ok (dsize (fdev f)), f\<lparr>fpos := dsize (fdev f)\<rparr>)"

text \<open>\<open>io.ReadFull\<close>, as \<open>binary.Read\<close> calls it: a fixed number of bytes from the position.\<close>

definition f_read :: "nat \<Rightarrow> osfile \<Rightarrow> byte list outcome \<times> osfile" where
  "f_read n f =
     (let avail = dsize (fdev f) - fpos f; k = min n avail in
      if any_bad (fdev f) (fpos f) k then (Err EIO, f)
      else if k = n then (Ok (bytes_at (fdev f) (fpos f) n), f\<lparr>fpos := fpos f + n\<rparr>)
      else if k = 0 then (Err IoEOF, f)
      else (Err ErrUnexpectedEOF, f\<lparr>fpos := fpos f + k\<rparr>))"

text \<open>\<open>ReadAt\<close> does not move the position.\<close>

definition f_read_at :: "nat \<Rightarrow> int \<Rightarrow> osfile \<Rightarrow> byte list outcome" where
  "f_read_at n off f =
     (if off < 0 then Err EINVAL
      else if any_bad (fdev f) (nat off) (min n (dsize (fdev f) - nat off)) then Err EIO
      else if nat off + n \<le> dsize (fdev f) then Ok (bytes_at (fdev f) (nat off) n)
      else Err IoEOF)"

definition dev_write :: "nat \<Rightarrow> byte list \<Rightarrow> dev \<Rightarrow> nat outcome \<times> dev" where
  "dev_write off bs d =
     (let k = min (length bs) (dsize d - off) in
      if any_bad d off k then (Err EIO, d)
      else (if k = length bs then Ok k else Err ENOSPC, put_bytes off (take k bs) d))"

definition f_write :: "byte list \<Rightarrow> osfile \<Rightarrow> nat outcome \<times> osfile" where
  "f_write bs f =
     (case dev_write (fpos f) bs (fdev f) of
        (Ok k, d) \<Rightarrow> (Ok k, f\<lparr>fdev := d, fpos := fpos f + k\<rparr>)
      | (Err e, d) \<Rightarrow> (Err e, f\<lparr>fdev := d\<rparr>)
      | (Panic p, d) \<Rightarrow> (Panic p, f\<lparr>fdev := d\<rparr>))"

definition f_write_at :: "byte list \<Rightarrow> int \<Rightarrow> osfile \<Rightarrow> nat outcome \<times> osfile" where
  "f_write_at bs off f =
     (if off < 0 then (Err EINVAL, f)
      else case dev_write (nat off) bs (fdev f) of (r, d) \<Rightarrow> (r, f\<lparr>fdev := d\<rparr>))"

section \<open>Bytes of a device after a write\<close>

lemma length_bytes_at [simp]: "length (bytes_at d off n) = n"
  by (simp add: bytes_at_def)

lemma nth_bytes_at [simp]: "i < n \<Longrightarrow> bytes_at d off n ! i = dbyte d (off + i)"
  by (simp add: bytes_at_def)

lemma bytes_at_cong:
  "(\<And>i. off \<le> i \<Longrightarrow> i < off + n \<Longrightarrow> dbyte d i = dbyte e i) \<Longrightarrow> bytes_at d off n = bytes_at e off n"
  by (simp add: bytes_at_def)

lemma put_bytes_simps [simp]:
  "dsize (put_bytes off bs d) = dsize d"
  "dbad (put_bytes off bs d) = dbad d"
  "any_bad (put_bytes off bs d) = any_bad d"
  by (simp_all add: put_bytes_def any_bad_def fun_eq_iff)

lemma dbyte_put_other: "i < off \<or> off + length bs \<le> i \<Longrightarrow> dbyte (put_bytes off bs d) i = dbyte d i"
  by (auto simp: put_bytes_def)

lemma bytes_at_put_same: "length bs = n \<Longrightarrow> bytes_at (put_bytes off bs d) off n = bs"
  by (auto simp: bytes_at_def put_bytes_def list_eq_iff_nth_eq)

lemma bytes_at_put_other:
  "off + n \<le> off' \<or> off' + length bs \<le> off \<Longrightarrow> bytes_at (put_bytes off' bs d) off n = bytes_at d off n"
  by (rule bytes_at_cong) (auto simp: put_bytes_def)

lemma bytes_at_put_inside:
  "off' \<le> off \<Longrightarrow> off + n \<le> off' + length bs \<Longrightarrow>
     bytes_at (put_bytes off' bs d) off n = sl (off - off') n bs"
  by (auto simp: bytes_at_def put_bytes_def sl_def list_eq_iff_nth_eq)

lemma put_bytes_same: "bs = bytes_at d off (length bs) \<Longrightarrow> put_bytes off bs d = d"
proof -
  assume a: "bs = bytes_at d off (length bs)"
  then have "bs ! (i - off) = dbyte d i" if "off \<le> i" "i < off + length bs" for i
    using that by (metis add_diff_inverse_nat le_add_diff_inverse nat_add_left_cancel_less
        nth_bytes_at not_less)
  then show ?thesis by (auto simp: put_bytes_def fun_eq_iff)
qed

lemma sl_bytes_at: "a + n \<le> m \<Longrightarrow> sl a n (bytes_at d off m) = bytes_at d (off + a) n"
  by (simp add: bytes_at_def sl_map_upt)

lemma bytes_at_append: "bytes_at d off n @ bytes_at d (off + n) m = bytes_at d off (n + m)"
  using upt_add_eq_append [of off "off + n" m] by (simp add: bytes_at_def add.assoc)

section \<open>Successful operations\<close>

definition sound_dev :: "dev \<Rightarrow> bool" where
  "sound_dev d \<longleftrightarrow> (\<forall>i < dsize d. \<not> dbad d i)"

lemma sound_put [simp]: "sound_dev (put_bytes off bs d) = sound_dev d"
  by (simp add: sound_dev_def)

lemma any_bad_sound: "sound_dev d \<Longrightarrow> off + n \<le> dsize d \<Longrightarrow> \<not> any_bad d off n"
  by (auto simp: sound_dev_def any_bad_def list_ex_iff)

lemma any_bad_sound_min: "sound_dev d \<Longrightarrow> \<not> any_bad d off (min n (dsize d - off))"
  by (auto simp: sound_dev_def any_bad_def list_ex_iff)

lemma f_seek_nat [simp]: "f_seek (int n) f = (Ok n, f\<lparr>fpos := n\<rparr>)"
  by (simp add: f_seek_def)

lemma f_seek_numeral [simp]: "f_seek (numeral n) f = (Ok (numeral n), f\<lparr>fpos := numeral n\<rparr>)"
  by (simp add: f_seek_def)

lemma f_seek_0 [simp]: "f_seek 0 f = (Ok 0, f\<lparr>fpos := 0\<rparr>)"
  by (simp add: f_seek_def)

lemma f_read_ok:
  "sound_dev (fdev f) \<Longrightarrow> fpos f + n \<le> dsize (fdev f) \<Longrightarrow>
     f_read n f = (Ok (bytes_at (fdev f) (fpos f) n), f\<lparr>fpos := fpos f + n\<rparr>)"
  by (auto simp: f_read_def Let_def any_bad_sound)

lemma f_read_at_ok:
  "sound_dev (fdev f) \<Longrightarrow> off + n \<le> dsize (fdev f) \<Longrightarrow>
     f_read_at n (int off) f = Ok (bytes_at (fdev f) off n)"
  by (auto simp: f_read_at_def any_bad_sound any_bad_sound_min)

lemma dev_write_ok:
  "sound_dev d \<Longrightarrow> off + length bs \<le> dsize d \<Longrightarrow>
     dev_write off bs d = (Ok (length bs), put_bytes off bs d)"
  by (auto simp: dev_write_def Let_def any_bad_sound min_def)

lemma f_write_ok:
  "sound_dev (fdev f) \<Longrightarrow> fpos f + length bs \<le> dsize (fdev f) \<Longrightarrow>
     f_write bs f = (Ok (length bs), f\<lparr>fdev := put_bytes (fpos f) bs (fdev f), fpos := fpos f + length bs\<rparr>)"
  by (simp add: f_write_def dev_write_ok)

lemma f_write_at_ok:
  "sound_dev (fdev f) \<Longrightarrow> off + length bs \<le> dsize (fdev f) \<Longrightarrow>
     f_write_at bs (int off) f = (Ok (length bs), f\<lparr>fdev := put_bytes off bs (fdev f)\<rparr>)"
  by (simp add: f_write_at_def dev_write_ok)

text \<open>The size of the device and its defects never change.\<close>

lemma f_seek_dev [simp]: "fdev (snd (f_seek off f)) = fdev f"
  by (simp add: f_seek_def)

lemma f_read_dev [simp]: "fdev (snd (f_read n f)) = fdev f"
  by (simp add: f_read_def Let_def)

lemma dev_write_size [simp]:
  "dsize (snd (dev_write off bs d)) = dsize d" "dbad (snd (dev_write off bs d)) = dbad d"
  by (simp_all add: dev_write_def Let_def)

section \<open>Structures on a device\<close>

context codec
begin

lemma dec_after_put: "wf r \<Longrightarrow> dec (bytes_at (put_bytes off (enc r) d) off size_of) = r"
  by (simp add: bytes_at_put_same enc_length dec_enc)

lemma dec_frame:
  "off + size_of \<le> off' \<or> off' + length bs \<le> off \<Longrightarrow>
     dec (bytes_at (put_bytes off' bs d) off size_of) = dec (bytes_at d off size_of)"
  by (simp add: bytes_at_put_other)

lemma put_dec_same: "put_bytes off (enc (dec (bytes_at d off size_of))) d = d"
  by (simp add: enc_dec put_bytes_same)

end

end
