(* ===== verification/GptTypes.thy ===== *)
theory GptTypes
  imports BlockDev
begin

text \<open>
  The on-disk structures of \<open>types.go\<close> (\<open>GPTHeader\<close>, \<open>ProtectiveMBREntry\<close>, \<open>PartitionEntry\<close>)
  and their \<open>encoding/binary\<close> layout.  Go arrays have a fixed length, which the \<open>_wf\<close> predicates
  state.  Each structure is an instance of the \<open>codec\<close> interface.
\<close>

record GPTHeader =
  h_Signature :: u64
  h_Revision :: "byte list"
  h_HeaderSize :: u32
  h_Crc :: u32
  h_Reserved0 :: u32
  h_CurrentLBA :: u64
  h_BackupLBA :: u64
  h_FirstUsableLBA :: u64
  h_LastUsableLBA :: u64
  h_GUID :: "byte list"
  h_StartLBAParts :: u64
  h_NoOfParts :: u32
  h_SizePartEntry :: u32
  h_CrcParts :: u32
  h_Reserved1 :: "byte list"

record ProtectiveMBREntry =
  mbr_Bootloader :: "byte list"
  mbr_Status :: byte
  mbr_Reserved0 :: byte
  mbr_Reserved1 :: byte
  mbr_Reserved2 :: byte
  mbr_PartitionType :: byte
  mbr_Reserved3 :: byte
  mbr_Reserved4 :: byte
  mbr_Reserved5 :: byte
  mbr_FirstLBA :: u32
  mbr_NumberOfSectors :: u32
  mbr_Reserved6 :: "byte list"
  mbr_MagicNumber :: "byte list"

record PartitionEntry =
  pe_TypeGUID :: "byte list"
  pe_PartGUID :: "byte list"
  pe_FirstLBA :: u64
  pe_LastLBA :: u64
  pe_Attributes :: u64
  pe_Name :: "byte list"

definition header_wf :: "GPTHeader \<Rightarrow> bool" where
  "header_wf h \<longleftrightarrow>
     length (h_Revision h) = 4 \<and> length (h_GUID h) = 16 \<and> length (h_Reserved1 h) = 420"

definition mbr_wf :: "ProtectiveMBREntry \<Rightarrow> bool" where
  "mbr_wf m \<longleftrightarrow>
     length (mbr_Bootloader m) = 446 \<and> length (mbr_Reserved6 m) = 48 \<and> length (mbr_MagicNumber m) = 2"

definition pe_wf :: "PartitionEntry \<Rightarrow> bool" where
  "pe_wf p \<longleftrightarrow>
     length (pe_TypeGUID p) = 16 \<and> length (pe_PartGUID p) = 16 \<and> length (pe_Name p) = 72"

definition enc_header :: "GPTHeader \<Rightarrow> byte list" where
  "enc_header h =
     le_enc 8 (h_Signature h) @ h_Revision h @ le_enc 4 (h_HeaderSize h) @ le_enc 4 (h_Crc h) @
     le_enc 4 (h_Reserved0 h) @ le_enc 8 (h_CurrentLBA h) @ le_enc 8 (h_BackupLBA h) @
     le_enc 8 (h_FirstUsableLBA h) @ le_enc 8 (h_LastUsableLBA h) @ h_GUID h @
     le_enc 8 (h_StartLBAParts h) @ le_enc 4 (h_NoOfParts h) @ le_enc 4 (h_SizePartEntry h) @
     le_enc 4 (h_CrcParts h) @ h_Reserved1 h"

definition dec_header :: "byte list \<Rightarrow> GPTHeader" where
  "dec_header bs =
     \<lparr>h_Signature = le_dec (sl 0 8 bs), h_Revision = sl 8 4 bs, h_HeaderSize = le_dec (sl 12 4 bs),
      h_Crc = le_dec (sl 16 4 bs), h_Reserved0 = le_dec (sl 20 4 bs),
      h_CurrentLBA = le_dec (sl 24 8 bs), h_BackupLBA = le_dec (sl 32 8 bs),
      h_FirstUsableLBA = le_dec (sl 40 8 bs), h_LastUsableLBA = le_dec (sl 48 8 bs),
      h_GUID = sl 56 16 bs, h_StartLBAParts = le_dec (sl 72 8 bs),
      h_NoOfParts = le_dec (sl 80 4 bs), h_SizePartEntry = le_dec (sl 84 4 bs),
      h_CrcParts = le_dec (sl 88 4 bs), h_Reserved1 = sl 92 420 bs\<rparr>"

definition enc_mbr :: "ProtectiveMBREntry \<Rightarrow> byte list" where
  "enc_mbr m =
     mbr_Bootloader m @ [mbr_Status m, mbr_Reserved0 m, mbr_Reserved1 m, mbr_Reserved2 m] @
     [mbr_PartitionType m, mbr_Reserved3 m, mbr_Reserved4 m, mbr_Reserved5 m] @
     le_enc 4 (mbr_FirstLBA m) @ le_enc 4 (mbr_NumberOfSectors m) @ mbr_Reserved6 m @
     mbr_MagicNumber m"

definition dec_mbr :: "byte list \<Rightarrow> ProtectiveMBREntry" where
  "dec_mbr bs =
     \<lparr>mbr_Bootloader = sl 0 446 bs, mbr_Status = le_dec (sl 446 1 bs),
      mbr_Reserved0 = le_dec (sl 447 1 bs), mbr_Reserved1 = le_dec (sl 448 1 bs),
      mbr_Reserved2 = le_dec (sl 449 1 bs), mbr_PartitionType = le_dec (sl 450 1 bs),
      mbr_Reserved3 = le_dec (sl 451 1 bs), mbr_Reserved4 = le_dec (sl 452 1 bs),
      mbr_Reserved5 = le_dec (sl 453 1 bs), mbr_FirstLBA = le_dec (sl 454 4 bs),
      mbr_NumberOfSectors = le_dec (sl 458 4 bs), mbr_Reserved6 = sl 462 48 bs,
      mbr_MagicNumber = sl 510 2 bs\<rparr>"

definition enc_pe :: "PartitionEntry \<Rightarrow> byte list" where
  "enc_pe p =
     pe_TypeGUID p @ pe_PartGUID p @ le_enc 8 (pe_FirstLBA p) @ le_enc 8 (pe_LastLBA p) @
     le_enc 8 (pe_Attributes p) @ pe_Name p"

definition dec_pe :: "byte list \<Rightarrow> PartitionEntry" where
  "dec_pe bs =
     \<lparr>pe_TypeGUID = sl 0 16 bs, pe_PartGUID = sl 16 16 bs, pe_FirstLBA = le_dec (sl 32 8 bs),
      pe_LastLBA = le_dec (sl 40 8 bs), pe_Attributes = le_dec (sl 48 8 bs), pe_Name = sl 56 72 bs\<rparr>"

section \<open>Sizes and round trips\<close>

lemma length_enc_header: "header_wf h \<Longrightarrow> length (enc_header h) = 512"
  by (simp add: enc_header_def header_wf_def)

lemma dec_enc_header: "header_wf h \<Longrightarrow> dec_header (enc_header h) = h"
  by (simp add: dec_header_def enc_header_def header_wf_def layout_rules)

lemma enc_dec_header: "length bs = 512 \<Longrightarrow> enc_header (dec_header bs) = bs"
  by (simp add: dec_header_def enc_header_def sl_glue sl_glue_end)

lemma header_wf_dec: "length bs = 512 \<Longrightarrow> header_wf (dec_header bs)"
  by (simp add: dec_header_def header_wf_def)

interpretation hdr: codec enc_header dec_header 512 header_wf
  by unfold_locales (simp_all add: length_enc_header dec_enc_header enc_dec_header header_wf_dec)

lemma length_enc_mbr: "mbr_wf m \<Longrightarrow> length (enc_mbr m) = 512"
  by (simp add: enc_mbr_def mbr_wf_def)

lemma dec_enc_mbr: "mbr_wf m \<Longrightarrow> dec_mbr (enc_mbr m) = m"
  by (simp add: dec_mbr_def enc_mbr_def mbr_wf_def layout_rules)

lemma enc_dec_mbr: "length bs = 512 \<Longrightarrow> enc_mbr (dec_mbr bs) = bs"
  by (simp add: dec_mbr_def enc_mbr_def le_enc_1_dec sl_glue sl_glue_end)

lemma mbr_wf_dec: "length bs = 512 \<Longrightarrow> mbr_wf (dec_mbr bs)"
  by (simp add: dec_mbr_def mbr_wf_def)

interpretation mbr: codec enc_mbr dec_mbr 512 mbr_wf
  by unfold_locales (simp_all add: length_enc_mbr dec_enc_mbr enc_dec_mbr mbr_wf_dec)

lemma length_enc_pe: "pe_wf p \<Longrightarrow> length (enc_pe p) = 128"
  by (simp add: enc_pe_def pe_wf_def)

lemma dec_enc_pe: "pe_wf p \<Longrightarrow> dec_pe (enc_pe p) = p"
  by (simp add: dec_pe_def enc_pe_def pe_wf_def layout_rules)

lemma enc_dec_pe: "length bs = 128 \<Longrightarrow> enc_pe (dec_pe bs) = bs"
  by (simp add: dec_pe_def enc_pe_def sl_glue sl_glue_end)

lemma pe_wf_dec: "length bs = 128 \<Longrightarrow> pe_wf (dec_pe bs)"
  by (simp add: dec_pe_def pe_wf_def)

interpretation pe: codec enc_pe dec_pe 128 pe_wf
  by unfold_locales (simp_all add: length_enc_pe dec_enc_pe enc_dec_pe pe_wf_dec)

end
