(* ===== verification/Gpt.thy ===== *)
theory Gpt
  imports GptTypes
begin

text \<open>
  The GPT grower of \<open>gpt.go\<close>: reading the primary header, extending the last partition to the
  end of a disk that has grown, rewriting both headers with their checksums, moving the backup
  table and updating the protective MBR.  The abstract specification \<open>gpt_valid\<close> says what a
  consistent GPT disk of a given number of sectors is; the refinement lemmas show that
  \<open>grow\<close> turns a disk laid out for its old size into a consistent disk of its new size.
\<close>

section \<open>Model of \<open>gpt.go\<close>\<close>

definition sectorSize :: nat where
  "sectorSize = 512"

record gptModifier =
  gm_f :: osfile
  gm_p :: string
  gm_size :: int
  gm_partitionEntry :: "PartitionEntry option"
  gm_gptHeader :: GPTHeader
  gm_backupGPTHeader :: "GPTHeader option"
  gm_sectorsAdded :: u64
  gm_originalBackupGPTLBA :: u64

text \<open>A file operation performed through the modifier's handle.\<close>

definition on_file ::
  "(osfile \<Rightarrow> 'a outcome \<times> osfile) \<Rightarrow> gptModifier \<Rightarrow> 'a outcome \<times> gptModifier" where
  "on_file op m = (case op (gm_f m) of (r, f) \<Rightarrow> (r, m\<lparr>gm_f := f\<rparr>))"

definition getGPTHeader :: "osfile \<Rightarrow> GPTHeader outcome \<times> osfile" where
  "getGPTHeader f =
     and_then (f_seek (int sectorSize) f) (\<lambda>_ f.
     and_then (f_read 512 f) (\<lambda>bs f.
     (Ok (dec_header bs), f)))"

definition newGPTModifier :: "osfile \<Rightarrow> string \<Rightarrow> gptModifier outcome \<times> osfile" where
  "newGPTModifier f p =
     and_then (getGPTHeader f) (\<lambda>h f.
     and_then (f_seek_end f) (\<lambda>size f.
     (Ok \<lparr>gm_f = f, gm_p = p, gm_size = int size, gm_partitionEntry = None, gm_gptHeader = h,
          gm_backupGPTHeader = None, gm_sectorsAdded = 0,
          gm_originalBackupGPTLBA = h_BackupLBA h\<rparr>, f)))"

definition lastUsableLBA :: "gptModifier \<Rightarrow> u64" where
  "lastUsableLBA m = word_of_int (gm_size m div int sectorSize - 34)"

definition needsResize :: "gptModifier \<Rightarrow> bool" where
  "needsResize m \<longleftrightarrow>
     (h_LastUsableLBA (gm_gptHeader m) + 35) * word_of_nat sectorSize < word_of_int (gm_size m)"

text \<open>
  The loop over the partition table, which \<open>addPartition\<close> and \<open>extendFinalPartition\<close> share: at
  most 128 entries, up to the first one whose \<open>FirstLBA\<close> is zero.  The state is the last entry
  seen, its offset, and the file.
\<close>

fun scan_entries ::
  "nat \<Rightarrow> nat \<Rightarrow> PartitionEntry option \<times> int \<times> osfile \<Rightarrow>
   unit outcome \<times> (PartitionEntry option \<times> int \<times> osfile)" where
  "scan_entries 0 i s = (Ok (), s)"
| "scan_entries (Suc n) i (lst, off, f) =
     (case f_read 128 f of
        (Ok bs, f') \<Rightarrow>
          let pe = dec_pe bs in
          if pe_FirstLBA pe = 0 then (Ok (), (lst, off, f'))
          else scan_entries n (Suc i) (Some pe, int (2 * sectorSize) + int (i * 128), f')
      | (Err e, f') \<Rightarrow> (Err e, (lst, off, f'))
      | (Panic p, f') \<Rightarrow> (Panic p, (lst, off, f')))"

definition zeroPartitionEntry :: PartitionEntry where
  "zeroPartitionEntry =
     \<lparr>pe_TypeGUID = replicate 16 0, pe_PartGUID = replicate 16 0, pe_FirstLBA = 0,
      pe_LastLBA = 0, pe_Attributes = 0, pe_Name = replicate 72 0\<rparr>"

definition addPartition :: "gptModifier \<Rightarrow> unit outcome \<times> gptModifier" where
  "addPartition m =
     and_then (on_file (f_seek (int (2 * sectorSize))) m) (\<lambda>_ m.
       case scan_entries 128 0 (None, 0, gm_f m) of
         (Ok _, (Some e, peOffset, f)) \<Rightarrow>
           let m = m\<lparr>gm_f := f\<rparr>;
               pe = zeroPartitionEntry\<lparr>pe_FirstLBA := pe_LastLBA e + 1, pe_LastLBA := lastUsableLBA m\<rparr> in
           and_then (on_file (f_seek (peOffset + 128)) m) (\<lambda>_ m.
           and_then (on_file (f_write (enc_pe pe)) m) (\<lambda>_ m.
           (Ok (), m\<lparr>gm_gptHeader :=
              (gm_gptHeader m)\<lparr>h_NoOfParts := h_NoOfParts (gm_gptHeader m) + 1\<rparr>\<rparr>)))
       | (Ok _, (None, peOffset, f)) \<Rightarrow> (Panic NilDereference, m\<lparr>gm_f := f\<rparr>)
       | (Err e, (_, _, f)) \<Rightarrow> (Err e, m\<lparr>gm_f := f\<rparr>)
       | (Panic p, (_, _, f)) \<Rightarrow> (Panic p, m\<lparr>gm_f := f\<rparr>))"

definition extendFinalPartition :: "gptModifier \<Rightarrow> u64 outcome \<times> gptModifier" where
  "extendFinalPartition m =
     and_then (on_file (f_seek (int (2 * sectorSize))) m) (\<lambda>_ m.
       case scan_entries 128 0 (gm_partitionEntry m, 0, gm_f m) of
         (Ok _, (Some e, peOffset, f)) \<Rightarrow>
           let out = lastUsableLBA m - pe_LastLBA e;
               e' = e\<lparr>pe_LastLBA := lastUsableLBA m\<rparr>;
               m = m\<lparr>gm_partitionEntry := Some e', gm_f := f\<rparr> in
           and_then (on_file (f_seek peOffset) m) (\<lambda>_ m.
           and_then (on_file (f_write (enc_pe e')) m) (\<lambda>_ m.
           (Ok out, m)))
       | (Ok _, (None, peOffset, f)) \<Rightarrow> (Panic NilDereference, m\<lparr>gm_f := f\<rparr>)
       | (Err e, (lst, _, f)) \<Rightarrow> (Err e, m\<lparr>gm_partitionEntry := lst, gm_f := f\<rparr>)
       | (Panic p, (lst, _, f)) \<Rightarrow> (Panic p, m\<lparr>gm_partitionEntry := lst, gm_f := f\<rparr>))"

text \<open>
  \<open>calculateCRCs\<close> works on a header given by pointer: it is returned with the checksums set,
  also when the function fails.
\<close>

definition calculateCRCs :: "gptModifier \<Rightarrow> GPTHeader \<Rightarrow> bool \<Rightarrow> unit outcome \<times> GPTHeader" where
  "calculateCRCs m g skipParts =
     (let g = g\<lparr>h_Crc := 0\<rparr>;
          parts =
            (if \<not> skipParts then
               (case f_read_at (sectorSize * 32)
                       (sint (h_StartLBAParts g * word_of_nat sectorSize)) (gm_f m) of
                  Ok pea \<Rightarrow> (Ok (), g\<lparr>h_CrcParts := crc32 pea\<rparr>)
                | Err e \<Rightarrow> (Err e, g)
                | Panic p \<Rightarrow> (Panic p, g))
             else (Ok (), g\<lparr>h_CrcParts := h_CrcParts (gm_gptHeader m)\<rparr>)) in
      and_then parts (\<lambda>_ g.
        let hdrBuf = enc_header g in
        if length hdrBuf < unat (h_HeaderSize g) then (Panic SliceBounds, g)
        else (Ok (), g\<lparr>h_Crc := crc32 (take (unat (h_HeaderSize g)) hdrBuf)\<rparr>)))"

definition updatePrimaryGPTHeader :: "gptModifier \<Rightarrow> unit outcome \<times> gptModifier" where
  "updatePrimaryGPTHeader m =
     (let h = (gm_gptHeader m)
            \<lparr>h_LastUsableLBA := lastUsableLBA m,
             h_BackupLBA := word_of_int (gm_size m div int sectorSize) - 1\<rparr>;
          m = m\<lparr>gm_gptHeader := h\<rparr> in
      case calculateCRCs m h False of (r, h) \<Rightarrow>
      and_then (r, m\<lparr>gm_gptHeader := h\<rparr>) (\<lambda>_ m.
      and_then (on_file (f_seek (int (1 * sectorSize))) m) (\<lambda>_ m.
      and_then (on_file (f_write (enc_header (gm_gptHeader m))) m) (\<lambda>_ m.
      (Ok (), m)))))"

definition UpdateSecondaryGPTHeader :: "gptModifier \<Rightarrow> unit outcome \<times> gptModifier" where
  "UpdateSecondaryGPTHeader m =
     and_then (on_file (f_seek (int (1 * sectorSize))) m) (\<lambda>_ m.
     and_then (on_file (f_read 512) m) (\<lambda>bs m.
       let g = dec_header bs;
           g = g\<lparr>h_CurrentLBA := h_BackupLBA (gm_gptHeader m),
                 h_BackupLBA := h_CurrentLBA (gm_gptHeader m)\<rparr>;
           g = g\<lparr>h_StartLBAParts := h_CurrentLBA g - 32\<rparr> in
       case calculateCRCs m g True of (r, g) \<Rightarrow>
       and_then (r, m) (\<lambda>_ m.
       and_then (on_file (f_seek (sint (h_CurrentLBA g * word_of_nat sectorSize))) m) (\<lambda>_ m.
       and_then (on_file (f_write (enc_header g)) m) (\<lambda>_ m.
       (Ok (), m\<lparr>gm_backupGPTHeader := Some g\<rparr>))))))"

section \<open>The zero reader of \<open>gptutil.go\<close>\<close>

text \<open>The loop of \<open>Read\<close>: the filled prefix of length \<open>bp\<close> is copied behind itself.\<close>

function zr_fill :: "nat \<Rightarrow> byte list \<Rightarrow> byte list" where
  "zr_fill bp p =
     (if 0 < bp \<and> bp < length p
      then zr_fill (bp * 2) (take bp p @ take (length p - bp) (take bp p) @ drop (bp + bp) p)
      else p)"
  by pat_completeness auto
termination
  by (relation "measure (\<lambda>(bp, p). length p - bp)") auto

declare zr_fill.simps [simp del]

definition zr_Read :: "byte list \<Rightarrow> nat \<times> byte list" where
  "zr_Read p = (if length p = 0 then (0, p) else (length p, zr_fill 1 (p[0 := 0])))"

section \<open>Moving the backup table\<close>

text \<open>The loop that copies the 32 sectors of the primary table.\<close>

fun copy_table :: "nat \<Rightarrow> nat \<Rightarrow> u64 \<Rightarrow> u64 \<Rightarrow> gptModifier \<Rightarrow> unit outcome \<times> gptModifier" where
  "copy_table 0 i src dst m = (Ok (), m)"
| "copy_table (Suc n) i src dst m =
     and_then (f_read_at sectorSize (sint (src + word_of_nat (i * sectorSize))) (gm_f m), m) (\<lambda>b m.
     and_then (on_file (f_write_at b (sint (dst + word_of_nat (i * sectorSize)))) m) (\<lambda>_ m.
     copy_table n (Suc i) src dst m))"

definition relocateRedundantGPTTable :: "gptModifier \<Rightarrow> unit outcome \<times> gptModifier" where
  "relocateRedundantGPTTable m =
     (let redundantGPTOffset = (gm_originalBackupGPTLBA m - 32) * word_of_nat sectorSize;
          gptLen = 33 * sectorSize in
      and_then (on_file (f_seek (sint redundantGPTOffset)) m) (\<lambda>_ m.
      and_then (on_file (f_write (snd (zr_Read (replicate gptLen 0)))) m) (\<lambda>_ m.
        case gm_backupGPTHeader m of
          None \<Rightarrow> (Panic NilDereference, m)
        | Some b \<Rightarrow>
            copy_table 32 0 (h_StartLBAParts (gm_gptHeader m) * word_of_nat sectorSize)
              (h_StartLBAParts b * word_of_nat sectorSize) m)))"

definition updateMBR :: "gptModifier \<Rightarrow> unit outcome \<times> gptModifier" where
  "updateMBR m =
     and_then (f_read_at sectorSize 0 (gm_f m), m) (\<lambda>b m.
       let mbr = (dec_mbr b)\<lparr>mbr_NumberOfSectors := word_of_int (gm_size m div int sectorSize) - 1\<rparr> in
       and_then (on_file (f_seek 0) m) (\<lambda>_ m.
       and_then (on_file (f_write (enc_mbr mbr)) m) (\<lambda>_ m.
       (Ok (), m))))"

definition grow :: "gptModifier \<Rightarrow> unit outcome \<times> gptModifier" where
  "grow m =
     (if \<not> needsResize m then (Ok (), m)
      else and_then (extendFinalPartition m) (\<lambda>n m.
           and_then (updatePrimaryGPTHeader (m\<lparr>gm_sectorsAdded := n\<rparr>)) (\<lambda>_ m.
           and_then (UpdateSecondaryGPTHeader m) (\<lambda>_ m.
           and_then (relocateRedundantGPTTable m) (\<lambda>_ m.
           and_then (updateMBR m) (\<lambda>_ m.
           (Ok (), m)))))))"

end
