(* ===== verification/GptSpec.thy ===== *)
theory GptSpec
  imports Gpt
begin

text \<open>
  What a consistent GPT disk is, and the lemmas that lead from one operation of \<open>gpt.go\<close> to
  the whole of \<open>grow\<close>: each operation is reduced to the bytes it puts on the device.
\<close>

section \<open>The zero reader\<close>

lemma zr_fill_zeroes:
  "0 < bp \<Longrightarrow> bp \<le> length p \<Longrightarrow> take bp p = replicate bp 0 \<Longrightarrow> zr_fill bp p = replicate (length p) 0"
proof (induction bp p rule: zr_fill.induct)
  case (1 bp p)
  let ?q = "take bp p @ take (length p - bp) (take bp p) @ drop (bp + bp) p"
  show ?case
  proof (cases "bp < length p")
    case False
    then have "zr_fill bp p = p" by (subst zr_fill.simps) simp
    with False "1.prems" show ?thesis by simp
  next
    case True
    have len: "length ?q = length p"
      using True by simp
    show ?thesis
    proof (cases "bp * 2 \<le> length p")
      case True
      have "take (bp * 2) ?q = replicate (bp * 2) 0"
        using "1.prems" True by (auto simp: min_def mult_2_right replicate_add)
      with "1.IH" "1.prems" \<open>bp < length p\<close> True len
      have "zr_fill (bp * 2) ?q = replicate (length p) 0"
        by (metis mult_pos_pos zero_less_numeral)
      with \<open>bp < length p\<close> "1.prems" show ?thesis by (simp add: zr_fill.simps [of bp p])
    next
      case False
      then have "?q = replicate (length p) 0"
        using "1.prems" \<open>bp < length p\<close> by (simp add: min_def flip: replicate_add)
      moreover have "zr_fill (bp * 2) ?q = ?q"
        using False len by (simp add: zr_fill.simps [of "bp * 2"])
      ultimately show ?thesis
        using \<open>bp < length p\<close> "1.prems" by (simp add: zr_fill.simps [of bp p])
    qed
  qed
qed

lemma zr_Read_zeroes: "zr_Read p = (length p, replicate (length p) 0)"
proof (cases p)
  case Nil
  then show ?thesis by (simp add: zr_Read_def)
next
  case (Cons x xs)
  then show ?thesis by (simp add: zr_Read_def zr_fill_zeroes)
qed

section \<open>Specification of a GPT disk\<close>

definition header_at :: "dev \<Rightarrow> nat \<Rightarrow> GPTHeader" where
  "header_at d lba = dec_header (bytes_at d (lba * 512) 512)"

definition primary_header :: "dev \<Rightarrow> GPTHeader" where
  "primary_header d = dec_header (bytes_at d 512 512)"

definition entry_at :: "dev \<Rightarrow> nat \<Rightarrow> PartitionEntry" where
  "entry_at d i = dec_pe (bytes_at d (1024 + i * 128) 128)"

definition mbr_at :: "dev \<Rightarrow> ProtectiveMBREntry" where
  "mbr_at d = dec_mbr (bytes_at d 0 512)"

definition table_at :: "dev \<Rightarrow> nat \<Rightarrow> byte list" where
  "table_at d lba = bytes_at d (lba * 512) 16384"

text \<open>The table has exactly \<open>k\<close> used entries, at its front.\<close>

definition used_entries :: "nat \<Rightarrow> dev \<Rightarrow> bool" where
  "used_entries k d \<longleftrightarrow>
     k \<le> 128 \<and> (\<forall>i < k. pe_FirstLBA (entry_at d i) \<noteq> 0) \<and>
     (k < 128 \<longrightarrow> pe_FirstLBA (entry_at d k) = 0)"

text \<open>The geometry of a disk that was written when it had \<open>N\<close> sectors.\<close>

definition gpt_layout :: "nat \<Rightarrow> nat \<Rightarrow> dev \<Rightarrow> bool" where
  "gpt_layout N k d \<longleftrightarrow>
     67 \<le> N \<and> N * 512 \<le> dsize d \<and> 0 < k \<and> used_entries k d \<and>
     unat (h_HeaderSize (primary_header d)) \<le> 512 \<and>
     unat (h_CurrentLBA (primary_header d)) = 1 \<and>
     unat (h_StartLBAParts (primary_header d)) = 2 \<and>
     unat (h_BackupLBA (primary_header d)) = N - 1 \<and>
     unat (h_LastUsableLBA (primary_header d)) = N - 34"

definition header_crc_ok :: "GPTHeader \<Rightarrow> bool" where
  "header_crc_ok h \<longleftrightarrow>
     h_Crc h = crc32 (take (unat (h_HeaderSize h)) (enc_header (h\<lparr>h_Crc := 0\<rparr>)))"

text \<open>
  A consistent disk of \<open>N\<close> sectors: the layout above; both headers carry correct checksums and
  differ only in the fields that say where they are; the backup table is a copy of the primary
  one and sits in the 32 sectors before the backup header; the last partition ends at the last
  usable sector; the protective MBR covers the disk.
\<close>

definition gpt_valid :: "nat \<Rightarrow> nat \<Rightarrow> dev \<Rightarrow> bool" where
  "gpt_valid N k d \<longleftrightarrow>
     gpt_layout N k d \<and>
     header_crc_ok (primary_header d) \<and>
     header_crc_ok (header_at d (N - 1)) \<and>
     h_CrcParts (primary_header d) = crc32 (table_at d 2) \<and>
     unat (h_CurrentLBA (header_at d (N - 1))) = N - 1 \<and>
     unat (h_BackupLBA (header_at d (N - 1))) = 1 \<and>
     unat (h_StartLBAParts (header_at d (N - 1))) = N - 33 \<and>
     (header_at d (N - 1))\<lparr>h_Crc := 0, h_CurrentLBA := 0, h_BackupLBA := 0, h_StartLBAParts := 0\<rparr> =
     (primary_header d)\<lparr>h_Crc := 0, h_CurrentLBA := 0, h_BackupLBA := 0, h_StartLBAParts := 0\<rparr> \<and>
     table_at d (N - 33) = table_at d 2 \<and>
     unat (pe_LastLBA (entry_at d (k - 1))) = N - 34 \<and>
     mbr_NumberOfSectors (mbr_at d) = word_of_nat N - 1"

section \<open>From operations to bytes\<close>

lemma on_file_eq: "op (gm_f m) = (r, f) \<Longrightarrow> on_file op m = (r, m\<lparr>gm_f := f\<rparr>)"
  by (simp add: on_file_def)

lemma sector_size_simps [simp]:
  "sectorSize = 512"
  by (simp add: sectorSize_def)

lemma unat_sector: "unat (w :: u64) * 512 < 2 ^ 64 \<Longrightarrow> unat (w * 512) = unat w * 512"
  by (simp add: unat_word_ariths)

lemma sint_sector: "unat (w :: u64) * 512 < 2 ^ 63 \<Longrightarrow> sint (w * 512) = int (unat w * 512)"
  using unat_sector [of w] sint_eq_unat [of "w * 512"] by simp

lemma scan_entries_ok:
  assumes "sound_dev (fdev f)" and "17408 \<le> dsize (fdev f)"
    and "used_entries k (fdev f)" and "fpos f = 1024 + i * 128"
    and "i + n = 128" and "i \<le> k"
  shows "\<exists>pos. scan_entries n i (lst, off, f) =
     (Ok (), (if k = i then lst else Some (entry_at (fdev f) (k - 1)),
              if k = i then off else int (1024 + (k - 1) * 128), f\<lparr>fpos := pos\<rparr>))"
  using assms
proof (induction n arbitrary: i lst off f)
  case 0
  then have "k = i" by (simp add: used_entries_def)
  then show ?case by simp (metis osfile.surjective osfile.update_convs(2))
next
  case (Suc n)
  let ?f = "f\<lparr>fpos := fpos f + 128\<rparr>"
  have rd: "f_read 128 f = (Ok (bytes_at (fdev f) (1024 + i * 128) 128), ?f)"
    using Suc.prems by (simp add: f_read_ok)
  show ?case
  proof (cases "k = i")
    case True
    with Suc.prems have "pe_FirstLBA (entry_at (fdev f) i) = 0"
      by (simp add: used_entries_def)
    with True rd show ?thesis by (auto simp: entry_at_def Let_def)
  next
    case False
    with Suc.prems have nz: "pe_FirstLBA (entry_at (fdev f) i) \<noteq> 0"
      by (simp add: used_entries_def)
    have "fdev ?f = fdev f" and "fpos ?f = 1024 + Suc i * 128" and "Suc i \<le> k" and "Suc i + n = 128"
      using Suc.prems False by simp_all
    then obtain pos where
      "scan_entries n (Suc i) (Some (entry_at (fdev f) i), int (1024 + i * 128), ?f) =
       (Ok (), (if k = Suc i then Some (entry_at (fdev f) i) else Some (entry_at (fdev f) (k - 1)),
         if k = Suc i then int (1024 + i * 128) else int (1024 + (k - 1) * 128), ?f\<lparr>fpos := pos\<rparr>))"
      using Suc.IH [of ?f "Suc i"] Suc.prems by metis
    with False nz rd show ?thesis by (auto simp: entry_at_def Let_def)
  qed
qed

lemma entry_wf [simp]: "pe_wf (entry_at d i)"
  by (simp add: entry_at_def pe_wf_dec)

lemma header_at_wf [simp]: "header_wf (header_at d lba)" "header_wf (primary_header d)"
  by (simp_all add: header_at_def primary_header_def header_wf_dec)

lemma wf_updates [simp]:
  "pe_wf (e\<lparr>pe_LastLBA := a\<rparr>) = pe_wf e"
  "header_wf (h\<lparr>h_Crc := c\<rparr>) = header_wf h"
  "header_wf (h\<lparr>h_CrcParts := c\<rparr>) = header_wf h"
  "header_wf (h\<lparr>h_LastUsableLBA := x\<rparr>) = header_wf h"
  "header_wf (h\<lparr>h_BackupLBA := x\<rparr>) = header_wf h"
  "header_wf (h\<lparr>h_CurrentLBA := x\<rparr>) = header_wf h"
  "header_wf (h\<lparr>h_StartLBAParts := x\<rparr>) = header_wf h"
  "mbr_wf (b\<lparr>mbr_NumberOfSectors := n\<rparr>) = mbr_wf b"
  by (simp_all add: pe_wf_def header_wf_def mbr_wf_def)

lemma lastUsableLBA_simps [simp]:
  "lastUsableLBA (m\<lparr>gm_f := f\<rparr>) = lastUsableLBA m"
  "lastUsableLBA (m\<lparr>gm_partitionEntry := e\<rparr>) = lastUsableLBA m"
  "lastUsableLBA (m\<lparr>gm_sectorsAdded := n\<rparr>) = lastUsableLBA m"
  "lastUsableLBA (m\<lparr>gm_gptHeader := h\<rparr>) = lastUsableLBA m"
  by (simp_all add: lastUsableLBA_def)

lemma extend_ok:
  assumes "sound_dev (fdev (gm_f m))" and "17408 \<le> dsize (fdev (gm_f m))"
    and "used_entries k (fdev (gm_f m))" and "0 < k"
  defines "e \<equiv> entry_at (fdev (gm_f m)) (k - 1)"
  defines "e' \<equiv> e\<lparr>pe_LastLBA := lastUsableLBA m\<rparr>"
  shows "\<exists>pos. extendFinalPartition m =
    (Ok (lastUsableLBA m - pe_LastLBA e),
     m\<lparr>gm_partitionEntry := Some e',
       gm_f := (gm_f m)\<lparr>fdev := put_bytes (1024 + (k - 1) * 128) (enc_pe e') (fdev (gm_f m)),
                        fpos := pos\<rparr>\<rparr>)"
proof -
  define off where "off = 1024 + (k - 1) * 128"
  let ?d = "fdev (gm_f m)"
  obtain pos where scan: "scan_entries 128 0 (gm_partitionEntry m, 0, (gm_f m)\<lparr>fpos := 1024\<rparr>) =
      (Ok (), (Some e, int off, (gm_f m)\<lparr>fpos := pos\<rparr>))"
    using scan_entries_ok [of "(gm_f m)\<lparr>fpos := 1024\<rparr>" k 0 128] assms by (auto simp: off_def)
  have "k \<le> 128" using assms by (simp add: used_entries_def)
  then have fit: "off + 128 \<le> dsize ?d" using assms by (simp add: off_def)
  have len: "length (enc_pe e') = 128"
    by (simp add: e'_def e_def length_enc_pe)
  have wr: "f_write (enc_pe e') ((gm_f m)\<lparr>fpos := off\<rparr>) =
      (Ok 128, (gm_f m)\<lparr>fdev := put_bytes off (enc_pe e') ?d, fpos := off + 128\<rparr>)"
    using assms(1) fit len by (simp add: f_write_ok)
  have "extendFinalPartition m = (Ok (lastUsableLBA m - pe_LastLBA e),
     m\<lparr>gm_partitionEntry := Some e',
       gm_f := (gm_f m)\<lparr>fdev := put_bytes off (enc_pe e') ?d, fpos := off + 128\<rparr>\<rparr>)"
    using scan wr by (simp add: extendFinalPartition_def on_file_def Let_def e'_def)
  then show ?thesis unfolding off_def by blast
qed

lemma header_upd_comm:
  "h\<lparr>h_Crc := a, h_CrcParts := b\<rparr> = h\<lparr>h_CrcParts := b, h_Crc := a\<rparr>"
  by simp

text \<open>A header with its checksum filled in.\<close>

definition seal :: "GPTHeader \<Rightarrow> GPTHeader" where
  "seal h = h\<lparr>h_Crc := crc32 (take (unat (h_HeaderSize h)) (enc_header (h\<lparr>h_Crc := 0\<rparr>)))\<rparr>"

lemma seal_crc_ok [simp]: "header_crc_ok (seal h)"
  by (simp add: seal_def header_crc_ok_def)

lemma seal_simps [simp]:
  "header_wf (seal h) = header_wf h"
  "h_HeaderSize (seal h) = h_HeaderSize h"
  "h_CurrentLBA (seal h) = h_CurrentLBA h"
  "h_BackupLBA (seal h) = h_BackupLBA h"
  "h_StartLBAParts (seal h) = h_StartLBAParts h"
  "h_LastUsableLBA (seal h) = h_LastUsableLBA h"
  "h_CrcParts (seal h) = h_CrcParts h"
  "(seal h)\<lparr>h_Crc := c\<rparr> = h\<lparr>h_Crc := c\<rparr>"
  by (simp_all add: seal_def)

lemma calculateCRCs_parts:
  assumes "sound_dev (fdev (gm_f m))" and "17408 \<le> dsize (fdev (gm_f m))"
    and "unat (h_StartLBAParts g) = 2" and "header_wf g" and "unat (h_HeaderSize g) \<le> 512"
  shows "calculateCRCs m g False =
    (Ok (), seal (g\<lparr>h_CrcParts := crc32 (table_at (fdev (gm_f m)) 2)\<rparr>))"
proof -
  have "sint (h_StartLBAParts g * 512) = int 1024"
    using assms(3) by (simp add: sint_sector)
  then have "f_read_at 16384 (sint (h_StartLBAParts g * 512)) (gm_f m) = Ok (table_at (fdev (gm_f m)) 2)"
    using assms(1,2) f_read_at_ok [of "gm_f m" 1024 16384] by (simp add: table_at_def)
  then show ?thesis
    using assms by (simp add: calculateCRCs_def Let_def length_enc_header seal_def header_upd_comm)
qed

lemma calculateCRCs_skip:
  assumes "header_wf g" and "unat (h_HeaderSize g) \<le> 512"
  shows "calculateCRCs m g True = (Ok (), seal (g\<lparr>h_CrcParts := h_CrcParts (gm_gptHeader m)\<rparr>))"
  using assms by (simp add: calculateCRCs_def Let_def length_enc_header seal_def header_upd_comm)

lemma updatePrimary_ok:
  assumes "sound_dev (fdev (gm_f m))" and "17408 \<le> dsize (fdev (gm_f m))"
    and "unat (h_StartLBAParts (gm_gptHeader m)) = 2" and "header_wf (gm_gptHeader m)"
    and "unat (h_HeaderSize (gm_gptHeader m)) \<le> 512"
  defines "h \<equiv> seal ((gm_gptHeader m)
            \<lparr>h_LastUsableLBA := lastUsableLBA m,
             h_BackupLBA := word_of_int (gm_size m div 512) - 1,
             h_CrcParts := crc32 (table_at (fdev (gm_f m)) 2)\<rparr>)"
  shows "updatePrimaryGPTHeader m =
    (Ok (), m\<lparr>gm_gptHeader := h,
              gm_f := (gm_f m)\<lparr>fdev := put_bytes 512 (enc_header h) (fdev (gm_f m)), fpos := 1024\<rparr>\<rparr>)"
proof -
  have len: "length (enc_header h) = 512"
    using assms(4) by (simp add: h_def length_enc_header)
  have wr: "f_write (enc_header h) ((gm_f m)\<lparr>fpos := 512\<rparr>) =
      (Ok 512, (gm_f m)\<lparr>fdev := put_bytes 512 (enc_header h) (fdev (gm_f m)), fpos := 1024\<rparr>)"
    using assms(1,2) len by (simp add: f_write_ok)
  show ?thesis
    using assms(1-5) wr
    by (simp add: updatePrimaryGPTHeader_def Let_def calculateCRCs_parts on_file_def h_def)
qed

lemma updateSecondary_ok:
  assumes "sound_dev (fdev (gm_f m))" and "primary_header (fdev (gm_f m)) = h" and "h = gm_gptHeader m"
    and "unat (h_HeaderSize h) \<le> 512" and "1024 \<le> dsize (fdev (gm_f m))"
    and "(unat (h_BackupLBA h) + 1) * 512 \<le> dsize (fdev (gm_f m))" and "dsize (fdev (gm_f m)) < 2 ^ 63"
  defines "g \<equiv> seal (h\<lparr>h_CurrentLBA := h_BackupLBA h, h_BackupLBA := h_CurrentLBA h,
                        h_StartLBAParts := h_BackupLBA h - 32\<rparr>)"
  shows "\<exists>pos. UpdateSecondaryGPTHeader m =
    (Ok (), m\<lparr>gm_backupGPTHeader := Some g,
              gm_f := (gm_f m)\<lparr>fdev := put_bytes (unat (h_BackupLBA h) * 512) (enc_header g) (fdev (gm_f m)),
                               fpos := pos\<rparr>\<rparr>)"
proof -
  let ?f = "gm_f m" and ?g = "h\<lparr>h_CurrentLBA := h_BackupLBA h, h_BackupLBA := h_CurrentLBA h,
                        h_StartLBAParts := h_BackupLBA h - 32\<rparr>"
  define off where "off = unat (h_BackupLBA h) * 512"
  have wf: "header_wf h" using assms(2) by (metis header_at_wf(2))
  have rd: "f_read 512 (?f\<lparr>fpos := 512\<rparr>) = (Ok (bytes_at (fdev ?f) 512 512), ?f\<lparr>fpos := 1024\<rparr>)"
    using assms by (simp add: f_read_ok)
  have soff: "sint (h_BackupLBA h * 512) = int off"
    using assms(6,7) by (simp only: off_def, intro sint_sector) simp
  have same: "?g\<lparr>h_CrcParts := h_CrcParts h\<rparr> = ?g" by simp
  have crcs: "calculateCRCs (m\<lparr>gm_f := f\<rparr>) ?g True = (Ok (), g)" for f
    using calculateCRCs_skip [of ?g "m\<lparr>gm_f := f\<rparr>"] wf assms(3,4) same by (simp add: g_def)
  have "length (enc_header g) = 512"
    using wf by (simp add: g_def length_enc_header)
  then have wr: "f_write (enc_header g) (?f\<lparr>fpos := off\<rparr>) =
      (Ok 512, ?f\<lparr>fdev := put_bytes off (enc_header g) (fdev ?f), fpos := off + 512\<rparr>)"
    using assms(1,6) by (simp add: f_write_ok off_def)
  have hdr: "dec_header (bytes_at (fdev ?f) 512 512) = h"
    using assms(2) by (simp add: primary_header_def)
  have cur: "h_CurrentLBA g = h_BackupLBA h" by (simp add: g_def)
  show ?thesis
    unfolding off_def [symmetric]
    using rd crcs wr soff hdr cur assms(3)
    by (intro exI [of _ "off + 512"]) (simp add: UpdateSecondaryGPTHeader_def Let_def on_file_def)
qed

lemma put_bytes_append:
  "put_bytes (off + length xs) ys (put_bytes off xs d) = put_bytes off (xs @ ys) d"
  by (rule dev.equality) (auto simp: put_bytes_def fun_eq_iff nth_append)

lemma copy_table_ok:
  assumes "sound_dev (fdev (gm_f m))" and "dsize (fdev (gm_f m)) < 2 ^ 63"
    and "unat src + (i + n) * 512 \<le> unat dst"
    and "unat dst + (i + n) * 512 \<le> dsize (fdev (gm_f m))"
  shows "copy_table n i src dst m =
    (Ok (), m\<lparr>gm_f := (gm_f m)\<lparr>fdev :=
       put_bytes (unat dst + i * 512) (bytes_at (fdev (gm_f m)) (unat src + i * 512) (n * 512)) (fdev (gm_f m))\<rparr>\<rparr>)"
  using assms
proof (induction n arbitrary: i m)
  case 0
  have "put_bytes off [] d = d" for off d by (rule put_bytes_same) (simp add: bytes_at_def)
  then show ?case by (simp add: bytes_at_def)
next
  case (Suc n)
  let ?f = "gm_f m" let ?d = "fdev ?f"
  let ?b = "bytes_at ?d (unat src + i * 512) 512"
  let ?d' = "put_bytes (unat dst + i * 512) ?b ?d"
  let ?m = "m\<lparr>gm_f := ?f\<lparr>fdev := ?d'\<rparr>\<rparr>"
  have off: "sint (w + word_of_nat (i * 512) :: u64) = int (unat w + i * 512)"
    if "unat w + i * 512 < 2 ^ 63" for w :: u64
  proof -
    have "unat (word_of_nat (i * 512) :: u64) = i * 512"
      using that by (intro unat_of_nat_lt) simp
    then have "unat (w + word_of_nat (i * 512)) = unat w + i * 512"
      using that by (subst unat_add_lt) simp_all
    with that show ?thesis by (subst sint_eq_unat) simp_all
  qed
  have rd: "f_read_at 512 (sint (src + word_of_nat (i * 512))) ?f = Ok ?b"
    using off [of src] f_read_at_ok [of ?f "unat src + i * 512" 512] Suc.prems by simp
  have wr: "f_write_at ?b (sint (dst + word_of_nat (i * 512))) ?f = (Ok 512, ?f\<lparr>fdev := ?d'\<rparr>)"
    using off [of dst] f_write_at_ok [of ?f "unat dst + i * 512" ?b] Suc.prems by simp
  have eq: "bytes_at ?d' (unat src + Suc i * 512) (n * 512) = bytes_at ?d (unat src + Suc i * 512) (n * 512)"
    using Suc.prems by (intro bytes_at_put_other) simp
  have "copy_table n (Suc i) src dst ?m =
    (Ok (), ?m\<lparr>gm_f := (gm_f ?m)\<lparr>fdev :=
       put_bytes (unat dst + Suc i * 512) (bytes_at ?d' (unat src + Suc i * 512) (n * 512)) ?d'\<rparr>\<rparr>)"
    using Suc.IH [of ?m "Suc i"] Suc.prems by simp
  also have "put_bytes (unat dst + Suc i * 512) (bytes_at ?d' (unat src + Suc i * 512) (n * 512)) ?d' =
    put_bytes (unat dst + i * 512) (bytes_at ?d (unat src + i * 512) (Suc n * 512)) ?d"
    unfolding eq
    using put_bytes_append [of "unat dst + i * 512" ?b] bytes_at_append [of ?d "unat src + i * 512" 512 "n * 512"]
    by (simp add: add.commute add.left_commute)
  finally show ?case
    using rd wr by (simp add: on_file_def)
qed

lemma relocate_ok:
  assumes "sound_dev (fdev (gm_f m))" and "dsize (fdev (gm_f m)) < 2 ^ 63"
    and "gm_backupGPTHeader m = Some b" and "unat (h_StartLBAParts (gm_gptHeader m)) = 2"
    and "32 \<le> unat (gm_originalBackupGPTLBA m)"
    and "(unat (gm_originalBackupGPTLBA m) + 1) * 512 \<le> dsize (fdev (gm_f m))"
    and "34 \<le> unat (h_StartLBAParts b)"
    and "(unat (h_StartLBAParts b) + 32) * 512 \<le> dsize (fdev (gm_f m))"
  defines "d1 \<equiv> put_bytes ((unat (gm_originalBackupGPTLBA m) - 32) * 512) (replicate 16896 0) (fdev (gm_f m))"
  shows "\<exists>pos. relocateRedundantGPTTable m =
    (Ok (), m\<lparr>gm_f := (gm_f m)\<lparr>fdev := put_bytes (unat (h_StartLBAParts b) * 512) (table_at d1 2) d1, fpos := pos\<rparr>\<rparr>)"
proof -
  let ?o = "gm_originalBackupGPTLBA m" and ?f = "gm_f m"
  define off where "off = (unat ?o - 32) * 512"
  have u: "unat (?o - 32) = unat ?o - 32"
    using assms(5) by (subst unat_sub_le) simp_all
  have soff: "sint ((?o - 32) * 512) = int off"
    using assms(2,6) u by (subst sint_sector) (simp_all add: off_def)
  have wr: "f_write (replicate 16896 0) (?f\<lparr>fpos := off\<rparr>) =
      (Ok 16896, ?f\<lparr>fdev := d1, fpos := off + 16896\<rparr>)"
    using assms(1,5,6) by (subst f_write_ok) (auto simp: d1_def off_def)
  let ?m = "m\<lparr>gm_f := ?f\<lparr>fdev := d1, fpos := off + 16896\<rparr>\<rparr>"
  have st: "unat (h_StartLBAParts (gm_gptHeader m) * 512) = 1024"
    using assms(4) by (subst unat_sector) simp_all
  have dt: "unat (h_StartLBAParts b * 512) = unat (h_StartLBAParts b) * 512"
    using assms(2,8) by (intro unat_sector) simp
  have "copy_table 32 0 (h_StartLBAParts (gm_gptHeader m) * 512) (h_StartLBAParts b * 512) ?m =
    (Ok (), ?m\<lparr>gm_f := (gm_f ?m)\<lparr>fdev := put_bytes (unat (h_StartLBAParts b) * 512) (table_at d1 2) d1\<rparr>\<rparr>)"
    using assms(1,2,7,8) st dt
      copy_table_ok [of ?m "h_StartLBAParts (gm_gptHeader m) * 512" 0 32 "h_StartLBAParts b * 512"]
    by (simp add: d1_def table_at_def)
  then show ?thesis
    using soff wr assms(3)
    by (intro exI [of _ "off + 16896"])
      (simp add: relocateRedundantGPTTable_def Let_def on_file_def zr_Read_zeroes)
qed

lemma updateMBR_ok:
  assumes "sound_dev (fdev (gm_f m))" and "512 \<le> dsize (fdev (gm_f m))"
  defines "b \<equiv> (mbr_at (fdev (gm_f m)))\<lparr>mbr_NumberOfSectors := word_of_int (gm_size m div 512) - 1\<rparr>"
  shows "updateMBR m =
    (Ok (), m\<lparr>gm_f := (gm_f m)\<lparr>fdev := put_bytes 0 (enc_mbr b) (fdev (gm_f m)), fpos := 512\<rparr>\<rparr>)"
proof -
  have rd: "f_read_at 512 0 (gm_f m) = Ok (bytes_at (fdev (gm_f m)) 0 512)"
    using assms f_read_at_ok [of "gm_f m" 0 512] by simp
  have "length (enc_mbr b) = 512"
    by (simp add: b_def mbr_at_def length_enc_mbr mbr_wf_dec)
  then have "f_write (enc_mbr b) ((gm_f m)\<lparr>fpos := 0\<rparr>) =
      (Ok 512, (gm_f m)\<lparr>fdev := put_bytes 0 (enc_mbr b) (fdev (gm_f m)), fpos := 512\<rparr>)"
    using assms by (simp add: f_write_ok)
  with rd show ?thesis
    by (simp add: updateMBR_def Let_def on_file_def b_def mbr_at_def)
qed

end
