(* ===== verification/GptGrow.thy ===== *)
theory GptGrow
  imports GptSpec
begin

text \<open>
  The result of \<open>grow\<close>, as the sequence of writes it performs, and what the resulting disk
  looks like.  \<open>N0\<close> is the number of sectors the disk had when it was laid out, \<open>N\<close> the number
  it has now, \<open>k\<close> the number of partitions.
\<close>

section \<open>The writes of \<open>grow\<close>\<close>

definition grown_entry :: "nat \<Rightarrow> nat \<Rightarrow> dev \<Rightarrow> PartitionEntry" where
  "grown_entry k N d = (entry_at d (k - 1))\<lparr>pe_LastLBA := word_of_nat N - 34\<rparr>"

definition with_entry :: "nat \<Rightarrow> nat \<Rightarrow> dev \<Rightarrow> dev" where
  "with_entry k N d = put_bytes (1024 + (k - 1) * 128) (enc_pe (grown_entry k N d)) d"

definition grown_primary :: "nat \<Rightarrow> nat \<Rightarrow> dev \<Rightarrow> GPTHeader" where
  "grown_primary k N d =
     seal ((primary_header d)\<lparr>h_LastUsableLBA := word_of_nat N - 34, h_BackupLBA := word_of_nat N - 1,
       h_CrcParts := crc32 (table_at (with_entry k N d) 2)\<rparr>)"

definition with_primary :: "nat \<Rightarrow> nat \<Rightarrow> dev \<Rightarrow> dev" where
  "with_primary k N d = put_bytes 512 (enc_header (grown_primary k N d)) (with_entry k N d)"

definition grown_backup :: "nat \<Rightarrow> nat \<Rightarrow> dev \<Rightarrow> GPTHeader" where
  "grown_backup k N d =
     (let h = grown_primary k N d in
      seal (h\<lparr>h_CurrentLBA := h_BackupLBA h, h_BackupLBA := h_CurrentLBA h,
              h_StartLBAParts := h_BackupLBA h - 32\<rparr>))"

definition with_backup :: "nat \<Rightarrow> nat \<Rightarrow> dev \<Rightarrow> dev" where
  "with_backup k N d = put_bytes ((N - 1) * 512) (enc_header (grown_backup k N d)) (with_primary k N d)"

definition with_zeroes :: "nat \<Rightarrow> nat \<Rightarrow> nat \<Rightarrow> dev \<Rightarrow> dev" where
  "with_zeroes N0 k N d = put_bytes ((N0 - 33) * 512) (replicate 16896 0) (with_backup k N d)"

definition with_table :: "nat \<Rightarrow> nat \<Rightarrow> nat \<Rightarrow> dev \<Rightarrow> dev" where
  "with_table N0 k N d =
     put_bytes ((N - 33) * 512) (table_at (with_zeroes N0 k N d) 2) (with_zeroes N0 k N d)"

definition grown :: "nat \<Rightarrow> nat \<Rightarrow> nat \<Rightarrow> dev \<Rightarrow> dev" where
  "grown N0 k N d =
     put_bytes 0
       (enc_mbr ((mbr_at (with_table N0 k N d))\<lparr>mbr_NumberOfSectors := word_of_nat N - 1\<rparr>))
       (with_table N0 k N d)"

lemma with_simps [simp]:
  "dsize (with_entry k N d) = dsize d" "sound_dev (with_entry k N d) = sound_dev d"
  "dsize (with_primary k N d) = dsize d" "sound_dev (with_primary k N d) = sound_dev d"
  "dsize (with_backup k N d) = dsize d" "sound_dev (with_backup k N d) = sound_dev d"
  "dsize (with_zeroes N0 k N d) = dsize d" "sound_dev (with_zeroes N0 k N d) = sound_dev d"
  "dsize (with_table N0 k N d) = dsize d" "sound_dev (with_table N0 k N d) = sound_dev d"
  "dsize (grown N0 k N d) = dsize d" "sound_dev (grown N0 k N d) = sound_dev d"
  by (simp_all add: with_entry_def with_primary_def with_backup_def with_zeroes_def with_table_def
      grown_def)

lemma length_writes [simp]:
  "length (enc_pe (grown_entry k N d)) = 128"
  "length (enc_header (grown_primary k N d)) = 512"
  "length (enc_header (grown_backup k N d)) = 512"
  "length (table_at d lba) = 16384"
  "length (enc_mbr ((mbr_at d)\<lparr>mbr_NumberOfSectors := n\<rparr>)) = 512"
  by (simp_all add: grown_entry_def grown_primary_def grown_backup_def Let_def length_enc_pe
      length_enc_header table_at_def mbr_at_def length_enc_mbr mbr_wf_dec)

text \<open>What is written where: the regions in the order of the writes.\<close>

lemmas writes = with_entry_def with_primary_def with_backup_def with_zeroes_def with_table_def grown_def

lemma unat_grown_primary:
  assumes "68 \<le> N" and "N < 2 ^ 63"
  shows "unat (h_BackupLBA (grown_primary k N d)) = N - 1"
    and "unat (h_LastUsableLBA (grown_primary k N d)) = N - 34"
    and "unat (h_StartLBAParts (grown_backup k N d)) = N - 33"
proof -
  have n: "unat (word_of_nat N :: u64) = N"
    using assms by (simp add: unat_of_nat_lt)
  then have b: "unat (word_of_nat N - 1 :: u64) = N - 1" "unat (word_of_nat N - 34 :: u64) = N - 34"
    using assms by (subst unat_sub_le; simp)+
  then have "unat (word_of_nat N - 1 - 32 :: u64) = N - 33"
    using assms by (subst unat_sub_le) simp_all
  with n b show "unat (h_BackupLBA (grown_primary k N d)) = N - 1"
    and "unat (h_LastUsableLBA (grown_primary k N d)) = N - 34"
    and "unat (h_StartLBAParts (grown_backup k N d)) = N - 33"
    by (simp_all add: grown_primary_def grown_backup_def Let_def)
qed

section \<open>\<open>grow\<close> performs these writes\<close>

lemma new_modifier:
  assumes "sound_dev (fdev f)" and "1024 \<le> dsize (fdev f)"
  shows "newGPTModifier f p =
    (Ok \<lparr>gm_f = f\<lparr>fpos := dsize (fdev f)\<rparr>, gm_p = p, gm_size = int (dsize (fdev f)),
         gm_partitionEntry = None, gm_gptHeader = primary_header (fdev f), gm_backupGPTHeader = None,
         gm_sectorsAdded = 0, gm_originalBackupGPTLBA = h_BackupLBA (primary_header (fdev f))\<rparr>,
     f\<lparr>fpos := dsize (fdev f)\<rparr>)"
proof -
  have "f_read 512 (f\<lparr>fpos := 512\<rparr>) = (Ok (bytes_at (fdev f) 512 512), f\<lparr>fpos := 1024\<rparr>)"
    using assms by (simp add: f_read_ok)
  then show ?thesis
    by (simp add: newGPTModifier_def getGPTHeader_def f_seek_end_def primary_header_def)
qed

text \<open>\<open>needsResize\<close> on a laid-out disk, without wrap-around.\<close>

lemma needsResize_iff:
  assumes "unat (h_LastUsableLBA (gm_gptHeader m)) = N - 34" and "34 \<le> N" and "(N + 1) * 512 < 2 ^ 64"
    and "gm_size m = int sz" and "sz < 2 ^ 63"
  shows "needsResize m \<longleftrightarrow> (N + 1) * 512 < sz"
proof -
  let ?w = "h_LastUsableLBA (gm_gptHeader m)"
  have "unat (?w + 35) = N + 1"
    using assms(1-3) by (subst unat_add_lt) simp_all
  then have "unat ((?w + 35) * 512) = (N + 1) * 512"
    using assms(3) by (subst unat_mult_lt) simp_all
  moreover have "unat (word_of_nat sz :: u64) = sz"
    using assms(5) by (simp add: unat_of_nat_lt)
  ultimately show ?thesis
    using assms(4) by (simp add: needsResize_def word_less_nat_alt)
qed

lemma grown_wf [simp]:
  "pe_wf (grown_entry k N d)" "header_wf (grown_primary k N d)" "header_wf (grown_backup k N d)"
  by (simp_all add: grown_entry_def grown_primary_def grown_backup_def Let_def)

lemma grown_fields [simp]:
  "h_HeaderSize (grown_primary k N d) = h_HeaderSize (primary_header d)"
  "h_CurrentLBA (grown_primary k N d) = h_CurrentLBA (primary_header d)"
  "h_StartLBAParts (grown_primary k N d) = h_StartLBAParts (primary_header d)"
  by (simp_all add: grown_primary_def)

lemma with_primary_header: "primary_header (with_primary k N d) = grown_primary k N d"
  using hdr.dec_after_put [of "grown_primary k N d" 512 "with_entry k N d"]
  by (simp add: primary_header_def with_primary_def)

lemma layout_bounds:
  assumes "gpt_layout N0 k d" and "N0 < dsize d div 512" and "dsize d < 2 ^ 63"
  shows "67 \<le> N0" and "68 \<le> dsize d div 512" and "dsize d div 512 < 2 ^ 63"
    and "dsize d div 512 * 512 \<le> dsize d" and "17408 \<le> dsize d"
  using assms by (simp_all add: gpt_layout_def)

lemma grow_writes:
  assumes lay: "gpt_layout N0 k d" and sound: "sound_dev d" and sz: "dsize d < 2 ^ 63"
    and f: "fdev (gm_f m) = d" and m: "gm_size m = int (dsize d)" "gm_partitionEntry m = None"
      "gm_gptHeader m = primary_header d" "gm_originalBackupGPTLBA m = h_BackupLBA (primary_header d)"
    and need: "needsResize m" and grew: "N0 < dsize d div 512"
  shows "\<exists>m'. grow m = (Ok (), m') \<and> fdev (gm_f m') = grown N0 k (dsize d div 512) d \<and>
    gm_partitionEntry m' = Some (grown_entry k (dsize d div 512) d) \<and> gm_size m' = gm_size m"
proof -
  define N where "N = dsize d div 512"
  note b = layout_bounds [OF lay grew sz, folded N_def]
  have S: "gm_size m div 512 = int N" by (simp add: m N_def zdiv_int)
  then have L: "lastUsableLBA m = word_of_nat N - 34"
    by (simp add: lastUsableLBA_def)
  have used: "used_entries k d" "0 < k" using lay by (simp_all add: gpt_layout_def)
  obtain pos1 n where 1: "extendFinalPartition m = (Ok n,
      m\<lparr>gm_partitionEntry := Some (grown_entry k N d),
        gm_f := (gm_f m)\<lparr>fdev := with_entry k N d, fpos := pos1\<rparr>\<rparr>)"
    using extend_ok [of m k] sound b used
    by (auto simp: f L grown_entry_def with_entry_def)
  define m1 where "m1 = m\<lparr>gm_partitionEntry := Some (grown_entry k N d),
        gm_f := (gm_f m)\<lparr>fdev := with_entry k N d, fpos := pos1\<rparr>, gm_sectorsAdded := n\<rparr>"
  define m2 where "m2 = m1\<lparr>gm_gptHeader := grown_primary k N d,
        gm_f := (gm_f m1)\<lparr>fdev := with_primary k N d, fpos := 1024\<rparr>\<rparr>"
  have 2: "updatePrimaryGPTHeader m1 = (Ok (), m2)"
    using updatePrimary_ok [of m1] sound b lay S L
    by (simp add: m1_def m2_def m gpt_layout_def grown_primary_def with_primary_def)
  have f2: "fdev (gm_f m2) = with_primary k N d" by (simp add: m2_def)
  have u2: "unat (h_BackupLBA (grown_primary k N d)) = N - 1" using b by (simp add: unat_grown_primary)
  have pre: "sound_dev (fdev (gm_f m2))" "primary_header (fdev (gm_f m2)) = grown_primary k N d"
    "1024 \<le> dsize (fdev (gm_f m2))"
    "(unat (h_BackupLBA (grown_primary k N d)) + 1) * 512 \<le> dsize (fdev (gm_f m2))"
    "dsize (fdev (gm_f m2)) < 2 ^ 63"
    using sound sz b by (simp_all add: f2 with_primary_header u2)
  have hm: "grown_primary k N d = gm_gptHeader m2" by (simp add: m2_def)
  have hs: "unat (h_HeaderSize (grown_primary k N d)) \<le> 512"
    using lay by (simp add: gpt_layout_def)
  obtain pos3 where 3: "UpdateSecondaryGPTHeader m2 =
      (Ok (), m2\<lparr>gm_backupGPTHeader := Some (grown_backup k N d),
        gm_f := (gm_f m2)\<lparr>fdev := with_backup k N d, fpos := pos3\<rparr>\<rparr>)"
    using updateSecondary_ok [OF pre(1,2) hm hs pre(3-5)]
    by (auto simp only: f2 u2 with_backup_def grown_backup_def Let_def)
  define m3 where "m3 = m2\<lparr>gm_backupGPTHeader := Some (grown_backup k N d),
        gm_f := (gm_f m2)\<lparr>fdev := with_backup k N d, fpos := pos3\<rparr>\<rparr>"
  have f3: "fdev (gm_f m3) = with_backup k N d" by (simp add: m3_def)
  have orig: "unat (gm_originalBackupGPTLBA m3) = N0 - 1"
    using lay by (simp add: m3_def m2_def m1_def m gpt_layout_def)
  then have o32: "unat (gm_originalBackupGPTLBA m3) - 32 = N0 - 33" by simp
  have u3: "unat (h_StartLBAParts (grown_backup k N d)) = N - 33"
    using b by (simp add: unat_grown_primary)
  have pre: "sound_dev (fdev (gm_f m3))" "dsize (fdev (gm_f m3)) < 2 ^ 63"
    "gm_backupGPTHeader m3 = Some (grown_backup k N d)"
    "unat (h_StartLBAParts (gm_gptHeader m3)) = 2" "32 \<le> unat (gm_originalBackupGPTLBA m3)"
    "(unat (gm_originalBackupGPTLBA m3) + 1) * 512 \<le> dsize (fdev (gm_f m3))"
    "34 \<le> unat (h_StartLBAParts (grown_backup k N d))"
    "(unat (h_StartLBAParts (grown_backup k N d)) + 32) * 512 \<le> dsize (fdev (gm_f m3))"
    using sound sz b lay orig by (simp_all add: f3 u3 m3_def m2_def gpt_layout_def)
  obtain pos4 where 4: "relocateRedundantGPTTable m3 =
      (Ok (), m3\<lparr>gm_f := (gm_f m3)\<lparr>fdev := with_table N0 k N d, fpos := pos4\<rparr>\<rparr>)"
    using relocate_ok [OF pre] by (auto simp only: f3 u3 o32 with_table_def with_zeroes_def)
  define m4 where "m4 = m3\<lparr>gm_f := (gm_f m3)\<lparr>fdev := with_table N0 k N d, fpos := pos4\<rparr>\<rparr>"
  have "updateMBR m4 = (Ok (), m4\<lparr>gm_f := (gm_f m4)\<lparr>fdev := grown N0 k N d, fpos := 512\<rparr>\<rparr>)"
    using updateMBR_ok [of m4] sound b S by (simp add: m4_def m3_def m2_def m1_def grown_def)
  then have "grow m = (Ok (), m4\<lparr>gm_f := (gm_f m4)\<lparr>fdev := grown N0 k N d, fpos := 512\<rparr>\<rparr>)"
    using need 1 2 3 4 by (simp add: grow_def m1_def [symmetric] m3_def [symmetric] m4_def [symmetric])
  then show ?thesis by (simp add: N_def [symmetric] m4_def m3_def m2_def m1_def)
qed

section \<open>Reading the grown disk back\<close>

lemma grown_low:
  assumes "67 \<le> N0" and "N0 < N" and "512 \<le> off" and "off + n \<le> 17408"
  shows "bytes_at (grown N0 k N d) off n = bytes_at (with_primary k N d) off n"
proof -
  have "off + n \<le> (N - 33) * 512" "off + n \<le> (N0 - 33) * 512" "off + n \<le> (N - 1) * 512"
    using assms by simp_all
  with assms show ?thesis
    by (simp add: grown_def with_table_def with_zeroes_def with_backup_def bytes_at_put_other)
qed

lemma grown_low_table:
  assumes "67 \<le> N0" and "N0 < N" and "1024 \<le> off" and "off + n \<le> 17408"
  shows "bytes_at (grown N0 k N d) off n = bytes_at (with_entry k N d) off n"
  using assms by (simp add: grown_low with_primary_def bytes_at_put_other)

lemma grown_primary_header:
  assumes "67 \<le> N0" and "N0 < N"
  shows "primary_header (grown N0 k N d) = grown_primary k N d"
  using grown_low [OF assms, of 512 512] with_primary_header by (simp add: primary_header_def)

lemma grown_backup_header:
  assumes "67 \<le> N0" and "N0 < N"
  shows "header_at (grown N0 k N d) (N - 1) = grown_backup k N d"
proof -
  let ?o = "(N - 1) * 512"
  have "N0 * 512 \<le> ?o" "(N0 - 33) * 512 + 16896 = N0 * 512" "(N - 33) * 512 + 16384 = ?o"
    using assms by (simp_all add: diff_mult_distrib)
  with assms have "bytes_at (grown N0 k N d) ?o 512 = bytes_at (with_backup k N d) ?o 512"
    by (simp add: grown_def with_table_def with_zeroes_def bytes_at_put_other)
  then show ?thesis
    using hdr.dec_after_put [of "grown_backup k N d" ?o "with_primary k N d"]
    by (simp add: header_at_def with_backup_def)
qed

lemma grown_entry_at:
  assumes "67 \<le> N0" and "N0 < N" and "i < 128" and "0 < k" and "k \<le> 128"
  shows "entry_at (grown N0 k N d) i = (if i = k - 1 then grown_entry k N d else entry_at d i)"
proof -
  have eq: "entry_at (grown N0 k N d) i = entry_at (with_entry k N d) i"
    using assms grown_low_table [of N0 N "1024 + i * 128" 128] by (simp add: entry_at_def)
  show ?thesis
  proof (cases "i = k - 1")
    case True
    with eq show ?thesis
      using pe.dec_after_put [of "grown_entry k N d" "1024 + (k - 1) * 128" d]
      by (simp add: entry_at_def with_entry_def)
  next
    case False
    then have "i * 128 + 128 \<le> (k - 1) * 128 \<or> (k - 1) * 128 + 128 \<le> i * 128"
      by arith
    then have "bytes_at (with_entry k N d) (1024 + i * 128) 128 = bytes_at d (1024 + i * 128) 128"
      unfolding with_entry_def by (intro bytes_at_put_other) (simp only: length_writes, arith)
    with False eq show ?thesis by (simp add: entry_at_def)
  qed
qed

lemma grown_table_at:
  assumes "67 \<le> N0" and "N0 < N"
  shows "table_at (grown N0 k N d) 2 = table_at (with_entry k N d) 2"
    and "table_at (grown N0 k N d) (N - 33) = table_at (with_entry k N d) 2"
proof -
  have lo: "1024 + 16384 \<le> (N - 33) * 512" "1024 + 16384 \<le> (N0 - 33) * 512" "1024 + 16384 \<le> (N - 1) * 512"
    using assms by simp_all
  show "table_at (grown N0 k N d) 2 = table_at (with_entry k N d) 2"
    using assms grown_low_table [of N0 N 1024 16384] by (simp add: table_at_def)
  have "table_at (grown N0 k N d) (N - 33) = table_at (with_zeroes N0 k N d) 2"
    using assms by (simp add: table_at_def grown_def with_table_def bytes_at_put_other bytes_at_put_same)
  also have "\<dots> = table_at (with_entry k N d) 2"
    using lo by (simp add: table_at_def with_zeroes_def with_backup_def with_primary_def bytes_at_put_other)
  finally show "table_at (grown N0 k N d) (N - 33) = table_at (with_entry k N d) 2" .
qed

lemma grown_mbr_at:
  assumes "67 \<le> N0" and "N0 < N"
  shows "mbr_at (grown N0 k N d) = (mbr_at d)\<lparr>mbr_NumberOfSectors := word_of_nat N - 1\<rparr>"
proof -
  have "512 \<le> (N - 33) * 512" "512 \<le> (N0 - 33) * 512" "512 \<le> (N - 1) * 512"
    using assms by simp_all
  then have "mbr_at (with_table N0 k N d) = mbr_at d"
    by (simp add: mbr_at_def with_table_def with_zeroes_def with_backup_def with_primary_def
        with_entry_def bytes_at_put_other)
  then show ?thesis
    using mbr.dec_after_put [of "(mbr_at d)\<lparr>mbr_NumberOfSectors := word_of_nat N - 1\<rparr>" 0 "with_table N0 k N d"]
    by (simp add: grown_def mbr_at_def mbr_wf_dec)
qed

text \<open>Every byte outside the regions of the writes is kept.\<close>

lemma grown_frame:
  assumes "67 \<le> N0" and "N0 < N" and "1024 \<le> i"
    and "i < 1024 + (k - 1) * 128 \<or> 1024 + (k - 1) * 128 + 128 \<le> i"
    and "i < (N0 - 33) * 512 \<or> N0 * 512 \<le> i" and "i < (N - 33) * 512 \<or> N * 512 \<le> i"
  shows "dbyte (grown N0 k N d) i = dbyte d i"
proof -
  have "(N0 - 33) * 512 + 16896 = N0 * 512" "(N - 33) * 512 + 16384 = (N - 1) * 512"
    "(N - 1) * 512 + 512 = N * 512"
    using assms by (simp_all add: diff_mult_distrib)
  with assms have "i < (N - 33) * 512 \<or> (N - 33) * 512 + 16384 \<le> i"
    "i < (N - 1) * 512 \<or> (N - 1) * 512 + 512 \<le> i"
    "i < (N0 - 33) * 512 \<or> (N0 - 33) * 512 + 16896 \<le> i"
    by linarith+
  with assms show ?thesis
    by (simp add: grown_def with_table_def with_zeroes_def with_backup_def with_primary_def
        with_entry_def dbyte_put_other)
qed

lemma grown_used:
  assumes "67 \<le> N0" and "N0 < N" and "used_entries k d" and "0 < k"
  shows "used_entries k (grown N0 k N d)"
proof -
  have k: "k \<le> 128" using assms by (simp add: used_entries_def)
  have "pe_FirstLBA (entry_at (grown N0 k N d) i) = pe_FirstLBA (entry_at d i)" if "i < 128" for i
    using grown_entry_at [OF assms(1,2) that assms(4) k, of d] by (simp add: grown_entry_def)
  with assms k show ?thesis by (simp add: used_entries_def)
qed

lemma grown_valid:
  assumes lay: "gpt_layout N0 k d" and sz: "dsize d < 2 ^ 63" and grew: "N0 < dsize d div 512"
  shows "gpt_valid (dsize d div 512) k (grown N0 k (dsize d div 512) d)"
proof -
  define N where "N = dsize d div 512"
  note b = layout_bounds [OF lay grew sz, folded N_def]
  note g = grew [folded N_def]
  have k: "0 < k" "used_entries k d" "k \<le> 128" using lay by (simp_all add: gpt_layout_def used_entries_def)
  have lay': "gpt_layout N k (grown N0 k N d)"
    using lay b g k by (simp add: gpt_layout_def grown_primary_header grown_used unat_grown_primary)
  have last: "unat (pe_LastLBA (entry_at (grown N0 k N d) (k - 1))) = N - 34"
    using grown_entry_at [OF b(1) g _ k(1,3), of "k - 1"] k unat_grown_primary(2) [OF b(2,3)]
    by (simp add: grown_entry_def grown_primary_def)
  have cur: "unat (h_CurrentLBA (primary_header d)) = 1"
    using lay by (simp add: gpt_layout_def)
  have flds: "unat (h_CurrentLBA (grown_backup k N d)) = N - 1"
    "unat (h_BackupLBA (grown_backup k N d)) = 1" "unat (h_StartLBAParts (grown_backup k N d)) = N - 33"
    using unat_grown_primary [OF b(2,3)] cur by (simp_all add: grown_backup_def Let_def)
  have crc: "header_crc_ok (grown_primary k N d)" "header_crc_ok (grown_backup k N d)"
    by (simp_all add: grown_primary_def grown_backup_def Let_def)
  have parts: "h_CrcParts (grown_primary k N d) = crc32 (table_at (with_entry k N d) 2)"
    by (simp add: grown_primary_def)
  have same: "(grown_backup k N d)\<lparr>h_Crc := 0, h_CurrentLBA := 0, h_BackupLBA := 0, h_StartLBAParts := 0\<rparr> =
     (grown_primary k N d)\<lparr>h_Crc := 0, h_CurrentLBA := 0, h_BackupLBA := 0, h_StartLBAParts := 0\<rparr>"
    by (simp add: grown_backup_def Let_def)
  show ?thesis
    unfolding N_def [symmetric] gpt_valid_def
    using lay' last flds crc parts same grown_primary_header [OF b(1) g] grown_backup_header [OF b(1) g]
      grown_table_at [OF b(1) g] grown_mbr_at [OF b(1) g]
    by simp
qed

lemma grew_sectors: "(N0 + 1) * 512 < sz \<Longrightarrow> N0 < sz div 512" for N0 sz :: nat
  using less_eq_div_iff_mult_less_eq [of 512 "Suc N0" sz] by simp

text \<open>
  Opening a laid-out disk whose size has grown by more than one sector and growing it: the
  writes of \<open>grown\<close>, on the device of the handle.
\<close>

lemma open_and_grow:
  assumes "gpt_layout N0 k (fdev f)" and "sound_dev (fdev f)" and "dsize (fdev f) < 2 ^ 63"
    and "(N0 + 1) * 512 < dsize (fdev f)"
  shows "\<exists>m f' m'. newGPTModifier f p = (Ok m, f') \<and> needsResize m \<and> grow m = (Ok (), m') \<and>
    fdev (gm_f m') = grown N0 k (dsize (fdev f) div 512) (fdev f) \<and>
    gm_partitionEntry m' = Some (grown_entry k (dsize (fdev f) div 512) (fdev f))"
proof -
  let ?d = "fdev f"
  let ?m = "\<lparr>gm_f = f\<lparr>fpos := dsize ?d\<rparr>, gm_p = p, gm_size = int (dsize ?d),
         gm_partitionEntry = None, gm_gptHeader = primary_header ?d, gm_backupGPTHeader = None,
         gm_sectorsAdded = 0, gm_originalBackupGPTLBA = h_BackupLBA (primary_header ?d)\<rparr>"
  note b = layout_bounds [OF assms(1) grew_sectors [OF assms(4)] assms(3)]
  have "1024 \<le> dsize ?d" using b by simp
  note new = new_modifier [OF assms(2) this, of p]
  have "unat (h_LastUsableLBA (primary_header ?d)) = N0 - 34"
    using assms(1) by (simp add: gpt_layout_def)
  then have need: "needsResize ?m"
    using assms(3,4) b needsResize_iff [of ?m N0 "dsize ?d"] by simp
  with new grow_writes [OF assms(1-3) _ _ _ _ _ need grew_sectors [OF assms(4)]]
  show ?thesis by fastforce
qed

section \<open>A sample disk\<close>

definition sample_header :: GPTHeader where
  "sample_header =
     \<lparr>h_Signature = 0x5452415020494645, h_Revision = [0, 0, 1, 0], h_HeaderSize = 92, h_Crc = 0,
      h_Reserved0 = 0, h_CurrentLBA = 1, h_BackupLBA = 99, h_FirstUsableLBA = 34,
      h_LastUsableLBA = 66, h_GUID = replicate 16 7, h_StartLBAParts = 2, h_NoOfParts = 128,
      h_SizePartEntry = 128, h_CrcParts = 0, h_Reserved1 = replicate 420 0\<rparr>"

definition sample_entry :: PartitionEntry where
  "sample_entry = zeroPartitionEntry\<lparr>pe_FirstLBA := 34, pe_LastLBA := 66\<rparr>"

text \<open>A disk laid out with one partition when it had 100 sectors, which now has \<open>n\<close>.\<close>

definition sample_dev :: "nat \<Rightarrow> dev" where
  "sample_dev n =
     put_bytes 1024 (enc_pe sample_entry) (put_bytes 512 (enc_header sample_header)
       \<lparr>dsize = n * 512, dbyte = (\<lambda>_. 0), dbad = (\<lambda>_. False)\<rparr>)"

lemma sample_wf [simp]: "header_wf sample_header" "pe_wf sample_entry"
  by (simp_all add: header_wf_def sample_header_def pe_wf_def sample_entry_def zeroPartitionEntry_def)

lemma le_dec_zeroes: "le_dec (replicate n 0) = 0"
  by (induction n) simp_all

lemma bytes_at_zeroes: "(\<And>i. dbyte d i = 0) \<Longrightarrow> bytes_at d off n = replicate n 0"
  by (rule nth_equalityI) simp_all

lemma sample_dev_facts [simp]:
  "dsize (sample_dev n) = n * 512" "sound_dev (sample_dev n)"
  "primary_header (sample_dev n) = sample_header" "entry_at (sample_dev n) 0 = sample_entry"
  "pe_FirstLBA (entry_at (sample_dev n) (Suc 0)) = 0"
proof -
  let ?z = "\<lparr>dsize = n * 512, dbyte = (\<lambda>_. 0), dbad = (\<lambda>_. False)\<rparr>"
  let ?h = "put_bytes 512 (enc_header sample_header) ?z"
  show "dsize (sample_dev n) = n * 512" by (simp add: sample_dev_def)
  show "sound_dev (sample_dev n)" unfolding sample_dev_def sound_put by (simp add: sound_dev_def)
  show "primary_header (sample_dev n) = sample_header"
    using hdr.dec_after_put [of sample_header 512 ?z] hdr.dec_frame [of 512 1024 "enc_pe sample_entry" ?h]
    by (simp add: primary_header_def sample_dev_def)
  show "entry_at (sample_dev n) 0 = sample_entry"
    using pe.dec_after_put [of sample_entry 1024 ?h] by (simp add: entry_at_def sample_dev_def)
  have "bytes_at (sample_dev n) 1152 128 = replicate 128 0"
    by (simp add: sample_dev_def bytes_at_put_other length_enc_pe length_enc_header bytes_at_zeroes)
  then show "pe_FirstLBA (entry_at (sample_dev n) (Suc 0)) = 0"
    by (simp add: entry_at_def dec_pe_def sl_def le_dec_zeroes)
qed

lemma sample_layout: "100 \<le> n \<Longrightarrow> gpt_layout 100 1 (sample_dev n)"
  by (simp add: gpt_layout_def used_entries_def less_Suc_eq)
    (simp add: sample_header_def sample_entry_def)

section \<open>Properties\<close>

text \<open>
  C1.  Growing refines the specification of a GPT disk.  For every device that holds a GPT laid
  out for \<open>N0\<close> sectors with \<open>k\<close> partitions, and whose size exceeds that by more than one sector,
  opening it with \<open>newGPTModifier\<close> and calling \<open>grow\<close> succeeds, and the device afterwards is a
  consistent GPT disk of its full size: correct header and table checksums, mirrored headers, a
  copied backup table, a last partition that ends at the last usable sector, and a protective MBR
  that covers the disk.
\<close>

theorem grow_makes_valid:
  assumes "gpt_layout N0 k (fdev f)" and "sound_dev (fdev f)" and "dsize (fdev f) < 2 ^ 63"
    and "(N0 + 1) * 512 < dsize (fdev f)"
  shows "\<exists>m f' m'. newGPTModifier f p = (Ok m, f') \<and> grow m = (Ok (), m') \<and>
    gpt_valid (dsize (fdev f) div 512) k (fdev (gm_f m'))"
  using open_and_grow [OF assms, of p] grown_valid [OF assms(1,3) grew_sectors [OF assms(4)]]
  by fastforce

theorem grow_makes_valid_witness:
  "\<exists>m f' m'. newGPTModifier \<lparr>fdev = sample_dev 200, fpos = 0\<rparr> ''/dev/sda'' = (Ok m, f') \<and>
     grow m = (Ok (), m') \<and> gpt_valid 200 1 (fdev (gm_f m'))"
  using grow_makes_valid [of 100 1 "\<lparr>fdev = sample_dev 200, fpos = 0\<rparr>" "''/dev/sda''"] sample_layout [of 200]
  by simp

text \<open>
  C2.  Growing never touches user data.  The bytes of every partition that lies between the
  primary table and the old backup table are the same after \<open>grow\<close> as before, whatever the
  partition is; only its metadata is rewritten.
\<close>

theorem grow_preserves_partitions:
  assumes "gpt_layout N0 k (fdev f)" and "sound_dev (fdev f)" and "dsize (fdev f) < 2 ^ 63"
    and "(N0 + 1) * 512 < dsize (fdev f)"
    and "newGPTModifier f p = (Ok m, f')" and "grow m = (r, m')"
    and "i < k" and "34 \<le> unat (pe_FirstLBA (entry_at (fdev f) i))"
    and "unat (pe_LastLBA (entry_at (fdev f) i)) \<le> N0 - 34"
  shows "bytes_at (fdev (gm_f m')) (unat (pe_FirstLBA (entry_at (fdev f) i)) * 512)
      ((unat (pe_LastLBA (entry_at (fdev f) i)) + 1 - unat (pe_FirstLBA (entry_at (fdev f) i))) * 512) =
    bytes_at (fdev f) (unat (pe_FirstLBA (entry_at (fdev f) i)) * 512)
      ((unat (pe_LastLBA (entry_at (fdev f) i)) + 1 - unat (pe_FirstLBA (entry_at (fdev f) i))) * 512)"
    (is "bytes_at _ (?a * 512) ((?b + 1 - ?a) * 512) = _")
proof (rule bytes_at_cong)
  fix j assume j: "?a * 512 \<le> j" "j < ?a * 512 + (?b + 1 - ?a) * 512"
  let ?N = "dsize (fdev f) div 512"
  have d: "fdev (gm_f m') = grown N0 k ?N (fdev f)"
    using open_and_grow [OF assms(1-4), of p] assms(5,6) by auto
  note b = layout_bounds [OF assms(1) grew_sectors [OF assms(4)] assms(3)]
  have "k \<le> 128" using assms(1) by (simp add: gpt_layout_def used_entries_def)
  then have "1024 + (k - 1) * 128 + 128 \<le> 17408" using assms(7) by simp
  moreover have "17408 \<le> j" using j assms(8) by simp
  moreover have "j < (N0 - 33) * 512" using j assms(9) b(1) by (simp add: diff_mult_distrib)
  moreover have "(N0 - 33) * 512 \<le> (?N - 33) * 512" using grew_sectors [OF assms(4)] by simp
  ultimately show "dbyte (fdev (gm_f m')) j = dbyte (fdev f) j"
    unfolding d using b(1) grew_sectors [OF assms(4)] by (intro grown_frame) linarith+
qed

theorem grow_preserves_partitions_witness:
  "\<exists>m f' m'. newGPTModifier \<lparr>fdev = sample_dev 200, fpos = 0\<rparr> ''/dev/sda'' = (Ok m, f') \<and>
     grow m = (Ok (), m') \<and>
     bytes_at (fdev (gm_f m')) 17408 16896 = bytes_at (sample_dev 200) 17408 16896"
proof -
  let ?f = "\<lparr>fdev = sample_dev 200, fpos = 0\<rparr>"
  obtain m f' m' where *: "newGPTModifier ?f ''/dev/sda'' = (Ok m, f')" "grow m = (Ok (), m')"
    using open_and_grow [of 100 1 ?f "''/dev/sda''"] sample_layout [of 200] by auto
  have "bytes_at (fdev (gm_f m')) 17408 16896 = bytes_at (sample_dev 200) 17408 16896"
    using grow_preserves_partitions [of 100 1 ?f "''/dev/sda''" m f' "Ok ()" m' 0] * sample_layout [of 200]
    by (simp add: sample_entry_def)
  with * show ?thesis by blast
qed

text \<open>
  C3.  Growing is idempotent.  After a successful \<open>grow\<close>, opening the device again finds nothing
  to do: \<open>needsResize\<close> is false and a second \<open>grow\<close> returns at once without writing.
\<close>

theorem grow_idempotent:
  assumes "gpt_layout N0 k (fdev f)" and "sound_dev (fdev f)" and "dsize (fdev f) < 2 ^ 63"
    and "(N0 + 1) * 512 < dsize (fdev f)"
    and "newGPTModifier f p = (Ok m, f')" and "grow m = (r, m')"
  shows "\<exists>m2 f2. newGPTModifier (gm_f m') p = (Ok m2, f2) \<and> \<not> needsResize m2 \<and>
    grow m2 = (Ok (), m2) \<and> fdev (gm_f m2) = fdev (gm_f m')"
proof -
  let ?N = "dsize (fdev f) div 512"
  have d: "fdev (gm_f m') = grown N0 k ?N (fdev f)"
    using open_and_grow [OF assms(1-4), of p] assms(5,6) by auto
  note b = layout_bounds [OF assms(1) grew_sectors [OF assms(4)] assms(3)]
  have "gpt_valid ?N k (fdev (gm_f m'))"
    unfolding d by (rule grown_valid [OF assms(1,3) grew_sectors [OF assms(4)]])
  then have L: "unat (h_LastUsableLBA (primary_header (fdev (gm_f m')))) = ?N - 34"
    by (simp add: gpt_valid_def gpt_layout_def)
  have ok: "sound_dev (fdev (gm_f m'))" "1024 \<le> dsize (fdev (gm_f m'))"
    "dsize (fdev (gm_f m')) = dsize (fdev f)"
    using assms(2) b by (simp_all add: d)
  obtain m2 f2 where new: "newGPTModifier (gm_f m') p = (Ok m2, f2)"
    "gm_gptHeader m2 = primary_header (fdev (gm_f m'))" "gm_size m2 = int (dsize (fdev f))"
    "fdev (gm_f m2) = fdev (gm_f m')"
    using new_modifier [OF ok(1,2), of p] ok(3) by auto
  have "needsResize m2 \<longleftrightarrow> (?N + 1) * 512 < dsize (fdev f)"
    using L new b assms(3) by (intro needsResize_iff) simp_all
  also have "\<dots> \<longleftrightarrow> False"
    by (simp add: not_less)
  finally have "\<not> needsResize m2" by simp
  with new show ?thesis by (auto simp: grow_def)
qed

theorem grow_idempotent_witness:
  "\<exists>m f' m'. newGPTModifier \<lparr>fdev = sample_dev 200, fpos = 0\<rparr> ''/dev/sda'' = (Ok m, f') \<and>
     grow m = (Ok (), m') \<and>
     (\<exists>m2 f2. newGPTModifier (gm_f m') ''/dev/sda'' = (Ok m2, f2) \<and> grow m2 = (Ok (), m2))"
proof -
  let ?f = "\<lparr>fdev = sample_dev 200, fpos = 0\<rparr>"
  obtain m f' m' where *: "newGPTModifier ?f ''/dev/sda'' = (Ok m, f')" "grow m = (Ok (), m')"
    using open_and_grow [of 100 1 ?f "''/dev/sda''"] sample_layout [of 200] by auto
  then show ?thesis
    using grow_idempotent [of 100 1 ?f "''/dev/sda''" m f' "Ok ()" m'] sample_layout [of 200] by auto
qed

text \<open>
  \<open>needsResize\<close> in 64-bit arithmetic: the last usable sector of the header plus 35, in
  bytes and modulo \<open>2 ^ 64\<close>, is below the device size.  The product wraps around for headers that
  claim \<open>2 ^ 55 - 35\<close> usable sectors or more, and for no others.
\<close>

theorem needsResize_bytes:
  assumes "gm_size m = int sz" and "sz < 2 ^ 63"
  shows "needsResize m \<longleftrightarrow> (unat (h_LastUsableLBA (gm_gptHeader m)) + 35) * 512 mod 2 ^ 64 < sz"
proof -
  have "unat (word_of_nat sz :: u64) = sz"
    using assms(2) by (simp add: unat_of_nat_lt)
  with assms(1) show ?thesis
    by (simp add: needsResize_def word_less_nat_alt unat_word_ariths mod_mult_left_eq mod_add_left_eq)
qed

theorem needsResize_bytes_witness:
  "needsResize \<lparr>gm_f = \<lparr>fdev = sample_dev 200, fpos = 0\<rparr>, gm_p = [], gm_size = 102400,
     gm_partitionEntry = None, gm_gptHeader = sample_header, gm_backupGPTHeader = None,
     gm_sectorsAdded = 0, gm_originalBackupGPTLBA = 99\<rparr>"
  by (subst needsResize_bytes [of _ 102400]) (simp_all add: sample_header_def)



end
