(* ===== verification/GoStrings.thy ===== *)
theory GoStrings
  imports Prelude
begin

text \<open>
  The parts of Go's \<open>strings\<close>, \<open>strconv\<close>, \<open>fmt\<close> and \<open>path/filepath\<close> packages the program uses.  A
  Go string is a byte sequence, as is a HOL \<open>string\<close>.
\<close>

section \<open>Searching\<close>

definition HasPrefix :: "string \<Rightarrow> string \<Rightarrow> bool" where
  "HasPrefix s p = (take (length p) s = p)"

definition HasSuffix :: "string \<Rightarrow> string \<Rightarrow> bool" where
  "HasSuffix s p = HasPrefix (rev s) (rev p)"

definition TrimPrefix :: "string \<Rightarrow> string \<Rightarrow> string" where
  "TrimPrefix s p = (if HasPrefix s p then drop (length p) s else s)"

definition TrimSuffix :: "string \<Rightarrow> string \<Rightarrow> string" where
  "TrimSuffix s p = (if HasSuffix s p then take (length s - length p) s else s)"

text \<open>The parts before and after the first occurrence of a separator.\<close>

fun cut :: "string \<Rightarrow> string \<Rightarrow> (string \<times> string) option" where
  "cut sep [] = (if sep = [] then Some ([], []) else None)"
| "cut sep (c # cs) =
     (if HasPrefix (c # cs) sep then Some ([], drop (length sep) (c # cs))
      else case cut sep cs of None \<Rightarrow> None | Some (a, b) \<Rightarrow> Some (c # a, b))"

definition Contains :: "string \<Rightarrow> string \<Rightarrow> bool" where
  "Contains s sub = (cut sub s \<noteq> None)"

definition IndexByte :: "string \<Rightarrow> char \<Rightarrow> int" where
  "IndexByte s c = (case cut [c] s of None \<Rightarrow> - 1 | Some (a, b) \<Rightarrow> int (length a))"

lemma HasPrefix_iff: "HasPrefix s p \<longleftrightarrow> (\<exists>t. s = p @ t)"
  unfolding HasPrefix_def by (metis append_eq_conv_conj append_take_drop_id)

lemma HasPrefix_Nil [simp]: "HasPrefix s []"
  by (simp add: HasPrefix_def)

lemma HasPrefix_Cons [simp]:
  "HasPrefix (c # cs) (d # ds) \<longleftrightarrow> c = d \<and> HasPrefix cs ds" "\<not> HasPrefix [] (d # ds)"
  by (auto simp: HasPrefix_def)

lemma HasPrefix_append [simp]: "HasPrefix (p @ s) p"
  by (simp add: HasPrefix_def)

lemma cut_Some: "cut sep s = Some (a, b) \<Longrightarrow> s = a @ sep @ b"
proof (induction sep s arbitrary: a b rule: cut.induct)
  case (1 sep)
  then show ?case by (simp split: if_splits)
next
  case (2 sep c cs)
  show ?case
  proof (cases "HasPrefix (c # cs) sep")
    case True
    with "2.prems" show ?thesis by (auto simp: HasPrefix_iff)
  next
    case False
    with "2.prems" obtain a' where "cut sep cs = Some (a', b)" "a = c # a'"
      by (auto split: option.splits)
    with "2.IH" [OF False] show ?thesis by simp
  qed
qed

lemma cut_occurs: "cut sep (a @ sep @ b) \<noteq> None"
proof (induction a)
  case Nil
  then show ?case using HasPrefix_append [of sep b] by (cases "sep @ b") auto
next
  case (Cons c a)
  then show ?case by (auto split: option.splits)
qed

lemma cut_None_iff: "cut sep s = None \<longleftrightarrow> (\<nexists>a b. s = a @ sep @ b)"
proof
  assume "cut sep s = None"
  then show "\<nexists>a b. s = a @ sep @ b" using cut_occurs by blast
next
  assume n: "\<nexists>a b. s = a @ sep @ b"
  show "cut sep s = None"
  proof (cases "cut sep s")
    case (Some ab)
    then show ?thesis using n cut_Some [of sep s "fst ab" "snd ab"] by simp
  qed
qed

lemma Contains_iff: "Contains s sub \<longleftrightarrow> (\<exists>a b. s = a @ sub @ b)"
  by (simp add: Contains_def cut_None_iff)

lemma cut_char: "cut [c] s = (if c \<in> set s then Some (takeWhile (\<lambda>x. x \<noteq> c) s, tl (dropWhile (\<lambda>x. x \<noteq> c) s)) else None)"
  by (induction s) auto

lemma cut_length: "cut sep s = Some (a, b) \<Longrightarrow> sep \<noteq> [] \<Longrightarrow> length b < length s"
  by (drule cut_Some) simp

section \<open>Splitting and joining\<close>

function split_all :: "string \<Rightarrow> string \<Rightarrow> string list" where
  "split_all sep s =
     (if sep = [] then [s]
      else case cut sep s of None \<Rightarrow> [s] | Some (a, b) \<Rightarrow> a # split_all sep b)"
  by pat_completeness auto
termination
  by (relation "measure (\<lambda>(sep, s). length s)") (auto dest: cut_length)

declare split_all.simps [simp del]

text \<open>\<open>strings.Split\<close> with a non-empty separator.\<close>

definition Split :: "string \<Rightarrow> string \<Rightarrow> string list" where
  "Split s sep = split_all sep s"

fun splitN :: "string \<Rightarrow> nat \<Rightarrow> string \<Rightarrow> string list" where
  "splitN sep (Suc (Suc n)) s =
     (case cut sep s of None \<Rightarrow> [s] | Some (a, b) \<Rightarrow> a # splitN sep (Suc n) b)"
| "splitN sep (Suc 0) s = [s]"
| "splitN sep 0 s = []"

definition SplitN :: "string \<Rightarrow> string \<Rightarrow> nat \<Rightarrow> string list" where
  "SplitN s sep n = splitN sep n s"

fun Join :: "string list \<Rightarrow> string \<Rightarrow> string" where
  "Join [] sep = []"
| "Join [s] sep = s"
| "Join (s # t # ts) sep = s @ sep @ Join (t # ts) sep"

lemma Join_Cons: "xs \<noteq> [] \<Longrightarrow> Join (s # xs) sep = s @ sep @ Join xs sep"
  by (cases xs) simp_all

lemma split_all_nonempty [simp]: "split_all sep s \<noteq> []"
  by (subst split_all.simps) (auto split: option.splits)

lemma Split_nonempty [simp]: "Split s sep \<noteq> []"
  by (simp add: Split_def)

lemma Join_split_all: "Join (split_all sep s) sep = s"
proof (induction sep s rule: split_all.induct)
  case (1 sep s)
  show ?case
  proof (cases "sep = [] \<or> cut sep s = None")
    case True
    then show ?thesis by (auto simp: split_all.simps [of sep s])
  next
    case False
    then obtain a b where c: "cut sep s = Some (a, b)" "sep \<noteq> []" by auto
    then have "split_all sep s = a # split_all sep b" by (simp add: split_all.simps [of sep s])
    then show ?thesis using "1.IH" [OF c(2,1) refl] cut_Some [OF c(1)] by (simp add: Join_Cons)
  qed
qed

lemma Join_Split: "Join (Split s sep) sep = s"
  by (simp add: Split_def Join_split_all)

text \<open>The pieces of a split at one character are free of it.\<close>

lemma split_all_char_free: "t \<in> set (split_all [c] s) \<Longrightarrow> c \<notin> set t"
proof (induction "[c]" s rule: split_all.induct)
  case (1 s)
  show ?case
  proof (cases "c \<in> set s")
    case False
    with "1.prems" show ?thesis by (simp add: split_all.simps [of _ s] cut_char)
  next
    case True
    then show ?thesis
      using "1.prems" "1.hyps" by (auto simp: split_all.simps [of _ s] cut_char dest: set_takeWhileD)
  qed
qed

lemma SplitN2: "SplitN s sep 2 = (case cut sep s of None \<Rightarrow> [s] | Some (a, b) \<Rightarrow> [a, b])"
  by (simp add: SplitN_def numeral_2_eq_2 split: option.splits)

lemma SplitN2_eq: "SplitN s [c] 2 =
    (if c \<in> set s then [takeWhile (\<lambda>x. x \<noteq> c) s, tl (dropWhile (\<lambda>x. x \<noteq> c) s)] else [s])"
  by (simp add: SplitN2 cut_char)

section \<open>Replacing\<close>

text \<open>
  The width of the UTF-8 sequence at the front of a string, as \<open>utf8.DecodeRuneInString\<close>
  computes it: an ill-formed byte counts as a sequence of its own.
\<close>

definition cont_byte :: "nat \<Rightarrow> nat \<Rightarrow> char \<Rightarrow> bool" where
  "cont_byte lo hi c \<longleftrightarrow> lo \<le> of_char c \<and> of_char c \<le> hi"

fun rune_width :: "string \<Rightarrow> nat" where
  "rune_width [] = 0"
| "rune_width (a # s) =
     (let x = of_char a :: nat;
          tail = (\<lambda>n. n \<le> length s \<and> list_all (cont_byte 0x80 0xBF) (take (n - 1) (tl s)));
          second = (\<lambda>lo hi. s \<noteq> [] \<and> cont_byte lo hi (hd s)) in
      if 0xC2 \<le> x \<and> x \<le> 0xDF \<and> second 0x80 0xBF then 2
      else if x = 0xE0 \<and> second 0xA0 0xBF \<and> tail 2 then 3
      else if 0xE1 \<le> x \<and> x \<le> 0xEF \<and> x \<noteq> 0xED \<and> second 0x80 0xBF \<and> tail 2 then 3
      else if x = 0xED \<and> second 0x80 0x9F \<and> tail 2 then 3
      else if x = 0xF0 \<and> second 0x90 0xBF \<and> tail 3 then 4
      else if 0xF1 \<le> x \<and> x \<le> 0xF3 \<and> second 0x80 0xBF \<and> tail 3 then 4
      else if x = 0xF4 \<and> second 0x80 0x8F \<and> tail 3 then 4
      else 1)"

lemma rune_width_pos: "s \<noteq> [] \<Longrightarrow> 0 < rune_width s"
  by (cases s) (simp_all add: Let_def)

function intersperse_runes :: "string \<Rightarrow> string \<Rightarrow> string" where
  "intersperse_runes new s =
     (if s = [] then new
      else new @ take (rune_width s) s @ intersperse_runes new (drop (rune_width s) s))"
  by pat_completeness auto
termination
  by (relation "measure (\<lambda>(new, s). length s)") (auto simp: rune_width_pos)

declare intersperse_runes.simps [simp del]

text \<open>\<open>strings.ReplaceAll\<close>, and \<open>strings.Replace\<close> with a negative count.\<close>

definition ReplaceAll :: "string \<Rightarrow> string \<Rightarrow> string \<Rightarrow> string" where
  "ReplaceAll s old new = (if old = [] then intersperse_runes new s else Join (split_all old s) new)"

lemma ReplaceAll_absent: "old \<noteq> [] \<Longrightarrow> \<not> Contains s old \<Longrightarrow> ReplaceAll s old new = s"
  by (auto simp: ReplaceAll_def Contains_def split_all.simps [of old s] split: option.splits)

lemma cut_first: "c \<notin> set a \<Longrightarrow> cut (c # sep) (a @ (c # sep) @ b) = Some (a, b)"
  by (induction a) auto

lemma cut_absent: "c \<notin> set s \<Longrightarrow> cut (c # sep) s = None"
  by (auto simp: cut_None_iff)

lemma cut_marked:
  "c \<notin> set a \<Longrightarrow> c \<notin> set t \<Longrightarrow>
   cut (c # k) (a @ c # t) = (if HasPrefix t k then Some (a, drop (length k) t) else None)"
  by (induction a) (auto simp: cut_absent)

text \<open>Replacing a marked word in a string with one mark.\<close>

lemma ReplaceAll_marked:
  "c \<notin> set a \<Longrightarrow> c \<notin> set t \<Longrightarrow>
   ReplaceAll (a @ c # t) (c # k) v =
     (if HasPrefix t k then a @ v @ drop (length k) t else a @ c # t)"
proof -
  assume c: "c \<notin> set a" "c \<notin> set t"
  have "cut (c # k) (drop (length k) t) = None"
    using c(2) by (meson cut_absent in_set_dropD)
  then show ?thesis
    using c by (simp add: ReplaceAll_def split_all.simps [of "c # k" "a @ c # t"] cut_marked
        split_all.simps [of "c # k" "drop (length k) t"])
qed

lemma ReplaceAll_unmarked: "c \<notin> set s \<Longrightarrow> ReplaceAll s (c # k) v = s"
  by (simp add: ReplaceAll_def split_all.simps [of "c # k" s] cut_absent)

lemma ReplaceAll_once:
  "c \<notin> set a \<Longrightarrow> c \<notin> set b \<Longrightarrow> ReplaceAll (a @ (c # old) @ b) (c # old) new = a @ new @ b"
  by (simp add: ReplaceAll_def split_all.simps [of "c # old" "a @ c # old @ b"] cut_first [simplified]
      split_all.simps [of "c # old" b] cut_absent)

lemma ReplaceAll_same: "old \<noteq> [] \<Longrightarrow> ReplaceAll s old old = s"
  by (simp add: ReplaceAll_def Join_split_all)

section \<open>White space and case\<close>

text \<open>The UTF-8 encodings of the code points \<open>unicode.IsSpace\<close> accepts.\<close>

definition space_seqs :: "string list" where
  "space_seqs =
     map (map char_of)
       ([[0x09], [0x0A], [0x0B], [0x0C], [0x0D], [0x20], [0xC2, 0x85], [0xC2, 0xA0],
         [0xE1, 0x9A, 0x80]] @ map (\<lambda>b. [0xE2, 0x80, b]) [0x80..<0x8B] @
        [[0xE2, 0x80, 0xA8], [0xE2, 0x80, 0xA9], [0xE2, 0x80, 0xAF], [0xE2, 0x81, 0x9F],
         [0xE3, 0x80, 0x80 :: nat]])"

definition space_at :: "string \<Rightarrow> nat" where
  "space_at s = (case filter (HasPrefix s) space_seqs of [] \<Rightarrow> 0 | p # _ \<Rightarrow> length p)"

definition space_at_end :: "string \<Rightarrow> nat" where
  "space_at_end s = (case filter (HasSuffix s) space_seqs of [] \<Rightarrow> 0 | p # _ \<Rightarrow> length p)"

function trim_left :: "string \<Rightarrow> string" where
  "trim_left s = (if 0 < space_at s \<and> s \<noteq> [] then trim_left (drop (space_at s) s) else s)"
  by pat_completeness auto
termination
  by (relation "measure length") auto

function trim_right :: "string \<Rightarrow> string" where
  "trim_right s =
     (if 0 < space_at_end s \<and> s \<noteq> [] then trim_right (take (length s - space_at_end s) s) else s)"
  by pat_completeness auto
termination
  by (relation "measure length") auto

declare trim_left.simps [simp del] trim_right.simps [simp del]

definition TrimSpace :: "string \<Rightarrow> string" where
  "TrimSpace s = trim_right (trim_left s)"

text \<open>\<open>strings.Fields\<close>: the runs of bytes between white space; \<open>cur\<close> is the current run, reversed.\<close>

function fields_from :: "string \<Rightarrow> string \<Rightarrow> string list" where
  "fields_from cur s =
     (if s = [] then (if cur = [] then [] else [rev cur])
      else if 0 < space_at s
      then (if cur = [] then [] else [rev cur]) @ fields_from [] (drop (space_at s) s)
      else fields_from (hd s # cur) (tl s))"
  by pat_completeness auto
termination
  by (relation "measure (\<lambda>(cur, s). length s)") auto

declare fields_from.simps [simp del]

definition Fields :: "string \<Rightarrow> string list" where
  "Fields s = fields_from [] s"

text \<open>Evaluating the scan of white space one byte at a time.\<close>

lemma space_seqs_literal:
  "space_seqs = [[CHR 0x09], [CHR 0x0A], [CHR 0x0B], [CHR 0x0C], [CHR 0x0D], '' '', [CHR 0xC2, CHR 0x85],
    [CHR 0xC2, CHR 0xA0], [CHR 0xE1, CHR 0x9A, CHR 0x80]] @
    map (\<lambda>b. [CHR 0xE2, CHR 0x80, b])
      [CHR 0x80, CHR 0x81, CHR 0x82, CHR 0x83, CHR 0x84, CHR 0x85, CHR 0x86, CHR 0x87, CHR 0x88, CHR 0x89, CHR 0x8A] @
    [[CHR 0xE2, CHR 0x80, CHR 0xA8], [CHR 0xE2, CHR 0x80, CHR 0xA9], [CHR 0xE2, CHR 0x80, CHR 0xAF],
     [CHR 0xE2, CHR 0x81, CHR 0x9F], [CHR 0xE3, CHR 0x80, CHR 0x80]]"
  by (simp add: space_seqs_def char_of_def upt_rec bit_0)

lemma space_at_Nil: "space_at [] = 0" by (simp add: space_at_def space_seqs_literal HasPrefix_def)

lemma space_at_blank: "space_at (CHR '' '' # s) = 1"
  by (simp add: space_at_def space_seqs_literal HasPrefix_def)

lemma space_at_graph:
  "c \<notin> {CHR 0x09, CHR 0x0A, CHR 0x0B, CHR 0x0C, CHR 0x0D, CHR 0x20, CHR 0xC2, CHR 0xE1, CHR 0xE2, CHR 0xE3} \<Longrightarrow>
    space_at (c # s) = 0"
  by (simp add: space_at_def space_seqs_literal HasPrefix_def)

lemmas space_eval = space_at_Nil space_at_blank space_at_graph

definition ascii_lower :: "char \<Rightarrow> char" where
  "ascii_lower c = (let x = of_char c :: nat in if 65 \<le> x \<and> x \<le> 90 then char_of (x + 32) else c)"

text \<open>
  \<open>strings.ToLower\<close>.  The mapping of non-ASCII code points is the Unicode table, a parameter.
\<close>

definition ToLower :: "(string \<Rightarrow> string) \<Rightarrow> string \<Rightarrow> string" where
  "ToLower unicode s =
     (if list_all (\<lambda>c. of_char c < (128 :: nat)) s then map ascii_lower s else unicode s)"

section \<open>Numbers\<close>

definition digit_char :: "nat \<Rightarrow> char" where
  "digit_char n = char_of (48 + n)"

fun nat_str :: "nat \<Rightarrow> string" where
  "nat_str n = (if n < 10 then [digit_char n] else nat_str (n div 10) @ [digit_char (n mod 10)])"

declare nat_str.simps [simp del]

definition itoa :: "int \<Rightarrow> string" where
  "itoa i = (if i < 0 then ''-'' @ nat_str (nat (- i)) else nat_str (nat i))"

definition is_digit :: "char \<Rightarrow> bool" where
  "is_digit c \<longleftrightarrow> 48 \<le> (of_char c :: nat) \<and> (of_char c :: nat) \<le> 57"

definition digits_val :: "string \<Rightarrow> int" where
  "digits_val s = foldl (\<lambda>a c. a * 10 + (of_char c - 48)) 0 s"

lemma of_digit_char: "n < 10 \<Longrightarrow> (of_char (digit_char n) :: int) = 48 + int n"
proof -
  assume n: "n < 10"
  have "(of_char (digit_char n) :: int) = int (of_char (digit_char n))" by (simp only: of_nat_of_char)
  also have "\<dots> = 48 + int n" using n by (simp add: digit_char_def)
  finally show ?thesis .
qed

lemma digits_val_nat_str: "digits_val (nat_str n) = int n"
proof (induction n rule: nat_str.induct)
  case (1 n)
  show ?case
  proof (cases "n < 10")
    case True
    then show ?thesis by (subst nat_str.simps) (simp add: digits_val_def of_digit_char)
  next
    case False
    then have "digits_val (nat_str n) = digits_val (nat_str (n div 10)) * 10 + int (n mod 10)"
      by (subst nat_str.simps) (simp add: digits_val_def of_digit_char)
    also have "\<dots> = int (n div 10 * 10 + n mod 10)"
      using 1 [OF False] by (simp only: of_nat_add of_nat_mult of_nat_numeral)
    finally show ?thesis by (simp only: div_mult_mod_eq)
  qed
qed

lemma nat_str_inject [simp]: "nat_str a = nat_str b \<longleftrightarrow> a = b"
  by (metis digits_val_nat_str of_nat_eq_iff)

text \<open>\<open>strconv.Atoi\<close> on a 64-bit machine.\<close>

definition Atoi :: "string \<Rightarrow> int outcome" where
  "Atoi s =
     (let neg = HasPrefix s ''-'';
          ds = (if neg \<or> HasPrefix s ''+'' then tl s else s);
          v = (if neg then - digits_val ds else digits_val ds) in
      if ds = [] \<or> \<not> list_all is_digit ds \<or> v < - (2 ^ 63) \<or> 2 ^ 63 \<le> v
      then Err (Errorf ''strconv.Atoi'') else Ok v)"

section \<open>Paths\<close>

definition IsAbs :: "string \<Rightarrow> bool" where
  "IsAbs p = HasPrefix p ''/''"

text \<open>The components of a path after \<open>Clean\<close>, as a stack (innermost first).\<close>

fun clean_comps :: "bool \<Rightarrow> string list \<Rightarrow> string list \<Rightarrow> string list" where
  "clean_comps rooted st [] = rev st"
| "clean_comps rooted st (c # cs) =
     (if c = [] \<or> c = ''.'' then clean_comps rooted st cs
      else if c = ''..'' then
        (if st \<noteq> [] \<and> hd st \<noteq> ''..'' then clean_comps rooted (tl st) cs
         else if rooted then clean_comps rooted st cs
         else clean_comps rooted (c # st) cs)
      else clean_comps rooted (c # st) cs)"

definition Clean :: "string \<Rightarrow> string" where
  "Clean p =
     (let rooted = IsAbs p; body = Join (clean_comps rooted [] (Split p ''/'')) ''/'' in
      if rooted then ''/'' @ body else if body = [] then ''.'' else body)"

definition PathJoin :: "string list \<Rightarrow> string" where
  "PathJoin elems =
     (case dropWhile (\<lambda>e. e = []) elems of [] \<Rightarrow> [] | es \<Rightarrow> Clean (Join es ''/''))"

definition path_Dir :: "string \<Rightarrow> string" where
  "path_Dir p = Clean (rev (dropWhile (\<lambda>c. c \<noteq> CHR ''/'') (rev p)))"

definition path_Base :: "string \<Rightarrow> string" where
  "path_Base p =
     (if p = [] then ''.''
      else let q = rev (dropWhile (\<lambda>c. c = CHR ''/'') (rev p));
               b = rev (takeWhile (\<lambda>c. c \<noteq> CHR ''/'') (rev q)) in
           if b = [] then ''/'' else b)"

end
