(* ===== verification/GoNet.thy ===== *)
theory GoNet
  imports GoStrings GoBinary
begin

text \<open>
  The parts of Go's \<open>net\<close> package the program uses on addresses: \<open>ParseIP\<close>, \<open>ParseCIDR\<close>,
  \<open>IP.String\<close>, \<open>IP.To4\<close>, \<open>IP.Equal\<close> and \<open>IPNet.Contains\<close>, after the sources of the Go releases
  named in \<open>go.mod\<close> (leading zeros in dotted decimals are accepted).  An address is a byte slice of
  length 4 or 16; \<open>nil\<close> is the empty list.
\<close>

type_synonym ip = "byte list"

record IPNet =
  net_IP :: ip
  net_Mask :: "byte list"

definition v4_prefix :: "byte list" where
  "v4_prefix = replicate 10 0 @ [0xFF, 0xFF]"

definition IPv4 :: "byte \<Rightarrow> byte \<Rightarrow> byte \<Rightarrow> byte \<Rightarrow> ip" where
  "IPv4 a b c d = v4_prefix @ [a, b, c, d]"

definition To4 :: "ip \<Rightarrow> ip" where
  "To4 p = (if length p = 4 then p
            else if length p = 16 \<and> take 12 p = v4_prefix then drop 12 p else [])"

definition IP_Equal :: "ip \<Rightarrow> ip \<Rightarrow> bool" where
  "IP_Equal p q =
     (if length p = length q then p = q
      else if length p = 4 \<and> length q = 16 then v4_prefix @ p = q
      else if length p = 16 \<and> length q = 4 then p = v4_prefix @ q
      else False)"

section \<open>Printing\<close>

definition hex_char :: "nat \<Rightarrow> char" where
  "hex_char n = (if n < 10 then char_of (48 + n) else char_of (87 + n))"

fun hex_str :: "nat \<Rightarrow> string" where
  "hex_str n = (if n < 16 then [hex_char n] else hex_str (n div 16) @ [hex_char (n mod 16)])"

declare hex_str.simps [simp del]

definition hex_string :: "byte list \<Rightarrow> string" where
  "hex_string bs = concat (map (\<lambda>b. [hex_char (unat b div 16), hex_char (unat b mod 16)]) bs)"

text \<open>The eight groups of an IPv6 address, and the run of zero groups printed as two colons.\<close>

fun groups16 :: "byte list \<Rightarrow> nat list" where
  "groups16 (a # b # bs) = (unat a * 256 + unat b) # groups16 bs"
| "groups16 _ = []"

text \<open>The loop that looks for the longest run: position, best start and best end so far.\<close>

function zero_run :: "nat list \<Rightarrow> nat \<Rightarrow> nat \<times> nat \<Rightarrow> nat \<times> nat" where
  "zero_run gs i best =
     (if length gs \<le> i then best
      else let j = i + length (takeWhile (\<lambda>g. g = 0) (drop i gs)) in
           if i < j \<and> snd best - fst best < j - i then zero_run gs (Suc j) (i, j)
           else zero_run gs (Suc i) best)"
  by pat_completeness auto
termination
  by (relation "measure (\<lambda>(gs, i, best). length gs - i)") auto

declare zero_run.simps [simp del]

definition ip6_str :: "byte list \<Rightarrow> string" where
  "ip6_str p =
     (let gs = groups16 p; (e0, e1) = zero_run gs 0 (0, 0) in
      if e1 - e0 \<le> 1 then Join (map hex_str gs) '':''
      else Join (map hex_str (take e0 gs)) '':'' @ ''::'' @ Join (map hex_str (drop e1 gs)) '':'')"

definition ip_String :: "ip \<Rightarrow> string" where
  "ip_String p =
     (if p = [] then ''<nil>''
      else if To4 p \<noteq> [] then Join (map (\<lambda>b. nat_str (unat b)) (To4 p)) ''.''
      else if length p \<noteq> 16 then ''?'' @ hex_string p
      else ip6_str p)"

section \<open>Parsing\<close>

text \<open>\<open>dtoi\<close> and \<open>xtoi\<close>: the number at the front of a string, the rest, and success.\<close>

fun dtoi_from :: "nat \<Rightarrow> bool \<Rightarrow> string \<Rightarrow> (nat \<times> string) option" where
  "dtoi_from n seen [] = (if seen then Some (n, []) else None)"
| "dtoi_from n seen (c # cs) =
     (if is_digit c
      then let m = n * 10 + (of_char c - 48) in
           if 0xFFFFFF \<le> m then None else dtoi_from m True cs
      else if seen then Some (n, c # cs) else None)"

definition hex_val :: "char \<Rightarrow> nat option" where
  "hex_val c =
     (let x = of_char c :: nat in
      if 48 \<le> x \<and> x \<le> 57 then Some (x - 48)
      else if 97 \<le> x \<and> x \<le> 102 then Some (x - 87)
      else if 65 \<le> x \<and> x \<le> 70 then Some (x - 55) else None)"

fun xtoi_from :: "nat \<Rightarrow> bool \<Rightarrow> string \<Rightarrow> (nat \<times> string) option" where
  "xtoi_from n seen [] = (if seen then Some (n, []) else None)"
| "xtoi_from n seen (c # cs) =
     (case hex_val c of
        Some v \<Rightarrow> let m = n * 16 + v in if 0xFFFFFF \<le> m then None else xtoi_from m True cs
      | None \<Rightarrow> if seen then Some (n, c # cs) else None)"

fun parse4 :: "nat \<Rightarrow> byte list \<Rightarrow> string \<Rightarrow> byte list option" where
  "parse4 0 acc s = (if s = [] then Some (rev acc) else None)"
| "parse4 (Suc k) acc s =
     (if s = [] then None
      else if acc \<noteq> [] \<and> hd s \<noteq> CHR ''.'' then None
      else case dtoi_from 0 False (if acc \<noteq> [] then tl s else s) of
             None \<Rightarrow> None
           | Some (n, r) \<Rightarrow> if 0xFF < n then None else parse4 k (word_of_nat n # acc) r)"

definition parseIPv4 :: "string \<Rightarrow> ip" where
  "parseIPv4 s = (case parse4 4 [] s of Some [a, b, c, d] \<Rightarrow> IPv4 a b c d | _ \<Rightarrow> [])"

text \<open>
  The loop of \<open>parseIPv6\<close>: \<open>k\<close> bounds the groups left to read (eight in all), \<open>acc\<close> holds the bytes
  read so far, \<open>ell\<close> the position of the ellipsis.
\<close>

fun parse6 :: "nat \<Rightarrow> byte list \<Rightarrow> nat option \<Rightarrow> string \<Rightarrow> (byte list \<times> nat option \<times> string) option" where
  "parse6 0 acc ell s = Some (acc, ell, s)"
| "parse6 (Suc k) acc ell s =
     (if 16 \<le> length acc then Some (acc, ell, s)
      else case xtoi_from 0 False s of
        None \<Rightarrow> None
      | Some (n, r) \<Rightarrow>
          if 0xFFFF < n then None
          else if r \<noteq> [] \<and> hd r = CHR ''.'' then
            (if ell = None \<and> length acc \<noteq> 12 then None
             else if 16 < length acc + 4 then None
             else if parseIPv4 s = [] then None
             else Some (acc @ drop 12 (parseIPv4 s), ell, []))
          else
            let acc = acc @ [word_of_nat (n div 256), word_of_nat (n mod 256)] in
            if r = [] then Some (acc, ell, [])
            else if hd r \<noteq> CHR '':'' \<or> tl r = [] then None
            else let s = tl r in
              if hd s = CHR '':'' then
                (if ell \<noteq> None then None
                 else if tl s = [] then Some (acc, Some (length acc), [])
                 else parse6 k acc (Some (length acc)) (tl s))
              else parse6 k acc ell s)"

definition parseIPv6 :: "string \<Rightarrow> ip" where
  "parseIPv6 s =
     (if s = ''::'' then replicate 16 0
      else let (ell, t) = (if HasPrefix s ''::'' then (Some 0, drop 2 s) else (None, s)) in
      case parse6 9 [] ell t of
        None \<Rightarrow> []
      | Some (acc, ell, r) \<Rightarrow>
          if r \<noteq> [] then []
          else if length acc < 16 then
            (case ell of None \<Rightarrow> []
             | Some e \<Rightarrow> take e acc @ replicate (16 - length acc) 0 @ drop e acc)
          else if ell \<noteq> None then [] else acc)"

definition ParseIP :: "string \<Rightarrow> ip" where
  "ParseIP s =
     (case filter (\<lambda>c. c = CHR ''.'' \<or> c = CHR '':'') s of
        [] \<Rightarrow> [] | c # _ \<Rightarrow> if c = CHR ''.'' then parseIPv4 s else parseIPv6 s)"

section \<open>Networks\<close>

definition mask_byte :: "nat \<Rightarrow> byte" where
  "mask_byte n = (if 8 \<le> n then 0xFF else NOT (mask (8 - n)))"

definition CIDRMask :: "nat \<Rightarrow> nat \<Rightarrow> byte list" where
  "CIDRMask ones len = map (\<lambda>i. mask_byte (ones - 8 * i)) [0..<len]"

definition ParseCIDR :: "string \<Rightarrow> (ip \<times> IPNet) option" where
  "ParseCIDR s =
     (case cut ''/'' s of
        None \<Rightarrow> None
      | Some (addr, m) \<Rightarrow>
          let v4 = parseIPv4 addr;
              p = (if v4 \<noteq> [] then v4 else parseIPv6 addr);
              iplen = (if v4 \<noteq> [] then 4 else 16) in
          case dtoi_from 0 False m of
            None \<Rightarrow> None
          | Some (n, r) \<Rightarrow>
              if p = [] \<or> r \<noteq> [] \<or> 8 * iplen < n then None
              else let mk = CIDRMask n iplen; q = (if iplen = 4 then drop 12 p else p) in
                   Some (p, \<lparr>net_IP = map2 (AND) q mk, net_Mask = mk\<rparr>))"

definition net_Contains :: "IPNet \<Rightarrow> ip \<Rightarrow> bool" where
  "net_Contains n p =
     (let q = (if To4 p \<noteq> [] then To4 p else p);
          nn = (if To4 (net_IP n) \<noteq> [] then To4 (net_IP n) else net_IP n) in
      length q = length nn \<and>
      list_all (\<lambda>(x, m, y). x AND m = y AND m) (zip nn (zip (net_Mask n) q)))"

end
