(* ===== verification/Utils.thy ===== *)
theory Utils
  imports GoNet "HOL-Library.Sublist"
begin

text \<open>
  \<^verbatim>\<open>pkg/vorteil/utils.go\<close>: removing duplicate addresses, the two comparisons and the conversion of
  an address to the integer the routing helper expects.  The rest of the file, \<open>uptime\<close>, is in theory \<open>Uptime\<close>.
\<close>

text \<open>\<open>uniqueIPs\<close>: the map \<open>keys\<close> only ever holds \<open>true\<close>, so it is the set of the strings seen.\<close>

fun unique_loop :: "string set \<Rightarrow> ip list \<Rightarrow> ip list \<Rightarrow> ip list" where
  "unique_loop keys lst [] = lst"
| "unique_loop keys lst (entry # ipSlice) =
     (if ip_String entry \<notin> keys
      then unique_loop (insert (ip_String entry) keys) (lst @ [entry]) ipSlice
      else unique_loop keys lst ipSlice)"

definition uniqueIPs :: "ip list \<Rightarrow> ip list" where
  "uniqueIPs ipSlice = unique_loop {} [] ipSlice"

definition min_u32 :: "u32 \<Rightarrow> u32 \<Rightarrow> u32" where
  "min_u32 x y = (if x < y then x else y)"

definition max_int :: "int \<Rightarrow> int \<Rightarrow> int" where
  "max_int x y = (if x < y then y else x)"

text \<open>\<open>binary.LittleEndian.Uint32\<close> panics on a slice shorter than four bytes.\<close>

definition le_Uint32 :: "byte list \<Rightarrow> u32 outcome" where
  "le_Uint32 bs = (if length bs < 4 then Panic IndexOutOfRange else Ok (le_dec (take 4 bs)))"

definition ip2networkInt :: "ip \<Rightarrow> u32 outcome" where
  "ip2networkInt p = (if length p = 16 then le_Uint32 (sl 12 4 p) else le_Uint32 p)"

section \<open>Duplicate removal\<close>

lemma unique_loop_append: "unique_loop keys (acc @ lst) xs = acc @ unique_loop keys lst xs"
  by (induction xs arbitrary: keys lst) simp_all

lemma unique_loop_Cons:
  "unique_loop keys [] (x # xs) =
     (if ip_String x \<in> keys then unique_loop keys [] xs
      else x # unique_loop (insert (ip_String x) keys) [] xs)"
  using unique_loop_append [of _ "[x]" "[]"] by simp

declare unique_loop.simps(2) [simp del] unique_loop_Cons [simp]

lemma unique_loop_strings:
  "ip_String ` set (unique_loop keys [] xs) = ip_String ` set xs - keys"
  by (induction xs arbitrary: keys) auto

lemma unique_loop_distinct: "distinct (map ip_String (unique_loop keys [] xs))"
  by (induction xs arbitrary: keys)
    (auto simp: unique_loop_strings)

lemma unique_loop_subseq: "subseq (unique_loop keys [] xs) xs"
  by (induction xs arbitrary: keys) auto

lemma unique_loop_id:
  "distinct (map ip_String xs) \<Longrightarrow> ip_String ` set xs \<inter> keys = {} \<Longrightarrow> unique_loop keys [] xs = xs"
  by (induction xs arbitrary: keys) auto

text \<open>
  \<open>uniqueIPs\<close> returns a sublist of its argument, in its order, in which no two addresses print
  alike; every address of the argument is still there in its printed form; and a second call
  changes nothing.
\<close>

theorem uniqueIPs_correct:
  "subseq (uniqueIPs ips) ips \<and>
   distinct (map ip_String (uniqueIPs ips)) \<and>
   ip_String ` set (uniqueIPs ips) = ip_String ` set ips \<and>
   uniqueIPs (uniqueIPs ips) = uniqueIPs ips"
  by (simp add: uniqueIPs_def unique_loop_subseq unique_loop_distinct unique_loop_strings
      unique_loop_id)

section \<open>Addresses as integers\<close>

lemma le_Uint32_bytes: "length bs = 4 \<Longrightarrow> \<exists>w. le_Uint32 bs = Ok w \<and> le_enc 4 w = bs"
  by (simp add: le_Uint32_def)

lemma sl_IPv4: "sl 12 4 (IPv4 a b c d) = [a, b, c, d]" "length (IPv4 a b c d) = 16"
  by (simp_all add: IPv4_def v4_prefix_def sl_def)

text \<open>
  \<open>ip2networkInt\<close> gives the same integer for the 4-byte and the 16-byte form of an IPv4
  address, its bytes are the address's bytes in order, and it panics exactly on the slices shorter
  than four bytes (\<open>nil\<close> among them).
\<close>

theorem ip2networkInt_correct:
  "ip2networkInt (IPv4 a b c d) = ip2networkInt [a, b, c, d] \<and>
   (\<exists>w. ip2networkInt [a, b, c, d] = Ok w \<and> le_enc 4 w = [a, b, c, d]) \<and>
   is_panic (ip2networkInt p) = (length p < 4)"
  using le_Uint32_bytes [of "[a, b, c, d]"]
  by (auto simp: ip2networkInt_def sl_IPv4 le_Uint32_def)

end
