(* ===== verification/Hostname.thy ===== *)
theory Hostname
  imports GoStrings
begin

text \<open>
  The hostname functions of \<^verbatim>\<open>pkg/vorteil/network.go\<close>: \<open>trimString\<close>, \<open>validateHostname\<close> and
  \<open>setHostname\<close>.  The regular expression \<^verbatim>\<open>[a-z0-9-]\<close> matches single bytes, so \<open>FindAllIndex\<close>
  is the list of one-byte intervals at the legal positions.  The random numbers and the Unicode
  lower-case table are parameters.
\<close>

definition elemRegex :: "char \<Rightarrow> bool" where
  "elemRegex c =
     (let x = of_char c :: nat in (97 \<le> x \<and> x \<le> 122) \<or> (48 \<le> x \<and> x \<le> 57) \<or> x = 45)"

definition FindAllIndex :: "string \<Rightarrow> (nat \<times> nat) list" where
  "FindAllIndex e = map (\<lambda>i. (i, Suc i)) (filter (\<lambda>i. elemRegex (e ! i)) [0..<length e])"

definition trimString :: "string \<Rightarrow> nat \<Rightarrow> string" where
  "trimString s n = (if length s \<le> n then s else take n s)"

text \<open>The loop over the matches of one element; \<open>endPrev\<close> is the end of the previous match.\<close>

fun match_loop :: "string \<Rightarrow> nat option \<Rightarrow> (nat \<times> nat) list \<Rightarrow> string \<Rightarrow> string" where
  "match_loop e endPrev [] validatedElem = validatedElem"
| "match_loop e endPrev ((a, b) # indexes) validatedElem =
     match_loop e (Some b) indexes
       ((case endPrev of
           None \<Rightarrow> validatedElem
         | Some p \<Rightarrow> if 0 < int a - int p then validatedElem @ replicate (a - p) CHR ''-''
                     else validatedElem) @ sl a (b - a) e)"

text \<open>One element at position \<open>k\<close>; \<open>indexes[len(indexes)-1]\<close> panics when nothing matched.\<close>

definition validate_elem :: "nat \<Rightarrow> string \<Rightarrow> string outcome" where
  "validate_elem k e =
     (let indexes = FindAllIndex e;
          validatedElem = match_loop e None indexes (if k \<noteq> 0 then ''.'' else []) in
      if indexes = [] then Panic IndexOutOfRange
      else Ok (validatedElem @ replicate (length e - snd (last indexes)) CHR ''-''))"

fun elems_loop :: "nat \<Rightarrow> string \<Rightarrow> string list \<Rightarrow> string outcome" where
  "elems_loop k h [] = Ok h"
| "elems_loop k h (e # elements) =
     (if e = [] then elems_loop (Suc k) h elements
      else bind_out (validate_elem k e) (\<lambda>v. elems_loop (Suc k) (h @ v) elements))"

definition validateHostname :: "string \<Rightarrow> string outcome" where
  "validateHostname hostname =
     (if hostname = [] then Err (Errorf ''hostname can not be empty'')
      else bind_out (elems_loop 0 [] (Split (TrimPrefix hostname ''-'') ''.''))
             (\<lambda>h. Ok (trimString h 64)))"

definition hostnameSalt :: string where
  "hostnameSalt = ''$SALT''"

definition salt_runes :: string where
  "salt_runes = ''abcdefghijklmnopqrstuvwxyz-0123456789''"

text \<open>\<open>rnd i\<close> is the \<open>i\<close>-th result of \<open>mrand.Int()\<close>, which is never negative.\<close>

definition salt :: "(nat \<Rightarrow> nat) \<Rightarrow> string" where
  "salt rnd = map (\<lambda>i. salt_runes ! (rnd i mod length salt_runes)) [0..<8]"

definition setHostname :: "(nat \<Rightarrow> nat) \<Rightarrow> (string \<Rightarrow> string) \<Rightarrow> string \<Rightarrow> string outcome" where
  "setHostname rnd unicode str =
     (let str = (if Contains str hostnameSalt then ReplaceAll str hostnameSalt (salt rnd) else str)
      in validateHostname (ToLower unicode str))"

section \<open>What the loops compute\<close>

text \<open>
  The specification of one element: leading illegal bytes are dropped, every other illegal byte
  becomes a dash.
\<close>

definition dash :: "char \<Rightarrow> char" where
  "dash c = (if elemRegex c then c else CHR ''-'')"

definition clean_elem :: "string \<Rightarrow> string" where
  "clean_elem e = map dash (dropWhile (\<lambda>c. \<not> elemRegex c) e)"

definition all_illegal :: "string \<Rightarrow> bool" where
  "all_illegal e \<longleftrightarrow> e \<noteq> [] \<and> list_all (\<lambda>c. \<not> elemRegex c) e"

definition host_char :: "char \<Rightarrow> bool" where
  "host_char c \<longleftrightarrow> elemRegex c \<or> c = CHR ''.''"

fun clean_elems :: "nat \<Rightarrow> string list \<Rightarrow> string" where
  "clean_elems k [] = []"
| "clean_elems k (e # es) =
     (if e = [] then [] else (if k \<noteq> 0 then ''.'' else []) @ clean_elem e) @ clean_elems (Suc k) es"

lemma FindAllIndex_snoc:
  "FindAllIndex (e @ [c]) = FindAllIndex e @ (if elemRegex c then [(length e, Suc (length e))] else [])"
proof -
  have "filter (\<lambda>i. elemRegex ((e @ [c]) ! i)) [0..<length e] = filter (\<lambda>i. elemRegex (e ! i)) [0..<length e]"
    by (rule filter_cong) (auto simp: nth_append)
  then show ?thesis by (simp add: FindAllIndex_def)
qed

lemma FindAllIndex_Nil [simp]: "FindAllIndex [] = []"
  by (simp add: FindAllIndex_def)

lemma FindAllIndex_eq_Nil: "FindAllIndex e = [] \<longleftrightarrow> list_all (\<lambda>c. \<not> elemRegex c) e"
  by (induction e rule: rev_induct) (auto simp: FindAllIndex_snoc)

lemma FindAllIndex_bound: "(a, b) \<in> set (FindAllIndex e) \<Longrightarrow> a < length e \<and> b = Suc a"
  by (auto simp: FindAllIndex_def)

lemma match_loop_append:
  "match_loop e p (xs @ [(a, b)]) acc =
     (let v = match_loop e p xs acc; q = (if xs = [] then p else Some (snd (last xs))) in
      (case q of None \<Rightarrow> v | Some p \<Rightarrow> if 0 < int a - int p then v @ replicate (a - p) CHR ''-'' else v)
      @ sl a (b - a) e)"
  by (induction e p xs acc rule: match_loop.induct) (auto simp: Let_def)

lemma match_loop_longer:
  "\<forall>(a, b) \<in> set xs. b \<le> length e \<Longrightarrow> match_loop (e @ f) p xs acc = match_loop e p xs acc"
proof (induction e p xs acc rule: match_loop.induct)
  case (2 e endPrev a b indexes v)
  have "sl a (b - a) (e @ f) = sl a (b - a) e"
    using 2(2) by (cases "a \<le> length e") (auto simp: sl_def)
  with 2 show ?case by simp
qed simp

lemma dropWhile_snoc_legal:
  "dropWhile (\<lambda>c. \<not> elemRegex c) (e @ [c]) =
     (if list_all (\<lambda>c. \<not> elemRegex c) e then (if elemRegex c then [c] else [])
      else dropWhile (\<lambda>c. \<not> elemRegex c) e @ [c])"
  by (induction e) auto

text \<open>The last match ends at most at the end of the element.\<close>

lemma last_match_bound: "FindAllIndex e \<noteq> [] \<Longrightarrow> snd (last (FindAllIndex e)) \<le> length e"
  using FindAllIndex_bound [of "fst (last (FindAllIndex e))" "snd (last (FindAllIndex e))" e]
  by (simp add: last_in_set)

lemma match_loop_clean:
  "FindAllIndex e \<noteq> [] \<Longrightarrow>
   match_loop e None (FindAllIndex e) acc @ replicate (length e - snd (last (FindAllIndex e))) CHR ''-''
   = acc @ clean_elem e"
proof (induction e rule: rev_induct)
  case (snoc c e)
  have inside: "\<forall>(a, b) \<in> set (FindAllIndex e). b \<le> length e"
    using FindAllIndex_bound by fastforce
  note long = match_loop_longer [OF inside, of "[c]"]
  show ?case
  proof (cases "FindAllIndex e = []")
    case True
    with snoc.prems show ?thesis
      by (auto simp: FindAllIndex_snoc clean_elem_def dropWhile_snoc_legal FindAllIndex_eq_Nil [symmetric]
          dash_def sl_def split: if_splits)
  next
    case False
    define n where "n = snd (last (FindAllIndex e))"
    have "n \<le> length e" using last_match_bound [OF False] by (simp add: n_def)
    then have rep: "replicate (Suc (length e) - n) CHR ''-'' = replicate (length e - n) CHR ''-'' @ ''-''"
      by (simp add: Suc_diff_le replicate_append_same)
    have IH: "match_loop e None (FindAllIndex e) acc @ replicate (length e - n) CHR ''-'' = acc @ clean_elem e"
      using snoc.IH [OF False] by (simp add: n_def)
    have new: "clean_elem (e @ [c]) = clean_elem e @ [dash c]"
      using False by (simp add: clean_elem_def dropWhile_snoc_legal FindAllIndex_eq_Nil)
    show ?thesis
    proof (cases "elemRegex c")
      case True
      have "match_loop (e @ [c]) None (FindAllIndex (e @ [c])) acc
          = (match_loop e None (FindAllIndex e) acc @ replicate (length e - n) CHR ''-'') @ [c]"
        using True False \<open>n \<le> length e\<close>
        by (auto simp: FindAllIndex_snoc match_loop_append long Let_def sl_def n_def [symmetric])
      with True show ?thesis by (simp add: IH new FindAllIndex_snoc dash_def)
    next
      case nomatch: False
      then show ?thesis
        using False by (simp add: FindAllIndex_snoc long n_def [symmetric] rep new dash_def)
          (simp add: IH [symmetric])
    qed
  qed
qed simp

lemma validate_elem_eq:
  "e \<noteq> [] \<Longrightarrow> validate_elem k e =
     (if all_illegal e then Panic IndexOutOfRange
      else Ok ((if k \<noteq> 0 then ''.'' else []) @ clean_elem e))"
  using match_loop_clean [of e]
  by (auto simp: validate_elem_def Let_def all_illegal_def FindAllIndex_eq_Nil)

lemma elems_loop_eq:
  "elems_loop k h es =
     (if list_ex all_illegal es then Panic IndexOutOfRange else Ok (h @ clean_elems k es))"
proof (induction es arbitrary: k h)
  case (Cons e es)
  show ?case
  proof (cases "e = []")
    case True
    then have "\<not> all_illegal e" by (simp add: all_illegal_def)
    with True Cons show ?thesis by simp
  next
    case False
    with Cons show ?thesis by (simp add: validate_elem_eq)
  qed
qed simp

lemma validateHostname_eq:
  "validateHostname h =
     (if h = [] then Err (Errorf ''hostname can not be empty'')
      else let es = Split (TrimPrefix h ''-'') ''.'' in
           if list_ex all_illegal es then Panic IndexOutOfRange
           else Ok (take 64 (clean_elems 0 es)))"
  by (simp add: validateHostname_def elems_loop_eq trimString_def Let_def)

section \<open>Properties of the result\<close>

lemma elemRegex_dash [simp]: "elemRegex CHR ''-''"
  by (simp add: elemRegex_def)

lemma elemRegex_not_dot: "elemRegex c \<Longrightarrow> c \<noteq> CHR ''.''"
  by (auto simp: elemRegex_def)

lemma clean_elem_chars: "c \<in> set (clean_elem e) \<Longrightarrow> elemRegex c"
  by (auto simp: clean_elem_def dash_def)

lemma clean_elems_chars: "c \<in> set (clean_elems k es) \<Longrightarrow> host_char c"
  by (induction k es rule: clean_elems.induct)
    (auto simp: host_char_def split: if_splits dest: clean_elem_chars)

lemma clean_elem_id: "list_all elemRegex e \<Longrightarrow> clean_elem e = e"
  by (cases e) (auto simp: clean_elem_def dash_def list_all_iff intro: map_idI)

lemma clean_elems_id:
  "list_all (\<lambda>e. e \<noteq> [] \<and> list_all elemRegex e) es \<Longrightarrow>
   clean_elems (Suc k) es = concat (map ((@) ''.'') es)"
  by (induction es arbitrary: k) (simp_all add: clean_elem_id)

lemma Join_concat: "Join (e # es) sep = e @ concat (map ((@) sep) es)"
  by (induction es arbitrary: e) simp_all

lemma set_in_Join: "e \<in> set es \<Longrightarrow> set e \<subseteq> set (Join es sep)"
  by (induction es sep rule: Join.induct) auto

text \<open>
  A name that is already legal: at most 64 bytes of letters, digits, dashes and dots, no dash in
  front and no empty element.
\<close>

definition legal_hostname :: "string \<Rightarrow> bool" where
  "legal_hostname h \<longleftrightarrow>
     length h \<le> 64 \<and> list_all host_char h \<and> \<not> HasPrefix h ''-'' \<and> [] \<notin> set (Split h ''.'')"

lemma legal_elements:
  assumes "legal_hostname h" and "e \<in> set (Split h ''.'')"
  shows "e \<noteq> [] \<and> list_all elemRegex e"
proof -
  have "set e \<subseteq> set h"
    using set_in_Join [OF assms(2), of "''.''"] by (simp add: Join_Split)
  moreover have "CHR ''.'' \<notin> set e"
    using assms(2) by (simp add: Split_def split_all_char_free)
  ultimately show ?thesis
    using assms by (auto simp: legal_hostname_def list_all_iff host_char_def)
qed

lemma legal_not_illegal: "e \<noteq> [] \<Longrightarrow> list_all elemRegex e \<Longrightarrow> \<not> all_illegal e"
  by (cases e) (simp_all add: all_illegal_def)

lemma legal_nonempty: "legal_hostname h \<Longrightarrow> h \<noteq> []"
  by (auto simp: legal_hostname_def Split_def split_all.simps [of "''.''" "[]"])

lemma elemRegex_lower: "host_char c \<Longrightarrow> of_char c < (128 :: nat) \<and> ascii_lower c = c \<and> c \<noteq> CHR ''$''"
  by (auto simp: host_char_def elemRegex_def ascii_lower_def Let_def)

lemma ToLower_host: "list_all host_char s \<Longrightarrow> ToLower unicode s = s"
  using elemRegex_lower by (auto simp: ToLower_def list_all_iff intro: map_idI)

lemma no_dollar: "list_all host_char s \<Longrightarrow> CHR ''$'' \<notin> set s"
  using elemRegex_lower by (auto simp: list_all_iff)

lemma salt_runes_legal: "list_all elemRegex salt_runes"
  by code_simp

lemma salt_legal: "length (salt rnd) = 8" "list_all elemRegex (salt rnd)"
proof -
  have "0 < length salt_runes" by (simp add: salt_runes_def)
  then show "list_all elemRegex (salt rnd)"
    using salt_runes_legal by (auto simp: salt_def list_all_iff)
qed (simp add: salt_def)

lemma validateHostname_of_legal: "legal_hostname h \<Longrightarrow> validateHostname h = Ok h"
proof -
  assume legal: "legal_hostname h"
  obtain e es where split: "Split h ''.'' = e # es"
    by (cases "Split h ''.''") simp_all
  have all: "list_all (\<lambda>e. e \<noteq> [] \<and> list_all elemRegex e) (e # es)"
    using legal_elements [OF legal] by (simp add: list_all_iff split)
  then have "clean_elems 0 (e # es) = Join (e # es) ''.''"
    by (simp only: clean_elems.simps Join_concat) (simp add: clean_elem_id clean_elems_id)
  moreover have "\<not> list_ex all_illegal (e # es)"
    using all by (auto simp: list_ex_iff list_all_iff dest: legal_not_illegal [unfolded list_all_iff])
  ultimately show ?thesis
    using legal legal_nonempty [OF legal] Join_Split [of h "''.''"]
    by (simp add: validateHostname_eq TrimPrefix_def split legal_hostname_def)
qed

text \<open>
  C17.  What \<open>validateHostname\<close> returns is at most 64 bytes long and consists of lower-case letters,
  digits, dashes and dots.
\<close>

theorem validateHostname_legal:
  assumes "validateHostname h = Ok r"
  shows "length r \<le> 64 \<and> list_all host_char r"
  using assms clean_elems_chars
  by (auto simp: validateHostname_eq Let_def list_all_iff split: if_splits dest!: in_set_takeD)

theorem validateHostname_legal_witness:
  "validateHostname ''my_host.Local'' = Ok ''my-host.ocal'' \<and>
   length ''my-host.ocal'' \<le> 64 \<and> list_all host_char ''my-host.ocal''"
proof -
  have "validateHostname ''my_host.Local'' = Ok ''my-host.ocal''" by code_simp
  with validateHostname_legal [OF this] show ?thesis by simp
qed

text \<open>
  A name that is already legal is returned unchanged.
\<close>

theorem validateHostname_identity:
  assumes "legal_hostname h"
  shows "validateHostname h = Ok h"
  using assms by (rule validateHostname_of_legal)

theorem validateHostname_identity_witness:
  "legal_hostname ''node-1.example'' \<and> validateHostname ''node-1.example'' = Ok ''node-1.example''"
proof -
  have "legal_hostname ''node-1.example''" by code_simp
  with validateHostname_identity [OF this] show ?thesis by simp
qed

text \<open>
  C18.  \<open>validateHostname\<close> returns an error exactly on the empty name, and otherwise panics exactly
  when some non-empty element of the name (a leading dash removed) has no legal byte.
\<close>

theorem validateHostname_failures:
  "(\<exists>e. validateHostname h = Err e) = (h = []) \<and>
   is_panic (validateHostname h) =
     (h \<noteq> [] \<and> list_ex all_illegal (Split (TrimPrefix h ''-'') ''.''))"
  by (auto simp: validateHostname_eq Let_def)

text \<open>
  A hostname with the placeholder \<^verbatim>\<open>$SALT\<close> in it is set with eight random legal characters in
  its place, and nothing else changes, whenever the rest makes a legal name.
\<close>

theorem setHostname_salted:
  assumes "list_all host_char a" and "list_all host_char b"
    and "legal_hostname (a @ salt rnd @ b)"
  shows "setHostname rnd unicode (a @ hostnameSalt @ b) = Ok (a @ salt rnd @ b) \<and>
    length (salt rnd) = 8 \<and> list_all elemRegex (salt rnd)"
proof -
  have "ReplaceAll (a @ hostnameSalt @ b) hostnameSalt (salt rnd) = a @ salt rnd @ b"
    using assms ReplaceAll_once [of "CHR ''$''" a b "''SALT''" "salt rnd"]
    by (simp add: hostnameSalt_def no_dollar)
  moreover have "Contains (a @ hostnameSalt @ b) hostnameSalt"
    by (auto simp: Contains_iff)
  moreover have "list_all host_char (a @ salt rnd @ b)"
    using assms(3) by (simp add: legal_hostname_def)
  ultimately show ?thesis
    using assms(3) by (simp add: setHostname_def ToLower_host validateHostname_of_legal salt_legal)
qed

theorem setHostname_salted_witness:
  "setHostname (\<lambda>i. i) id (''vm-'' @ hostnameSalt @ ''.local'') = Ok ''vm-abcdefgh.local''"
proof -
  have salt: "salt (\<lambda>i. i) = ''abcdefgh''" by code_simp
  have "list_all host_char ''vm-''" "list_all host_char ''.local''"
    "legal_hostname (''vm-'' @ salt (\<lambda>i. i) @ ''.local'')"
    by code_simp+
  from setHostname_salted [OF this] show ?thesis by (simp add: salt)
qed

end
