(* ===== verification/OsModel.thy ===== *)
theory OsModel
  imports GoStrings "HOL-Library.Sublist"
begin

text \<open>
  The operating system as the program sees it through Go's \<open>os\<close>, \<open>ioutil\<close> and \<open>syscall\<close> packages:
  a file tree with directories, regular files and symbolic links, the calls the environment refuses,
  what other processes do to the tree while the program sleeps, and the trace of the calls that
  leave the program.

  A path is resolved one component at a time; symbolic links are followed at most 40 times (the
  kernel's limit), the working directory of the init process is the root.  \<open>w_deny op p\<close> is the
  error the environment gives for operation \<open>op\<close> on path \<open>p\<close>, if any.  Log lines enter the trace
  with their level and format string.
\<close>

datatype node = File string | Dir | Symlink string

type_synonym fs = "string list \<Rightarrow> node option"

datatype event =
    EvLog string string
  | EvWrite string string
  | EvMkdir string
  | EvSymlink string string
  | EvRemove string
  | EvMount string string string nat string
  | EvExec string "string list"
  | EvKill nat nat
  | EvReboot u32
  | EvSleep nat
  | EvCall string "string list"
  | EvIoctl string "int list"

record world =
  w_fs :: fs
  w_deny :: "string \<Rightarrow> string \<Rightarrow> goerr option"
  w_others :: "nat \<Rightarrow> fs \<Rightarrow> fs"
  w_clock :: nat
  w_trace :: "event list"

definition emit :: "event \<Rightarrow> 'a world_scheme \<Rightarrow> 'a world_scheme" where
  "emit e w = w\<lparr>w_trace := w_trace w @ [e]\<rparr>"

definition log :: "string \<Rightarrow> string \<Rightarrow> 'a world_scheme \<Rightarrow> 'a world_scheme" where
  "log lvl fmt w = emit (EvLog lvl fmt) w"

abbreviation logAlways :: "string \<Rightarrow> 'a world_scheme \<Rightarrow> 'a world_scheme" where
  "logAlways \<equiv> log ''always''"
abbreviation logDebug :: "string \<Rightarrow> 'a world_scheme \<Rightarrow> 'a world_scheme" where
  "logDebug \<equiv> log ''debug''"
abbreviation logWarn :: "string \<Rightarrow> 'a world_scheme \<Rightarrow> 'a world_scheme" where
  "logWarn \<equiv> log ''warn''"
abbreviation logError :: "string \<Rightarrow> 'a world_scheme \<Rightarrow> 'a world_scheme" where
  "logError \<equiv> log ''error''"

section \<open>Paths\<close>

definition comps :: "string \<Rightarrow> string list" where
  "comps p = filter (\<lambda>c. c \<noteq> [] \<and> c \<noteq> ''.'') (Split p ''/'')"

text \<open>
  \<open>walk n follow fs cur cs\<close>: resolve the components \<open>cs\<close> below the directory \<open>cur\<close>.  The result is
  the final path and what is there; only the last component may be missing.
\<close>

function walk :: "nat \<Rightarrow> bool \<Rightarrow> fs \<Rightarrow> string list \<Rightarrow> string list \<Rightarrow> (string list \<times> node option) outcome" where
  "walk n follow fs cur [] = Ok (cur, Some Dir)"
| "walk n follow fs cur (c # cs) =
     (if c = ''..'' then walk n follow fs (butlast cur) cs
      else case fs (cur @ [c]) of
        None \<Rightarrow> if cs = [] then Ok (cur @ [c], None) else Err ErrNotExist
      | Some Dir \<Rightarrow> walk n follow fs (cur @ [c]) cs
      | Some (File d) \<Rightarrow> if cs = [] then Ok (cur @ [c], Some (File d)) else Err (Errno ''ENOTDIR'')
      | Some (Symlink t) \<Rightarrow>
          if cs = [] \<and> \<not> follow then Ok (cur @ [c], Some (Symlink t))
          else if n = 0 then Err (Errno ''ELOOP'')
          else walk (n - 1) follow fs (if IsAbs t then [] else cur) (comps t @ cs))"
  by pat_completeness auto
termination
  by (relation "(\<lambda>(n, follow, fs, cur, cs). n) <*mlex*> measure (\<lambda>(n, follow, fs, cur, cs). length cs)")
    (auto simp: wf_mlex intro: mlex_leq mlex_less)

definition resolve :: "fs \<Rightarrow> bool \<Rightarrow> string \<Rightarrow> (string list \<times> node option) outcome" where
  "resolve fs follow p = (if p = [] then Err ErrNotExist else walk 40 follow fs [] (comps p))"

section \<open>File operations\<close>

definition stat_node :: "bool \<Rightarrow> string \<Rightarrow> 'a world_scheme \<Rightarrow> node outcome" where
  "stat_node follow p w =
     (case w_deny w ''stat'' p of
        Some e \<Rightarrow> Err e
      | None \<Rightarrow> bind_out (resolve (w_fs w) follow p)
                 (\<lambda>(q, n). case n of None \<Rightarrow> Err ErrNotExist | Some x \<Rightarrow> Ok x))"

definition os_Stat :: "string \<Rightarrow> 'a world_scheme \<Rightarrow> node outcome" where
  "os_Stat p w = stat_node True p w"

definition IsNotExist :: "'a outcome \<Rightarrow> bool" where
  "IsNotExist r = (case r of Err e \<Rightarrow> e = ErrNotExist | _ \<Rightarrow> False)"

definition ReadFile :: "string \<Rightarrow> 'a world_scheme \<Rightarrow> string outcome" where
  "ReadFile p w =
     (case w_deny w ''open'' p of
        Some e \<Rightarrow> Err e
      | None \<Rightarrow> bind_out (resolve (w_fs w) True p)
                 (\<lambda>(q, n). case n of
                    Some (File d) \<Rightarrow> Ok d
                  | Some _ \<Rightarrow> Err (Errno ''EISDIR'')
                  | None \<Rightarrow> Err ErrNotExist))"

text \<open>\<open>os.Open\<close>, for reading; directories and devices can be opened too.\<close>

definition os_Open :: "string \<Rightarrow> 'a world_scheme \<Rightarrow> node outcome" where
  "os_Open p w =
     (case w_deny w ''open'' p of
        Some e \<Rightarrow> Err e
      | None \<Rightarrow> bind_out (resolve (w_fs w) True p)
                 (\<lambda>(q, n). case n of None \<Rightarrow> Err ErrNotExist | Some x \<Rightarrow> Ok x))"

text \<open>Opening for writing; \<open>creat\<close> is the flag \<open>O_CREATE\<close>.  The result is where the file is.\<close>

definition open_write :: "bool \<Rightarrow> string \<Rightarrow> 'a world_scheme \<Rightarrow> string list outcome" where
  "open_write creat p w =
     (case w_deny w ''open'' p of
        Some e \<Rightarrow> Err e
      | None \<Rightarrow> bind_out (resolve (w_fs w) True p)
                 (\<lambda>(q, n). case n of
                    Some (File d) \<Rightarrow> Ok q
                  | Some _ \<Rightarrow> Err (Errno ''EISDIR'')
                  | None \<Rightarrow> if creat then Ok q else Err ErrNotExist))"

definition put_file :: "string list \<Rightarrow> string \<Rightarrow> 'a world_scheme \<Rightarrow> 'a world_scheme" where
  "put_file q d w = w\<lparr>w_fs := (w_fs w)(q \<mapsto> File d)\<rparr>"

text \<open>\<open>os.OpenFile\<close> for writing: a missing file is created empty, \<open>trunc\<close> empties an existing one.\<close>

definition OpenFile :: "bool \<Rightarrow> bool \<Rightarrow> string \<Rightarrow> 'a world_scheme \<Rightarrow> string list outcome \<times> 'a world_scheme" where
  "OpenFile creat trunc p w =
     (case open_write creat p w of
        Ok q \<Rightarrow> (Ok q, if trunc \<or> w_fs w q = None then put_file q [] w else w)
      | Err e \<Rightarrow> (Err e, w)
      | Panic x \<Rightarrow> (Panic x, w))"

text \<open>
  \<open>ioutil.WriteFile\<close>: open with create and truncate, then write.  A refused write leaves the file
  empty.
\<close>

definition WriteFile :: "string \<Rightarrow> string \<Rightarrow> 'a world_scheme \<Rightarrow> unit outcome \<times> 'a world_scheme" where
  "WriteFile p d w =
     and_then (OpenFile True True p w)
       (\<lambda>q w. case w_deny w ''write'' p of
          Some e \<Rightarrow> (Err e, w)
        | None \<Rightarrow> (Ok (), emit (EvWrite p d) (put_file q d w)))"

text \<open>\<open>os.MkdirAll\<close>: the prefixes of the path in turn.\<close>

definition mkdir1 :: "string list \<Rightarrow> 'a world_scheme \<Rightarrow> unit outcome \<times> 'a world_scheme" where
  "mkdir1 cs w =
     (let p = ''/'' @ Join cs ''/'' in
      case stat_node True p w of
        Ok Dir \<Rightarrow> (Ok (), w)
      | Ok _ \<Rightarrow> (Err (Errno ''ENOTDIR''), w)
      | Panic x \<Rightarrow> (Panic x, w)
      | Err _ \<Rightarrow>
          (case w_deny w ''mkdir'' p of
             Some e \<Rightarrow> (Err e, w)
           | None \<Rightarrow>
               (case resolve (w_fs w) False p of
                  Ok (q, None) \<Rightarrow> (Ok (), emit (EvMkdir p) (w\<lparr>w_fs := (w_fs w)(q \<mapsto> Dir)\<rparr>))
                | Ok (q, Some _) \<Rightarrow> (Err (Errno ''EEXIST''), w)
                | Err e \<Rightarrow> (Err e, w)
                | Panic x \<Rightarrow> (Panic x, w))))"

fun mkdir_prefixes :: "string list \<Rightarrow> string list \<Rightarrow> 'a world_scheme \<Rightarrow> unit outcome \<times> 'a world_scheme" where
  "mkdir_prefixes done [] w = (Ok (), w)"
| "mkdir_prefixes done (c # cs) w =
     and_then (mkdir1 (done @ [c]) w) (\<lambda>_ w. mkdir_prefixes (done @ [c]) cs w)"

definition MkdirAll :: "string \<Rightarrow> 'a world_scheme \<Rightarrow> unit outcome \<times> 'a world_scheme" where
  "MkdirAll p w = mkdir_prefixes [] (comps p) w"

definition os_Symlink :: "string \<Rightarrow> string \<Rightarrow> 'a world_scheme \<Rightarrow> unit outcome \<times> 'a world_scheme" where
  "os_Symlink target p w =
     (case w_deny w ''symlink'' p of
        Some e \<Rightarrow> (Err e, w)
      | None \<Rightarrow>
          (case resolve (w_fs w) False p of
             Ok (q, None) \<Rightarrow>
               (Ok (), emit (EvSymlink target p) (w\<lparr>w_fs := (w_fs w)(q \<mapsto> Symlink target)\<rparr>))
           | Ok (q, Some _) \<Rightarrow> (Err (Errno ''EEXIST''), w)
           | Err e \<Rightarrow> (Err e, w)
           | Panic x \<Rightarrow> (Panic x, w)))"

text \<open>\<open>os.Remove\<close> of a file or link (the program never removes directories).\<close>

definition os_Remove :: "string \<Rightarrow> 'a world_scheme \<Rightarrow> unit outcome \<times> 'a world_scheme" where
  "os_Remove p w =
     (case w_deny w ''remove'' p of
        Some e \<Rightarrow> (Err e, w)
      | None \<Rightarrow>
          (case resolve (w_fs w) False p of
             Ok (q, Some Dir) \<Rightarrow> (Err (Errno ''ENOTEMPTY''), w)
           | Ok (q, Some _) \<Rightarrow> (Ok (), emit (EvRemove p) (w\<lparr>w_fs := (w_fs w)(q := None)\<rparr>))
           | Ok (q, None) \<Rightarrow> (Err ErrNotExist, w)
           | Err e \<Rightarrow> (Err e, w)
           | Panic x \<Rightarrow> (Panic x, w)))"

definition syscall_Mount ::
  "string \<Rightarrow> string \<Rightarrow> string \<Rightarrow> nat \<Rightarrow> string \<Rightarrow> 'a world_scheme \<Rightarrow> unit outcome \<times> 'a world_scheme" where
  "syscall_Mount src target fstype flags data w =
     (case w_deny w ''mount'' target of
        Some e \<Rightarrow> (Err e, w)
      | None \<Rightarrow> (Ok (), emit (EvMount src target fstype flags data) w))"

text \<open>\<open>os.Chmod\<close>: the tree carries no permissions, the call is only recorded.\<close>

definition os_Chmod :: "string \<Rightarrow> nat \<Rightarrow> 'a world_scheme \<Rightarrow> unit outcome \<times> 'a world_scheme" where
  "os_Chmod p perm w =
     (case w_deny w ''chmod'' p of
        Some e \<Rightarrow> (Err e, w)
      | None \<Rightarrow> (case os_Stat p w of
                   Ok _ \<Rightarrow> (Ok (), emit (EvCall ''chmod'' [p, nat_str perm]) w)
                 | Err e \<Rightarrow> (Err e, w)
                 | Panic x \<Rightarrow> (Panic x, w)))"

text \<open>\<open>time.Sleep\<close>, in milliseconds: other processes act on the tree meanwhile.\<close>

definition time_Sleep :: "nat \<Rightarrow> 'a world_scheme \<Rightarrow> 'a world_scheme" where
  "time_Sleep ms w =
     (emit (EvSleep ms) w)\<lparr>w_fs := w_others w (w_clock w) (w_fs w), w_clock := w_clock w + ms\<rparr>"

text \<open>The state part of a call whose error the program ignores.\<close>

definition ignoring :: "'b outcome \<times> 'a world_scheme \<Rightarrow> 'a world_scheme" where
  "ignoring r = snd r"

section \<open>Reading and writing\<close>

lemma emit_fields [simp]:
  "w_fs (emit e w) = w_fs w" "w_deny (emit e w) = w_deny w" "w_others (emit e w) = w_others w"
  "w_clock (emit e w) = w_clock w" "w_trace (emit e w) = w_trace w @ [e]"
  by (simp_all add: emit_def)

lemma log_fields [simp]:
  "w_fs (log l f w) = w_fs w" "w_deny (log l f w) = w_deny w" "w_others (log l f w) = w_others w"
  "w_clock (log l f w) = w_clock w" "w_trace (log l f w) = w_trace w @ [EvLog l f]"
  by (simp_all add: log_def)

lemma put_file_fields [simp]:
  "w_fs (put_file q d w) = (w_fs w)(q \<mapsto> File d)" "w_deny (put_file q d w) = w_deny w"
  "w_others (put_file q d w) = w_others w" "w_clock (put_file q d w) = w_clock w"
  "w_trace (put_file q d w) = w_trace w"
  by (simp_all add: put_file_def)

text \<open>A walk that ends at a file or at a missing entry says what the tree holds there.\<close>

lemma walk_target:
  "walk n follow fs cur cs = Ok (q, nd) \<Longrightarrow> nd \<noteq> Some Dir \<Longrightarrow> q \<noteq> [] \<and> fs q = nd"
  by (induction n follow fs cur cs rule: walk.induct)
    (auto split: if_splits option.splits node.splits)

lemma walk_put:
  assumes "fs q = None \<or> (\<exists>x. fs q = Some (File x))" and "q \<noteq> []"
  shows "walk n follow fs cur cs = Ok (q', nd) \<Longrightarrow> \<not> prefix q cur \<Longrightarrow>
    walk n follow (fs(q \<mapsto> File d)) cur cs = Ok (q', if q' = q then Some (File d) else nd)"
  using assms
proof (induction n follow fs cur cs rule: walk.induct)
  case (2 n follow fs cur c cs)
  have up: "\<not> prefix q (butlast cur)"
    using 2(5) by (meson prefix_order.trans prefixeq_butlast)
  have down: "fs (cur @ [c]) = Some Dir \<Longrightarrow> \<not> prefix q (cur @ [c])"
    using 2(5,6) by auto
  have abs: "\<not> prefix q (if b then [] else cur)" for b
    using 2(5,7) by simp
  show ?case
    using 2 up down abs by (auto split: if_splits option.splits node.splits)
qed auto

lemma resolve_target:
  "resolve fs follow p = Ok (q, nd) \<Longrightarrow> nd \<noteq> Some Dir \<Longrightarrow> q \<noteq> [] \<and> fs q = nd"
  by (auto simp: resolve_def dest: walk_target split: if_splits)

lemma resolve_put:
  assumes "fs q = None \<or> (\<exists>x. fs q = Some (File x))" and "q \<noteq> []"
    and "resolve fs follow p = Ok (q', nd)"
  shows "resolve (fs(q \<mapsto> File d)) follow p = Ok (q', if q' = q then Some (File d) else nd)"
  using assms walk_put [of fs q 40 follow "[]" "comps p" q' nd d]
  by (auto simp: resolve_def split: if_splits)

text \<open>What an open for writing finds.\<close>

definition writable :: "string list \<Rightarrow> 'a world_scheme \<Rightarrow> bool" where
  "writable q w \<longleftrightarrow> q \<noteq> [] \<and> (w_fs w q = None \<or> (\<exists>x. w_fs w q = Some (File x)))"

lemma open_write_Ok:
  "open_write creat p w = Ok q \<longleftrightarrow>
     w_deny w ''open'' p = None \<and>
     (\<exists>nd. resolve (w_fs w) True p = Ok (q, nd) \<and> (if nd = None then creat else \<exists>x. nd = Some (File x)))"
  by (auto simp: open_write_def bind_out_def split: option.splits outcome.splits node.splits if_splits)

lemma open_write_writable: "open_write creat p w = Ok q \<Longrightarrow> writable q w"
  by (auto simp: open_write_Ok writable_def dest!: resolve_target split: if_splits)

lemma open_write_resolve:
  "open_write creat p w = Ok q \<Longrightarrow> \<exists>nd. resolve (w_fs w) True p = Ok (q, nd)"
  by (auto simp: open_write_Ok)

lemma open_write_not_panic: "open_write creat p w \<noteq> Panic x"
proof -
  have "walk n follow fs cur cs \<noteq> Panic x" for n follow fs cur cs
    by (induction n follow fs cur cs rule: walk.induct) (auto split: option.splits node.splits)
  then show ?thesis
    by (auto simp: open_write_def resolve_def bind_out_def split: option.splits outcome.splits node.splits if_splits)
qed

lemma writable_put [simp]: "writable q w \<Longrightarrow> writable q (put_file q d w)"
  by (simp add: writable_def)

lemma resolve_put_file:
  assumes "writable q w" and "resolve (w_fs w) follow p = Ok (q', nd)"
  shows "resolve (w_fs (put_file q d w)) follow p = Ok (q', if q' = q then Some (File d) else nd)"
  using assms resolve_put [of "w_fs w" q follow p q' nd d] by (simp add: writable_def)

lemma read_put_same:
  assumes "open_write creat p w = Ok q"
  shows "ReadFile p (put_file q d w) = Ok d"
proof -
  obtain nd where "resolve (w_fs w) True p = Ok (q, nd)"
    using open_write_resolve [OF assms] by blast
  from resolve_put_file [OF open_write_writable [OF assms] this] show ?thesis
    using assms by (auto simp: ReadFile_def open_write_Ok)
qed

text \<open>Two names of the same file.\<close>

definition same_file :: "string \<Rightarrow> string \<Rightarrow> 'a world_scheme \<Rightarrow> bool" where
  "same_file p p' w \<longleftrightarrow>
     (\<exists>q nd nd'. resolve (w_fs w) True p = Ok (q, nd) \<and> resolve (w_fs w) True p' = Ok (q, nd'))"

lemma ReadFile_Ok:
  "ReadFile p w = Ok c \<longleftrightarrow>
     w_deny w ''open'' p = None \<and> (\<exists>q. resolve (w_fs w) True p = Ok (q, Some (File c)))"
  by (auto simp: ReadFile_def bind_out_def split: option.splits outcome.splits node.splits)

lemma read_put_other:
  assumes "open_write creat p w = Ok q" and "ReadFile p' w = Ok c" and "\<not> same_file p p' w"
  shows "ReadFile p' (put_file q d w) = Ok c"
proof -
  obtain nd where p: "resolve (w_fs w) True p = Ok (q, nd)"
    using open_write_resolve [OF assms(1)] by blast
  obtain q' where p': "resolve (w_fs w) True p' = Ok (q', Some (File c))"
    and deny: "w_deny w ''open'' p' = None"
    using assms(2) by (auto simp: ReadFile_Ok)
  have "q' \<noteq> q" using assms(3) p p' by (auto simp: same_file_def)
  with resolve_put_file [OF open_write_writable [OF assms(1)] p', of d] deny show ?thesis
    by (simp add: ReadFile_Ok)
qed

lemma ReadFile_emit [simp]: "ReadFile p (emit e w) = ReadFile p w"
  by (simp add: ReadFile_def split: option.splits)

lemma put_file_twice [simp]: "put_file q d' (put_file q d w) = put_file q d' w"
  by (simp add: put_file_def)

lemma WriteFile_cases:
  "WriteFile p d w =
     (case open_write True p w of
        Err e \<Rightarrow> (Err e, w)
      | Panic x \<Rightarrow> (Panic x, w)
      | Ok q \<Rightarrow> (case w_deny w ''write'' p of
                   Some e \<Rightarrow> (Err e, put_file q [] w)
                 | None \<Rightarrow> (Ok (), emit (EvWrite p d) (put_file q d w))))"
  by (auto simp: WriteFile_def OpenFile_def split: outcome.splits option.splits)

section \<open>The store interface\<close>

text \<open>
  What the components that keep their data in files rely on: a successful write is read back, and a
  write leaves the other files alone.
\<close>

locale file_store =
  fixes rd :: "'p \<Rightarrow> 's \<Rightarrow> 'c outcome"
    and wr :: "'p \<Rightarrow> 'c \<Rightarrow> 's \<Rightarrow> unit outcome \<times> 's"
    and shares :: "'p \<Rightarrow> 'p \<Rightarrow> 's \<Rightarrow> bool"
  assumes read_write: "wr p c s = (Ok (), s') \<Longrightarrow> rd p s' = Ok c"
    and read_frame: "wr p c s = (r, s') \<Longrightarrow> rd p' s = Ok c' \<Longrightarrow> \<not> shares p p' s \<Longrightarrow> rd p' s' = Ok c'"
    and shares_frame: "wr p c s = (r, s') \<Longrightarrow> shares a b s' \<Longrightarrow> rd a s = Ok x \<Longrightarrow> rd b s = Ok y \<Longrightarrow> shares a b s"
begin

text \<open>Two writes to different files are both read back.\<close>

lemma write_two:
  assumes "wr p c s = (Ok (), s1)" and "wr p' c' s1 = (Ok (), s2)" and "\<not> shares p' p s1"
  shows "rd p s2 = Ok c \<and> rd p' s2 = Ok c'"
  using assms read_write read_frame by blast

end

lemma read_put_file_alias:
  assumes "writable q w" and "same_file a b (put_file q d w)"
    and "ReadFile a w = Ok x" and "ReadFile b w = Ok y"
  shows "same_file a b w"
  using assms resolve_put_file [OF assms(1), where d = d and follow = True]
  by (fastforce simp: same_file_def ReadFile_Ok)

interpretation fstore: file_store ReadFile WriteFile same_file
proof unfold_locales
  fix p c and s s' :: "'a world_scheme"
  assume "WriteFile p c s = (Ok (), s')"
  then show "ReadFile p s' = Ok c"
    by (auto simp: WriteFile_cases read_put_same split: outcome.splits option.splits)
next
  fix p c p' c' and s s' :: "'a world_scheme" and r
  assume "WriteFile p c s = (r, s')" and "ReadFile p' s = Ok c'" and "\<not> same_file p p' s"
  then show "ReadFile p' s' = Ok c'"
    by (auto simp: WriteFile_cases read_put_other split: outcome.splits option.splits)
next
  fix p c a b x y and s s' :: "'a world_scheme" and r
  assume w: "WriteFile p c s = (r, s')" and a: "same_file a b s'"
    and rd: "ReadFile a s = Ok x" "ReadFile b s = Ok y"
  have emit: "same_file a b (emit e v) = same_file a b v" for e and v :: "'a world_scheme"
    by (simp add: same_file_def)
  show "same_file a b s"
    using w a rd read_put_file_alias [OF open_write_writable]
    by (auto simp: WriteFile_cases emit split: outcome.splits option.splits)
qed

end
