(* ===== verification/VTypes.thy ===== *)
theory VTypes
  imports OsModel GoNet
begin

text \<open>
  The data of \<^verbatim>\<open>pkg/vorteil/types.go\<close>, the machine state the components share, and the fields of
  the configuration package (\<open>vcfg\<close>, not part of the repository) the program reads.

  Pointers to programs are indices into the list of programs; Go maps are association lists in the
  order in which an iteration visits them, so a statement for all such lists is one for every
  iteration order.  The package variables (\<open>initStatus\<close>, \<open>terminateSignals\<close>, ...) and the \<open>Vinitd\<close>
  object extend the state of the operating system.
\<close>

section \<open>Enumerations\<close>

datatype status = statusSetup | statusRun | statusLaunched | statusPoweroff | statusError

datatype hypervisor = hvUnknown | hvKVM | hvVMWare | hvHyperV | hvVBox | hvXen

datatype cloud = cpUnknown | cpNone | cpGCP | cpEC2 | cpAzure

fun hypervisorStrings :: "hypervisor \<Rightarrow> string" where
  "hypervisorStrings hvUnknown = ''UNKNOWN''"
| "hypervisorStrings hvKVM = ''KVM''"
| "hypervisorStrings hvVMWare = ''VMWARE''"
| "hypervisorStrings hvHyperV = ''HYPERV''"
| "hypervisorStrings hvVBox = ''VIRTUALBOX''"
| "hypervisorStrings hvXen = ''XEN''"

fun cloudStrings :: "cloud \<Rightarrow> string" where
  "cloudStrings cpUnknown = ''UNKNOWN''"
| "cloudStrings cpNone = ''NONE''"
| "cloudStrings cpGCP = ''GCP''"
| "cloudStrings cpAzure = ''AZURE''"
| "cloudStrings cpEC2 = ''EC2''"

section \<open>Maps in iteration order\<close>

type_synonym gomap = "(string \<times> string) list"

text \<open>Assignment keeps the position of an existing key and appends a new one.\<close>

fun map_put :: "'k \<Rightarrow> 'v \<Rightarrow> ('k \<times> 'v) list \<Rightarrow> ('k \<times> 'v) list" where
  "map_put k v [] = [(k, v)]"
| "map_put k v ((k', v') # m) = (if k = k' then (k, v) # m else (k', v') # map_put k v m)"

lemma map_of_map_put [simp]: "map_of (map_put k v m) = (map_of m)(k \<mapsto> v)"
  by (induction k v m rule: map_put.induct) auto

lemma map_put_keys: "set (map fst (map_put k v m)) = insert k (set (map fst m))"
  by (induction k v m rule: map_put.induct) auto

lemma map_put_distinct [simp]: "distinct (map fst m) \<Longrightarrow> distinct (map fst (map_put k v m))"
proof (induction k v m rule: map_put.induct)
  case (2 k v k' v' m)
  then show ?case using map_put_keys [of k v m] by auto
qed simp

section \<open>Configuration\<close>

record Program =
  vp_Env :: "string list"
  vp_Cwd :: string
  vp_Stdout :: string
  vp_Stderr :: string
  vp_Strace :: bool
  vp_Privilege :: string
  vp_Bootstrap :: "string list"
  vp_LogFiles :: "string list"
  vp_Args :: string
  vp_Terminate :: string

record NetworkInterface =
  ni_IP :: string
  ni_Mask :: string
  ni_Gateway :: string
  ni_MTU :: nat
  ni_TCPDUMP :: bool
  ni_DisableTSO :: bool

record Route =
  rt_Destination :: string
  rt_Gateway :: string
  rt_Interface :: string

record NFSSettings =
  nfs_Server :: string
  nfs_MountPoint :: string
  nfs_Arguments :: string

record Logging =
  lg_Type :: string
  lg_Config :: "string list"

datatype StdoutMode =
  StdoutModeUnknown | StdoutModeStandard | StdoutModeScreenOnly | StdoutModeSerialOnly | StdoutModeDisabled

record System =
  sy_DNS :: "string list"
  sy_NTP :: "string list"
  sy_MaxFDs :: nat
  sy_StdoutMode :: StdoutMode
  sy_TerminateWait :: nat
  sy_User :: string

record VCFG =
  vc_Programs :: "Program list"
  vc_Networks :: "NetworkInterface list option"
  vc_Routing :: "Route list"
  vc_NFS :: "NFSSettings list"
  vc_Logging :: "Logging list"
  vc_Sysctl :: gomap
  vc_System :: System

section \<open>Interfaces\<close>

record net_Interface =
  if_Name :: string
  if_HardwareAddr :: "byte list"

record ifc =
  ifc_name :: string
  ifc_idx :: nat
  ifc_netIfc :: net_Interface
  ifc_addr :: "IPNet option"
  ifc_gw :: ip

section \<open>Programs\<close>

text \<open>
  \<open>os.ProcessState\<close>: the process exited with a code or was ended by a signal.  A stopped process is
  never reported because \<open>Wait\<close> does not ask for it.
\<close>

datatype ProcessState = ExitedWith nat | SignaledBy nat

primrec ps_Exited :: "ProcessState \<Rightarrow> bool" where
  "ps_Exited (ExitedWith c) = True"
| "ps_Exited (SignaledBy s) = False"

text \<open>\<open>ExitCode\<close> gives -1 for a nil state and for a process ended by a signal.\<close>

fun ExitCode :: "ProcessState option \<Rightarrow> int" where
  "ExitCode (Some (ExitedWith c)) = int c"
| "ExitCode _ = -1"

record Cmd =
  cmd_Path :: string
  cmd_Args :: "string list"
  cmd_Env :: "string list"
  cmd_Dir :: string
  cmd_Uid :: nat
  cmd_Gid :: nat
  cmd_AmbientCaps :: "nat list"
  cmd_Pid :: "nat option"
  cmd_State :: "ProcessState option"

record program =
  pr_path :: string
  pr_vcfgProg :: Program
  pr_progIndex :: nat
  pr_exitClosed :: bool
  pr_env :: "string list"
  pr_args :: "string list"
  pr_logs :: "string list"
  pr_cmd :: "Cmd option"
  pr_reaper :: bool

section \<open>The machine\<close>

record machine = world +
  initStatus :: status
  instantShutdown :: bool
  isFirecracker :: bool
  terminateSignals :: "(nat \<times> nat) list"
  terminateWait :: nat
  diskname :: string
  hostname :: string
  v_user :: string
  hv_hypervisor :: hypervisor
  hv_cloud :: cloud
  hv_envs :: gomap
  vcfg :: VCFG
  programs :: "program list"
  ifcs :: "(string \<times> ifc) list"
  v_dns :: "ip list"
  readOnly :: bool
  searchDomains :: "string list"

text \<open>
  The state before the first stage: the package variables at their initial values and the object
  \<open>New\<close> returns.
\<close>

definition zero_System :: System where
  "zero_System = \<lparr>sy_DNS = [], sy_NTP = [], sy_MaxFDs = 0, sy_StdoutMode = StdoutModeUnknown,
     sy_TerminateWait = 0, sy_User = []\<rparr>"

definition zero_VCFG :: VCFG where
  "zero_VCFG = \<lparr>vc_Programs = [], vc_Networks = None, vc_Routing = [], vc_NFS = [], vc_Logging = [],
     vc_Sysctl = [], vc_System = zero_System\<rparr>"

definition New :: "world \<Rightarrow> machine" where
  "New w = \<lparr>w_fs = w_fs w, w_deny = w_deny w, w_others = w_others w, w_clock = w_clock w,
     w_trace = w_trace w, initStatus = statusSetup, instantShutdown = False, isFirecracker = False,
     terminateSignals = [], terminateWait = 0, diskname = [], hostname = [], v_user = [],
     hv_hypervisor = hvUnknown, hv_cloud = cpUnknown, hv_envs = [], vcfg = zero_VCFG, programs = [],
     ifcs = [], v_dns = [], readOnly = False, searchDomains = []\<rparr>"

text \<open>A file tree given by a list of paths and nodes, on which nothing is refused.\<close>

definition world_of :: "(string \<times> node) list \<Rightarrow> world" where
  "world_of ns = \<lparr>w_fs = map_of (map (\<lambda>(p, n). (comps p, n)) ns), w_deny = (\<lambda>_ _. None),
     w_others = (\<lambda>_ t. t), w_clock = 0, w_trace = []\<rparr>"

text \<open>Writing and logging do not touch the package variables.\<close>

lemma emit_machine [simp]:
  "initStatus (emit e m) = initStatus m" "instantShutdown (emit e m) = instantShutdown m"
  "isFirecracker (emit e m) = isFirecracker m" "terminateSignals (emit e m) = terminateSignals m"
  "terminateWait (emit e m) = terminateWait m" "programs (emit e m) = programs m"
  "hv_envs (emit e m) = hv_envs m" "hostname (emit e m) = hostname m" "ifcs (emit e m) = ifcs m"
  by (simp_all add: emit_def)

lemma log_machine [simp]:
  "initStatus (log l f m) = initStatus m" "instantShutdown (log l f m) = instantShutdown m"
  "isFirecracker (log l f m) = isFirecracker m" "terminateSignals (log l f m) = terminateSignals m"
  "terminateWait (log l f m) = terminateWait m" "programs (log l f m) = programs m"
  "hv_envs (log l f m) = hv_envs m" "hostname (log l f m) = hostname m" "ifcs (log l f m) = ifcs m"
  by (simp_all add: log_def)

lemma put_file_machine [simp]:
  "initStatus (put_file q d m) = initStatus m" "instantShutdown (put_file q d m) = instantShutdown m"
  "isFirecracker (put_file q d m) = isFirecracker m"
  "terminateSignals (put_file q d m) = terminateSignals m"
  "terminateWait (put_file q d m) = terminateWait m" "programs (put_file q d m) = programs m"
  "hv_envs (put_file q d m) = hv_envs m" "hostname (put_file q d m) = hostname m"
  "ifcs (put_file q d m) = ifcs m"
  by (simp_all add: put_file_def)

end
