(* ===== verification/LaunchEnv.thy ===== *)
theory LaunchEnv
  imports VTypes "HOL-Library.Multiset"
begin

text \<open>
  \<^verbatim>\<open>pkg/vorteil/launch.go\<close>, first part: the pure functions that compute the environment, the
  arguments and the path of a program.  The shell-word parser is not part of the repository and
  is a parameter, \<open>parse getenv s\<close>; the order in which Go iterates over a map is the
  parameter \<open>ord\<close>.
\<close>

definition rootID :: nat where "rootID = 0"
definition userID :: nat where "userID = 1000"

section \<open>Environment\<close>

text \<open>The environment entry \<open>KEY=VALUE\<close>.\<close>

definition environString :: "string \<Rightarrow> string \<Rightarrow> string" where
  "environString k v = k @ ''='' @ v"

definition replaceString :: "string \<Rightarrow> string" where
  "replaceString k = ''$'' @ k"

type_synonym shellparser = "(string \<Rightarrow> string) \<Rightarrow> string \<Rightarrow> string list"

definition getenv :: "gomap \<Rightarrow> string \<Rightarrow> string" where
  "getenv m key = (case map_of m key of Some v \<Rightarrow> v | None \<Rightarrow> [])"

fun envs_loop :: "shellparser \<Rightarrow> gomap \<Rightarrow> string list \<Rightarrow> string list \<Rightarrow> string list" where
  "envs_loop parse em output [] = output"
| "envs_loop parse em output (s # newEnvs) =
     (case SplitN s ''='' 2 of
        [k, v] \<Rightarrow>
          (case parse (getenv em) v of
             [] \<Rightarrow> envs_loop parse em output newEnvs
           | strs \<Rightarrow> let v = Join strs '' '' in
                     envs_loop parse (map_put k v em) (output @ [environString k v]) newEnvs)
      | _ \<Rightarrow> envs_loop parse em output newEnvs)"

definition envs :: "shellparser \<Rightarrow> string list \<Rightarrow> gomap \<Rightarrow> string list" where
  "envs parse progValues hyperVisorEnvs =
     envs_loop parse [] [] (map (\<lambda>(k, v). environString k v) hyperVisorEnvs @ progValues)"

section \<open>Arguments\<close>

fun env_map :: "gomap \<Rightarrow> string list \<Rightarrow> gomap outcome" where
  "env_map ee [] = Ok ee"
| "env_map ee (s # ss) =
     (let k = SplitN s ''='' 2 in
      bind_out (idx k 1) (\<lambda>v. bind_out (idx k 0) (\<lambda>k0. env_map (map_put k0 v ee) ss)))"

definition substitute :: "gomap \<Rightarrow> string \<Rightarrow> string" where
  "substitute ee e = fold (\<lambda>(k, val) e. ReplaceAll e (replaceString k) val) ee e"

text \<open>\<open>ord i\<close> is the order of the \<open>i\<close>-th iteration over the map.\<close>

definition args :: "(nat \<Rightarrow> gomap \<Rightarrow> gomap) \<Rightarrow> string list \<Rightarrow> string list \<Rightarrow> string list outcome" where
  "args ord progArgs es =
     bind_out (env_map [] es)
       (\<lambda>ee. Ok (map (\<lambda>(i, e). substitute (ord i ee) e) (enumerate 0 progArgs)))"

section \<open>Paths\<close>

fun pick_loop :: "string \<Rightarrow> string list \<Rightarrow> string outcome" where
  "pick_loop env [] = Ok []"
| "pick_loop env (e # es) =
     (let s = SplitN e ''='' 2 in
      bind_out (idx s 0) (\<lambda>k. if k = env then idx s 1 else pick_loop env es))"

definition pickFromEnv :: "string \<Rightarrow> Program \<Rightarrow> string outcome" where
  "pickFromEnv env p = pick_loop env (vp_Env p)"

text \<open>\<open>filepath.Abs\<close>; the working directory of the init process is the root.\<close>

definition filepath_Abs :: "string \<Rightarrow> 'a world_scheme \<Rightarrow> string outcome" where
  "filepath_Abs p w =
     (if IsAbs p then Ok (Clean p)
      else case w_deny w ''getwd'' [] of Some e \<Rightarrow> Err e | None \<Rightarrow> Ok (PathJoin [''/'', p]))"

fun path_loop :: "string \<Rightarrow> string list \<Rightarrow> 'a world_scheme \<Rightarrow> string" where
  "path_loop ppath [] w = []"
| "path_loop ppath (c # cs) w =
     (if is_ok (os_Stat (PathJoin [c, ppath]) w) then PathJoin [c, ppath] else path_loop ppath cs w)"

definition calculatePath :: "string \<Rightarrow> Program \<Rightarrow> 'a world_scheme \<Rightarrow> string outcome \<times> 'a world_scheme" where
  "calculatePath ppath p w =
     (if IsAbs ppath then (Ok ppath, w)
      else if is_ok (os_Stat (PathJoin [vp_Cwd p, ppath]) w) then
        (case filepath_Abs (PathJoin [vp_Cwd p, ppath]) w of
           Ok path \<Rightarrow> (Ok path, w)
         | _ \<Rightarrow> (Ok (''/'' @ ppath), logError ''can not create path for %s, err %v'' w))
      else (bind_out (pickFromEnv ''PATH'' p) (\<lambda>v. Ok (path_loop ppath (Split v '':'') w)), w))"

section \<open>Defaults\<close>

definition defaultTTY :: string where "defaultTTY = ''/dev/vtty''"
definition defaultCWD :: string where "defaultCWD = ''/''"

definition fixDefaults :: "Program \<Rightarrow> Program" where
  "fixDefaults p =
     (let p = (if vp_Stderr p = [] then p\<lparr>vp_Stderr := defaultTTY\<rparr> else p);
          p = (if vp_Stdout p = [] then p\<lparr>vp_Stdout := defaultTTY\<rparr> else p)
      in if vp_Cwd p = [] then p\<lparr>vp_Cwd := defaultCWD\<rparr> else p)"

section \<open>Properties\<close>

text \<open>An entry is well formed when it has an equals sign.\<close>

definition is_entry :: "string \<Rightarrow> bool" where
  "is_entry s \<longleftrightarrow> CHR ''='' \<in> set s"

lemma SplitN_entry: "is_entry s \<Longrightarrow> \<exists>k v. SplitN s ''='' 2 = [k, v] \<and> s = environString k v"
  using cut_Some [of "''=''" s]
  by (auto simp: SplitN2 cut_char is_entry_def environString_def split: option.splits)

lemma SplitN_not_entry: "\<not> is_entry s \<Longrightarrow> SplitN s ''='' 2 = [s]"
  by (simp add: SplitN2 cut_char is_entry_def)

lemma is_entry_environ [simp]: "is_entry (environString k v)"
  by (simp add: is_entry_def environString_def)

lemma envs_loop_entries:
  "list_all is_entry outp \<Longrightarrow> list_all is_entry (envs_loop parse em outp ss)"
  by (induction parse em outp ss rule: envs_loop.induct)
    (auto split: list.splits simp: Let_def)

lemma env_map_total: "is_ok (env_map ee ss) = list_all is_entry ss"
proof (induction ss arbitrary: ee)
  case (Cons s ss)
  show ?case
  proof (cases "is_entry s")
    case True
    then obtain k v where "SplitN s ''='' 2 = [k, v]" using SplitN_entry by blast
    with True Cons show ?thesis by simp
  next
    case False
    then show ?thesis by (simp add: SplitN_not_entry idx_def)
  qed
qed simp

text \<open>
  C15.  Every entry \<open>envs\<close> produces has the form \<open>KEY=VALUE\<close>, whatever the parser does with the values;
  therefore \<open>args\<close> never panics on it and returns one argument per program argument.
\<close>

theorem args_of_envs:
  "list_all is_entry (envs parse progValues hv) \<and>
   (\<exists>r. args ord progArgs (envs parse progValues hv) = Ok r \<and> length r = length progArgs)"
proof -
  have entries: "list_all is_entry (envs parse progValues hv)"
    by (simp add: envs_def envs_loop_entries)
  then have "is_ok (env_map [] (envs parse progValues hv))" by (simp add: env_map_total)
  then show ?thesis
    using entries by (cases "env_map [] (envs parse progValues hv)") (simp_all add: args_def)
qed

text \<open>
  \<open>args\<close> panics exactly when an environment entry has no equals sign.
\<close>

theorem args_panics_iff:
  "is_panic (args ord progArgs es) = (\<not> list_all is_entry es)"
proof -
  have "env_map ee es \<noteq> Err x" for ee x
    by (induction ee es rule: env_map.induct) (auto simp: Let_def idx_def)
  then show ?thesis
    using env_map_total [of "[]" es] by (cases "env_map [] es") (simp_all add: args_def)
qed

section \<open>Substitution\<close>

lemma substitute_unmarked: "CHR ''$'' \<notin> set e \<Longrightarrow> substitute ee e = e"
  by (induction ee) (auto simp: substitute_def replaceString_def ReplaceAll_unmarked)

text \<open>One variable in an argument: only the entry of that variable applies.\<close>

lemma substitute_marked:
  assumes "CHR ''$'' \<notin> set a" and "CHR ''$'' \<notin> set (K @ b)" and "CHR ''$'' \<notin> set v"
  shows "\<forall>(k, x) \<in> set ee. HasPrefix (K @ b) k \<longrightarrow> k = K \<and> x = v \<Longrightarrow>
    substitute ee (a @ CHR ''$'' # K @ b) =
      (if K \<in> fst ` set ee then a @ v @ b else a @ CHR ''$'' # K @ b)"
proof (induction ee)
  case (Cons kx ee)
  obtain k x where kx: "kx = (k, x)" by (cases kx)
  have clean: "substitute ee (a @ v @ b) = a @ v @ b"
    using assms by (intro substitute_unmarked) auto
  have step: "substitute ((k, x) # ee) e = substitute ee (ReplaceAll e (CHR ''$'' # k) x)"
    for k x e
    by (simp add: substitute_def replaceString_def)
  show ?case
  proof (cases "k = K")
    case True
    then show ?thesis
      using Cons.prems assms by (auto simp: step kx ReplaceAll_marked clean)
  next
    case False
    then show ?thesis
      using Cons assms by (auto simp: step kx ReplaceAll_marked)
  qed
qed (simp add: substitute_def)

lemma env_map_distinct: "distinct (map fst ee) \<Longrightarrow> env_map ee ss = Ok r \<Longrightarrow> distinct (map fst r)"
  by (induction ee ss rule: env_map.induct) (auto simp: Let_def bind_out_Ok_iff)

text \<open>
  C14.  An argument with one variable in it gets the variable's value in its place, in whatever order
  Go iterates over the environment, provided the value has no dollar sign and no other variable's
  name starts the text after the dollar sign.
\<close>

theorem args_substitutes_variable:
  assumes order: "\<And>i m. mset (ord i m) = mset m"
    and env: "env_map [] es = Ok ee" and var: "map_of ee K = Some v"
    and plain: "CHR ''$'' \<notin> set (a @ K @ b @ v)"
    and unambiguous: "\<forall>k \<in> fst ` set ee. HasPrefix (K @ b) k \<longrightarrow> k = K"
  shows "args ord [a @ CHR ''$'' # K @ b] es = Ok [a @ v @ b]"
proof -
  have dist: "distinct (map fst ee)" using env_map_distinct [OF _ env] by simp
  have same: "set (ord 0 ee) = set ee" using order by (metis set_mset_mset)
  have "\<forall>(k, x) \<in> set (ord 0 ee). HasPrefix (K @ b) k \<longrightarrow> k = K \<and> x = v"
    using unambiguous var map_of_is_SomeI [OF dist] by (force simp: same)
  moreover have "K \<in> fst ` set (ord 0 ee)"
    using map_of_SomeD [OF var] by (force simp: same)
  ultimately have "substitute (ord 0 ee) (a @ CHR ''$'' # K @ b) = a @ v @ b"
    using substitute_marked [of a K b v "ord 0 ee"] plain by simp
  then show ?thesis by (simp add: args_def env)
qed

theorem args_substitutes_variable_witness:
  "args (\<lambda>_. rev) [''--listen='' @ CHR ''$'' # ''IP0'' @ '':80''] [''IP0=10.0.0.2'', ''HOSTNAME=vm''] =
     Ok [''--listen=10.0.0.2:80'']"
proof -
  have env: "env_map [] [''IP0=10.0.0.2'', ''HOSTNAME=vm''] = Ok [(''IP0'', ''10.0.0.2''), (''HOSTNAME'', ''vm'')]"
    by code_simp
  have "args (\<lambda>_. rev) [''--listen='' @ CHR ''$'' # ''IP0'' @ '':80''] [''IP0=10.0.0.2'', ''HOSTNAME=vm''] =
     Ok [''--listen='' @ ''10.0.0.2'' @ '':80'']"
    by (rule args_substitutes_variable [OF _ env]) simp_all
  then show ?thesis by simp
qed

text \<open>
  Without that proviso the result depends on the iteration order: with \<open>IP1\<close> and \<open>IP10\<close> both set,
  an argument \<^verbatim>\<open>$IP10\<close> becomes the value of \<open>IP10\<close> in one order and that of \<open>IP1\<close> followed by a zero
  in the other.
\<close>

theorem args_order_dependent:
  "args (\<lambda>_ m. m) [''$IP10''] [''IP1=a'', ''IP10=b''] = Ok [''a0''] \<and>
   args (\<lambda>_. rev) [''$IP10''] [''IP1=a'', ''IP10=b''] = Ok [''b'']"
proof -
  have env: "env_map [] [''IP1=a'', ''IP10=b''] = Ok [(''IP1'', ''a''), (''IP10'', ''b'')]"
    by code_simp
  have "substitute [(''IP1'', ''a''), (''IP10'', ''b'')] ''$IP10'' = ''a0''"
    "substitute [(''IP10'', ''b''), (''IP1'', ''a'')] ''$IP10'' = ''b''"
    by code_simp+
  then show ?thesis unfolding args_def env by simp
qed

section \<open>Finding the program\<close>

lemma os_Stat_empty [simp]: "\<not> is_ok (os_Stat [] w)"
  by (simp add: os_Stat_def stat_node_def resolve_def split: option.splits)

lemma path_loop_empty:
  "path_loop ppath cs w = [] \<longleftrightarrow> (\<forall>c \<in> set cs. \<not> is_ok (os_Stat (PathJoin [c, ppath]) w))"
  by (induction cs) auto

lemma Clean_nonempty [simp]: "Clean p \<noteq> []"
  by (simp add: Clean_def Let_def)

lemma filepath_Abs_nonempty: "filepath_Abs p w = Ok r \<Longrightarrow> r \<noteq> []"
  by (auto simp: filepath_Abs_def PathJoin_def split: if_splits option.splits)

text \<open>
  A program name that is not absolute is reported missing exactly when it exists neither below
  the program's working directory nor below any entry of its \<open>PATH\<close>.
\<close>

theorem calculatePath_missing_iff:
  assumes "\<not> IsAbs ppath" and "pickFromEnv ''PATH'' p = Ok v"
  shows "(fst (calculatePath ppath p w) = Ok []) =
    (\<forall>c \<in> set (vp_Cwd p # Split v '':''). \<not> is_ok (os_Stat (PathJoin [c, ppath]) w))"
  using assms filepath_Abs_nonempty [of "PathJoin [vp_Cwd p, ppath]" w]
  by (auto simp: calculatePath_def path_loop_empty split: outcome.splits)

definition plain_program :: Program where
  "plain_program = \<lparr>vp_Env = [], vp_Cwd = ''/opt'', vp_Stdout = [], vp_Stderr = [], vp_Strace = False,
     vp_Privilege = [], vp_Bootstrap = [], vp_LogFiles = [], vp_Args = [], vp_Terminate = []\<rparr>"

theorem calculatePath_missing_iff_witness:
  "fst (calculatePath ''app'' plain_program (world_of [])) = Ok []"
proof -
  have "\<not> IsAbs ''app''" by code_simp
  moreover have "pickFromEnv ''PATH'' plain_program = Ok []"
    by (simp add: pickFromEnv_def plain_program_def)
  moreover have "\<forall>c \<in> set (vp_Cwd plain_program # Split [] '':'').
      \<not> is_ok (os_Stat (PathJoin [c, ''app'']) (world_of []))"
    by code_simp
  ultimately show ?thesis using calculatePath_missing_iff by blast
qed

text \<open>Cleaning keeps a relative path relative.\<close>

lemma clean_comps_set:
  "c \<in> set (clean_comps rooted st cs) \<Longrightarrow> c \<in> set st \<or> (c \<in> set cs \<and> c \<noteq> [])"
  by (induction rooted st cs rule: clean_comps.induct) (auto split: if_splits dest: list.set_sel(2))

lemma Join_hd: "cs \<noteq> [] \<Longrightarrow> hd cs \<noteq> [] \<Longrightarrow> hd (Join cs sep) = hd (hd cs) \<and> Join cs sep \<noteq> []"
  by (cases cs; cases "tl cs") auto

lemma IsAbs_Clean: "\<not> IsAbs p \<Longrightarrow> \<not> IsAbs (Clean p)"
proof -
  assume rel: "\<not> IsAbs p"
  define cs where "cs = clean_comps False [] (Split p ''/'')"
  have "\<not> IsAbs (Join cs ''/'')"
  proof (cases cs)
    case (Cons c rest)
    have "c \<in> set (Split p ''/'')" "c \<noteq> []"
      using clean_comps_set [of c False "[]" "Split p ''/''"] by (simp_all add: cs_def [symmetric] Cons)
    then have "CHR ''/'' \<notin> set c" by (simp add: Split_def split_all_char_free)
    with \<open>c \<noteq> []\<close> Join_hd [of cs "''/''"] show ?thesis
      by (cases c; cases "Join cs ''/''") (auto simp: IsAbs_def Cons)
  qed (simp add: IsAbs_def HasPrefix_def)
  then show ?thesis
    using rel by (simp add: Clean_def Let_def cs_def IsAbs_def HasPrefix_def)
qed

text \<open>
  Without a \<open>PATH\<close> a program found only below the root directory gets a relative path, although
  the process is started by name: \<open>calculatePath\<close> looks below the single empty entry of the empty
  \<open>PATH\<close> and returns the name as it is.
\<close>

theorem calculatePath_relative:
  assumes "ppath \<noteq> []" and "\<not> IsAbs ppath" and "pickFromEnv ''PATH'' p = Ok []"
    and "\<not> is_ok (os_Stat (PathJoin [vp_Cwd p, ppath]) w)" and "is_ok (os_Stat (Clean ppath) w)"
  shows "fst (calculatePath ppath p w) = Ok (Clean ppath) \<and> \<not> IsAbs (Clean ppath)"
proof -
  have "Split [] '':'' = [[]]" by (simp add: Split_def split_all.simps)
  moreover have "PathJoin [[], ppath] = Clean ppath"
    using assms(1) by (simp add: PathJoin_def)
  ultimately show ?thesis
    using assms IsAbs_Clean [OF assms(2)] by (simp add: calculatePath_def)
qed

theorem calculatePath_relative_witness:
  "fst (calculatePath ''app'' plain_program (world_of [(''/app'', File ''ELF'')])) = Ok ''app''"
proof -
  have "''app'' \<noteq> []" "\<not> IsAbs ''app''" by code_simp+
  moreover have "pickFromEnv ''PATH'' plain_program = Ok []"
    by (simp add: pickFromEnv_def plain_program_def)
  moreover have "\<not> is_ok (os_Stat (PathJoin [vp_Cwd plain_program, ''app'']) (world_of [(''/app'', File ''ELF'')]))"
    "is_ok (os_Stat (Clean ''app'') (world_of [(''/app'', File ''ELF'')]))"
    by code_simp+
  ultimately have "fst (calculatePath ''app'' plain_program (world_of [(''/app'', File ''ELF'')])) = Ok (Clean ''app'')"
    using calculatePath_relative by blast
  moreover have "Clean ''app'' = ''app''" by code_simp
  ultimately show ?thesis by simp
qed

end
