(* ===== verification/Netlink.thy ===== *)
theory Netlink
  imports GoBinary
begin

text \<open>
  The netlink process connector of \<^verbatim>\<open>pkg/vorteil/process.go\<close>: the message structures, the
  subscription message \<open>send\<close> builds, \<open>recv\<close> with Go's \<open>syscall.ParseNetlinkMessage\<close>, and the
  decoding part of \<open>parseNetlinkMessage\<close>.
\<close>

section \<open>Structures\<close>

record NlMsghdr =
  nl_Len :: u32
  nl_Type :: u16
  nl_Flags :: u16
  nl_Seq :: u32
  nl_Pid :: u32

record CbID =
  cb_Idx :: u32
  cb_Val :: u32

record CnMsg =
  cn_ID :: CbID
  cn_Seq :: u32
  cn_Ack :: u32
  cn_Len :: u16
  cn_Flags :: u16

record ProcEventHeader =
  pe_What :: u32
  pe_CPU :: u32
  pe_Timestamp :: u64
  pe_ProcessPid :: u32
  pe_ProcessTgid :: u32

definition enc_nl :: "NlMsghdr \<Rightarrow> byte list" where
  "enc_nl h = le_enc 4 (nl_Len h) @ le_enc 2 (nl_Type h) @ le_enc 2 (nl_Flags h) @
     le_enc 4 (nl_Seq h) @ le_enc 4 (nl_Pid h)"

definition dec_nl :: "byte list \<Rightarrow> NlMsghdr" where
  "dec_nl bs = \<lparr>nl_Len = le_dec (sl 0 4 bs), nl_Type = le_dec (sl 4 2 bs), nl_Flags = le_dec (sl 6 2 bs),
     nl_Seq = le_dec (sl 8 4 bs), nl_Pid = le_dec (sl 12 4 bs)\<rparr>"

definition enc_cn :: "CnMsg \<Rightarrow> byte list" where
  "enc_cn m = le_enc 4 (cb_Idx (cn_ID m)) @ le_enc 4 (cb_Val (cn_ID m)) @ le_enc 4 (cn_Seq m) @
     le_enc 4 (cn_Ack m) @ le_enc 2 (cn_Len m) @ le_enc 2 (cn_Flags m)"

definition dec_cn :: "byte list \<Rightarrow> CnMsg" where
  "dec_cn bs = \<lparr>cn_ID = \<lparr>cb_Idx = le_dec (sl 0 4 bs), cb_Val = le_dec (sl 4 4 bs)\<rparr>,
     cn_Seq = le_dec (sl 8 4 bs), cn_Ack = le_dec (sl 12 4 bs), cn_Len = le_dec (sl 16 2 bs),
     cn_Flags = le_dec (sl 18 2 bs)\<rparr>"

definition enc_ev :: "ProcEventHeader \<Rightarrow> byte list" where
  "enc_ev h = le_enc 4 (pe_What h) @ le_enc 4 (pe_CPU h) @ le_enc 8 (pe_Timestamp h) @
     le_enc 4 (pe_ProcessPid h) @ le_enc 4 (pe_ProcessTgid h)"

definition dec_ev :: "byte list \<Rightarrow> ProcEventHeader" where
  "dec_ev bs = \<lparr>pe_What = le_dec (sl 0 4 bs), pe_CPU = le_dec (sl 4 4 bs),
     pe_Timestamp = le_dec (sl 8 8 bs), pe_ProcessPid = le_dec (sl 16 4 bs),
     pe_ProcessTgid = le_dec (sl 20 4 bs)\<rparr>"

interpretation nl: codec enc_nl dec_nl 16 "\<lambda>_. True"
  by unfold_locales (simp_all add: enc_nl_def dec_nl_def layout_rules sl_glue sl_glue_end)

interpretation cn: codec enc_cn dec_cn 20 "\<lambda>_. True"
  by unfold_locales (simp_all add: enc_cn_def dec_cn_def layout_rules sl_glue sl_glue_end)

interpretation ev: codec enc_ev dec_ev 24 "\<lambda>_. True"
  by unfold_locales (simp_all add: enc_ev_def dec_ev_def layout_rules sl_glue sl_glue_end)

section \<open>Sending the subscription\<close>

definition NLMSG_HDRLEN :: nat where "NLMSG_HDRLEN = 16"
definition NLMSG_DONE :: u16 where "NLMSG_DONE = 3"
definition cnIDXProc :: u32 where "cnIDXProc = 1"
definition cnValProc :: u32 where "cnValProc = 1"
definition procCNMCASTListen :: u32 where "procCNMCASTListen = 1"
definition procEventExit :: u32 where "procEventExit = 0x80000000"

text \<open>The bytes \<open>send\<close> hands to \<open>sendto\<close>.\<close>

definition send :: "u32 \<Rightarrow> u32 \<Rightarrow> byte list" where
  "send pid msg =
     (let header = \<lparr>nl_Len = word_of_nat (NLMSG_HDRLEN + 20 + 4), nl_Type = NLMSG_DONE, nl_Flags = 0,
                    nl_Seq = 1, nl_Pid = pid\<rparr>;
          cnMsg = \<lparr>cn_ID = \<lparr>cb_Idx = cnIDXProc, cb_Val = cnValProc\<rparr>, cn_Seq = 1, cn_Ack = 0,
                   cn_Len = 4, cn_Flags = 0\<rparr>
      in enc_nl header @ enc_cn cnMsg @ le_enc 4 msg)"

section \<open>Receiving\<close>

record NetlinkMessage =
  nm_Header :: NlMsghdr
  nm_Data :: "byte list"

definition nlmAlignOf :: "nat \<Rightarrow> nat" where
  "nlmAlignOf n = (n + 3) div 4 * 4"

lemma nlmAlignOf_ge: "n \<le> nlmAlignOf n"
  by (simp add: nlmAlignOf_def)

function ParseNetlinkMessage :: "byte list \<Rightarrow> NetlinkMessage list outcome" where
  "ParseNetlinkMessage b =
     (if length b < NLMSG_HDRLEN then Ok []
      else let h = dec_nl (take 16 b); n = unat (nl_Len h); l = nlmAlignOf n in
           if n < NLMSG_HDRLEN \<or> length b < l then Err EINVAL
           else bind_out (ParseNetlinkMessage (drop l b))
             (\<lambda>ms. Ok (\<lparr>nm_Header = h, nm_Data = sl NLMSG_HDRLEN (n - NLMSG_HDRLEN) b\<rparr> # ms)))"
  by pat_completeness auto
termination
proof (relation "measure length", simp, goal_cases)
  case (1 b x xa xb)
  then show ?case using nlmAlignOf_ge [of xa] by (auto simp: NLMSG_HDRLEN_def)
qed

declare ParseNetlinkMessage.simps [simp del]

text \<open>
  \<open>recv\<close>: \<open>from\<close> is the port id of a netlink sender (\<open>None\<close> for any other kind of address), checked
  before the error of \<open>recvfrom\<close>.
\<close>

definition recv :: "byte list \<Rightarrow> u32 option \<Rightarrow> goerr option \<Rightarrow> NetlinkMessage list outcome" where
  "recv p from err =
     (if from \<noteq> Some 0 then Err (Errorf ''can not create netlink sockaddr'')
      else case err of
        Some e \<Rightarrow> Err e
      | None \<Rightarrow> if length p < NLMSG_HDRLEN
                then Err (Errorf ''number of bytes too small, received %d bytes'')
                else ParseNetlinkMessage p)"

text \<open>
  The decoding of \<open>parseNetlinkMessage\<close>: two reads from one buffer.  A short read leaves its
  structure zero and the buffer empty.  The result says whether the message reports an exit.
\<close>

definition zero_ev :: ProcEventHeader where
  "zero_ev = \<lparr>pe_What = 0, pe_CPU = 0, pe_Timestamp = 0, pe_ProcessPid = 0, pe_ProcessTgid = 0\<rparr>"

definition is_exit_message :: "NetlinkMessage \<Rightarrow> bool" where
  "is_exit_message m =
     (if nl_Type (nm_Header m) = NLMSG_DONE
      then let buf = drop 20 (nm_Data m);
               hdr = (if length buf < 24 then zero_ev else dec_ev (take 24 buf)) in
           pe_What hdr = procEventExit
      else False)"

section \<open>Properties\<close>

text \<open>How the kernel frames messages: header, data, and padding to a multiple of four.\<close>

definition frame :: "NetlinkMessage \<Rightarrow> byte list" where
  "frame m = enc_nl (nm_Header m) @ nm_Data m @
     replicate (nlmAlignOf (16 + length (nm_Data m)) - (16 + length (nm_Data m))) 0"

definition msg_wf :: "NetlinkMessage \<Rightarrow> bool" where
  "msg_wf m \<longleftrightarrow> unat (nl_Len (nm_Header m)) = 16 + length (nm_Data m)"

lemma length_frame: "length (frame m) = nlmAlignOf (16 + length (nm_Data m))"
  using nlmAlignOf_ge [of "16 + length (nm_Data m)"] by (simp add: frame_def nl.enc_length)

lemma parse_frame:
  assumes "msg_wf m" and "ParseNetlinkMessage bs = Ok ms"
  shows "ParseNetlinkMessage (frame m @ bs) = Ok (m # ms)"
proof -
  have hdr: "dec_nl (take 16 (frame m)) = nm_Header m"
    by (simp add: frame_def nl.enc_length nl.dec_enc)
  have data: "sl 16 (length (nm_Data m)) (frame m @ bs) = nm_Data m"
    by (simp add: frame_def sl_def nl.enc_length)
  have "16 \<le> nlmAlignOf (16 + length (nm_Data m))"
    using nlmAlignOf_ge [of "16 + length (nm_Data m)"] by simp
  then show ?thesis
    using assms
    by (subst ParseNetlinkMessage.simps)
      (simp add: hdr data NLMSG_HDRLEN_def length_frame Let_def msg_wf_def)
qed

lemma recv_frames:
  assumes "list_all msg_wf ms" and "ms \<noteq> []"
  shows "recv (concat (map frame ms)) (Some 0) None = Ok ms"
proof -
  have parse: "ParseNetlinkMessage (concat (map frame ms)) = Ok ms"
    using assms(1)
  proof (induction ms)
    case Nil
    show ?case by (subst ParseNetlinkMessage.simps) (simp add: NLMSG_HDRLEN_def)
  next
    case (Cons m ms)
    then show ?case by (simp add: parse_frame)
  qed
  have "16 \<le> length (frame (hd ms))"
    using nlmAlignOf_ge [of "16 + length (nm_Data (hd ms))"] by (simp add: length_frame)
  then have "\<not> length (concat (map frame ms)) < 16"
    using assms(2) by (cases ms) simp_all
  with parse show ?thesis by (simp add: recv_def NLMSG_HDRLEN_def)
qed


text \<open>An exit event as the kernel builds it.\<close>

definition exit_event :: "u32 \<Rightarrow> CnMsg \<Rightarrow> ProcEventHeader \<Rightarrow> byte list \<Rightarrow> NetlinkMessage" where
  "exit_event pid c e rest =
     \<lparr>nm_Header = \<lparr>nl_Len = word_of_nat (60 + length rest), nl_Type = NLMSG_DONE, nl_Flags = 0,
                   nl_Seq = 0, nl_Pid = pid\<rparr>,
      nm_Data = enc_cn c @ enc_ev e @ rest\<rparr>"


text \<open>
  Of the process events framed after a connector header, exactly those whose \<open>What\<close> field is the
  exit code make \<open>parseNetlinkMessage\<close> look at the programs; a message too short to hold an event
  never does.
\<close>

theorem exit_message_iff:
  "is_exit_message (exit_event pid c e rest) = (pe_What e = procEventExit) \<and>
   (length (nm_Data m) < 44 \<longrightarrow> \<not> is_exit_message m)"
  by (auto simp: is_exit_message_def exit_event_def cn.enc_length ev.enc_length ev.dec_enc zero_ev_def
      procEventExit_def)

theorem exit_message_iff_witness:
  "is_exit_message (exit_event 1 (dec_cn (replicate 20 0)) (zero_ev\<lparr>pe_What := 0x80000000\<rparr>) []) \<and>
   \<not> is_exit_message \<lparr>nm_Header = dec_nl (replicate 16 0), nm_Data = []\<rparr>"
  using exit_message_iff [of 1 "dec_cn (replicate 20 0)" "zero_ev\<lparr>pe_What := 0x80000000\<rparr>" "[]"
      "\<lparr>nm_Header = dec_nl (replicate 16 0), nm_Data = []\<rparr>"]
  by (simp add: procEventExit_def zero_ev_def)

text \<open>
  The subscription \<open>send\<close> builds is one well-formed netlink message of 40 bytes: parsing it gives
  back a single message addressed to the process connector that carries the requested operation.
\<close>

theorem send_parses:
  "length (send pid msg) = 40 \<and>
   (\<exists>m. ParseNetlinkMessage (send pid msg) = Ok [m] \<and> nl_Pid (nm_Header m) = pid \<and>
        nl_Type (nm_Header m) = NLMSG_DONE \<and>
        cn_ID (dec_cn (take 20 (nm_Data m))) = \<lparr>cb_Idx = cnIDXProc, cb_Val = cnValProc\<rparr> \<and>
        le_dec (drop 20 (nm_Data m)) = msg \<and>
        unat (cn_Len (dec_cn (take 20 (nm_Data m)))) = length (drop 20 (nm_Data m)))"
proof -
  define h where "h = \<lparr>nl_Len = 40, nl_Type = NLMSG_DONE, nl_Flags = 0, nl_Seq = 1, nl_Pid = pid\<rparr>"
  define c where "c = \<lparr>cn_ID = \<lparr>cb_Idx = cnIDXProc, cb_Val = cnValProc\<rparr>, cn_Seq = 1, cn_Ack = 0,
    cn_Len = 4, cn_Flags = 0\<rparr>"
  define m where "m = \<lparr>nm_Header = h, nm_Data = enc_cn c @ le_enc 4 msg\<rparr>"
  have len: "length (nm_Data m) = 24" by (simp add: m_def cn.enc_length)
  have frame: "send pid msg = frame m"
    by (simp add: send_def frame_def len nlmAlignOf_def Let_def) (simp add: m_def h_def c_def NLMSG_HDRLEN_def)
  have wf: "msg_wf m" by (simp add: msg_wf_def len) (simp add: m_def h_def)
  have "ParseNetlinkMessage [] = Ok []"
    by (subst ParseNetlinkMessage.simps) (simp add: NLMSG_HDRLEN_def)
  from parse_frame [OF wf this] have "ParseNetlinkMessage (send pid msg) = Ok [m]"
    by (simp add: frame)
  moreover have "length (send pid msg) = 40"
    by (simp add: frame length_frame len nlmAlignOf_def)
  ultimately show ?thesis
    by (simp add: m_def h_def cn.enc_length cn.dec_enc) (simp add: c_def)
qed

end
