(* ===== verification/Process.thy ===== *)
theory Process
  imports VTypes Netlink
begin

text \<open>
  \<^verbatim>\<open>pkg/vorteil/process.go\<close> with \<open>bootDisk\<close> and \<open>flushDisk\<close>: killing the processes, the orderly
  shutdown, counting what still runs, and the callers that can start a shutdown (signals, the power
  button, the VMware tools, the reaper, the process connector, a fatal error).

  The process table is an answer of the operating system (\<open>sv_ps\<close>), and so is the time after which a
  program that got its termination signal has ended (\<open>sv_exit_at\<close>, in milliseconds).
\<close>

record ps_Process =
  ps_Pid :: nat
  ps_PPid :: nat
  ps_Executable :: string

record sysview =
  sv_ps :: "ps_Process list outcome"
  sv_exit_at :: "nat \<Rightarrow> nat option"

definition SIGINT :: nat where "SIGINT = 2"
definition SIGTERM :: nat where "SIGTERM = 15"
definition SIGPWR :: nat where "SIGPWR = 30"

definition REBOOT_CMD_POWER_OFF :: u32 where "REBOOT_CMD_POWER_OFF = 0x4321FEDC"
definition REBOOT_CMD_RESTART :: u32 where "REBOOT_CMD_RESTART = 0x1234567"

section \<open>Shutdown\<close>

fun kill_loop :: "ps_Process list \<Rightarrow> machine \<Rightarrow> machine" where
  "kill_loop [] m = m"
| "kill_loop (p # pl) m =
     kill_loop pl
       (if 2 < ps_Pid p \<and> 2 < ps_PPid p
        then emit (EvKill (ps_Pid p) SIGTERM) (emit (EvKill (ps_Pid p) SIGINT) m) else m)"

definition killAll :: "sysview \<Rightarrow> machine \<Rightarrow> machine" where
  "killAll env m =
     (case sv_ps env of
        Ok pl \<Rightarrow> kill_loop pl m
      | _ \<Rightarrow> logError ''can not get processes: %s'' m)"

text \<open>\<open>conf.go\<close>\<close>

definition bootDisk :: "'a world_scheme \<Rightarrow> string outcome" where
  "bootDisk w = ReadFile ''/proc/bootdev'' w"

text \<open>\<open>disk.go\<close>\<close>

definition flushDisk :: "string \<Rightarrow> 'a world_scheme \<Rightarrow> 'a world_scheme" where
  "flushDisk p w =
     (case os_Open p w of
        Ok f \<Rightarrow> emit (EvCall ''sync'' []) (emit (EvCall ''syncfs'' [p]) (emit (EvCall ''BLKFLSBUF'' [p]) w))
      | _ \<Rightarrow> w)"

text \<open>A program that is not waited for: never started, or already exited with a code.\<close>

definition prog_finished :: "program \<Rightarrow> bool" where
  "prog_finished np =
     (case pr_cmd np of
        None \<Rightarrow> True
      | Some c \<Rightarrow> cmd_Pid c = None \<or> 0 \<le> ExitCode (cmd_State c))"

definition prog_pid :: "program \<Rightarrow> nat" where
  "prog_pid np = (case pr_cmd np of Some c \<Rightarrow> (case cmd_Pid c of Some p \<Rightarrow> p | None \<Rightarrow> 0) | None \<Rightarrow> 0)"

text \<open>One goroutine of \<open>sendTerminateSignals\<close>, up to its wait.\<close>

definition signal_program :: "nat \<times> nat \<Rightarrow> machine \<Rightarrow> machine" where
  "signal_program = (\<lambda>(p, sig) m.
     let np = programs m ! p in
     if prog_finished np then m
     else let m = logAlways ''program[%d] pid[%d] - sending signal %s'' m in
          case w_deny m ''kill'' (nat_str (prog_pid np)) of
            None \<Rightarrow> emit (EvKill (prog_pid np) sig) m
          | Some e \<Rightarrow> logError ''could not send terminate signal program %v, error: %v'' m)"

definition waits_for :: "machine \<Rightarrow> nat list" where
  "waits_for m = filter (\<lambda>p. \<not> prog_finished (programs m ! p)) (map fst (terminateSignals m))"

definition sendTerminateSignals :: "sysview \<Rightarrow> machine \<Rightarrow> machine" where
  "sendTerminateSignals env m =
     (let waits = map (sv_exit_at env) (waits_for m);
          m' = fold signal_program (terminateSignals m) m in
      if list_all (\<lambda>t. case t of None \<Rightarrow> False | Some n \<Rightarrow> n \<le> terminateWait m) waits
      then logAlways ''applications terminated'' (time_Sleep (fold max (map the waits) 0) m')
      else logWarn ''could not terminate all applications before timeout''
             (time_Sleep (terminateWait m) m'))"

definition shutdown :: "sysview \<Rightarrow> u32 \<Rightarrow> machine \<Rightarrow> machine" where
  "shutdown env cmd m =
     (if initStatus m = statusPoweroff then m
      else
        let m = m\<lparr>initStatus := statusPoweroff\<rparr>;
            m = logAlways ''shutting down applications'' m;
            m = (if instantShutdown m then m else sendTerminateSignals env m);
            m = killAll env m;
            m = logAlways ''shutting down system'' m;
            m = (if isFirecracker m then m else time_Sleep 250 m);
            m = ignoring (WriteFile ''/proc/sysrq-trigger'' ''s'' m);
            m = ignoring (WriteFile ''/proc/sysrq-trigger'' ''u'' m);
            m = (case bootDisk m of
                   Ok p \<Rightarrow> flushDisk p m
                 | _ \<Rightarrow> logError ''could not get disk name: %s'' m)
        in emit (EvReboot (if isFirecracker m then REBOOT_CMD_RESTART else cmd)) m)"

text \<open>\<open>log.go\<close>\<close>

definition SystemPanic :: "sysview \<Rightarrow> string \<Rightarrow> machine \<Rightarrow> machine" where
  "SystemPanic env fmt m = shutdown env REBOOT_CMD_POWER_OFF (logError fmt m)"

section \<open>Exits\<close>

text \<open>The conditions under which \<open>handleExit\<close> counts a process of the table and a program.\<close>

definition counts_process :: "ps_Process \<Rightarrow> bool" where
  "counts_process p \<longleftrightarrow>
     2 < ps_Pid p \<and> 2 < ps_PPid p \<and> ps_Executable p \<noteq> ''chronyd'' \<and> ps_Executable p \<noteq> ''fluent-bit''"

definition counts_program :: "program \<Rightarrow> bool" where
  "counts_program p =
     (case pr_cmd p of
        None \<Rightarrow> True
      | Some c \<Rightarrow> (case cmd_State c of
                     None \<Rightarrow> \<not> pr_reaper p
                   | Some st \<Rightarrow> \<not> ps_Exited st))"

definition handleExit :: "sysview \<Rightarrow> machine \<Rightarrow> machine" where
  "handleExit env m =
     (let rpo = (case sv_ps env of Ok pl \<Rightarrow> pl | _ \<Rightarrow> []);
          count = length (filter counts_process rpo) + length (filter counts_program (programs m)) in
      if count = 0 then
        shutdown env REBOOT_CMD_POWER_OFF
          (if initStatus m \<noteq> statusPoweroff
           then (logAlways ''no programs still running'' m)\<lparr>instantShutdown := True\<rparr> else m)
      else m)"

definition parseNetlinkMessage :: "sysview \<Rightarrow> NetlinkMessage \<Rightarrow> machine \<Rightarrow> machine" where
  "parseNetlinkMessage env msg m =
     (if is_exit_message msg then handleExit env (logDebug ''remove application %d'' m) else m)"

text \<open>One round of the loop of \<open>listenToProcesses\<close>: a datagram and what came with it.\<close>

definition listen_round ::
  "sysview \<Rightarrow> byte list \<Rightarrow> u32 option \<Rightarrow> goerr option \<Rightarrow> machine \<Rightarrow> machine" where
  "listen_round env p from err m =
     (case recv p from err of
        Ok nlmessages \<Rightarrow> fold (parseNetlinkMessage env) nlmessages m
      | _ \<Rightarrow> logDebug ''error receiving netlink message: %s'' m)"

text \<open>
  The set-up of the socket and the rounds of the loop.  The answers of the kernel to the three calls are
  a parameter, and so are the datagrams it sends, each with the process table at its time.
\<close>

record sockview =
  sk_Socket :: "goerr option"
  sk_Bind :: "goerr option"
  sk_Sendto :: "goerr option"

definition listenToProcesses ::
  "sockview \<Rightarrow> u32 \<Rightarrow> (sysview \<times> byte list \<times> u32 option \<times> goerr option) list \<Rightarrow> machine \<Rightarrow> machine" where
  "listenToProcesses sk pid ds m =
     (case sk_Socket sk of
        Some e \<Rightarrow> logError ''socket for process listening failed: %s'' m
      | None \<Rightarrow>
          (case sk_Bind sk of
             Some e \<Rightarrow> logError ''bind for process listening failed: %s'' m
           | None \<Rightarrow>
               (let m = emit (EvIoctl ''Sendto'' (map uint (send pid procCNMCASTListen))) m in
                case sk_Sendto sk of
                  Some e \<Rightarrow> logError ''send for process listening failed: %s'' m
                | None \<Rightarrow> fold (\<lambda>(env, p, from, err). listen_round env p from err) ds m)))"

text \<open>\<open>vinitd.go\<close>, \<open>waitForSignal\<close>: the reaction to the signal.\<close>

definition waitForSignal :: "sysview \<Rightarrow> nat \<Rightarrow> machine \<Rightarrow> machine" where
  "waitForSignal env sig m =
     (let m = logDebug ''got signal %d'' m in
      if sig = SIGPWR then shutdown env REBOOT_CMD_POWER_OFF m else shutdown env REBOOT_CMD_RESTART m)"

text \<open>\<open>chelper.go\<close>, the two calls exported to the VMware tools.\<close>

definition RebootForTools :: "sysview \<Rightarrow> machine \<Rightarrow> machine" where
  "RebootForTools env m = shutdown env REBOOT_CMD_RESTART m"

definition ShutdownForTools :: "sysview \<Rightarrow> machine \<Rightarrow> machine" where
  "ShutdownForTools env m = shutdown env REBOOT_CMD_POWER_OFF m"

text \<open>\<open>power.go\<close>, one wake-up of \<open>listenPowerLoop\<close>: the number of events and their mask.\<close>

definition listenPowerLoop :: "sysview \<Rightarrow> nat outcome \<Rightarrow> u32 \<Rightarrow> machine \<Rightarrow> machine" where
  "listenPowerLoop env n events m =
     (case n of
        Ok k \<Rightarrow> if k = 1 \<and> events AND 1 = 1 then shutdown env REBOOT_CMD_POWER_OFF m else m
      | _ \<Rightarrow> m)"

text \<open>
  \<open>launch.go\<close>: \<open>waitForApp\<close> after \<open>Wait\<close> returned (\<open>None\<close>: the reaper took the status first), and one
  round of \<open>reapProcs\<close>.
\<close>

definition set_program :: "nat \<Rightarrow> program \<Rightarrow> machine \<Rightarrow> machine" where
  "set_program i p m = m\<lparr>programs := (programs m)[i := p]\<rparr>"

definition waitForApp :: "sysview \<Rightarrow> nat \<Rightarrow> ProcessState option \<Rightarrow> machine \<Rightarrow> machine" where
  "waitForApp env i st m =
     (let p = programs m ! i;
          p' = p\<lparr>pr_cmd := map_option (\<lambda>c. c\<lparr>cmd_State := st\<rparr>) (pr_cmd p), pr_exitClosed := True\<rparr>;
          m = logAlways ''program[%d] pid[%d] finished with %s'' m in
      handleExit env (set_program i p' m))"

fun mark_reaped :: "nat \<Rightarrow> program list \<Rightarrow> program list" where
  "mark_reaped pid [] = []"
| "mark_reaped pid (p # ps) =
     (case pr_cmd p of
        Some c \<Rightarrow> if cmd_Pid c = Some pid then p\<lparr>pr_reaper := True\<rparr> # ps else p # mark_reaped pid ps
      | None \<Rightarrow> p # mark_reaped pid ps)"

definition reapProcs :: "sysview \<Rightarrow> nat outcome \<Rightarrow> machine \<Rightarrow> machine" where
  "reapProcs env r m =
     (case r of
        Ok pid \<Rightarrow>
          let m = logDebug ''process %d finished'' m in
          handleExit env (m\<lparr>programs := mark_reaped pid (programs m)\<rparr>)
      | _ \<Rightarrow> logError ''error wait pid %s'' m)"

end
