(* ===== verification/Launch.thy ===== *)
theory Launch
  imports LaunchEnv Process
begin

text \<open>
  \<^verbatim>\<open>pkg/vorteil/launch.go\<close>, second part: the bootstrap instructions, starting one program and
  starting all of them.  What comes from outside the repository or from the outside world is the
  record \<open>launchenv\<close>: the shell-word parser, the constants and methods of the configuration package,
  the answers to process creation, HTTP and TCP requests, and the map iteration orders.

  A result is \<open>None\<close> when the code waits for ever (a file or port that never appears).
\<close>

record launchenv =
  le_parse :: shellparser
  le_SuperuserPrivilege :: string
  le_UserPrivilege :: string
  le_ProgramArgs :: "Program \<Rightarrow> string list outcome"
  le_Signal :: "string \<Rightarrow> nat outcome"
  le_start :: "Cmd \<Rightarrow> nat outcome"
  le_url :: "string \<Rightarrow> bool"
  le_http :: "string \<Rightarrow> string outcome"
  le_interface :: "string \<Rightarrow> bool"
  le_addrs :: "string \<Rightarrow> string list outcome"
  le_dial :: "string \<Rightarrow> nat \<Rightarrow> bool"
  le_ord :: "nat \<Rightarrow> gomap \<Rightarrow> gomap"

type_synonym run = "(unit outcome \<times> machine) option"

section \<open>Bootstrap instructions\<close>

partial_function (option) wait_file :: "string \<Rightarrow> nat \<Rightarrow> machine \<Rightarrow> machine option" where
  "wait_file f cnt m =
     (if is_ok (os_Stat f m) then Some m
      else wait_file f (Suc cnt)
             (time_Sleep 1000
                (if cnt mod 30 = 0 \<and> 0 < cnt
                 then logWarn ''bootstrap WAIT_FILE file %s has not appeared yet'' m else m)))"

definition bootstrapWaitForFile :: "string list \<Rightarrow> machine \<Rightarrow> machine option" where
  "bootstrapWaitForFile as m =
     (case tl as of
        [f] \<Rightarrow> wait_file f 0 m
      | _ \<Rightarrow> Some (logError ''bootstrap WAIT_FILE needs one value'' m))"

definition bootstrapGetRequest :: "launchenv \<Rightarrow> string list \<Rightarrow> machine \<Rightarrow> machine" where
  "bootstrapGetRequest env as m =
     (if length as < 3 then logError ''bootstrap WAIT_GET needs at least one url and one target file'' m
      else let m = logDebug ''get request: %s'' m in
        if \<not> le_url env (as ! 1) then logAlways ''can not parse url: %s'' m
        else case le_http env (as ! 1) of
          Ok body \<Rightarrow>
            (case MkdirAll (path_Dir (as ! 2)) m of
               (Ok _, m) \<Rightarrow>
                 (case OpenFile True True (as ! 2) m of
                    (Ok out, m) \<Rightarrow> logDebug ''got %s to %s'' (ignoring (WriteFile (as ! 2) body m))
                  | (_, m) \<Rightarrow> logAlways ''can not create file %s: %s'' m)
             | (_, m) \<Rightarrow> logAlways ''can not create dir %s: %s'' m)
        | _ \<Rightarrow> logAlways ''can not get url: %s'' m)"

definition checkIfIPV4 :: "string \<Rightarrow> string \<times> bool" where
  "checkIfIPV4 addr =
     (let s = ip_String (case ParseCIDR addr of Some (p, _) \<Rightarrow> p | None \<Rightarrow> []) in
      (s, length (filter (\<lambda>c. c = CHR '':'') s) < 2))"

fun first_ipv4 :: "string \<Rightarrow> string list \<Rightarrow> string" where
  "first_ipv4 cur [] = cur"
| "first_ipv4 cur (a # as) = (let (s, v4) = checkIfIPV4 a in if v4 then s else first_ipv4 s as)"

text \<open>\<open>listenForPort\<close>: the seconds waited and the warnings given.\<close>

partial_function (option) listenForPort ::
  "(string \<Rightarrow> nat \<Rightarrow> bool) \<Rightarrow> string \<Rightarrow> nat \<Rightarrow> nat \<Rightarrow> (nat \<times> nat) option" where
  "listenForPort dial addr cnt warns =
     (if dial addr cnt then Some (cnt, warns)
      else listenForPort dial addr (Suc cnt) (if cnt mod 30 = 0 then Suc warns else warns))"

text \<open>The goroutines of one instruction run at the same time; the slowest decides.\<close>

fun wait_ports :: "launchenv \<Rightarrow> string \<Rightarrow> string list \<Rightarrow> machine \<Rightarrow> nat \<Rightarrow> machine option" where
  "wait_ports env ip [] m longest = Some (time_Sleep (1000 * longest) m)"
| "wait_ports env ip (arg # as) m longest =
     (let m = (case Atoi arg of
                 Ok _ \<Rightarrow> m
               | _ \<Rightarrow> logError ''The value %s does not seem to be a port number'' m) in
      case listenForPort (le_dial env) (ip @ '':'' @ arg) 0 0 of
        None \<Rightarrow> None
      | Some (secs, warns) \<Rightarrow>
          wait_ports env ip as
            ((logWarn ''bootstrap WAIT_PORT tcp connection to %s has not come online'' ^^ warns) m)
            (max longest secs))"

definition bootstrapWaitForPort :: "launchenv \<Rightarrow> string list \<Rightarrow> machine \<Rightarrow> machine option" where
  "bootstrapWaitForPort env as m =
     (let as = tl as in
      if length as < 2
      then Some (logError ''bootstrap WAIT_PORT needs at least one value to listen out for'' m)
      else
        let named = Contains (as ! 0) ''if='';
            ief = (if named then Split (as ! 0) ''='' ! 1 else ''eth0'');
            k = (if named then 1 else 0) in
        if \<not> le_interface env ief
        then Some (logError ''bootstrap WAIT_PORT unable to fetch interface %s: %s'' m)
        else case le_addrs env ief of
          Ok addrs \<Rightarrow>
            wait_ports env (first_ipv4 [] addrs)
              (Split (TrimSpace (Join (drop k as) '' '')) '' '') m 0
        | _ \<Rightarrow> Some (logError ''bootstrap WAIT_PORT unable to read addresses for %s: %s'' m))"

definition bootstrapNotdefined :: "launchenv \<Rightarrow> string list \<Rightarrow> program \<Rightarrow> machine \<Rightarrow> string \<times> machine" where
  "bootstrapNotdefined env as p m =
     (case tl as of
        [k, v] \<Rightarrow>
          if list_ex (\<lambda>val. HasPrefix val (k @ ''='')) (pr_env p) then ([], m)
          else let order = le_ord env 0 (hv_envs m) in
               (environString k (substitute order v),
                fold (\<lambda>_. logDebug ''replacing %s with %s'') order m)
      | _ \<Rightarrow> ([], logError ''bootstrap DEFINE_IF_NOT_DEFINED needs two values'' m))"

fun replace_env :: "string \<Rightarrow> string list \<Rightarrow> string outcome" where
  "replace_env r [] = Ok r"
| "replace_env r (val # vals) =
     (let s = SplitN val ''='' 2 in
      bind_out (idx s 0) (\<lambda>k. bind_out (idx s 1) (\<lambda>x.
        replace_env (ReplaceAll r (replaceString k) x) vals)))"

definition bootstrapReplace :: "string list \<Rightarrow> program \<Rightarrow> machine \<Rightarrow> unit outcome \<times> machine" where
  "bootstrapReplace as p m =
     (if length (tl as) \<noteq> 3 then (Ok (), logError ''bootstrap FIND_AND_REPLACE needs two values'' m)
      else case env_map [] (tl as) of
        Panic x \<Rightarrow> (Panic x, m)
      | Err e \<Rightarrow> (Err e, m)
      | Ok kv \<Rightarrow>
          (case ReadFile (getenv kv ''file'') m of
             Ok txt \<Rightarrow>
               (case replace_env (getenv kv ''replace'') (pr_env p) of
                  Ok r \<Rightarrow> (Ok (), ignoring (WriteFile (getenv kv ''file'') (ReplaceAll txt (getenv kv ''find'') r) m))
                | Err e \<Rightarrow> (Err e, m)
                | Panic x \<Rightarrow> (Panic x, m))
           | _ \<Rightarrow> (Ok (), logWarn ''file %s does does not exist to replace text'' m)))"

text \<open>A duration in nanoseconds is a 64-bit integer; sleeping for a negative one returns at once.\<close>

definition sleep_ms :: "int \<Rightarrow> nat" where
  "sleep_ms s = nat (signed_take_bit 63 (s * 1000000) div 1000000)"

definition finish :: "machine option \<Rightarrow> run" where
  "finish r = map_option (\<lambda>m. (Ok (), m)) r"

definition define_step :: "launchenv \<Rightarrow> nat \<Rightarrow> string list \<Rightarrow> machine \<Rightarrow> unit outcome \<times> machine" where
  "define_step env i bs m =
     (let p = programs m ! i;
          (s, m) = bootstrapNotdefined env bs p m;
          m = logDebug ''bootstrap not definded: %s'' m;
          p = (if s \<noteq> [] then p\<lparr>pr_env := pr_env p @ [s]\<rparr> else p) in
      if 1 < length (pr_args p) then
        (case args (le_ord env) (tl (pr_args p)) (pr_env p) of
           Ok as \<Rightarrow> (Ok (), set_program i (p\<lparr>pr_args := as\<rparr>) m)
         | Err e \<Rightarrow> (Err e, set_program i p m)
         | Panic x \<Rightarrow> (Panic x, set_program i p m))
      else (Ok (), set_program i p m))"

definition bootstrap_one :: "launchenv \<Rightarrow> nat \<Rightarrow> string \<Rightarrow> machine \<Rightarrow> run" where
  "bootstrap_one env i b m =
     (let bs = Split b '' '' in
      if bs = [] then Some (Ok (), logError ''can not parse bootstrap %s'' m)
      else if hd bs = ''SLEEP'' then
        (case idx bs 1 of
           Ok a \<Rightarrow> (case Atoi a of
                      Ok s \<Rightarrow> Some (Ok (), time_Sleep (sleep_ms s) m)
                    | _ \<Rightarrow> Some (Ok (), logError ''can not parse sleep bootstrap %s'' m))
         | Err e \<Rightarrow> Some (Err e, m)
         | Panic x \<Rightarrow> Some (Panic x, m))
      else if hd bs = ''WAIT_FILE'' then finish (bootstrapWaitForFile bs m)
      else if hd bs = ''WAIT_PORT'' then finish (bootstrapWaitForPort env bs m)
      else if hd bs = ''GET'' then Some (Ok (), bootstrapGetRequest env bs m)
      else if hd bs = ''FIND_AND_REPLACE'' then Some (bootstrapReplace bs (programs m ! i) m)
      else if hd bs = ''DEFINE_IF_NOT_DEFINED'' then Some (define_step env i bs m)
      else Some (Ok (), logError ''unknown bootstrap command: %s'' m))"

fun bootstrap :: "launchenv \<Rightarrow> nat \<Rightarrow> string list \<Rightarrow> machine \<Rightarrow> run" where
  "bootstrap env i [] m = Some (Ok (), m)"
| "bootstrap env i (b # bs) m =
     (case bootstrap_one env i b m of
        Some (Ok _, m) \<Rightarrow> bootstrap env i bs m
      | r \<Rightarrow> r)"

section \<open>Starting a program\<close>

text \<open>The capabilities a superuser program gets, by their numbers in the kernel.\<close>

definition superuser_caps :: "nat list" where
  "superuser_caps = [0, 1, 2, 3, 15, 12, 27, 10, 13, 21]"

definition make_cmd :: "launchenv \<Rightarrow> program \<Rightarrow> Cmd" where
  "make_cmd env p =
     (let priv = vp_Privilege (pr_vcfgProg p);
          rid = (if priv = le_SuperuserPrivilege env then userID
                 else if priv = le_UserPrivilege env then userID else rootID) in
      \<lparr>cmd_Path = pr_path p, cmd_Args = pr_args p, cmd_Env = pr_env p,
       cmd_Dir = vp_Cwd (pr_vcfgProg p), cmd_Uid = rid, cmd_Gid = rid,
       cmd_AmbientCaps = (if priv = ''superuser'' then superuser_caps else []),
       cmd_Pid = None, cmd_State = None\<rparr>)"

definition strace_override :: "program \<Rightarrow> program" where
  "strace_override p =
     (if vp_Strace (pr_vcfgProg p)
      then p\<lparr>pr_args := pr_path p # pr_args p, pr_path := ''/vorteil/strace''\<rparr> else p)"

definition ensure_dir :: "string \<Rightarrow> machine \<Rightarrow> machine" where
  "ensure_dir f m =
     (if IsNotExist (os_Stat (path_Dir f) m) then ignoring (MkdirAll (path_Dir f) m) else m)"

definition launch :: "launchenv \<Rightarrow> nat \<Rightarrow> machine \<Rightarrow> unit outcome \<times> machine" where
  "launch env i m =
     (let p = programs m ! i;
          p = strace_override (p\<lparr>pr_vcfgProg := fixDefaults (pr_vcfgProg p)\<rparr>);
          cmd = make_cmd env p;
          m = logDebug ''starting as %s, uid %d'' (set_program i p m);
          m = ensure_dir (vp_Stderr (pr_vcfgProg p)) m in
      and_then (OpenFile False False (vp_Stderr (pr_vcfgProg p)) m) (\<lambda>_ m.
        let m = ensure_dir (vp_Stdout (pr_vcfgProg p)) m in
        and_then (OpenFile True False (vp_Stdout (pr_vcfgProg p)) m) (\<lambda>_ m.
          let m = set_program i (p\<lparr>pr_cmd := Some cmd\<rparr>) m in
          case le_start env cmd of
            Err e \<Rightarrow> (Err e, m)
          | Panic x \<Rightarrow> (Panic x, m)
          | Ok pid \<Rightarrow>
              (Ok (), logDebug ''started %s as pid %d''
                 (emit (EvExec (cmd_Path cmd) (cmd_Args cmd))
                   (set_program i (p\<lparr>pr_cmd := Some (cmd\<lparr>cmd_Pid := Some pid\<rparr>)\<rparr>) m))))))"

definition prepProgram :: "Program \<Rightarrow> nat \<Rightarrow> machine \<Rightarrow> machine" where
  "prepProgram p pIndex m =
     m\<lparr>programs := programs m @
        [\<lparr>pr_path = [], pr_vcfgProg = p, pr_progIndex = pIndex, pr_exitClosed = False, pr_env = [],
          pr_args = [], pr_logs = [], pr_cmd = None, pr_reaper = False\<rparr>]\<rparr>"

definition register_signal :: "launchenv \<Rightarrow> nat \<Rightarrow> Program \<Rightarrow> machine \<Rightarrow> machine" where
  "register_signal env i p m =
     (case le_Signal env (vp_Terminate p) of
        Ok sig \<Rightarrow> m\<lparr>terminateSignals := map_put i sig (terminateSignals m)\<rparr>
      | _ \<Rightarrow> (logWarn ''failed setting up terminate signal: %v. This suggests vorteil binary is out of date'' m)
               \<lparr>terminateSignals := map_put i SIGTERM (terminateSignals m)\<rparr>)"

text \<open>The error message for a program or linker that does not exist.\<close>

definition launch_error :: "string \<Rightarrow> goerr \<Rightarrow> machine \<Rightarrow> goerr" where
  "launch_error path e m =
     (if e = ErrNotExist
      then if is_ok (os_Stat path m) then Errorf (''ld linker missing for '' @ path)
           else Errorf (path @ '' application missing'')
      else e)"

definition start_prepared :: "launchenv \<Rightarrow> nat \<Rightarrow> Program \<Rightarrow> machine \<Rightarrow> run" where
  "start_prepared env i p m =
     (case bootstrap env i (vp_Bootstrap p) (logDebug ''launching %s'' m) of
        None \<Rightarrow> None
      | Some (Panic x, m) \<Rightarrow> Some (Panic x, m)
      | Some (_, m) \<Rightarrow>
          (case launch env i (logDebug ''launch envs %v'' (logDebug ''launch args %v'' m)) of
             (Ok _, m) \<Rightarrow> Some (Ok (), register_signal env i p m)
           | (Err e, m) \<Rightarrow> Some (Err (launch_error (pr_path (programs m ! i)) e m), m)
           | (Panic x, m) \<Rightarrow> Some (Panic x, m)))"

definition launchProgram :: "launchenv \<Rightarrow> nat \<Rightarrow> machine \<Rightarrow> run" where
  "launchProgram env i m =
     (let np = programs m ! i;
          p = pr_vcfgProg np;
          np = np\<lparr>pr_env := envs (le_parse env) (vp_Env p) (le_ord env 0 (hv_envs m))\<rparr>;
          m = set_program i np m in
      case le_ProgramArgs env p of
        Err e \<Rightarrow> Some (Err e, m)
      | Panic x \<Rightarrow> Some (Panic x, m)
      | Ok [] \<Rightarrow> Some (Panic SliceBounds, m)
      | Ok (a0 # rest) \<Rightarrow>
          (case args (le_ord env) rest (pr_env np) of
             Err e \<Rightarrow> Some (Err e, m)
           | Panic x \<Rightarrow> Some (Panic x, m)
           | Ok as \<Rightarrow>
               let m = set_program i (np\<lparr>pr_args := as\<rparr>) m in
               (case calculatePath a0 p m of
                  (Err e, m) \<Rightarrow> Some (Err e, m)
                | (Panic x, m) \<Rightarrow> Some (Panic x, m)
                | (Ok path, m) \<Rightarrow>
                    let m = set_program i (np\<lparr>pr_args := as, pr_path := path\<rparr>) m in
                    if path = []
                    then Some (Err (Errorf (''program '' @ a0 @ '' can not be found'')),
                               logError ''application %s (%s) does not exist'' m)
                    else start_prepared env i p m)))"

text \<open>
  \<open>Launch\<close>.  Every program has its goroutine, which counts the wait group down once its program is started
  or its error received; \<open>wg\<close> is the counter, set to the number of configured programs.  There is a goroutine for every prepared program; they run in some order
  \<open>ord\<close>.  The first error is received, the machine shut down and the status set; the goroutines that come
  later go on all the same, and an error of one of them waits for a receiver for ever.
\<close>

definition launch_start :: "machine \<Rightarrow> machine" where
  "launch_start m =
     emit (EvCall ''go'' [''listenToProcesses'']) (emit (EvCall ''go'' [''reapProcs'']) (logDebug ''starting %d programs'' m))"

definition launched :: "machine \<Rightarrow> machine" where
  "launched m = (logDebug ''all apps started'' m)\<lparr>initStatus := statusLaunched\<rparr>"

fun launch_late :: "launchenv \<Rightarrow> nat list \<Rightarrow> nat \<Rightarrow> machine \<Rightarrow> unit outcome \<times> machine" where
  "launch_late env [] wg m = (Ok (), m)"
| "launch_late env (i # is) wg m =
     (case launchProgram env i m of
        None \<Rightarrow> launch_late env is wg m
      | Some (Ok _, m) \<Rightarrow> if wg = 0 then (Panic NegativeWaitGroup, m) else launch_late env is (wg - 1) m
      | Some (Err e, m) \<Rightarrow> launch_late env is wg m
      | Some (Panic x, m) \<Rightarrow> (Panic x, m))"

fun launch_all :: "launchenv \<Rightarrow> sysview \<Rightarrow> nat list \<Rightarrow> nat \<Rightarrow> machine \<Rightarrow> run" where
  "launch_all env sv [] wg m = (if wg = 0 then Some (Ok (), launched m) else None)"
| "launch_all env sv (i # is) wg m =
     (case launchProgram env i m of
        None \<Rightarrow> launch_all env sv is wg m
      | Some (Ok _, m) \<Rightarrow> if wg = 0 then Some (Panic NegativeWaitGroup, m) else launch_all env sv is (wg - 1) m
      | Some (Err e, m) \<Rightarrow>
          if wg = 0 then Some (Panic NegativeWaitGroup, m)
          else Some (launch_late env is (wg - 1) (launched (SystemPanic sv ''starting program failed: %s'' m)))
      | Some (Panic x, m) \<Rightarrow> Some (Panic x, m))"

definition Launch :: "launchenv \<Rightarrow> sysview \<Rightarrow> nat list \<Rightarrow> machine \<Rightarrow> run" where
  "Launch env sv ord m =
     launch_all env sv (filter (\<lambda>i. i < length (programs m)) ord) (length (vc_Programs (vcfg m))) (launch_start m)"

end
