(* ===== verification/ShutdownSpec.thy ===== *)
theory ShutdownSpec
  imports Process
begin

text \<open>
  What the shutdown promises: a one-shot latch (locale \<open>latch\<close>, interpreted on \<open>shutdown\<close>), the
  reachable states of the event handlers, the events of one shutdown and its duration.
\<close>

section \<open>A one-shot latch\<close>

locale latch =
  fixes fire :: "'e \<Rightarrow> 's \<Rightarrow> 's"
    and fired :: "'s \<Rightarrow> bool"
    and shots :: "'s \<Rightarrow> nat"
  assumes fire_again: "fired s \<Longrightarrow> fire e s = s"
    and fire_first: "\<not> fired s \<Longrightarrow> fired (fire e s) \<and> shots (fire e s) = Suc (shots s)"
begin

text \<open>The invariant: nothing fired yet, or exactly one shot.\<close>

definition once :: "'s \<Rightarrow> bool" where
  "once s \<longleftrightarrow> shots s = (if fired s then 1 else 0)"

lemma once_fire: "once s \<Longrightarrow> once (fire e s)"
  using fire_again fire_first by (cases "fired s") (simp_all add: once_def)

lemma once_quiet: "once s \<Longrightarrow> fired s' = fired s \<Longrightarrow> shots s' = shots s \<Longrightarrow> once s'"
  by (simp add: once_def)

lemma fold_fire: "once s \<Longrightarrow> es \<noteq> [] \<Longrightarrow> shots (fold fire es s) = 1 \<and> fired (fold fire es s)"
proof (induction es arbitrary: s)
  case (Cons e es)
  have f: "fired (fire e s)" using fire_again fire_first by (cases "fired s") simp_all
  have "fold fire es t = t" if "fired t" for t
    using that fire_again by (induction es arbitrary: t) simp_all
  with f once_fire [OF Cons.prems(1), of e] show ?case by (simp add: once_def)
qed simp

end

section \<open>What the steps of a shutdown keep\<close>

definition is_reboot :: "event \<Rightarrow> bool" where
  "is_reboot e = (case e of EvReboot c \<Rightarrow> True | _ \<Rightarrow> False)"

definition reboots :: "machine \<Rightarrow> nat" where
  "reboots m = length (filter is_reboot (w_trace m))"

text \<open>The part of the state that decides about a shutdown.\<close>

definition core :: "machine \<Rightarrow> status \<times> bool \<times> nat" where
  "core m = (initStatus m, isFirecracker m, reboots m)"

lemma core_iff:
  "core m = core n \<longleftrightarrow>
     initStatus m = initStatus n \<and> isFirecracker m = isFirecracker n \<and> reboots m = reboots n"
  by (simp add: core_def)

lemma core_emit [simp]: "\<not> is_reboot e \<Longrightarrow> core (emit e m) = core m"
  by (simp add: core_def reboots_def)

lemma core_log [simp]: "core (log l f m) = core m"
  by (simp add: log_def is_reboot_def)

lemma core_put_file [simp]: "core (put_file q d m) = core m"
  by (simp add: core_def reboots_def)

lemma core_WriteFile [simp]: "core (snd (WriteFile p d m)) = core m"
  by (simp add: WriteFile_cases is_reboot_def split: outcome.splits option.splits)

lemma core_time_Sleep [simp]: "core (time_Sleep n m) = core m"
  by (simp add: core_def time_Sleep_def reboots_def is_reboot_def)

lemma core_kill_loop [simp]: "core (kill_loop pl m) = core m"
  by (induction pl m rule: kill_loop.induct) (simp_all add: is_reboot_def)

lemma core_killAll [simp]: "core (killAll env m) = core m"
  by (simp add: killAll_def split: outcome.splits)

lemma core_flushDisk [simp]: "core (flushDisk p m) = core m"
  by (simp add: flushDisk_def is_reboot_def split: outcome.splits)

lemma core_signal_program [simp]: "core (signal_program ps m) = core m"
  by (simp add: signal_program_def Let_def is_reboot_def split: prod.splits option.splits)

lemma core_fold_signal [simp]: "core (fold signal_program ts m) = core m"
  by (induction ts arbitrary: m) simp_all

lemma core_sendTerminateSignals [simp]: "core (sendTerminateSignals env m) = core m"
  by (simp add: sendTerminateSignals_def Let_def)

lemmas core_simps = core_emit core_log core_put_file core_WriteFile core_time_Sleep core_killAll
  core_flushDisk core_sendTerminateSignals

text \<open>The body of a first shutdown, up to the reboot call.\<close>

definition wind_down :: "sysview \<Rightarrow> machine \<Rightarrow> machine" where
  "wind_down env m =
     (let m = m\<lparr>initStatus := statusPoweroff\<rparr>;
          m = logAlways ''shutting down applications'' m;
          m = (if instantShutdown m then m else sendTerminateSignals env m);
          m = killAll env m;
          m = logAlways ''shutting down system'' m;
          m = (if isFirecracker m then m else time_Sleep 250 m);
          m = ignoring (WriteFile ''/proc/sysrq-trigger'' ''s'' m);
          m = ignoring (WriteFile ''/proc/sysrq-trigger'' ''u'' m)
      in (case bootDisk m of
            Ok p \<Rightarrow> flushDisk p m
          | _ \<Rightarrow> logError ''could not get disk name: %s'' m))"

lemma shutdown_eq:
  "shutdown env cmd m =
     (if initStatus m = statusPoweroff then m
      else emit (EvReboot (if isFirecracker (wind_down env m) then REBOOT_CMD_RESTART else cmd))
             (wind_down env m))"
  unfolding shutdown_def wind_down_def Let_def by (rule refl)

lemma core_wind_down: "core (wind_down env m) = (statusPoweroff, isFirecracker m, reboots m)"
proof -
  have "core (wind_down env m) = core (m\<lparr>initStatus := statusPoweroff\<rparr>)"
    by (simp add: wind_down_def Let_def ignoring_def split: outcome.splits)
  then show ?thesis by (simp add: core_def reboots_def)
qed

lemma shutdown_last:
  "initStatus m \<noteq> statusPoweroff \<Longrightarrow>
     w_trace (shutdown env cmd m) = w_trace (wind_down env m) @
       [EvReboot (if isFirecracker m then REBOOT_CMD_RESTART else cmd)]"
  using core_wind_down [of env m] by (simp add: shutdown_eq core_def)

lemma shutdown_first:
  "initStatus m \<noteq> statusPoweroff \<Longrightarrow>
   initStatus (shutdown env cmd m) = statusPoweroff \<and> reboots (shutdown env cmd m) = Suc (reboots m)"
  using core_wind_down [of env m] by (simp add: shutdown_eq core_def reboots_def is_reboot_def)

interpretation sd: latch "\<lambda>(env, cmd). shutdown env cmd" "\<lambda>m. initStatus m = statusPoweroff" reboots
proof unfold_locales
  fix s :: machine and e :: "sysview \<times> u32"
  show "(case e of (env, cmd) \<Rightarrow> shutdown env cmd) s = s" if "initStatus s = statusPoweroff"
    using that by (cases e) (simp add: shutdown_eq)
  show "initStatus ((case e of (env, cmd) \<Rightarrow> shutdown env cmd) s) = statusPoweroff \<and>
      reboots ((case e of (env, cmd) \<Rightarrow> shutdown env cmd) s) = Suc (reboots s)"
    if "initStatus s \<noteq> statusPoweroff"
    using that by (cases e) (simp add: shutdown_first)
qed

section \<open>Reachable states\<close>

text \<open>
  The handlers that run once the programs are launched, each with any answer of the operating
  system: signals, power button, VMware tools, fatal errors, the process connector, the reaper, the
  end of a program, and the start of one.  A handler is one step; the last section looks inside.
\<close>

definition start_program :: "nat \<Rightarrow> Cmd \<Rightarrow> machine \<Rightarrow> machine" where
  "start_program i c m = set_program i ((programs m ! i)\<lparr>pr_cmd := Some c\<rparr>) m"

inductive handler_step :: "machine \<Rightarrow> machine \<Rightarrow> bool" where
  signal: "handler_step m (waitForSignal env sig m)"
| power_button: "handler_step m (listenPowerLoop env n events m)"
| tools_reboot: "handler_step m (RebootForTools env m)"
| tools_shutdown: "handler_step m (ShutdownForTools env m)"
| system_panic: "handler_step m (SystemPanic env fmt m)"
| connector: "handler_step m (listen_round env p from err m)"
| reaper: "handler_step m (reapProcs env r m)"
| app_ended: "i < length (programs m) \<Longrightarrow> handler_step m (waitForApp env i st m)"
| app_started: "i < length (programs m) \<Longrightarrow> handler_step m (start_program i c m)"

inductive_cases handler_stepE: "handler_step m m'"

abbreviation handler_steps :: "machine \<Rightarrow> machine \<Rightarrow> bool" where
  "handler_steps \<equiv> handler_step\<^sup>*\<^sup>*"

lemma once_core: "sd.once m \<Longrightarrow> core m' = core m \<Longrightarrow> sd.once m'"
  by (auto simp: core_iff intro: sd.once_quiet)

lemma once_shutdown: "sd.once m \<Longrightarrow> sd.once (shutdown env cmd m)"
  using sd.once_fire [of m "(env, cmd)"] by simp

lemma core_updates [simp]:
  "core (m\<lparr>instantShutdown := b\<rparr>) = core m" "core (m\<lparr>programs := ps\<rparr>) = core m"
  "core (set_program i p m) = core m"
  by (simp_all add: core_def reboots_def set_program_def)

lemma once_handleExit: "sd.once m \<Longrightarrow> sd.once (handleExit env m)"
  by (auto simp: handleExit_def Let_def intro!: once_shutdown intro: once_core)

lemma once_parse: "sd.once m \<Longrightarrow> sd.once (parseNetlinkMessage env msg m)"
  by (auto simp: parseNetlinkMessage_def intro!: once_handleExit intro: once_core)

lemma once_fold_parse: "sd.once m \<Longrightarrow> sd.once (fold (parseNetlinkMessage env) ms m)"
  by (induction ms arbitrary: m) (simp_all add: once_parse)

lemma once_log: "sd.once m \<Longrightarrow> sd.once (log l f m)"
  by (erule once_core) simp

lemmas handler_defs = waitForSignal_def listenPowerLoop_def RebootForTools_def ShutdownForTools_def
  SystemPanic_def listen_round_def reapProcs_def waitForApp_def start_program_def

lemma once_step: "handler_step m m' \<Longrightarrow> sd.once m \<Longrightarrow> sd.once m'"
proof (induction rule: handler_step.induct)
  case (reaper m env r)
  then show ?case
    by (auto simp: reapProcs_def Let_def split: outcome.splits
        intro!: once_handleExit once_log intro: once_core)
next
  case (app_ended i m env st)
  then show ?case
    by (auto simp: waitForApp_def Let_def intro!: once_handleExit intro: once_core)
next
  case (app_started i m c)
  then show ?case by (auto simp: start_program_def intro: once_core)
qed (auto simp: handler_defs Let_def split: outcome.splits
      intro!: once_shutdown once_fold_parse once_log)


definition quiet_system :: sysview where
  "quiet_system = \<lparr>sv_ps = Ok [], sv_exit_at = (\<lambda>_. None)\<rparr>"


section \<open>One shutdown\<close>

text \<open>How long the steps take.\<close>

lemma clock_kill_loop [simp]: "w_clock (kill_loop pl m) = w_clock m"
  by (induction pl m rule: kill_loop.induct) simp_all

lemma clock_killAll [simp]: "w_clock (killAll env m) = w_clock m"
  by (simp add: killAll_def split: outcome.splits)

lemma clock_WriteFile [simp]: "w_clock (snd (WriteFile p d w)) = w_clock w"
  by (simp add: WriteFile_cases split: outcome.splits option.splits)

lemma clock_flushDisk [simp]: "w_clock (flushDisk p w) = w_clock w"
  by (simp add: flushDisk_def split: outcome.splits)

lemma clock_time_Sleep [simp]: "w_clock (time_Sleep n w) = w_clock w + n"
  by (simp add: time_Sleep_def)

lemma clock_signal_program [simp]: "w_clock (signal_program ps m) = w_clock m"
  by (simp add: signal_program_def Let_def split: prod.splits option.splits)

lemma clock_fold_signal [simp]: "w_clock (fold signal_program ts m) = w_clock m"
  by (induction ts arbitrary: m) simp_all

lemma fold_max_le: "a \<le> k \<Longrightarrow> \<forall>x \<in> set xs. x \<le> k \<Longrightarrow> fold max xs a \<le> (k :: nat)"
  by (induction xs arbitrary: a) auto

lemma clock_sendTerminateSignals:
  "w_clock (sendTerminateSignals env m) \<le> w_clock m + terminateWait m"
  by (auto simp: sendTerminateSignals_def Let_def list_all_iff intro!: fold_max_le split: option.splits)

text \<open>The two halves of \<open>wind_down\<close>: ending the applications, then the system.\<close>

definition apps_down :: "sysview \<Rightarrow> machine \<Rightarrow> machine" where
  "apps_down env m =
     (let m = logAlways ''shutting down applications'' (m\<lparr>initStatus := statusPoweroff\<rparr>)
      in killAll env (if instantShutdown m then m else sendTerminateSignals env m))"

definition system_down :: "machine \<Rightarrow> machine" where
  "system_down m =
     (let m = logAlways ''shutting down system'' m;
          m = (if isFirecracker m then m else time_Sleep 250 m);
          m = ignoring (WriteFile ''/proc/sysrq-trigger'' ''s'' m);
          m = ignoring (WriteFile ''/proc/sysrq-trigger'' ''u'' m)
      in (case bootDisk m of
            Ok p \<Rightarrow> flushDisk p m
          | _ \<Rightarrow> logError ''could not get disk name: %s'' m))"

lemma wind_down_eq: "wind_down env m = system_down (apps_down env m)"
  unfolding wind_down_def system_down_def apps_down_def Let_def by (rule refl)

lemma clock_system_down: "w_clock (system_down m) \<le> w_clock m + 250"
  by (simp add: system_down_def Let_def ignoring_def split: outcome.splits)

lemma clock_apps_down: "w_clock (apps_down env m) \<le> w_clock m + terminateWait m"
  using clock_sendTerminateSignals
    [of env "logAlways ''shutting down applications'' (m\<lparr>initStatus := statusPoweroff\<rparr>)"]
  by (simp add: apps_down_def Let_def)

lemma clock_wind_down: "w_clock (wind_down env m) \<le> w_clock m + terminateWait m + 250"
  using clock_system_down [of "apps_down env m"] clock_apps_down [of env m] by (simp add: wind_down_eq)

text \<open>
  C11.  A first shutdown takes at most the configured termination wait plus 250 milliseconds, and its
  last action is the reboot call: the command asked for, or a restart under Firecracker.
\<close>

theorem shutdown_bounded_and_final:
  assumes "initStatus m \<noteq> statusPoweroff"
  shows "w_clock (shutdown env cmd m) \<le> w_clock m + terminateWait m + 250 \<and>
    last (w_trace (shutdown env cmd m)) =
      EvReboot (if isFirecracker m then REBOOT_CMD_RESTART else cmd)"
  using assms clock_wind_down [of env m] core_wind_down [of env m]
  by (auto simp: shutdown_eq core_def)

theorem shutdown_bounded_and_final_witness:
  "last (w_trace (shutdown quiet_system REBOOT_CMD_POWER_OFF (New (world_of [])))) =
     EvReboot REBOOT_CMD_POWER_OFF"
  using shutdown_bounded_and_final
    [of "New (world_of [])" quiet_system REBOOT_CMD_POWER_OFF]
  by (simp add: New_def)

text \<open>The signals sent, in order.\<close>

definition is_kill :: "event \<Rightarrow> bool" where
  "is_kill e = (case e of EvKill p s \<Rightarrow> True | _ \<Rightarrow> False)"

definition kills :: "machine \<Rightarrow> event list" where
  "kills m = filter is_kill (w_trace m)"

definition table_kills :: "ps_Process list \<Rightarrow> event list" where
  "table_kills pl =
     concat (map (\<lambda>p. [EvKill (ps_Pid p) SIGINT, EvKill (ps_Pid p) SIGTERM])
       (filter (\<lambda>p. 2 < ps_Pid p \<and> 2 < ps_PPid p) pl))"

definition program_kills :: "machine \<Rightarrow> event list" where
  "program_kills m =
     map (\<lambda>(p, sig). EvKill (prog_pid (programs m ! p)) sig)
       (filter (\<lambda>(p, sig). \<not> prog_finished (programs m ! p) \<and>
                  w_deny m ''kill'' (nat_str (prog_pid (programs m ! p))) = None)
         (terminateSignals m))"

lemma kills_emit: "kills (emit e m) = kills m @ (if is_kill e then [e] else [])"
  by (simp add: kills_def)

lemma kills_log [simp]: "kills (log l f m) = kills m"
  by (simp add: log_def kills_emit is_kill_def)

lemma kills_time_Sleep [simp]: "kills (time_Sleep n m) = kills m"
  by (simp add: kills_def time_Sleep_def is_kill_def)

lemma kills_WriteFile [simp]: "kills (snd (WriteFile p d m)) = kills m"
  by (simp add: WriteFile_cases kills_def is_kill_def split: outcome.splits option.splits)

lemma kills_flushDisk [simp]: "kills (flushDisk p m) = kills m"
  by (simp add: flushDisk_def kills_emit is_kill_def split: outcome.splits)

lemma kills_kill_loop: "kills (kill_loop pl m) = kills m @ table_kills pl"
  by (induction pl m rule: kill_loop.induct) (simp_all add: kills_emit is_kill_def table_kills_def)

lemma signal_program_frame [simp]:
  "programs (signal_program ps m) = programs m" "w_deny (signal_program ps m) = w_deny m"
  "terminateSignals (signal_program ps m) = terminateSignals m"
  by (simp_all add: signal_program_def Let_def split: prod.splits option.splits)

lemma kills_fold_signal:
  "kills (fold signal_program ts m) = kills m @ program_kills (m\<lparr>terminateSignals := ts\<rparr>)"
proof (induction ts arbitrary: m)
  case (Cons t ts)
  have "kills (signal_program t m) = kills m @ program_kills (m\<lparr>terminateSignals := [t]\<rparr>)"
    by (auto simp: signal_program_def Let_def program_kills_def kills_emit is_kill_def
        split: prod.splits option.splits)
  with Cons show ?case by (simp add: program_kills_def)
qed (simp add: program_kills_def)

lemma kills_sendTerminateSignals [simp]:
  "kills (sendTerminateSignals env m) = kills m @ program_kills m"
  by (simp add: sendTerminateSignals_def Let_def kills_fold_signal)

lemma kills_shutdown:
  assumes "initStatus m \<noteq> statusPoweroff"
  shows "kills (shutdown env cmd m) =
    kills m @ (if instantShutdown m then [] else program_kills m) @
    (case sv_ps env of Ok pl \<Rightarrow> table_kills pl | _ \<Rightarrow> [])"
proof -
  have sys: "kills (system_down n) = kills n" for n
    by (simp add: system_down_def Let_def ignoring_def split: outcome.splits)
  have upd: "kills (m\<lparr>initStatus := st\<rparr>) = kills m" "program_kills (log l f (m\<lparr>initStatus := st\<rparr>)) = program_kills m"
    for st l f by (simp_all add: kills_def program_kills_def)
  have "kills (apps_down env m) =
    kills m @ (if instantShutdown m then [] else program_kills m) @
    (case sv_ps env of Ok pl \<Rightarrow> table_kills pl | _ \<Rightarrow> [])"
    by (simp add: apps_down_def Let_def killAll_def kills_kill_loop upd split: outcome.splits)
  then show ?thesis
    using assms by (simp add: shutdown_eq wind_down_eq kills_emit is_kill_def sys)
qed



section \<open>When the machine stops by itself\<close>

definition something_runs :: "sysview \<Rightarrow> machine \<Rightarrow> bool" where
  "something_runs env m \<longleftrightarrow>
     (\<exists>pl. sv_ps env = Ok pl \<and> list_ex counts_process pl) \<or> list_ex counts_program (programs m)"

lemma count_zero:
  "(length (filter counts_process (case sv_ps env of Ok pl \<Rightarrow> pl | _ \<Rightarrow> [])) +
    length (filter counts_program (programs m)) = 0) = (\<not> something_runs env m)"
  by (cases "sv_ps env") (auto simp: something_runs_def list_ex_iff filter_empty_conv)

lemma handleExit_eq:
  "handleExit env m =
     (if something_runs env m then m
      else shutdown env REBOOT_CMD_POWER_OFF
             (if initStatus m \<noteq> statusPoweroff
              then (logAlways ''no programs still running'' m)\<lparr>instantShutdown := True\<rparr> else m))"
  unfolding handleExit_def Let_def count_zero by simp



text \<open>
  A program that was ended by a signal counts as running for ever: \<open>Exited\<close> is false for it, so
  whatever else has ended, no exit event makes the machine power off.
\<close>

theorem signaled_program_keeps_running:
  assumes "i < length (programs m)" and "pr_cmd (programs m ! i) = Some c"
    and "cmd_State c = Some (SignaledBy s)"
  shows "handleExit env m = m"
proof -
  have "counts_program (programs m ! i)"
    using assms by (simp add: counts_program_def)
  then have "something_runs env m"
    using assms(1) by (auto simp: something_runs_def list_ex_iff)
  then show ?thesis by (simp add: handleExit_eq)
qed

definition segfaulted :: program where
  "segfaulted = \<lparr>pr_path = ''/app'', pr_vcfgProg =
       \<lparr>vp_Env = [], vp_Cwd = ''/'', vp_Stdout = [], vp_Stderr = [], vp_Strace = False,
        vp_Privilege = [], vp_Bootstrap = [], vp_LogFiles = [], vp_Args = ''/app'', vp_Terminate = []\<rparr>,
     pr_progIndex = 0, pr_exitClosed = True, pr_env = [], pr_args = [], pr_logs = [],
     pr_cmd = Some \<lparr>cmd_Path = ''/app'', cmd_Args = [], cmd_Env = [], cmd_Dir = ''/'', cmd_Uid = 0,
       cmd_Gid = 0, cmd_AmbientCaps = [], cmd_Pid = Some 40, cmd_State = Some (SignaledBy 11)\<rparr>,
     pr_reaper = True\<rparr>"

theorem signaled_program_keeps_running_witness:
  "handleExit quiet_system ((New (world_of []))\<lparr>programs := [segfaulted]\<rparr>) =
     (New (world_of []))\<lparr>programs := [segfaulted]\<rparr>"
  by (rule signaled_program_keeps_running [of 0 _ "the (pr_cmd segfaulted)" 11])
    (simp_all add: segfaulted_def)

section \<open>The race inside the latch\<close>

text \<open>
  \<open>shutdown\<close> reads \<open>initStatus\<close>, and sets it in a later statement, without a lock.  Goroutines that
  call it at the same time are threads that check, then set, then reboot.
\<close>

datatype sd_pc = SdEntry | SdPassed | SdSet | SdReturned

record sd_state =
  sd_status :: status
  sd_reboots :: nat
  sd_threads :: "sd_pc list"

inductive sd_step :: "sd_state \<Rightarrow> sd_state \<Rightarrow> bool" where
  check_pass: "i < length (sd_threads s) \<Longrightarrow> sd_threads s ! i = SdEntry \<Longrightarrow>
     sd_status s \<noteq> statusPoweroff \<Longrightarrow> sd_step s (s\<lparr>sd_threads := (sd_threads s)[i := SdPassed]\<rparr>)"
| check_fail: "i < length (sd_threads s) \<Longrightarrow> sd_threads s ! i = SdEntry \<Longrightarrow>
     sd_status s = statusPoweroff \<Longrightarrow> sd_step s (s\<lparr>sd_threads := (sd_threads s)[i := SdReturned]\<rparr>)"
| set_status: "i < length (sd_threads s) \<Longrightarrow> sd_threads s ! i = SdPassed \<Longrightarrow>
     sd_step s (s\<lparr>sd_status := statusPoweroff, sd_threads := (sd_threads s)[i := SdSet]\<rparr>)"
| reboot: "i < length (sd_threads s) \<Longrightarrow> sd_threads s ! i = SdSet \<Longrightarrow>
     sd_step s (s\<lparr>sd_reboots := Suc (sd_reboots s), sd_threads := (sd_threads s)[i := SdReturned]\<rparr>)"

definition sd_init :: "nat \<Rightarrow> sd_state" where
  "sd_init n = \<lparr>sd_status = statusRun, sd_reboots = 0, sd_threads = replicate n SdEntry\<rparr>"

text \<open>
  Two goroutines that enter \<open>shutdown\<close> at the same time can both pass the status check and both
  make the reboot call: the check and the assignment are not one atomic step.
\<close>

theorem concurrent_shutdown_races:
  "\<exists>s. sd_step\<^sup>*\<^sup>* (sd_init 2) s \<and> sd_reboots s = 2"
proof -
  define st where "st = (\<lambda>x r a b. \<lparr>sd_status = x, sd_reboots = r, sd_threads = [a, b]\<rparr>)"
  have start: "sd_init 2 = st statusRun 0 SdEntry SdEntry"
    by (simp add: sd_init_def st_def numeral_2_eq_2)
  have "sd_step (st statusRun 0 SdEntry SdEntry) (st statusRun 0 SdPassed SdEntry)"
    using sd_step.check_pass [of 0 "st statusRun 0 SdEntry SdEntry"] by (simp add: st_def)
  moreover have "sd_step (st statusRun 0 SdPassed SdEntry) (st statusRun 0 SdPassed SdPassed)"
    using sd_step.check_pass [of 1 "st statusRun 0 SdPassed SdEntry"] by (simp add: st_def)
  moreover have "sd_step (st statusRun 0 SdPassed SdPassed) (st statusPoweroff 0 SdSet SdPassed)"
    using sd_step.set_status [of 0 "st statusRun 0 SdPassed SdPassed"] by (simp add: st_def)
  moreover have "sd_step (st statusPoweroff 0 SdSet SdPassed) (st statusPoweroff 0 SdSet SdSet)"
    using sd_step.set_status [of 1 "st statusPoweroff 0 SdSet SdPassed"] by (simp add: st_def)
  moreover have "sd_step (st statusPoweroff 0 SdSet SdSet) (st statusPoweroff 1 SdReturned SdSet)"
    using sd_step.reboot [of 0 "st statusPoweroff 0 SdSet SdSet"] by (simp add: st_def)
  moreover have "sd_step (st statusPoweroff 1 SdReturned SdSet) (st statusPoweroff 2 SdReturned SdReturned)"
    using sd_step.reboot [of 1 "st statusPoweroff 1 SdReturned SdSet"] by (simp add: st_def numeral_2_eq_2)
  ultimately have "sd_step\<^sup>*\<^sup>* (sd_init 2) (st statusPoweroff 2 SdReturned SdReturned)"
    unfolding start by (meson r_into_rtranclp rtranclp_trans)
  then show ?thesis by (force simp: st_def)
qed

end
