(* ===== verification/Frame.thy ===== *)
theory Frame
  imports ShutdownSpec
begin

text \<open>
  Parts of the machine that logging, file writes, waiting and a shutdown leave alone.  \<open>bystander\<close> is the
  contract of such a part; the operations keep it once and for all.
\<close>

locale bystander =
  fixes view :: "machine \<Rightarrow> 'v"
  assumes view_emit [simp]: "view (emit e m) = view m"
    and view_fs [simp]: "view (m\<lparr>w_fs := t\<rparr>) = view m"
    and view_clock [simp]: "view (m\<lparr>w_clock := c\<rparr>) = view m"
    and view_status [simp]: "view (m\<lparr>initStatus := s\<rparr>) = view m"
begin

lemma view_log [simp]: "view (log l f m) = view m"
  by (simp add: log_def)

lemma view_put_file [simp]: "view (put_file q d m) = view m"
  by (simp add: put_file_def)

lemma view_WriteFile [simp]: "view (snd (WriteFile p d m)) = view m"
  by (simp add: WriteFile_cases split: outcome.splits option.splits)

lemma view_time_Sleep [simp]: "view (time_Sleep n m) = view m"
  by (simp add: time_Sleep_def)

lemma view_kill_loop [simp]: "view (kill_loop pl m) = view m"
  by (induction pl m rule: kill_loop.induct) simp_all

lemma view_killAll [simp]: "view (killAll env m) = view m"
  by (simp add: killAll_def split: outcome.splits)

lemma view_flushDisk [simp]: "view (flushDisk p m) = view m"
  by (simp add: flushDisk_def split: outcome.splits)

lemma view_signal_program [simp]: "view (signal_program ps m) = view m"
  by (simp add: signal_program_def Let_def split: prod.splits option.splits)

lemma view_fold_signal [simp]: "view (fold signal_program ts m) = view m"
  by (induction ts arbitrary: m) simp_all

lemma view_sendTerminateSignals [simp]: "view (sendTerminateSignals env m) = view m"
  by (simp add: sendTerminateSignals_def Let_def)

lemma view_wind_down [simp]: "view (wind_down env m) = view m"
  by (simp add: wind_down_def Let_def ignoring_def split: outcome.splits)

lemma view_shutdown [simp]: "view (shutdown env cmd m) = view m"
  by (simp add: shutdown_eq)

lemma view_SystemPanic [simp]: "view (SystemPanic env fmt m) = view m"
  by (simp add: SystemPanic_def)

end

text \<open>The settings of the machine: its configuration, interfaces, name servers and host name.\<close>

definition settings :: "machine \<Rightarrow> VCFG \<times> (string \<times> ifc) list \<times> string \<times> ip list \<times> string list \<times> bool" where
  "settings m = (vcfg m, ifcs m, hostname m, v_dns m, searchDomains m, readOnly m)"

lemma settings_iff:
  "settings m = settings n \<longleftrightarrow>
     vcfg m = vcfg n \<and> ifcs m = ifcs n \<and> hostname m = hostname n \<and> v_dns m = v_dns n \<and>
     searchDomains m = searchDomains n \<and> readOnly m = readOnly n"
  by (simp add: settings_def)

interpretation st: bystander settings
  by unfold_locales (simp_all add: settings_def emit_def)

text \<open>The interfaces alone.\<close>

interpretation ic: bystander ifcs
  by unfold_locales (simp_all add: emit_def)

interpretation vc: bystander vcfg
  by unfold_locales (simp_all add: emit_def)

end
