(* ===== verification/LaunchFrame.thy ===== *)
theory LaunchFrame
  imports Launch Frame
begin

text \<open>
  What the start of one program leaves alone.  \<open>start_frame\<close> is the contract of a part of the machine that
  neither files, log lines and waiting nor the program's own record change, as long as that record keeps
  its configuration; \<open>start_bystander\<close> asks for the same whatever is done to the record.  The steps
  of \<open>launchProgram\<close> keep such a part once and for all.
\<close>

definition same_config :: "program \<Rightarrow> program \<Rightarrow> bool" where
  "same_config p q \<longleftrightarrow> pr_vcfgProg p = pr_vcfgProg q \<and> pr_progIndex p = pr_progIndex q"

lemma same_config_simps [simp]:
  "same_config p p"
  "same_config (p\<lparr>pr_env := e\<rparr>) q = same_config p q"
  "same_config (p\<lparr>pr_args := a\<rparr>) q = same_config p q"
  "same_config (p\<lparr>pr_path := s\<rparr>) q = same_config p q"
  by (simp_all add: same_config_def)

lemma programs_fold_log [simp]: "programs (fold (\<lambda>_. log l f) xs m) = programs m"
  by (induction xs arbitrary: m) simp_all

lemma programs_bootstrapNotdefined: "bootstrapNotdefined env as p m = (s, m') \<Longrightarrow> programs m' = programs m"
  by (auto simp: bootstrapNotdefined_def Let_def split: list.splits if_splits)

lemma programs_calculatePath: "calculatePath a p m = (r, m') \<Longrightarrow> programs m' = programs m"
  by (auto simp: calculatePath_def split: if_splits outcome.splits)

lemma nth_set_program:
  "programs (set_program i p m) ! i = (if i < length (programs m) then p else programs m ! i)"
  by (simp add: set_program_def list_update_beyond not_less)

locale start_frame =
  fixes i :: nat and F :: "machine \<Rightarrow> 'v"
  assumes F_emit [simp]: "\<not> is_reboot e \<Longrightarrow> F (emit e m) = F m"
    and F_fs [simp]: "F (m\<lparr>w_fs := t\<rparr>) = F m"
    and F_clock [simp]: "F (m\<lparr>w_clock := c\<rparr>) = F m"
    and F_config [simp]: "same_config p (programs m ! i) \<Longrightarrow> F (set_program i p m) = F m"
begin

lemma F_log [simp]: "F (log l f m) = F m"
  by (simp add: log_def is_reboot_def)

lemma F_put_file [simp]: "F (put_file q d m) = F m"
  by (simp add: put_file_def)

lemma F_time_Sleep [simp]: "F (time_Sleep n m) = F m"
  by (simp add: time_Sleep_def is_reboot_def)

lemma F_OpenFile: "OpenFile c t p m = (r, m') \<Longrightarrow> F m' = F m"
  by (auto simp: OpenFile_def split: outcome.splits if_splits)

lemma F_WriteFile [simp]: "F (snd (WriteFile p d m)) = F m"
  by (simp add: WriteFile_cases is_reboot_def split: outcome.splits option.splits)

lemma F_mkdir1: "mkdir1 cs m = (r, m') \<Longrightarrow> F m' = F m"
  by (auto simp: mkdir1_def Let_def is_reboot_def
      split: outcome.splits option.splits node.splits prod.splits)

lemma F_mkdir_prefixes: "mkdir_prefixes d cs m = (r, m') \<Longrightarrow> F m' = F m"
proof (induction cs arbitrary: d m)
  case (Cons c cs)
  obtain x m1 where "mkdir1 (d @ [c]) m = (x, m1)" by (cases "mkdir1 (d @ [c]) m")
  with Cons F_mkdir1 [OF this] show ?case by (cases x) auto
qed simp

lemma F_MkdirAll: "MkdirAll p m = (r, m') \<Longrightarrow> F m' = F m"
  by (simp add: MkdirAll_def F_mkdir_prefixes)

lemma F_ensure_dir [simp]: "F (ensure_dir f m) = F m"
  using F_MkdirAll [of "path_Dir f" m] by (cases "MkdirAll (path_Dir f) m")
    (simp add: ensure_dir_def ignoring_def)

lemma F_wait_file: "wait_file f cnt m = Some r \<Longrightarrow> F r = F m"
proof (erule wait_file.raw_induct [rotated], goal_cases)
  case (1 wf f cnt m r)
  show ?case
  proof (cases "is_ok (os_Stat f m)")
    case False
    with 1(2) have "wf f (Suc cnt) (time_Sleep 1000 (if cnt mod 30 = 0 \<and> 0 < cnt
      then logWarn ''bootstrap WAIT_FILE file %s has not appeared yet'' m else m)) = Some r" by simp
    from 1(1) [OF this] show ?thesis by simp
  qed (use 1(2) in simp)
qed

lemma F_logs [simp]: "F ((log l f ^^ n) m) = F m"
  by (induction n) simp_all

lemma F_wait_ports: "wait_ports env ip as m k = Some r \<Longrightarrow> F r = F m"
  by (induction env ip as m k rule: wait_ports.induct)
    (auto simp: Let_def split: option.splits prod.splits outcome.splits)

lemma F_bootstrapGetRequest [simp]: "F (bootstrapGetRequest env as m) = F m"
  by (auto simp: bootstrapGetRequest_def Let_def ignoring_def split: outcome.splits prod.splits
      dest!: F_MkdirAll F_OpenFile)

lemma F_fold_log [simp]: "F (fold (\<lambda>_. log l f) xs m) = F m"
  by (induction xs arbitrary: m) simp_all

lemma F_bootstrapNotdefined: "bootstrapNotdefined env as p m = (s, m') \<Longrightarrow> F m' = F m"
  by (auto simp: bootstrapNotdefined_def Let_def split: list.splits if_splits)

lemma F_bootstrapReplace: "bootstrapReplace as p m = (r, m') \<Longrightarrow> F m' = F m"
  by (auto simp: bootstrapReplace_def ignoring_def split: outcome.splits if_splits)

lemma F_define_step:
  assumes "define_step env i bs m = (r, m')"
  shows "F m' = F m"
proof -
  obtain s m1 where nd: "bootstrapNotdefined env bs (programs m ! i) m = (s, m1)"
    by (cases "bootstrapNotdefined env bs (programs m ! i) m")
  define p where "p = (if s \<noteq> [] then (programs m ! i)\<lparr>pr_env := pr_env (programs m ! i) @ [s]\<rparr> else programs m ! i)"
  define m2 where "m2 = logDebug ''bootstrap not definded: %s'' m1"
  have "F m2 = F m" "programs m2 = programs m"
    using F_bootstrapNotdefined [OF nd] programs_bootstrapNotdefined [OF nd] by (simp_all add: m2_def)
  moreover have "same_config p (programs m ! i)" by (simp add: p_def)
  moreover have "(\<exists>as. m' = set_program i (p\<lparr>pr_args := as\<rparr>) m2) \<or> m' = set_program i p m2"
    using assms by (auto simp: define_step_def Let_def nd p_def [symmetric] m2_def [symmetric]
        split: outcome.splits if_splits)
  ultimately show ?thesis by auto
qed

lemma F_bootstrap_one: "bootstrap_one env i b m = Some (r, m') \<Longrightarrow> F m' = F m"
  by (auto simp: bootstrap_one_def Let_def finish_def bootstrapWaitForFile_def bootstrapWaitForPort_def
      split: outcome.splits if_splits list.splits
      dest!: F_wait_file F_wait_ports F_define_step F_bootstrapReplace)

lemma F_bootstrap: "bootstrap env i bs m = Some (r, m') \<Longrightarrow> F m' = F m"
proof (induction bs arbitrary: m)
  case (Cons b bs)
  then show ?case
    by (auto split: option.splits prod.splits outcome.splits dest!: F_bootstrap_one)
qed simp

lemma F_calculatePath: "calculatePath a p m = (r, m') \<Longrightarrow> F m' = F m"
  by (auto simp: calculatePath_def split: if_splits outcome.splits)

lemma F_and_then:
  assumes "and_then r k = (x, m')" and "\<And>y n. r = (y, n) \<Longrightarrow> F n = F m"
    and "\<And>y n. r = (Ok y, n) \<Longrightarrow> k y n = (x, m') \<Longrightarrow> F m' = F n"
  shows "F m' = F m"
proof (cases r)
  case (Pair y n)
  with assms show ?thesis by (cases y) auto
qed

end

section \<open>Starting one program\<close>

text \<open>The program record \<open>launch\<close> works on.\<close>

definition launched_record :: "program \<Rightarrow> program" where
  "launched_record p = strace_override (p\<lparr>pr_vcfgProg := fixDefaults (pr_vcfgProg p)\<rparr>)"

text \<open>The last part of \<open>launch\<close>, once both output files are open.\<close>

definition exec_step :: "launchenv \<Rightarrow> nat \<Rightarrow> program \<Rightarrow> machine \<Rightarrow> unit outcome \<times> machine" where
  "exec_step env i p m =
     (let cmd = make_cmd env p; m = set_program i (p\<lparr>pr_cmd := Some cmd\<rparr>) m in
      case le_start env cmd of
        Err e \<Rightarrow> (Err e, m)
      | Panic x \<Rightarrow> (Panic x, m)
      | Ok pid \<Rightarrow>
          (Ok (), logDebug ''started %s as pid %d''
             (emit (EvExec (cmd_Path cmd) (cmd_Args cmd))
               (set_program i (p\<lparr>pr_cmd := Some (cmd\<lparr>cmd_Pid := Some pid\<rparr>)\<rparr>) m))))"

lemma launch_eq:
  "launch env i m =
     (let p = launched_record (programs m ! i);
          m = logDebug ''starting as %s, uid %d'' (set_program i p m);
          m = ensure_dir (vp_Stderr (pr_vcfgProg p)) m in
      and_then (OpenFile False False (vp_Stderr (pr_vcfgProg p)) m) (\<lambda>_ m.
        and_then (OpenFile True False (vp_Stdout (pr_vcfgProg p)) (ensure_dir (vp_Stdout (pr_vcfgProg p)) m))
          (\<lambda>_ m. exec_step env i p m)))"
  unfolding launch_def exec_step_def launched_record_def Let_def by (rule refl)

text \<open>What \<open>launchProgram\<close> does up to the bootstrap instructions: environment, arguments and path.\<close>

definition prepare :: "launchenv \<Rightarrow> nat \<Rightarrow> machine \<Rightarrow> unit outcome \<times> machine" where
  "prepare env i m =
     (let np = programs m ! i;
          p = pr_vcfgProg np;
          np = np\<lparr>pr_env := envs (le_parse env) (vp_Env p) (le_ord env 0 (hv_envs m))\<rparr>;
          m = set_program i np m in
      case bind_out (le_ProgramArgs env p) (\<lambda>as. case as of
             [] \<Rightarrow> Panic SliceBounds
           | a0 # rest \<Rightarrow> bind_out (args (le_ord env) rest (pr_env np)) (\<lambda>as. Ok (a0, as))) of
        Err e \<Rightarrow> (Err e, m)
      | Panic x \<Rightarrow> (Panic x, m)
      | Ok (a0, as) \<Rightarrow>
          and_then (calculatePath a0 p (set_program i (np\<lparr>pr_args := as\<rparr>) m)) (\<lambda>path m.
            let m = set_program i (np\<lparr>pr_args := as, pr_path := path\<rparr>) m in
            if path = []
            then (Err (Errorf (''program '' @ a0 @ '' can not be found'')), logError ''application %s (%s) does not exist'' m)
            else (Ok (), m)))"

lemma launchProgram_eq:
  "launchProgram env i m =
     (case prepare env i m of
        (Ok _, n) \<Rightarrow> start_prepared env i (pr_vcfgProg (programs m ! i)) n
      | (Err e, n) \<Rightarrow> Some (Err e, n)
      | (Panic x, n) \<Rightarrow> Some (Panic x, n))"
  by (simp add: launchProgram_def prepare_def Let_def and_then_def bind_out_def
      split: outcome.split list.split prod.split)

section \<open>What it keeps\<close>

context start_frame
begin

lemma F_prepare:
  assumes "prepare env i m = (r, m')"
  shows "F m' = F m"
proof -
  define np where "np = (programs m ! i)\<lparr>pr_env := envs (le_parse env) (vp_Env (pr_vcfgProg (programs m ! i)))
    (le_ord env 0 (hv_envs m))\<rparr>"
  define m1 where "m1 = set_program i np m"
  have m1: "F m1 = F m" "same_config np (programs m1 ! i)"
    by (simp_all add: m1_def np_def nth_set_program same_config_def)
  define x where "x = bind_out (le_ProgramArgs env (pr_vcfgProg (programs m ! i))) (\<lambda>as. case as of
    [] \<Rightarrow> Panic SliceBounds | a0 # rest \<Rightarrow> bind_out (args (le_ord env) rest (pr_env np)) (\<lambda>as. Ok (a0, as)))"
  note prep = prepare_def [of env i m, unfolded Let_def, folded np_def, folded m1_def x_def]
  show ?thesis
  proof (cases x)
    case (Ok y)
    then obtain a0 as where y: "x = Ok (a0, as)" by (cases y) simp
    obtain r2 m2 where
      c: "calculatePath a0 (pr_vcfgProg (programs m ! i)) (set_program i (np\<lparr>pr_args := as\<rparr>) m1) = (r2, m2)"
      by (cases "calculatePath a0 (pr_vcfgProg (programs m ! i)) (set_program i (np\<lparr>pr_args := as\<rparr>) m1)")
    have "F m2 = F m" using F_calculatePath [OF c] m1 by simp
    moreover have "same_config np (programs m2 ! i)"
      using programs_calculatePath [OF c] m1(2) by (simp add: nth_set_program same_config_def)
    ultimately show ?thesis
      using assms by (cases r2) (auto simp: prep y c split: if_splits)
  qed (use assms m1 in \<open>simp_all add: prep\<close>)
qed

end

text \<open>The start, with the program's record as it likes.\<close>

locale start_bystander = start_frame +
  assumes F_program [simp]: "F (set_program i p m) = F m"
begin

lemma F_exec_step: "exec_step env i p m = (r, m') \<Longrightarrow> F m' = F m"
  by (auto simp: exec_step_def Let_def is_reboot_def split: outcome.splits)

lemma F_launch: "launch env i m = (r, m') \<Longrightarrow> F m' = F m"
  unfolding launch_eq Let_def
proof (erule F_and_then, goal_cases)
  case (1 y n)
  from F_OpenFile [OF 1] show ?case by simp
next
  case (2 y n)
  from 2(2) show ?case
  proof (rule F_and_then)
    fix y' n' assume "OpenFile True False (vp_Stdout (pr_vcfgProg (launched_record (programs m ! i))))
      (ensure_dir (vp_Stdout (pr_vcfgProg (launched_record (programs m ! i)))) n) = (y', n')"
    from F_OpenFile [OF this] show "F n' = F n" by simp
  qed (rule F_exec_step)
qed

lemma F_start_prepared:
  assumes "start_prepared env i p m = Some (r, m')"
  shows "if r = Ok () then \<exists>n. F n = F m \<and> m' = register_signal env i p n else F m' = F m"
proof -
  obtain r1 m1 where b: "bootstrap env i (vp_Bootstrap p) (logDebug ''launching %s'' m) = Some (r1, m1)"
    using assms by (auto simp: start_prepared_def split: option.splits prod.splits)
  define m2 where "m2 = logDebug ''launch envs %v'' (logDebug ''launch args %v'' m1)"
  obtain r3 m3 where l: "launch env i m2 = (r3, m3)" by (cases "launch env i m2")
  have f: "F m1 = F m" "F m3 = F m" using F_bootstrap [OF b] F_launch [OF l] by (simp_all add: m2_def)
  with assms show ?thesis
    by (cases r1; cases r3) (auto simp: start_prepared_def b m2_def [symmetric] l)
qed

lemma F_launchProgram:
  assumes "launchProgram env i m = Some (r, m')"
  shows "if r = Ok () then \<exists>n. F n = F m \<and> m' = register_signal env i (pr_vcfgProg (programs m ! i)) n
    else F m' = F m"
proof -
  obtain r1 m1 where p: "prepare env i m = (r1, m1)" by (cases "prepare env i m")
  show ?thesis
  proof (cases r1)
    case (Ok u)
    then have "start_prepared env i (pr_vcfgProg (programs m ! i)) m1 = Some (r, m')"
      using assms by (simp add: launchProgram_eq p)
    from F_start_prepared [OF this] F_prepare [OF p] show ?thesis by (auto split: if_splits)
  qed (use assms F_prepare [OF p] in \<open>auto simp: launchProgram_eq p\<close>)
qed

end

end
