(* ===== verification/LaunchSpec.thy ===== *)
theory LaunchSpec
  imports LaunchFrame
begin

text \<open>
  What starting programs promises: the waiting loops return exactly when what they wait for
  appears, programs run with the credentials their privilege names, a started program can be
  terminated, and what a failed start does to the shutdown latch.
\<close>

section \<open>Waiting for a file\<close>

text \<open>What a \<open>stat\<close> sees of a machine, now and after sleeping.\<close>

definition view :: "'a world_scheme \<Rightarrow> fs \<times> (string \<Rightarrow> string \<Rightarrow> goerr option) \<times> (nat \<Rightarrow> fs \<Rightarrow> fs) \<times> nat" where
  "view w = (w_fs w, w_deny w, w_others w, w_clock w)"

lemma fsview_log [simp]: "view (log l f w) = view w"
  by (simp add: view_def)

lemma view_sleep: "view v = view w \<Longrightarrow> view (time_Sleep n v) = view (time_Sleep n w)"
  by (simp add: view_def time_Sleep_def)

lemma view_sleeps: "view v = view w \<Longrightarrow> view ((time_Sleep n ^^ k) v) = view ((time_Sleep n ^^ k) w)"
  by (induction k) (auto intro: view_sleep)

lemma os_Stat_view: "view v = view w \<Longrightarrow> os_Stat f v = os_Stat f w"
  by (auto simp: view_def os_Stat_def stat_node_def split: option.splits)

lemma sleeps_shift: "(time_Sleep n ^^ Suc k) w = (time_Sleep n ^^ k) (time_Sleep n w)"
  by (simp add: funpow_swap1)

lemma wait_file_returns:
  "is_ok (os_Stat f ((time_Sleep 1000 ^^ n) m)) \<Longrightarrow> \<exists>r. wait_file f cnt m = Some r"
proof (induction n arbitrary: cnt m)
  case 0
  then show ?case by (subst wait_file.simps) simp
next
  case (Suc n)
  define m1 where "m1 = (if cnt mod 30 = 0 \<and> 0 < cnt
    then logWarn ''bootstrap WAIT_FILE file %s has not appeared yet'' m else m)"
  have "view (time_Sleep 1000 m1) = view (time_Sleep 1000 m)"
    by (rule view_sleep) (simp add: m1_def)
  from os_Stat_view [OF view_sleeps [OF this], of f n 1000] Suc.prems
  have "is_ok (os_Stat f ((time_Sleep 1000 ^^ n) (time_Sleep 1000 m1)))"
    by (simp only: sleeps_shift)
  then have "\<exists>r. wait_file f (Suc cnt) (time_Sleep 1000 m1) = Some r" by (rule Suc.IH)
  then show ?case by (subst wait_file.simps) (simp add: m1_def [symmetric])
qed

lemma wait_file_result:
  "wait_file f cnt m = Some r \<Longrightarrow>
   is_ok (os_Stat f r) \<and> (\<exists>n. is_ok (os_Stat f ((time_Sleep 1000 ^^ n) m)))"
proof (erule wait_file.raw_induct [rotated], goal_cases)
  case (1 wf f cnt m r)
  show ?case
  proof (cases "is_ok (os_Stat f m)")
    case True
    with 1(2) have "r = m" by simp
    moreover have "is_ok (os_Stat f ((time_Sleep 1000 ^^ 0) m))" using True by simp
    ultimately show ?thesis using True by blast
  next
    case False
    define m1 where "m1 = (if cnt mod 30 = 0 \<and> 0 < cnt
      then logWarn ''bootstrap WAIT_FILE file %s has not appeared yet'' m else m)"
    have "wf f (Suc cnt) (time_Sleep 1000 m1) = Some r"
      using 1(2) False by (simp add: m1_def)
    from 1(1) [OF this] obtain n where r: "is_ok (os_Stat f r)"
      and n: "is_ok (os_Stat f ((time_Sleep 1000 ^^ n) (time_Sleep 1000 m1)))" by blast
    have "view (time_Sleep 1000 m1) = view (time_Sleep 1000 m)"
      by (rule view_sleep) (simp add: m1_def)
    from os_Stat_view [OF view_sleeps [OF this], of f n 1000] n
    have "is_ok (os_Stat f ((time_Sleep 1000 ^^ Suc n) m))"
      by (simp only: sleeps_shift)
    with r show ?thesis by blast
  qed
qed

text \<open>
  C13.  \<open>WAIT_FILE\<close> returns exactly when the file exists after some number of seconds, given what
  other processes do meanwhile; when it returns the file is there.
\<close>

theorem wait_file_returns_iff:
  "(\<exists>r. bootstrapWaitForFile [c, f] m = Some r) =
     (\<exists>n. is_ok (os_Stat f ((time_Sleep 1000 ^^ n) m))) \<and>
   (bootstrapWaitForFile [c, f] m = Some r \<longrightarrow> is_ok (os_Stat f r))"
  using wait_file_returns [of f _ m 0] wait_file_result [of f 0 m]
  by (auto simp: bootstrapWaitForFile_def)

theorem wait_file_returns_iff_witness:
  "\<exists>r. bootstrapWaitForFile [''WAIT_FILE'', ''/ready''] (New (world_of [(''/ready'', File [])])) = Some r
     \<and> is_ok (os_Stat ''/ready'' r)"
proof -
  have "is_ok (os_Stat ''/ready'' ((time_Sleep 1000 ^^ 0) (New (world_of [(''/ready'', File [])]))))"
    by code_simp
  then show ?thesis using wait_file_returns_iff by blast
qed

section \<open>What the steps of a start keep\<close>

text \<open>Status, number of programs, registered signals and reboots.\<close>

definition frame_of :: "machine \<Rightarrow> status \<times> nat \<times> (nat \<times> nat) list \<times> nat" where
  "frame_of m = (initStatus m, length (programs m), terminateSignals m, reboots m)"

interpretation fr: start_bystander i frame_of for i
  by unfold_locales (simp_all add: frame_of_def reboots_def set_program_def)

section \<open>Starting one program\<close>

lemma frame_programs: "frame_of m' = frame_of m \<Longrightarrow> length (programs m') = length (programs m)"
  by (simp add: frame_of_def)

lemma exec_step_Ok:
  "exec_step env i p m = (Ok (), m') \<Longrightarrow> i < length (programs m) \<Longrightarrow>
   \<exists>pid. le_start env (make_cmd env p) = Ok pid \<and>
     pr_cmd (programs m' ! i) = Some (make_cmd env p\<lparr>cmd_Pid := Some pid\<rparr>)"
  by (auto simp: exec_step_def Let_def set_program_def split: outcome.splits)

lemma launch_Ok:
  assumes "launch env i m = (Ok (), m')" and "i < length (programs m)"
  shows "\<exists>pid. le_start env (make_cmd env (launched_record (programs m ! i))) = Ok pid \<and>
       pr_cmd (programs m' ! i) = Some (make_cmd env (launched_record (programs m ! i))\<lparr>cmd_Pid := Some pid\<rparr>)"
proof -
  define p where "p = launched_record (programs m ! i)"
  define m1 where "m1 = ensure_dir (vp_Stderr (pr_vcfgProg p))
    (logDebug ''starting as %s, uid %d'' (set_program i p m))"
  obtain q2 m2 q3 m3 where o1: "OpenFile False False (vp_Stderr (pr_vcfgProg p)) m1 = (Ok q2, m2)"
    and o2: "OpenFile True False (vp_Stdout (pr_vcfgProg p)) (ensure_dir (vp_Stdout (pr_vcfgProg p)) m2) = (Ok q3, m3)"
    and ex: "exec_step env i p m3 = (Ok (), m')"
    using assms(1) unfolding launch_eq Let_def and_then_Ok_iff p_def m1_def by blast
  have "frame_of m3 = frame_of m"
    using fr.F_OpenFile [OF o1] fr.F_OpenFile [OF o2] by (simp add: m1_def)
  from frame_programs [OF this] show ?thesis
    using exec_step_Ok [OF ex] assms(2) by (simp add: p_def)
qed

lemma fixDefaults_keeps:
  "vp_Privilege (fixDefaults p) = vp_Privilege p" "vp_Strace (fixDefaults p) = vp_Strace p"
  by (simp_all add: fixDefaults_def Let_def)

lemma launched_record_fields:
  "pr_vcfgProg (launched_record p) = fixDefaults (pr_vcfgProg p)"
  "pr_path (launched_record p) = (if vp_Strace (pr_vcfgProg p) then ''/vorteil/strace'' else pr_path p)"
  "pr_args (launched_record p) = (if vp_Strace (pr_vcfgProg p) then pr_path p # pr_args p else pr_args p)"
  by (simp_all add: launched_record_def strace_override_def fixDefaults_keeps)

lemma make_cmd_fields:
  "cmd_Path (make_cmd env p) = pr_path p" "cmd_Args (make_cmd env p) = pr_args p"
  "cmd_Uid (make_cmd env p) =
     (if vp_Privilege (pr_vcfgProg p) \<in> {le_SuperuserPrivilege env, le_UserPrivilege env} then 1000 else 0)"
  "cmd_Gid (make_cmd env p) = cmd_Uid (make_cmd env p)"
  "cmd_AmbientCaps (make_cmd env p) \<noteq> [] \<longleftrightarrow> vp_Privilege (pr_vcfgProg p) = ''superuser''"
  by (simp_all add: make_cmd_def Let_def userID_def rootID_def superuser_caps_def)

text \<open>
  C12.  A program that starts runs as user and group 1000 when its privilege is user or superuser and as
  root otherwise; exactly the superuser programs get the extra capabilities; under tracing the
  tracer runs, with the program and its arguments as its arguments.
\<close>

theorem launch_credentials:
  assumes "launch env i m = (Ok (), m')" and "i < length (programs m)"
    and "le_SuperuserPrivilege env = ''superuser''"
  shows "\<exists>c. pr_cmd (programs m' ! i) = Some c \<and> cmd_Pid c \<noteq> None \<and>
    (let p = programs m ! i; priv = vp_Privilege (pr_vcfgProg p) in
     cmd_Uid c = (if priv \<in> {''superuser'', le_UserPrivilege env} then 1000 else 0) \<and>
     cmd_Gid c = cmd_Uid c \<and>
     (cmd_AmbientCaps c \<noteq> []) = (priv = ''superuser'') \<and>
     (if vp_Strace (pr_vcfgProg p)
      then cmd_Path c = ''/vorteil/strace'' \<and> cmd_Args c = pr_path p # pr_args p
      else cmd_Path c = pr_path p \<and> cmd_Args c = pr_args p))"
proof -
  define c where "c = make_cmd env (launched_record (programs m ! i))"
  obtain pid where "pr_cmd (programs m' ! i) = Some (c\<lparr>cmd_Pid := Some pid\<rparr>)"
    using launch_Ok [OF assms(1,2)] by (auto simp: c_def)
  then show ?thesis
    using make_cmd_fields [of env "launched_record (programs m ! i)"] assms(3)
    by (simp add: c_def [symmetric] launched_record_fields fixDefaults_keeps Let_def)
qed

section \<open>Registering the termination signal\<close>

text \<open>The frame after a successful start: one signal more.\<close>

definition registered :: "nat \<Rightarrow> machine \<Rightarrow> machine \<Rightarrow> bool" where
  "registered i m m' \<longleftrightarrow>
     (\<exists>sig. frame_of m' = (initStatus m, length (programs m), map_put i sig (terminateSignals m), reboots m))"

lemma registered_frame: "frame_of m = frame_of n \<Longrightarrow> registered i m m' = registered i n m'"
  by (simp add: registered_def frame_of_def)

lemma registered_register_signal: "registered i m (register_signal env i p m)"
  by (auto simp: registered_def register_signal_def frame_of_def reboots_def is_reboot_def
      split: outcome.splits)

lemma launchProgram_frame:
  assumes "launchProgram env i m = Some (r, m')"
  shows "if r = Ok () then registered i m m' else frame_of m' = frame_of m"
  using fr.F_launchProgram [OF assms] registered_register_signal registered_frame by (metis (full_types))

text \<open>
  A program whose start succeeds has exactly one entry more, its own, in the table of termination
  signals; a failed start leaves the table, the status and the list of programs as they were.
\<close>

theorem launchProgram_registers_signal:
  assumes "launchProgram env i m = Some (r, m')"
  shows "if r = Ok ()
    then map_of (terminateSignals m') i \<noteq> None \<and>
         (\<forall>j. j \<noteq> i \<longrightarrow> map_of (terminateSignals m') j = map_of (terminateSignals m) j)
    else frame_of m' = frame_of m"
proof (cases "r = Ok ()")
  case True
  with launchProgram_frame [OF assms] obtain sig where "terminateSignals m' = map_put i sig (terminateSignals m)"
    by (auto simp: registered_def frame_of_def)
  with True show ?thesis by simp
qed (use launchProgram_frame [OF assms] in simp)

text \<open>A machine with one program, and an environment that lets it start.\<close>

definition sample_env :: launchenv where
  "sample_env = \<lparr>le_parse = (\<lambda>_ s. [s]), le_SuperuserPrivilege = ''superuser'', le_UserPrivilege = ''user'',
     le_ProgramArgs = (\<lambda>p. Ok (Split (vp_Args p) '' '')), le_Signal = (\<lambda>_. Ok SIGTERM),
     le_start = (\<lambda>c. Ok 100), le_url = (\<lambda>_. False), le_http = (\<lambda>_. Err EIO),
     le_interface = (\<lambda>_. False), le_addrs = (\<lambda>_. Err EIO), le_dial = (\<lambda>_ _. True), le_ord = (\<lambda>_ m. m)\<rparr>"

definition sample_program :: Program where
  "sample_program = plain_program\<lparr>vp_Cwd := [], vp_Privilege := ''user'', vp_Args := ''app -v''\<rparr>"

definition sample_machine :: machine where
  "sample_machine = prepProgram sample_program 0
     (New (world_of [(''/dev'', Dir), (''/dev/vtty'', File []), (''/app'', File ''ELF'')]))"

definition sample_ready :: program where
  "sample_ready = (programs sample_machine ! 0)\<lparr>pr_args := [''-v''], pr_path := ''/app''\<rparr>"

definition sample_starting :: machine where
  "sample_starting = logDebug ''launch envs %v'' (logDebug ''launch args %v'' (logDebug ''launching %s''
     (set_program 0 sample_ready (set_program 0 ((programs sample_machine ! 0)\<lparr>pr_args := [''-v'']\<rparr>)
       (set_program 0 (programs sample_machine ! 0) sample_machine)))))"

lemma sample_prepared:
  "launchProgram sample_env 0 sample_machine =
     (case launch sample_env 0 sample_starting of
        (Ok _, m) \<Rightarrow> Some (Ok (), register_signal sample_env 0 sample_program m)
      | (Err e, m) \<Rightarrow> Some (Err (launch_error (pr_path (programs m ! 0)) e m), m)
      | (Panic x, m) \<Rightarrow> Some (Panic x, m))"
proof -
  have prog: "pr_vcfgProg (programs sample_machine ! 0) = sample_program"
    "(programs sample_machine ! 0)\<lparr>pr_env := []\<rparr> = programs sample_machine ! 0"
    "hv_envs sample_machine = []"
    by (simp_all add: sample_machine_def prepProgram_def New_def)
  have env: "envs (le_parse sample_env) (vp_Env sample_program) (le_ord sample_env 0 []) = []"
    "args (le_ord sample_env) [''-v''] [] = Ok [''-v'']"
    "le_ProgramArgs sample_env sample_program = Ok [''app'', ''-v'']"
    by code_simp+
  have empty: "pr_env (programs sample_machine ! 0) = []" "vp_Bootstrap sample_program = []"
    by (simp_all add: sample_machine_def prepProgram_def New_def sample_program_def plain_program_def)
  define m1 where "m1 = set_program 0 ((programs sample_machine ! 0)\<lparr>pr_args := [''-v'']\<rparr>)
    (set_program 0 (programs sample_machine ! 0) sample_machine)"
  have "fst (calculatePath ''app'' sample_program m1) = Ok ''/app''"
    unfolding m1_def by code_simp
  moreover have "is_ok (os_Stat (PathJoin [vp_Cwd sample_program, ''app'']) m1)"
    unfolding m1_def by code_simp
  moreover have "w_deny m1 ''getwd'' [] = None"
    by (simp add: m1_def set_program_def sample_machine_def prepProgram_def New_def world_of_def)
  ultimately have "calculatePath ''app'' sample_program m1 = (Ok ''/app'', m1)"
    by (auto simp: calculatePath_def filepath_Abs_def split: if_splits option.splits)
  then show ?thesis
    by (simp add: launchProgram_def start_prepared_def prog env empty m1_def [symmetric]
        sample_starting_def sample_ready_def Let_def)
qed

theorem launchProgram_registers_signal_witness:
  "\<exists>m. launchProgram sample_env 0 sample_machine = Some (Ok (), m) \<and>
     map_of (terminateSignals m) 0 \<noteq> None"
proof -
  have "fst (launch sample_env 0 sample_starting) = Ok ()" by code_simp
  then obtain n where "launch sample_env 0 sample_starting = (Ok (), n)" by (metis prod.collapse)
  then have "launchProgram sample_env 0 sample_machine = Some (Ok (), register_signal sample_env 0 sample_program n)"
    by (simp add: sample_prepared)
  with launchProgram_registers_signal [OF this] show ?thesis by auto
qed

lemma sample_launch_Ok: "fst (launch sample_env 0 sample_machine) = Ok ()"
  by code_simp

theorem launch_credentials_witness:
  "\<exists>c. pr_cmd (programs (snd (launch sample_env 0 sample_machine)) ! 0) = Some c \<and> cmd_Uid c = 1000"
proof -
  have "launch sample_env 0 sample_machine = (Ok (), snd (launch sample_env 0 sample_machine))"
    using sample_launch_Ok by (metis prod.collapse)
  moreover have "0 < length (programs sample_machine)" "le_SuperuserPrivilege sample_env = ''superuser''"
    "vp_Privilege (pr_vcfgProg (programs sample_machine ! 0)) = le_UserPrivilege sample_env"
    by (simp_all add: sample_machine_def prepProgram_def sample_env_def New_def sample_program_def)
  ultimately show ?thesis
    using launch_credentials [of sample_env 0 sample_machine] by (fastforce simp: Let_def)
qed

section \<open>Defining a variable\<close>

text \<open>
  Every \<open>DEFINE_IF_NOT_DEFINED\<close> instruction removes the program's first argument: the arguments it
  substitutes again are those after the first, although the program name was removed before.
\<close>

theorem define_drops_first_argument:
  assumes "pr_args (programs m ! i) = a # b # rest" and "i < length (programs m)"
    and "define_step env i bs m = (Ok (), m')"
  shows "length (pr_args (programs m' ! i)) = Suc (length rest)"
proof -
  obtain s m1 where nd: "bootstrapNotdefined env bs (programs m ! i) m = (s, m1)"
    by (cases "bootstrapNotdefined env bs (programs m ! i) m")
  define p where "p = (if s \<noteq> [] then (programs m ! i)\<lparr>pr_env := pr_env (programs m ! i) @ [s]\<rparr> else programs m ! i)"
  have p: "pr_args p = a # b # rest" using assms(1) by (simp add: p_def)
  have len: "length (programs m1) = length (programs m)"
    using programs_bootstrapNotdefined [OF nd] by simp
  obtain as where as: "args (le_ord env) (b # rest) (pr_env p) = Ok as"
    and m': "m' = set_program i (p\<lparr>pr_args := as\<rparr>) (logDebug ''bootstrap not definded: %s'' m1)"
    using assms(3) p by (auto simp: define_step_def Let_def nd p_def [symmetric] split: outcome.splits)
  have "length as = Suc (length rest)"
    using as by (auto simp: args_def bind_out_Ok_iff)
  then show ?thesis using m' assms(2) len by (simp add: set_program_def)
qed

definition two_args :: machine where
  "two_args = sample_machine\<lparr>programs := [(programs sample_machine ! 0)\<lparr>pr_args := [''--config'', ''/etc/app.conf'']\<rparr>]\<rparr>"

theorem define_drops_first_argument_witness:
  "length (pr_args (programs (snd (define_step sample_env 0 [''DEFINE_IF_NOT_DEFINED'', ''K'', ''V''] two_args)) ! 0)) = 1"
proof -
  have "pr_args (programs two_args ! 0) = ''--config'' # ''/etc/app.conf'' # []" "0 < length (programs two_args)"
    by (simp_all add: two_args_def)
  moreover have "fst (define_step sample_env 0 [''DEFINE_IF_NOT_DEFINED'', ''K'', ''V''] two_args) = Ok ()"
    by code_simp
  then have "define_step sample_env 0 [''DEFINE_IF_NOT_DEFINED'', ''K'', ''V''] two_args =
      (Ok (), snd (define_step sample_env 0 [''DEFINE_IF_NOT_DEFINED'', ''K'', ''V''] two_args))"
    by (metis prod.collapse)
  ultimately show ?thesis using define_drops_first_argument by fastforce
qed

section \<open>Starting all programs\<close>

text \<open>Status and number of reboot calls.\<close>

definition power_of :: "machine \<Rightarrow> status \<times> nat" where
  "power_of m = (initStatus m, reboots m)"

lemma frame_power: "frame_of m = frame_of n \<Longrightarrow> power_of m = power_of n"
  by (simp add: frame_of_def power_of_def)

lemma power_start [simp]: "power_of (launch_start m) = power_of m"
  by (simp add: launch_start_def power_of_def reboots_def is_reboot_def)

lemma power_launched [simp]: "power_of (launched m) = (statusLaunched, reboots m)"
  by (simp add: launched_def power_of_def reboots_def is_reboot_def)

lemma reboots_panic: "initStatus m \<noteq> statusPoweroff \<Longrightarrow> reboots (SystemPanic sv f m) = Suc (reboots m)"
  using shutdown_first [of "log ''error'' f m" sv] by (simp add: SystemPanic_def reboots_def is_reboot_def)

lemma launchProgram_power:
  assumes "launchProgram env i m = Some (r, m')"
  shows "power_of m' = power_of m"
  using launchProgram_frame [OF assms]
  by (auto simp: registered_def frame_of_def power_of_def split: if_splits)

lemma launch_late_power: "launch_late env is wg m = (r, m') \<Longrightarrow> power_of m' = power_of m"
proof (induction "is" arbitrary: wg m)
  case (Cons i "is")
  then show ?case
    by (auto split: option.splits prod.splits outcome.splits if_splits dest!: launchProgram_power)
qed simp

text \<open>
  When a program cannot be started the machine is shut down, but \<open>Launch\<close> then sets the status to
  \<open>statusLaunched\<close> all the same, so a later exit event or signal runs a second shutdown.
\<close>

theorem failed_launch_reopens_shutdown:
  assumes "launchProgram env i (launch_start m) = Some (Err e, m1)"
    and "initStatus m \<noteq> statusPoweroff" and "vc_Programs (vcfg m) \<noteq> []" and "i < length (programs m)"
  shows "\<exists>r m'. Launch env sv (i # is) m = Some (r, m') \<and> initStatus m' = statusLaunched \<and>
    reboots m' = Suc (reboots m) \<and> reboots (shutdown sv' cmd m') = Suc (Suc (reboots m))"
proof -
  define m2 where "m2 = launched (SystemPanic sv ''starting program failed: %s'' m1)"
  define js where "js = filter (\<lambda>i. i < length (programs m)) is"
  obtain r m' where l: "launch_late env js (length (vc_Programs (vcfg m)) - 1) m2 = (r, m')"
    by (cases "launch_late env js (length (vc_Programs (vcfg m)) - 1) m2")
  have "power_of m1 = power_of m" using launchProgram_power [OF assms(1)] by simp
  then have "initStatus m1 \<noteq> statusPoweroff" "reboots m1 = reboots m"
    using assms(2) by (simp_all add: power_of_def)
  then have "power_of m2 = (statusLaunched, Suc (reboots m))" by (simp add: m2_def reboots_panic)
  then have m': "initStatus m' = statusLaunched" "reboots m' = Suc (reboots m)"
    using launch_late_power [OF l] by (simp_all add: power_of_def)
  moreover have "Launch env sv (i # is) m = Some (r, m')"
    using assms(3,4) l by (simp add: Launch_def assms(1) m2_def [symmetric] js_def [symmetric])
  ultimately show ?thesis using shutdown_first [of m' sv' cmd] by auto
qed

theorem failed_launch_reopens_shutdown_witness:
  "\<exists>r m'. Launch (sample_env\<lparr>le_ProgramArgs := \<lambda>_. Err EINVAL\<rparr>) quiet_system [0]
       (sample_machine\<lparr>vcfg := zero_VCFG\<lparr>vc_Programs := [sample_program]\<rparr>\<rparr>) = Some (r, m') \<and>
     initStatus m' = statusLaunched \<and> reboots m' = 1 \<and>
     reboots (shutdown quiet_system REBOOT_CMD_RESTART m') = 2"
proof -
  let ?m = "sample_machine\<lparr>vcfg := zero_VCFG\<lparr>vc_Programs := [sample_program]\<rparr>\<rparr>"
  obtain m1 where "launchProgram (sample_env\<lparr>le_ProgramArgs := \<lambda>_. Err EINVAL\<rparr>) 0 (launch_start ?m) = Some (Err EINVAL, m1)"
    by (simp add: launchProgram_def Let_def)
  moreover have "initStatus ?m \<noteq> statusPoweroff" "reboots ?m = 0" "vc_Programs (vcfg ?m) \<noteq> []" "0 < length (programs ?m)"
    by (simp_all add: sample_machine_def prepProgram_def New_def reboots_def world_of_def)
  ultimately show ?thesis
    using failed_launch_reopens_shutdown [of "sample_env\<lparr>le_ProgramArgs := \<lambda>_. Err EINVAL\<rparr>" 0 ?m EINVAL m1
        quiet_system "[]" quiet_system REBOOT_CMD_RESTART] by auto
qed

end
