(* ===== verification/FileView.thy ===== *)
theory FileView
  imports OsModel
begin

text \<open>
  What a component sees of a file: whether it can be used, where it is, whether it exists and what it
  holds.  \<open>writer\<close> is the contract of an operation that writes one file; a sequence of such writes
  leaves in every file the value of the last write to it.
\<close>

text \<open>Nothing is refused and the path leads to a file, or to a place where one can be made.\<close>

definition usable :: "string \<Rightarrow> 'a world_scheme \<Rightarrow> bool" where
  "usable p w \<longleftrightarrow>
     w_deny w ''stat'' p = None \<and> w_deny w ''open'' p = None \<and> w_deny w ''write'' p = None \<and>
     is_ok (open_write True p w)"

definition place :: "string \<Rightarrow> 'a world_scheme \<Rightarrow> string list" where
  "place p w = (case open_write True p w of Ok q \<Rightarrow> q | _ \<Rightarrow> [])"

definition content :: "string \<Rightarrow> 'a world_scheme \<Rightarrow> string" where
  "content p w = (case ReadFile p w of Ok c \<Rightarrow> c | _ \<Rightarrow> [])"

lemma usable_place: "usable p w \<Longrightarrow> open_write True p w = Ok (place p w)"
  by (cases "open_write True p w") (simp_all add: usable_def place_def)

lemma usable_write:
  "usable p w \<Longrightarrow> WriteFile p d w = (Ok (), emit (EvWrite p d) (put_file (place p w) d w))"
  using usable_place [of p w] by (simp add: WriteFile_cases usable_def)

lemma usable_stat:
  assumes "usable p w"
  shows "(\<exists>c. os_Stat p w = Ok (File c) \<and> ReadFile p w = Ok c) \<or>
    (IsNotExist (os_Stat p w) \<and> \<not> is_ok (os_Stat p w) \<and> content p w = [])"
proof -
  obtain nd where r: "resolve (w_fs w) True p = Ok (place p w, nd)"
    and nd: "if nd = None then True else \<exists>x. nd = Some (File x)"
    using usable_place [OF assms] by (auto simp: open_write_Ok)
  show ?thesis
    using assms nd by (cases nd)
      (auto simp: os_Stat_def stat_node_def ReadFile_def content_def IsNotExist_def usable_def r)
qed

text \<open>What a component sees of a file depends on the tree and the refusals only.\<close>

definition seen :: "string \<Rightarrow> 'a world_scheme \<Rightarrow> bool \<times> string list \<times> bool \<times> string" where
  "seen p w = (usable p w, place p w, is_ok (os_Stat p w), content p w)"

lemma seen_cong:
  fixes v w :: "'a world_scheme"
  assumes "w_fs v = w_fs w" and "w_deny v = w_deny w"
  shows "seen p v = seen p w"
proof -
  have "open_write c p v = open_write c p w" "os_Stat p v = os_Stat p w" "ReadFile p v = ReadFile p w" for c
    using assms by (simp_all add: open_write_def os_Stat_def stat_node_def ReadFile_def split: option.splits)
  then show ?thesis using assms by (simp add: seen_def usable_def place_def content_def)
qed

lemma seen_put_same:
  assumes "usable k w"
  shows "seen k (put_file (place k w) d w) = (True, place k w, True, d)"
proof -
  define w1 where "w1 = put_file (place k w) d w"
  obtain nd where "resolve (w_fs w) True k = Ok (place k w, nd)"
    using open_write_resolve [OF usable_place [OF assms]] by blast
  from resolve_put_file [OF open_write_writable [OF usable_place [OF assms]] this, of d]
  have r: "resolve (w_fs w1) True k = Ok (place k w, Some (File d))" by (simp only: w1_def) simp
  have deny: "w_deny w1 = w_deny w" by (simp add: w1_def)
  show ?thesis
    using assms unfolding w1_def [symmetric]
    by (simp add: seen_def usable_def place_def content_def open_write_def os_Stat_def stat_node_def
        ReadFile_def r deny)
qed

lemma seen_put_other:
  assumes "usable k w" and "usable k' w" and "place k w \<noteq> place k' w"
  shows "seen k' (put_file (place k w) d w) = seen k' w"
proof -
  define w1 where "w1 = put_file (place k w) d w"
  obtain nd where r: "resolve (w_fs w) True k' = Ok (place k' w, nd)"
    using open_write_resolve [OF usable_place [OF assms(2)]] by blast
  from resolve_put_file [OF open_write_writable [OF usable_place [OF assms(1)]] this, of d]
  have r1: "resolve (w_fs w1) True k' = resolve (w_fs w) True k'"
    using assms(3) r by (simp only: w1_def) simp
  have deny: "w_deny w1 = w_deny w" by (simp add: w1_def)
  have "open_write c k' w1 = open_write c k' w" "os_Stat k' w1 = os_Stat k' w" "ReadFile k' w1 = ReadFile k' w" for c
    by (simp_all add: open_write_def os_Stat_def stat_node_def ReadFile_def r1 deny split: option.splits)
  then show ?thesis
    unfolding w1_def [symmetric] by (simp add: seen_def usable_def place_def content_def deny)
qed


lemma seen_put:
  assumes "usable k w" and "usable p w"
  shows "seen p (put_file (place k w) d w) =
    (if place k w = place p w then (True, place p w, True, d) else seen p w)"
proof (cases "place k w = place p w")
  case True
  then show ?thesis using seen_put_same [OF assms(2)] by simp
next
  case False
  then show ?thesis using seen_put_other [OF assms] by simp
qed

section \<open>Sequences of writes\<close>

locale writer =
  fixes step :: "'x \<Rightarrow> 'a world_scheme \<Rightarrow> 'a world_scheme"
    and path :: "'x \<Rightarrow> string" and val :: "'x \<Rightarrow> string"
  assumes step_fs: "usable (path x) w \<Longrightarrow> w_fs (step x w) = (w_fs w)(place (path x) w \<mapsto> File (val x))"
    and step_deny: "w_deny (step x w) = w_deny w"
begin

lemma step_seen:
  assumes "usable (path x) w" and "usable p w"
  shows "seen p (step x w) =
    (if place (path x) w = place p w then (True, place p w, True, val x) else seen p w)"
  using seen_cong [of "step x w" "put_file (place (path x) w) (val x) w" p] step_fs [OF assms(1)]
    step_deny [of x w] seen_put [OF assms] by simp

lemma steps_seen:
  assumes "\<forall>x \<in> set xs. usable (path x) w" and "usable p w"
  shows "seen p (fold step xs w) =
    (case find (\<lambda>x. place (path x) w = place p w) (rev xs) of
       None \<Rightarrow> seen p w
     | Some x \<Rightarrow> (True, place p w, True, val x))"
  using assms
proof (induction xs arbitrary: w)
  case (Cons x xs)
  have v: "usable q (step x w) \<and> place q (step x w) = place q w" if "usable q w" for q
    using step_seen [of x w q] Cons.prems(1) that by (auto simp: seen_def split: if_splits)
  have eq: "find (\<lambda>y. place (path y) (step x w) = place p (step x w)) (rev xs) =
      find (\<lambda>y. place (path y) w = place p w) (rev xs)"
    using v Cons.prems by (intro find_cong) auto
  have "seen p (fold step xs (step x w)) =
    (case find (\<lambda>y. place (path y) w = place p w) (rev xs) of
       None \<Rightarrow> seen p (step x w)
     | Some y \<Rightarrow> (True, place p w, True, val y))"
    using Cons.IH [of "step x w"] Cons.prems v eq by (auto split: option.splits)
  then show ?case
    using step_seen [of x w p] Cons.prems by (simp add: find_append split: option.splits)
qed simp

end

end
