(* ===== verification/Etc.thy ===== *)
theory Etc
  imports VTypes FileView "HOL-Library.Multiset"
begin

text \<open>
  \<^verbatim>\<open>pkg/vorteil/etc.go\<close>: the files the machine needs in \<open>/etc\<close>.  The embedded files are generated
  at build time and are the parameter \<open>statik\<close>; the random machine id is a parameter as well.
\<close>

definition etcFiles :: "string list" where
  "etcFiles = [''group'', ''localtime'', ''nsswitch.conf'', ''passwd'', ''resolv.conf'']"

definition pathMachineID :: string where
  "pathMachineID = ''/etc/machine-id''"

definition writeEtcFile ::
  "(string \<Rightarrow> string outcome) \<Rightarrow> string \<Rightarrow> string \<Rightarrow> 'a world_scheme \<Rightarrow> unit outcome \<times> 'a world_scheme" where
  "writeEtcFile statik baseName fullName w =
     and_then (statik (''/'' @ baseName @ ''.dat''), w) (\<lambda>contents w. WriteFile fullName contents w)"

text \<open>The characters tab and newline.\<close>

definition tab :: string where "tab = [char_of (9 :: nat)]"
definition newline :: string where "newline = [char_of (10 :: nat)]"

definition hosts_text :: "string \<Rightarrow> string" where
  "hosts_text hn =
     ''127.0.0.1'' @ tab @ ''localhost'' @ newline @
     ''127.0.0.1'' @ tab @ hn @ newline @
     ''::1'' @ tab @ ''ip6-localhost ip6-loopback'' @ newline @
     ''fe00::0'' @ tab @ ''ip6-localnet'' @ newline @
     ''ff00::0'' @ tab @ ''ip6-mcastprefix'' @ newline @
     ''ff02::1'' @ tab @ ''ip6-allnodes'' @ newline @
     ''ff02::2'' @ tab @ ''ip6-allrouters'' @ newline"

definition generateEtcHosts :: "string \<Rightarrow> 'a world_scheme \<Rightarrow> 'a world_scheme" where
  "generateEtcHosts hn w =
     (if IsNotExist (os_Stat ''/etc/hosts'' w) then
        let w = logDebug ''file /etc/hosts does not exist, creating'' w;
            w = logDebug ''/etc/hosts: %s'' w in
        (case WriteFile ''/etc/hosts'' (hosts_text hn) w of
           (Ok _, w) \<Rightarrow> w
         | (_, w) \<Rightarrow> logError ''can not create %s file: %v'' w)
      else w)"

definition user_mark :: "string \<Rightarrow> string" where
  "user_mark user = user @ '':x:1000''"

definition appendUserFile :: "string \<Rightarrow> string \<Rightarrow> string \<Rightarrow> 'a world_scheme \<Rightarrow> 'a world_scheme" where
  "appendUserFile k v user w =
     (case ReadFile k w of
        Ok e \<Rightarrow>
          if \<not> Contains e (user_mark user)
          then ignoring (WriteFile k (e @ v @ newline) (logDebug ''append values to %s'' w)) else w
      | _ \<Rightarrow> logError ''can not read %s'' w)"

definition createUserFile :: "string \<Rightarrow> string \<Rightarrow> string \<Rightarrow> 'a world_scheme \<Rightarrow> 'a world_scheme" where
  "createUserFile k v user w =
     (case WriteFile k (v @ newline) w of
        (Ok _, w) \<Rightarrow> w
      | (_, w) \<Rightarrow> logError ''err.Error()'' w)"

definition generateEtcMachineID :: "string outcome \<Rightarrow> 'a world_scheme \<Rightarrow> 'a world_scheme" where
  "generateEtcMachineID uuid w =
     (if IsNotExist (os_Stat pathMachineID w) then
        (case uuid of
           Ok i \<Rightarrow> (case WriteFile pathMachineID i w of
                     (Ok _, w) \<Rightarrow> w
                   | (_, w) \<Rightarrow> logError ''err.Error()'' w)
         | _ \<Rightarrow> logError ''err.Error()'' w)
      else w)"

definition default_user :: "string \<Rightarrow> string" where
  "default_user user = (if user = [] then ''vorteil'' else user)"

definition passwd_text :: "string \<Rightarrow> string" where
  "passwd_text user =
     ''root:x:0:0:root:/:/bin/false'' @ newline @ user @ '':x:1000:1000:'' @ user @ '':/:/bin/false''"

definition group_text :: "string \<Rightarrow> string" where
  "group_text user = ''root:x:0:root'' @ newline @ user @ '':x:1000:'' @ user"

definition user_files :: "string \<Rightarrow> gomap" where
  "user_files user = [(''/etc/passwd'', passwd_text user), (''/etc/group'', group_text user)]"

definition user_file_step :: "string \<Rightarrow> string \<times> string \<Rightarrow> 'a world_scheme \<Rightarrow> 'a world_scheme" where
  "user_file_step user kv w =
     (let (k, v) = kv; w = logDebug ''checking %s'' w; st = os_Stat k w in
      if is_ok st then appendUserFile k v user w
      else if IsNotExist st then createUserFile k v user w else w)"

text \<open>\<open>ord\<close> is the order in which Go iterates over the map of the two files.\<close>

definition addVorteilUserGroup ::
  "(gomap \<Rightarrow> gomap) \<Rightarrow> string \<Rightarrow> 'a world_scheme \<Rightarrow> 'a world_scheme" where
  "addVorteilUserGroup ord user w =
     (let user = default_user user in fold (user_file_step user) (ord (user_files user)) w)"

definition genHostnameFile :: "string \<Rightarrow> 'a world_scheme \<Rightarrow> unit outcome \<times> 'a world_scheme" where
  "genHostnameFile hn w =
     (let hn = (if 0 < IndexByte hn CHR ''.'' then take (nat (IndexByte hn CHR ''.'')) hn else hn) in
      and_then (WriteFile ''/etc/hostname'' hn w) (\<lambda>_ w. (Ok (), generateEtcHosts hn w)))"

definition etc_file_step ::
  "(string \<Rightarrow> string outcome) \<Rightarrow> string \<Rightarrow> 'a world_scheme \<Rightarrow> 'a world_scheme" where
  "etc_file_step statik f w =
     (let fullName = PathJoin [''/etc'', f] in
      if IsNotExist (os_Stat fullName w)
      then ignoring (writeEtcFile statik f fullName (logDebug ''creating file %s'' w)) else w)"

text \<open>\<open>generateEtcMachineID\<close> runs in a goroutine of its own and is not part of the result.\<close>

definition etcGenerateFiles ::
  "(string \<Rightarrow> string outcome) \<Rightarrow> (gomap \<Rightarrow> gomap) \<Rightarrow> string \<Rightarrow> string \<Rightarrow> 'a world_scheme \<Rightarrow>
   unit outcome \<times> 'a world_scheme" where
  "etcGenerateFiles statik ord hn user w =
     (let w = ignoring (MkdirAll ''/etc'' w);
          w = addVorteilUserGroup ord user w;
          w = fold (etc_file_step statik) etcFiles w in
      genHostnameFile hn w)"

section \<open>The user record\<close>

lemma user_text_marked:
  "Contains (passwd_text user) (user_mark user)" "Contains (group_text user) (user_mark user)"
proof -
  have "passwd_text user = (''root:x:0:0:root:/:/bin/false'' @ newline) @ user_mark user @ ('':1000:'' @ user @ '':/:/bin/false'')"
    by (simp add: passwd_text_def user_mark_def)
  then show "Contains (passwd_text user) (user_mark user)" unfolding Contains_iff by blast
  have "group_text user = (''root:x:0:root'' @ newline) @ user_mark user @ ('':'' @ user)"
    by (simp add: group_text_def user_mark_def)
  then show "Contains (group_text user) (user_mark user)" unfolding Contains_iff by blast
qed

lemma Contains_extend: "Contains s t \<Longrightarrow> Contains (a @ s @ b) t"
  unfolding Contains_iff by (metis append.assoc)

lemma user_file_step_eq:
  assumes "usable k w"
  shows "w_fs (user_file_step user (k, v) w) =
    (if is_ok (os_Stat k w) \<and> Contains (content k w) (user_mark user) then w_fs w
     else (w_fs w)(place k w \<mapsto> File (content k w @ v @ newline)))"
proof -
  have u: "usable k (log l f w)" "place k (log l f w) = place k w" "os_Stat k (log l f w) = os_Stat k w"
    "ReadFile k (log l f w) = ReadFile k w" for l f
    using assms by (simp_all add: usable_def place_def open_write_def os_Stat_def stat_node_def ReadFile_def
        split: option.splits)
  have u2: "usable k (log l f (log l' f' w))" "place k (log l f (log l' f' w)) = place k w" for l f l' f'
    using assms by (simp_all add: usable_def place_def open_write_def split: option.splits)
  from usable_stat [OF assms] show ?thesis
    by (elim disjE)
      (auto simp: user_file_step_def appendUserFile_def createUserFile_def u u2 usable_write ignoring_def content_def)
qed

lemma user_file_step_deny: "w_deny (user_file_step user kv w) = w_deny w"
  by (auto simp: user_file_step_def appendUserFile_def createUserFile_def WriteFile_cases Let_def ignoring_def
      split: prod.splits outcome.splits option.splits)

text \<open>The tree after a step, as one write or none.\<close>

definition after_step :: "string \<Rightarrow> string \<times> string \<Rightarrow> 'a world_scheme \<Rightarrow> 'a world_scheme" where
  "after_step user kv w =
     (if is_ok (os_Stat (fst kv) w) \<and> Contains (content (fst kv) w) (user_mark user) then w
      else put_file (place (fst kv) w) (content (fst kv) w @ snd kv @ newline) w)"

lemma seen_user_file_step: "usable k w \<Longrightarrow> seen p (user_file_step user (k, v) w) = seen p (after_step user (k, v) w)"
  by (rule seen_cong) (auto simp: user_file_step_eq user_file_step_deny after_step_def)

lemma step_self:
  assumes "usable k w" and "Contains v (user_mark user)"
  shows "\<exists>c. seen k (user_file_step user (k, v) w) = (True, place k w, True, c) \<and>
    Contains c (user_mark user) \<and> prefix (content k w) c"
proof (cases "is_ok (os_Stat k w) \<and> Contains (content k w) (user_mark user)")
  case True
  have "seen k (user_file_step user (k, v) w) = seen k w"
    using assms(1) True by (simp add: seen_user_file_step after_step_def)
  with True assms(1) show ?thesis by (auto simp: seen_def)
next
  case False
  have "Contains (content k w @ v @ newline) (user_mark user)"
    using assms(2) by (rule Contains_extend)
  with False assms(1) show ?thesis
    by (auto simp: seen_user_file_step after_step_def seen_put_same)
qed

lemma step_other:
  assumes "usable k w" and "usable k' w" and "place k w \<noteq> place k' w"
  shows "seen k' (user_file_step user (k, v) w) = seen k' w"
  using assms by (simp add: seen_user_file_step after_step_def seen_put_other)

lemma step_done:
  assumes "seen k w = (True, q, True, c)" and "Contains c (user_mark user)"
  shows "w_fs (user_file_step user (k, v) w) = w_fs w"
proof -
  have "usable k w" "is_ok (os_Stat k w)" "content k w = c" using assms(1) by (simp_all add: seen_def)
  with assms(2) show ?thesis by (simp add: user_file_step_eq)
qed

text \<open>Two steps on different files, in either order.\<close>

lemma two_steps:
  assumes "usable k w" and "usable k' w" and "place k w \<noteq> place k' w"
    and "Contains v (user_mark user)" and "Contains v' (user_mark user)"
  shows "\<exists>c c'. let w2 = user_file_step user (k', v') (user_file_step user (k, v) w) in
    seen k w2 = (True, place k w, True, c) \<and> seen k' w2 = (True, place k' w, True, c') \<and>
    Contains c (user_mark user) \<and> Contains c' (user_mark user) \<and>
    prefix (content k w) c \<and> prefix (content k' w) c'"
proof -
  define w1 where "w1 = user_file_step user (k, v) w"
  obtain c where c: "seen k w1 = (True, place k w, True, c)" "Contains c (user_mark user)" "prefix (content k w) c"
    using step_self [OF assms(1,4)] by (auto simp: w1_def)
  have k': "seen k' w1 = seen k' w" using step_other [OF assms(1-3)] by (simp add: w1_def)
  have u: "usable k w1" "usable k' w1" "place k' w1 \<noteq> place k w1" "place k' w1 = place k' w" "content k' w1 = content k' w"
    using c(1) k' assms(2,3) by (auto simp: seen_def)
  obtain c' where "seen k' (user_file_step user (k', v') w1) = (True, place k' w1, True, c')"
    "Contains c' (user_mark user)" "prefix (content k' w1) c'"
    using step_self [OF u(2) assms(5)] by blast
  moreover have "seen k (user_file_step user (k', v') w1) = seen k w1"
    using step_other [OF u(2,1,3)] .
  ultimately show ?thesis using c u(4,5) by (auto simp: Let_def w1_def [symmetric])
qed


definition etc_world :: world where
  "etc_world = world_of [(''/etc'', Dir), (''/etc/passwd'', File ''daemon:x:2:2::/:'')]"


section \<open>The hostname\<close>

lemma IndexByte_eq: "IndexByte s c = (if c \<in> set s then int (length (takeWhile (\<lambda>x. x \<noteq> c) s)) else -1)"
  by (simp add: IndexByte_def cut_char)

text \<open>The host part of a name: what comes before the first dot, unless the name starts with it.\<close>

definition host_part :: "string \<Rightarrow> string" where
  "host_part s = (if s \<noteq> [] \<and> hd s = CHR ''.'' then s else takeWhile (\<lambda>x. x \<noteq> CHR ''.'') s)"

lemma host_part_eq:
  "(if 0 < IndexByte s CHR ''.'' then take (nat (IndexByte s CHR ''.'')) s else s) = host_part s"
proof (cases s)
  case (Cons x xs)
  show ?thesis
  proof (cases "CHR ''.'' \<in> set s")
    case True
    then show ?thesis
      by (auto simp: Cons IndexByte_eq host_part_def takeWhile_eq_take [symmetric] nat_add_distrib)
  next
    case False
    then show ?thesis
      by (auto simp: Cons IndexByte_eq host_part_def intro!: takeWhile_eq_all_conv [THEN iffD2, symmetric])
  qed
qed (simp add: IndexByte_eq host_part_def)

lemma genHostnameFile_eq:
  "genHostnameFile hn w =
     and_then (WriteFile ''/etc/hostname'' (host_part hn) w) (\<lambda>_ w. (Ok (), generateEtcHosts (host_part hn) w))"
  by (simp add: genHostnameFile_def host_part_eq Let_def)

lemma ReadFile_log: "ReadFile p (log l f w) = ReadFile p w"
  by (simp add: log_def)

lemma hosts_other:
  assumes "ReadFile ''/etc/hostname'' w = Ok c" and "\<not> same_file ''/etc/hosts'' ''/etc/hostname'' w"
  shows "ReadFile ''/etc/hostname'' (generateEtcHosts hn w) = Ok c"
proof -
  define v where "v = logDebug ''/etc/hosts: %s'' (logDebug ''file /etc/hosts does not exist, creating'' w)"
  have v: "ReadFile ''/etc/hostname'' v = Ok c" "\<not> same_file ''/etc/hosts'' ''/etc/hostname'' v"
    using assms by (simp_all add: v_def log_def same_file_def)
  obtain r u where u: "WriteFile ''/etc/hosts'' (hosts_text hn) v = (r, u)"
    by (cases "WriteFile ''/etc/hosts'' (hosts_text hn) v")
  have "ReadFile ''/etc/hostname'' u = Ok c" by (rule fstore.read_frame [OF u v])
  then show ?thesis
    using assms(1) by (cases r) (simp_all add: generateEtcHosts_def Let_def v_def [symmetric] u ReadFile_log)
qed

text \<open>
  When \<open>genHostnameFile\<close> succeeds, \<open>/etc/hostname\<close> holds the part of the name before the first dot
  (the whole name when it starts with a dot), and an existing \<open>/etc/hosts\<close> is left alone.
\<close>

theorem genHostnameFile_correct:
  assumes "genHostnameFile hn w = (Ok (), w')"
    and "\<not> same_file ''/etc/hosts'' ''/etc/hostname'' (snd (WriteFile ''/etc/hostname'' (host_part hn) w))"
  shows "ReadFile ''/etc/hostname'' w' = Ok (host_part hn) \<and>
    (ReadFile ''/etc/hosts'' w = Ok c \<and> \<not> same_file ''/etc/hostname'' ''/etc/hosts'' w \<and>
     w_deny w ''stat'' ''/etc/hosts'' = None \<longrightarrow> ReadFile ''/etc/hosts'' w' = Ok c)"
proof -
  obtain w1 where w1: "WriteFile ''/etc/hostname'' (host_part hn) w = (Ok (), w1)"
    and w': "w' = generateEtcHosts (host_part hn) w1"
    using assms(1) by (auto simp: genHostnameFile_eq and_then_Ok_iff)
  have "ReadFile ''/etc/hostname'' w1 = Ok (host_part hn)" by (rule fstore.read_write [OF w1])
  with assms(2) have "ReadFile ''/etc/hostname'' w' = Ok (host_part hn)"
    by (simp add: w' w1 hosts_other)
  moreover have "ReadFile ''/etc/hosts'' w' = Ok c"
    if c: "ReadFile ''/etc/hosts'' w = Ok c" and ns: "\<not> same_file ''/etc/hostname'' ''/etc/hosts'' w"
      and st: "w_deny w ''stat'' ''/etc/hosts'' = None"
  proof -
    have r: "ReadFile ''/etc/hosts'' w1 = Ok c" by (rule fstore.read_frame [OF w1 c ns])
    have "w_deny w1 = w_deny w"
      using w1 by (auto simp: WriteFile_cases split: outcome.splits option.splits)
    then have "\<not> IsNotExist (os_Stat ''/etc/hosts'' w1)"
      using r st by (auto simp: os_Stat_def stat_node_def IsNotExist_def ReadFile_Ok)
    with r show ?thesis by (simp add: w' generateEtcHosts_def)
  qed
  ultimately show ?thesis by blast
qed

theorem genHostnameFile_correct_witness:
  "ReadFile ''/etc/hostname'' (snd (genHostnameFile ''vm.example.org'' etc_world)) = Ok ''vm''"
proof -
  have "fst (genHostnameFile ''vm.example.org'' etc_world) = Ok ()" unfolding etc_world_def by code_simp
  then have "genHostnameFile ''vm.example.org'' etc_world =
      (Ok (), snd (genHostnameFile ''vm.example.org'' etc_world))" by (metis prod.collapse)
  moreover have "\<not> same_file ''/etc/hosts'' ''/etc/hostname''
      (snd (WriteFile ''/etc/hostname'' (host_part ''vm.example.org'') etc_world))"
  proof -
    define v where "v = snd (WriteFile ''/etc/hostname'' (host_part ''vm.example.org'') etc_world)"
    have "resolve (w_fs v) True ''/etc/hosts'' = Ok ([''etc'', ''hosts''], None)"
      "resolve (w_fs v) True ''/etc/hostname'' = Ok ([''etc'', ''hostname''], Some (File ''vm''))"
      unfolding v_def etc_world_def by code_simp+
    then show ?thesis by (simp add: same_file_def v_def [symmetric])
  qed
  moreover have "host_part ''vm.example.org'' = ''vm''" by code_simp
  ultimately show ?thesis using genHostnameFile_correct by metis
qed

end
