(* ===== verification/Disk.thy ===== *)
theory Disk
  imports Process GptGrow
begin

text \<open>
  \<^verbatim>\<open>pkg/vorteil/disk.go\<close> and \<^verbatim>\<open>pkg/vorteil/gptutil.go\<close>: mounting the basic directories and growing
  the boot disk, its partition and its file system.  The boot disk is an open block device beside
  the machine; what the kernel answers to the resize calls is the parameter \<open>diskkern\<close>.
\<close>

section \<open>Formats\<close>

datatype Format = Ext2FS | Ext4FS | XFS | UnknownFS

definition ext2Signature :: "byte list" where "ext2Signature = [0x53, 0xEF]"
definition xfsSignature :: "byte list" where "xfsSignature = [0x58, 0x46, 0x53, 0x42]"

text \<open>The offsets are \<open>int64\<close>, so the sum wraps.\<close>

definition detectFormat :: "osfile \<Rightarrow> string \<Rightarrow> u64 \<Rightarrow> Format outcome" where
  "detectFormat f path start =
     bind_out (f_read_at 2 (sint (start + 1080)) f) (\<lambda>b.
     if b = ext2Signature then Ok Ext2FS
     else bind_out (f_read_at 4 (sint start) f) (\<lambda>b.
       if b = xfsSignature then Ok XFS else Ok UnknownFS))"

section \<open>Mounts\<close>

definition mountFs :: "sysview \<Rightarrow> string \<Rightarrow> string \<Rightarrow> string \<Rightarrow> machine \<Rightarrow> unit outcome \<times> machine" where
  "mountFs env target fstype options m =
     and_then
       (if IsNotExist (os_Stat target m) then
          MkdirAll target
            (if target = ''/proc'' \<or> target = ''/sys''
             then SystemPanic env ''file '%s' does not exist'' m else m)
        else (Ok (), m))
       (\<lambda>_ m. syscall_Mount ''none'' target fstype 0 options m)"

text \<open>The index panics for a name with fewer than two slashes.\<close>

definition changeDiskScheduler :: "string \<Rightarrow> 'a world_scheme \<Rightarrow> unit outcome \<times> 'a world_scheme" where
  "changeDiskScheduler vdisk w =
     (let s = SplitN vdisk ''/'' 3 in
      if length s < 3 then (Panic IndexOutOfRange, w)
      else (Ok (), ignoring (WriteFile (''/sys/block/'' @ s ! 2 @ ''/queue/scheduler'') ''noop'' w)))"

fun mount_dirs :: "sysview \<Rightarrow> (string \<times> string) list \<Rightarrow> machine \<Rightarrow> unit outcome \<times> machine" where
  "mount_dirs env [] m = (Ok (), m)"
| "mount_dirs env ((path, fstype) # ds) m =
     and_then (mountFs env path fstype [] m) (\<lambda>_ m. mount_dirs env ds m)"

definition basic_dirs :: "string \<Rightarrow> (string \<times> string) list" where
  "basic_dirs base =
     [(PathJoin [base, ''/proc''], ''proc''), (PathJoin [base, ''/sys''], ''sysfs''),
      (PathJoin [base, ''/dev/pts''], ''devpts'')]"

definition setupBasicDirectories :: "sysview \<Rightarrow> string \<Rightarrow> machine \<Rightarrow> unit outcome \<times> machine" where
  "setupBasicDirectories env base m =
     (let m = ignoring (os_Chmod (PathJoin [base, ''/tmp'']) 511 m) in
      and_then (mount_dirs env (basic_dirs base) m)
        (\<lambda>_ m. (Ok (), ignoring (os_Symlink ''/proc/self/fd'' ''/dev/fd'' m))))"

section \<open>Growing\<close>

record xfsGrowFSData =
  xg_newBlocks :: u64
  xg_imaxpct :: u32

record xfsFsopGeom =
  xf_blockSize :: u32
  xf_rtExtSize :: u32
  xf_agBlocks :: u32
  xf_agCount :: u32
  xf_logBlocks :: u32
  xf_sectSize :: u32
  xf_inodeSize :: u32
  xf_iMaxPct :: u32
  xf_dataBlocks :: u64
  xf_rtBlocks :: u64
  xf_rtExtents :: u64
  xf_logStart :: u64
  xf_uuid :: "byte list"
  xf_sUnit :: u32
  xf_sWidth :: u32
  xf_version :: u32
  xf_flags :: u32
  xf_logSectSize :: u32
  xf_rtSectSize :: u32
  xf_dirBlockSize :: u32
  xf_logsUnit :: u32

text \<open>The answers of \<open>fstatfs\<close> on the root and of the resize calls, given their arguments.\<close>

record diskkern =
  dk_Bsize :: "u64 outcome"
  dk_resizePart :: "u64 \<Rightarrow> u64 \<Rightarrow> goerr option"
  dk_xfsGeom :: "xfsFsopGeom outcome"
  dk_xfsGrow :: "xfsGrowFSData \<Rightarrow> goerr option"
  dk_extResize :: "u64 \<Rightarrow> goerr option"

definition BLKPG_RESIZE_PARTITION :: int where "BLKPG_RESIZE_PARTITION = 3"

definition answer :: "goerr option \<Rightarrow> string \<Rightarrow> 's \<Rightarrow> unit outcome \<times> 's" where
  "answer r fmt s = (case r of None \<Rightarrow> (Ok (), s) | Some e \<Rightarrow> (Err (Errorf fmt), s))"

definition resize_xfs :: "diskkern \<Rightarrow> u64 \<Rightarrow> machine \<Rightarrow> unit outcome \<times> machine" where
  "resize_xfs kern blocks m =
     (let m = emit (EvIoctl ''xfsGeom'' []) (logDebug ''detected xfs filesystem'' m) in
      case dk_xfsGeom kern of
        Ok geom \<Rightarrow>
          (let x = \<lparr>xg_newBlocks = blocks, xg_imaxpct = xf_iMaxPct geom\<rparr> in
           answer (dk_xfsGrow kern x) ''error resizing xfs filesystem: %s''
             (emit (EvIoctl ''xfsGrowFS'' [uint (xg_newBlocks x), uint (xg_imaxpct x)]) m))
      | _ \<Rightarrow> (Err (Errorf ''error getting xfs geometry: %s''), m))"

definition resize_ext :: "diskkern \<Rightarrow> u64 \<Rightarrow> machine \<Rightarrow> unit outcome \<times> machine" where
  "resize_ext kern blocks m =
     answer (dk_extResize kern blocks) ''error resizing ext filesystem: %s''
       (emit (EvIoctl ''ext4IOCResizeFS'' [uint blocks]) (logDebug ''detected ext filesystem'' m))"

definition resize_filesystem :: "diskkern \<Rightarrow> Format \<Rightarrow> u64 \<Rightarrow> machine \<Rightarrow> unit outcome \<times> machine" where
  "resize_filesystem kern format blocks m =
     (case format of
        XFS \<Rightarrow> resize_xfs kern blocks m
      | Ext2FS \<Rightarrow> resize_ext kern blocks m
      | Ext4FS \<Rightarrow> resize_ext kern blocks m
      | UnknownFS \<Rightarrow> (Ok (), m))"

text \<open>What follows a successful \<open>grow\<close>: the kernel's view of the partition, then the file system.\<close>

definition resize_mounted ::
  "diskkern \<Rightarrow> PartitionEntry \<Rightarrow> string \<Rightarrow> osfile \<Rightarrow> machine \<Rightarrow> unit outcome \<times> machine" where
  "resize_mounted kern e p f m =
     and_then (os_Open ''/'' m, m) (\<lambda>_ m.
     and_then (dk_Bsize kern, m) (\<lambda>bsize m.
     if bsize = 0 then (Panic DivideByZero, m) else
     let first = pe_FirstLBA e * word_of_nat sectorSize;
         len = (pe_LastLBA e - pe_FirstLBA e) * word_of_nat sectorSize;
         blocks = len div bsize in
     and_then (answer (dk_resizePart kern first len) ''error resizing gpt: %s''
         (emit (EvIoctl ''BLKPG'' [BLKPG_RESIZE_PARTITION, sint first, sint len, 2]) m)) (\<lambda>_ m.
     and_then (detectFormat f p first, m) (\<lambda>format m.
     resize_filesystem kern format blocks m))))"

definition growDisk ::
  "diskkern \<Rightarrow> string \<Rightarrow> osfile \<times> machine \<Rightarrow> unit outcome \<times> osfile \<times> machine" where
  "growDisk kern p fm =
     (let (f, m) = fm in
      case newGPTModifier f p of
        (Ok g, f) \<Rightarrow>
          if \<not> needsResize g then (Ok (), gm_f g, m)
          else
            (case grow g of
               (Ok _, g) \<Rightarrow>
                 (case gm_partitionEntry g of
                    None \<Rightarrow> (Panic NilDereference, gm_f g, m)
                  | Some e \<Rightarrow> (let (r, m) = resize_mounted kern e p (gm_f g) m in (r, gm_f g, m)))
             | (Err x, g) \<Rightarrow> (Err x, gm_f g, m)
             | (Panic x, g) \<Rightarrow> (Panic x, gm_f g, m))
      | (Err x, f) \<Rightarrow> (Err x, f, m)
      | (Panic x, f) \<Rightarrow> (Panic x, f, m))"

text \<open>\<open>d\<close> is the device the path of the boot disk names; \<open>O_SYNC\<close> makes the writes final.\<close>

definition growDisks :: "diskkern \<Rightarrow> dev \<times> machine \<Rightarrow> unit outcome \<times> dev \<times> machine" where
  "growDisks kern dm =
     (let (d, m) = dm in
      case bootDisk m of
        Err e \<Rightarrow> (Err e, d, m)
      | Panic x \<Rightarrow> (Panic x, d, m)
      | Ok p \<Rightarrow>
          (case open_write False p m of
             Err e \<Rightarrow> (Err e, d, m)
           | Panic x \<Rightarrow> (Panic x, d, m)
           | Ok q \<Rightarrow>
               (case growDisk kern p (\<lparr>fdev = d, fpos = 0\<rparr>, m) of
                  (Ok _, f, m) \<Rightarrow> (Ok (), fdev f, flushDisk p m)
                | (Err e, f, m) \<Rightarrow> (Err e, fdev f, m)
                | (Panic x, f, m) \<Rightarrow> (Panic x, fdev f, m))))"

section \<open>What growing asks of the kernel\<close>

definition format_of :: "dev \<Rightarrow> nat \<Rightarrow> Format" where
  "format_of d start =
     (if bytes_at d (start + 1080) 2 = ext2Signature then Ext2FS
      else if bytes_at d start 4 = xfsSignature then XFS else UnknownFS)"

lemma detectFormat_ok:
  assumes "sound_dev (fdev f)" and "unat start + 1082 \<le> dsize (fdev f)" and "dsize (fdev f) < 2 ^ 63"
  shows "detectFormat f p start = Ok (format_of (fdev f) (unat start))"
proof -
  have a: "unat (start + 1080) = unat start + 1080"
    using assms(2,3) by (subst unat_add_lt) simp_all
  then have s: "sint (start + 1080) = int (unat start + 1080)" "sint start = int (unat start)"
    using assms(2,3) sint_eq_unat [of "start + 1080"] sint_eq_unat [of start] by simp_all
  have "f_read_at 2 (int (unat start + 1080)) f = Ok (bytes_at (fdev f) (unat start + 1080) 2)"
    "f_read_at 4 (int (unat start)) f = Ok (bytes_at (fdev f) (unat start) 4)"
    using assms by (intro f_read_at_ok; simp)+
  then show ?thesis
    by (simp add: detectFormat_def s format_of_def del: of_nat_add)
qed

text \<open>A kernel that accepts every resize, with the block size of the root file system.\<close>

definition accepting :: "diskkern \<Rightarrow> u64 \<Rightarrow> xfsFsopGeom \<Rightarrow> bool" where
  "accepting kern bs geom \<longleftrightarrow>
     dk_Bsize kern = Ok bs \<and> bs \<noteq> 0 \<and> dk_xfsGeom kern = Ok geom \<and>
     (\<forall>a n. dk_resizePart kern a n = None) \<and> (\<forall>x. dk_xfsGrow kern x = None) \<and>
     (\<forall>n. dk_extResize kern n = None)"

fun resize_events :: "Format \<Rightarrow> nat \<Rightarrow> xfsFsopGeom \<Rightarrow> event list" where
  "resize_events XFS n geom =
     [EvLog ''debug'' ''detected xfs filesystem'', EvIoctl ''xfsGeom'' [],
      EvIoctl ''xfsGrowFS'' [int n, uint (xf_iMaxPct geom)]]"
| "resize_events UnknownFS n geom = []"
| "resize_events _ n geom =
     [EvLog ''debug'' ''detected ext filesystem'', EvIoctl ''ext4IOCResizeFS'' [int n]]"

lemma resize_filesystem_ok:
  assumes "accepting kern bs geom"
  shows "resize_filesystem kern fmt blocks m =
    (Ok (), m\<lparr>w_trace := w_trace m @ resize_events fmt (unat blocks) geom\<rparr>)"
  using assms
  by (cases fmt) (simp_all add: resize_filesystem_def resize_xfs_def resize_ext_def accepting_def
    answer_def log_def emit_def)

lemma resize_mounted_ok:
  assumes "accepting kern bs geom" and "w_deny m ''open'' ''/'' = None"
    and "sound_dev (fdev f)" and "dsize (fdev f) < 2 ^ 63"
    and "unat (pe_FirstLBA e) \<le> unat (pe_LastLBA e)" and "unat (pe_LastLBA e) * 512 < 2 ^ 63"
    and "unat (pe_FirstLBA e) * 512 + 1082 \<le> dsize (fdev f)"
  shows "resize_mounted kern e p f m =
    (Ok (), m\<lparr>w_trace := w_trace m @
       EvIoctl ''BLKPG'' [3, int (unat (pe_FirstLBA e) * 512),
         int ((unat (pe_LastLBA e) - unat (pe_FirstLBA e)) * 512), 2] #
       resize_events (format_of (fdev f) (unat (pe_FirstLBA e) * 512))
         ((unat (pe_LastLBA e) - unat (pe_FirstLBA e)) * 512 div unat bs) geom\<rparr>)"
proof -
  let ?a = "pe_FirstLBA e" and ?n = "pe_LastLBA e - pe_FirstLBA e"
  have n: "unat ?n = unat (pe_LastLBA e) - unat ?a"
    using assms(5) by (rule unat_sub_le)
  have "unat ?a * 512 < 2 ^ 63" "unat ?n * 512 < 2 ^ 63"
    using assms(5,6) by (simp_all add: n)
  then have w: "unat (?a * 512) = unat ?a * 512" "unat (?n * 512) = unat ?n * 512"
    "sint (?a * 512) = int (unat ?a * 512)" "sint (?n * 512) = int (unat ?n * 512)"
    by (simp_all only: sint_sector) (rule unat_sector, simp)+
  have "os_Open ''/'' m = Ok Dir"
    using assms(2) by (simp add: os_Open_def resolve_def comps_def Split_def split_all.simps)
  moreover have "detectFormat f p (?a * 512) = Ok (format_of (fdev f) (unat ?a * 512))"
    using detectFormat_ok [OF assms(3) _ assms(4), of "?a * 512" p] assms(7) by (simp only: w)
  moreover have "dk_Bsize kern = Ok bs" "bs \<noteq> 0" "dk_resizePart kern (?a * 512) (?n * 512) = None"
    using assms(1) by (simp_all add: accepting_def)
  ultimately show ?thesis
    by (simp add: resize_mounted_def resize_filesystem_ok [OF assms(1)] answer_def emit_def w n unat_div
      BLKPG_RESIZE_PARTITION_def Let_def del: left_diff_distrib_numeral)
qed


lemma format_of_grown:
  assumes "67 \<le> N0" and "N0 < N" and "0 < k" and "k \<le> 128" and "34 \<le> a" and "a + 36 \<le> N0"
  shows "format_of (grown N0 k N d) (a * 512) = format_of d (a * 512)"
proof -
  have "dbyte (grown N0 k N d) i = dbyte d i" if "a * 512 \<le> i" "i < a * 512 + 1082" for i
  proof -
    have "a * 512 + 1082 \<le> (N0 - 33) * 512" "(N0 - 33) * 512 \<le> (N - 33) * 512"
      "1024 + (k - 1) * 128 + 128 \<le> 17408"
      using assms by simp_all
    then show ?thesis using assms that by (intro grown_frame) linarith+
  qed
  then have "bytes_at (grown N0 k N d) (a * 512 + 1080) 2 = bytes_at d (a * 512 + 1080) 2"
    "bytes_at (grown N0 k N d) (a * 512) 4 = bytes_at d (a * 512) 4"
    by (intro bytes_at_cong; simp)+
  then show ?thesis by (simp add: format_of_def)
qed

lemma growDisk_ok:
  assumes "gpt_layout N0 k (fdev f)" and "sound_dev (fdev f)" and "dsize (fdev f) < 2 ^ 63"
    and "(N0 + 1) * 512 < dsize (fdev f)"
    and "accepting kern bs geom" and "w_deny m ''open'' ''/'' = None"
  defines "a \<equiv> unat (pe_FirstLBA (entry_at (fdev f) (k - 1)))" and "N \<equiv> dsize (fdev f) div 512"
  assumes "34 \<le> a" and "a + 36 \<le> N0"
  shows "\<exists>f'. growDisk kern p (f, m) =
      (Ok (), f', m\<lparr>w_trace := w_trace m @
         EvIoctl ''BLKPG'' [3, int (a * 512), int ((N - 34 - a) * 512), 2] #
         resize_events (format_of (fdev f) (a * 512)) ((N - 34 - a) * 512 div unat bs) geom\<rparr>) \<and>
    fdev f' = grown N0 k N (fdev f)"
proof -
  let ?e = "grown_entry k N (fdev f)"
  obtain g f1 g' where g: "newGPTModifier f p = (Ok g, f1)" "needsResize g" "grow g = (Ok (), g')"
    "fdev (gm_f g') = grown N0 k N (fdev f)" "gm_partitionEntry g' = Some ?e"
    using open_and_grow [OF assms(1-4), of p] by (auto simp: N_def)
  note grew = grew_sectors [OF assms(4), folded N_def]
  note b = layout_bounds [OF assms(1) grew [unfolded N_def] assms(3), folded N_def]
  have k: "0 < k" "k \<le> 128" using assms(1) by (simp_all add: gpt_layout_def used_entries_def)
  have e: "unat (pe_FirstLBA ?e) = a" "unat (pe_LastLBA ?e) = N - 34"
    using b by (simp_all add: grown_entry_def a_def unat_sub_le unat_of_nat_lt)
  have "N * 512 < 2 ^ 63" using b(4) assms(3) by simp
  then have "resize_mounted kern ?e p (gm_f g') m =
      (Ok (), m\<lparr>w_trace := w_trace m @
         EvIoctl ''BLKPG'' [3, int (a * 512), int ((N - 34 - a) * 512), 2] #
         resize_events (format_of (fdev (gm_f g')) (a * 512)) ((N - 34 - a) * 512 div unat bs) geom\<rparr>)"
    using resize_mounted_ok [OF assms(5,6), of "gm_f g'" ?e p] assms(2,3,10) grew b(4)
    by (simp add: g(4) e del: left_diff_distrib_numeral)
  then show ?thesis
    using g by (simp add: growDisk_def format_of_grown [OF b(1) grew k assms(9,10)])
qed


section \<open>A sample disk with an ext file system\<close>

lemma layout_put:
  assumes "17408 \<le> off"
  shows "gpt_layout N k (put_bytes off bs d) = gpt_layout N k d"
    and "i < 128 \<Longrightarrow> entry_at (put_bytes off bs d) i = entry_at d i"
proof -
  have h: "primary_header (put_bytes off bs d) = primary_header d"
    using assms by (simp add: primary_header_def bytes_at_put_other)
  have e: "entry_at (put_bytes off bs d) i = entry_at d i" if "i < 128" for i
    using assms that by (simp add: entry_at_def bytes_at_put_other)
  then show "i < 128 \<Longrightarrow> entry_at (put_bytes off bs d) i = entry_at d i" .
  have "used_entries k (put_bytes off bs d) = used_entries k d"
    using e by (auto simp: used_entries_def)
  with h show "gpt_layout N k (put_bytes off bs d) = gpt_layout N k d"
    by (simp add: gpt_layout_def)
qed

definition ext_dev :: "nat \<Rightarrow> dev" where
  "ext_dev n = put_bytes 18488 ext2Signature (sample_dev n)"

lemma ext_dev_facts:
  "100 \<le> n \<Longrightarrow> gpt_layout 100 1 (ext_dev n)" "sound_dev (ext_dev n)" "dsize (ext_dev n) = n * 512"
  "unat (pe_FirstLBA (entry_at (ext_dev n) 0)) = 34" "format_of (ext_dev n) 17408 = Ext2FS"
proof -
  show "100 \<le> n \<Longrightarrow> gpt_layout 100 1 (ext_dev n)"
    unfolding ext_dev_def by (subst layout_put(1)) (simp, rule sample_layout)
  show "sound_dev (ext_dev n)" "dsize (ext_dev n) = n * 512"
    by (simp_all add: ext_dev_def)
  show "unat (pe_FirstLBA (entry_at (ext_dev n) 0)) = 34"
    by (simp add: ext_dev_def layout_put sample_entry_def)
  have "bytes_at (ext_dev n) 18488 2 = ext2Signature"
    by (simp add: ext_dev_def ext2Signature_def bytes_at_def put_bytes_def numeral_2_eq_2)
  then show "format_of (ext_dev n) 17408 = Ext2FS"
    by (simp add: format_of_def)
qed

definition sample_geom :: xfsFsopGeom where
  "sample_geom = \<lparr>xf_blockSize = 4096, xf_rtExtSize = 4096, xf_agBlocks = 1024, xf_agCount = 4,
     xf_logBlocks = 512, xf_sectSize = 512, xf_inodeSize = 512, xf_iMaxPct = 25, xf_dataBlocks = 4096,
     xf_rtBlocks = 0, xf_rtExtents = 0, xf_logStart = 0, xf_uuid = replicate 16 0, xf_sUnit = 0,
     xf_sWidth = 0, xf_version = 0, xf_flags = 0, xf_logSectSize = 512, xf_rtSectSize = 512,
     xf_dirBlockSize = 4096, xf_logsUnit = 0\<rparr>"

definition sample_kern :: diskkern where
  "sample_kern = \<lparr>dk_Bsize = Ok 4096, dk_resizePart = (\<lambda>_ _. None), dk_xfsGeom = Ok sample_geom,
     dk_xfsGrow = (\<lambda>_. None), dk_extResize = (\<lambda>_. None)\<rparr>"

definition disk_machine :: machine where
  "disk_machine = New (world_of [(''/proc'', Dir), (''/proc/bootdev'', File ''/dev/sda''), (''/dev'', Dir),
     (''/dev/sda'', File [])])"

lemma disk_machine_facts:
  "bootDisk disk_machine = Ok ''/dev/sda''" "open_write False ''/dev/sda'' disk_machine = Ok [''dev'', ''sda'']"
  "w_deny disk_machine ''open'' ''/'' = None" "w_trace disk_machine = []"
  by (code_simp, code_simp, simp_all add: disk_machine_def New_def world_of_def)

section \<open>Properties\<close>

text \<open>
  C40.  The reader of zeroes fills its buffer.  Copying the filled prefix onto what follows it, twice as
  much each time, ends and gives the same buffer as writing every byte: a buffer of any length is
  all zeroes, and the returned count is its length.
\<close>

theorem zr_Read_reference: "zr_Read p = (length p, map (\<lambda>_. 0) p)"
  by (simp add: zr_Read_zeroes map_replicate_const)

text \<open>
  C26.  Growing the boot disk end to end.  On a disk that has grown by more than one sector and a kernel
  that accepts the resizes, \<open>growDisks\<close> succeeds; the disk is a consistent GPT disk of its full size;
  the kernel is told the new extent of partition 2, and the file system found at the start of the
  partition (and only that one) is resized to the whole blocks of that extent.  The extent is
  \<open>LastLBA - FirstLBA\<close> sectors, one less than the partition has.
\<close>

theorem growDisks_correct:
  assumes "gpt_layout N0 k d" and "sound_dev d" and "dsize d < 2 ^ 63"
    and "(N0 + 1) * 512 < dsize d"
    and "accepting kern bs geom" and "w_deny m ''open'' ''/'' = None"
    and "bootDisk m = Ok p" and "open_write False p m = Ok q"
    and "a = unat (pe_FirstLBA (entry_at d (k - 1)))" and "N = dsize d div 512"
    and "34 \<le> a" and "a + 36 \<le> N0"
  shows "\<exists>d'. growDisks kern (d, m) =
      (Ok (), d', flushDisk p (m\<lparr>w_trace := w_trace m @
         EvIoctl ''BLKPG'' [3, int (a * 512), int ((N - 34 - a) * 512), 2] #
         resize_events (format_of d (a * 512)) ((N - 34 - a) * 512 div unat bs) geom\<rparr>)) \<and>
    gpt_valid N k d'"
proof -
  have v: "gpt_valid N k (grown N0 k N d)"
    using grown_valid [OF assms(1,3) grew_sectors [OF assms(4)]] assms(10) by simp
  show ?thesis
    using growDisk_ok [of N0 k "\<lparr>fdev = d, fpos = 0\<rparr>" kern bs geom m p] assms v
    by (auto simp: growDisks_def)
qed

theorem growDisks_correct_witness:
  "\<exists>d' m'. growDisks sample_kern (ext_dev 200, disk_machine) = (Ok (), d', m') \<and> gpt_valid 200 1 d' \<and>
     take 3 (w_trace m') = [EvIoctl ''BLKPG'' [3, 17408, 67584, 2],
       EvLog ''debug'' ''detected ext filesystem'', EvIoctl ''ext4IOCResizeFS'' [16]]"
proof -
  have "accepting sample_kern 4096 sample_geom" by (simp add: accepting_def sample_kern_def)
  from growDisks_correct [OF ext_dev_facts(1,2) _ _ this disk_machine_facts(3,1,2), of 200 34 200]
  show ?thesis
    by (auto simp: ext_dev_facts disk_machine_facts flushDisk_def split: outcome.splits)
qed

end
