(* ===== verification/Conf.thy ===== *)
theory Conf
  imports Disk Utils Etc
begin

text \<open>
  The system configuration of \<^verbatim>\<open>pkg/vorteil/conf.go\<close>: reading the configuration from the boot disk,
  shared memory, control groups, limits and sysctls.  The structure of the boot loader's
  configuration and the parser of the machine's configuration belong to another repository and are
  the parameters \<open>bootfmt\<close>; what the kernel keeps of a value written to \<^verbatim>\<open>/proc/sys\<close> is the
  parameter \<open>kn\<close>.
\<close>

section \<open>Scanning\<close>

text \<open>
  \<open>fmt.Sscanf\<close> with the verb \<^verbatim>\<open>%s\<close>: white space is skipped, but a line break before the word makes the
  scan fail; the word ends at white space.  The variable keeps its value when the scan fails.
\<close>

definition scan_word :: "string \<Rightarrow> (string \<times> string) option" where
  "scan_word s =
     (let r = trim_left s; blank = take (length s - length r) s in
      if char_of (10 :: nat) \<in> set blank then None
      else case Fields r of
        [] \<Rightarrow> None
      | t # ts \<Rightarrow> Some (t, drop (length t) r))"

text \<open>
  The lines of a \<open>bufio.Scanner\<close>: a final line break ends the last line, a carriage return before a line
  break is dropped, and a line of 64 KiB or more stops the scan.
\<close>

definition drop_cr :: "string \<Rightarrow> string" where
  "drop_cr l = (if l \<noteq> [] \<and> last l = char_of (13 :: nat) then butlast l else l)"

definition raw_lines :: "string \<Rightarrow> string list" where
  "raw_lines s = (let ls = Split s newline in if last ls = [] then butlast ls else ls)"

definition maxScanTokenSize :: nat where "maxScanTokenSize = 65536"

definition scan_lines :: "string \<Rightarrow> string list" where
  "scan_lines s = map drop_cr (takeWhile (\<lambda>l. length l < maxScanTokenSize) (raw_lines s))"

section \<open>The configuration on disk\<close>

definition vcfgOffset :: nat where "vcfgOffset = sectorSize * 34"

record bootfmt =
  bf_size :: nat
  bf_ConfigOffset :: "byte list \<Rightarrow> nat"
  bf_ConfigLen :: "byte list \<Rightarrow> nat"
  bf_Unmarshal :: "byte list \<Rightarrow> VCFG outcome"

definition openVCFGFile :: "string \<Rightarrow> dev \<Rightarrow> 'a world_scheme \<Rightarrow> osfile outcome" where
  "openVCFGFile disk d w =
     bind_out (os_Open disk w) (\<lambda>_.
     case f_seek (int vcfgOffset) \<lparr>fdev = d, fpos = 0\<rparr> of
       (Ok off, f) \<Rightarrow> if off \<noteq> vcfgOffset then Err (Errorf ''can not read vcfg, wrong offset'') else Ok f
     | (Err e, f) \<Rightarrow> Err e
     | (Panic x, f) \<Rightarrow> Panic x)"

text \<open>\<open>Read\<close> into a buffer of \<open>n\<close> zeroes: one call, which may return fewer bytes at the end of the device.\<close>

definition f_read_some :: "nat \<Rightarrow> osfile \<Rightarrow> byte list outcome" where
  "f_read_some n f =
     (let k = min n (dsize (fdev f) - fpos f) in
      if n = 0 then Ok []
      else if k = 0 then Err IoEOF
      else if any_bad (fdev f) (fpos f) k then Err EIO
      else Ok (bytes_at (fdev f) (fpos f) k @ replicate (n - k) 0))"

definition readVCFG :: "bootfmt \<Rightarrow> string \<Rightarrow> dev \<Rightarrow> machine \<Rightarrow> unit outcome \<times> machine" where
  "readVCFG fmt disk d m =
     (let m = logDebug ''reading vcfg from disk %s'' m in
      and_then (openVCFGFile disk d m, m) (\<lambda>f m.
      case f_read (bf_size fmt) f of
        (Err e, f) \<Rightarrow> (Err e, m)
      | (Panic x, f) \<Rightarrow> (Panic x, m)
      | (Ok blc, f) \<Rightarrow>
          (let m = logDebug ''kernel args: %s'' m in
           case f_seek (int (vcfgOffset + bf_ConfigOffset fmt blc)) f of
             (Err e, f) \<Rightarrow> (Err e, m)
           | (Panic x, f) \<Rightarrow> (Panic x, m)
           | (Ok off, f) \<Rightarrow>
               (let m = logDebug ''config offset %d bytes'' m in
                and_then (f_read_some (bf_ConfigLen fmt blc) f, m) (\<lambda>vb m.
                and_then (bf_Unmarshal fmt vb, m) (\<lambda>cfg m.
                (Ok (), m\<lparr>vcfg := cfg, v_user := sy_User (vc_System cfg)\<rparr>)))))))"

section \<open>Shared memory and control groups\<close>

definition scan_shm :: "string \<Rightarrow> string" where
  "scan_shm cmd =
     (if HasPrefix cmd ''shm='' then
        (case scan_word (drop 4 cmd) of Some (s, _) \<Rightarrow> s | None \<Rightarrow> [])
      else [])"

definition setupSharedMemory :: "sysview \<Rightarrow> machine \<Rightarrow> unit outcome \<times> machine" where
  "setupSharedMemory env m =
     and_then (ReadFile ''/proc/cmdline'' m, m) (\<lambda>cmd m.
     let s = scan_shm cmd in
     if s \<noteq> [] then mountFs env ''/dev/shm'' ''tmpfs'' (''size='' @ s) m else (Ok (), m))"

text \<open>One line of \<^verbatim>\<open>/proc/cgroups\<close>; a line without a word leaves the name of the line before it.\<close>

definition cgroup_name :: "string \<Rightarrow> string \<Rightarrow> string" where
  "cgroup_name name line = (case scan_word line of Some (t, _) \<Rightarrow> t | None \<Rightarrow> name)"

fun cgroup_loop :: "string list \<Rightarrow> string \<Rightarrow> 'a world_scheme \<Rightarrow> 'a world_scheme" where
  "cgroup_loop [] name w = w"
| "cgroup_loop (l # ls) name w =
     (let name = cgroup_name name l;
          dir = ''/sys/fs/cgroup/'' @ name;
          w = (if \<not> HasPrefix name ''#'' then
                 let w = ignoring (MkdirAll dir w) in
                 (case syscall_Mount ''cgroup'' dir ''cgroup'' 0 name w of
                    (Ok _, w) \<Rightarrow> w
                  | (_, w) \<Rightarrow> logError ''can not mount cgroups: %s'' w)
               else w) in
      cgroup_loop ls name w)"

text \<open>The last test returns the variable of the open call, which is nil, whatever the scanner found.\<close>

definition enableContainers :: "'a world_scheme \<Rightarrow> unit outcome \<times> 'a world_scheme" where
  "enableContainers w =
     (let w = logDebug ''mounting cgroups'' w in
      case syscall_Mount ''cgroup'' ''/sys/fs/cgroup'' ''tmpfs'' 0 ''uid=0,gid=0,mode=0755'' w of
        (Ok _, w) \<Rightarrow>
          and_then (os_Open ''/proc/cgroups'' w, w) (\<lambda>_ w.
          let content = (case ReadFile ''/proc/cgroups'' w of Ok c \<Rightarrow> c | _ \<Rightarrow> []) in
          (Ok (), cgroup_loop (scan_lines content) [] w))
      | (_, w) \<Rightarrow> (Err (Errorf ''can not mount cgroup''), w))"

section \<open>Limits and sysctls\<close>

definition defaultNrProc :: int where "defaultNrProc = 10000"
definition minFds :: int where "minFds = 1024"
definition RLIMIT_NPROC :: int where "RLIMIT_NPROC = 6"
definition RLIMIT_NOFILE :: int where "RLIMIT_NOFILE = 7"

definition sys_vals :: "(string \<times> int) list" where
  "sys_vals = [
     (''vm/max_map_count'', 1048575),
     (''vm/swappiness'', 0),
     (''kernel/randomize_va_space'', 2),
     (''net/ipv4/tcp_no_metrics_save'', 1),
     (''net/core/netdev_max_backlog'', 5000),
     (''vm/dirty_background_ratio'', 20),
     (''vm/dirty_ratio'', 25),
     (''fs/protected_hardlinks'', 1),
     (''fs/protected_symlinks'', 1),
     (''fs/suid_dumpable'', 1),
     (''kernel/kptr_restrict'', 1),
     (''kernel/dmesg_restrict'', 1),
     (''kernel/unprivileged_bpf_disabled'', 1),
     (''net/ipv4/conf/all/bootp_relay'', 0),
     (''net/ipv4/tcp_syncookies'', 1),
     (''net/ipv4/tcp_syn_retries'', 2),
     (''net/ipv4/tcp_synack_retries'', 2),
     (''net/ipv4/tcp_max_syn_backlog'', 4096),
     (''net/ipv4/ip_forward'', 0),
     (''net/ipv4/conf/all/forwarding'', 0),
     (''net/ipv4/conf/default/forwarding'', 0),
     (''net/ipv6/conf/all/forwarding'', 0),
     (''net/ipv6/conf/default/forwarding'', 0),
     (''net/ipv4/conf/all/rp_filter'', 1),
     (''net/ipv4/conf/default/rp_filter'', 1),
     (''net/ipv4/conf/all/accept_redirects'', 0),
     (''net/ipv4/conf/default/accept_redirects'', 0),
     (''net/ipv4/conf/all/secure_redirects'', 0),
     (''net/ipv4/conf/default/secure_redirects'', 0),
     (''net/ipv6/conf/all/accept_redirects'', 0),
     (''net/ipv6/conf/default/accept_redirects'', 0),
     (''net/ipv4/conf/all/accept_source_route'', 0),
     (''net/ipv4/conf/default/accept_source_route'', 0),
     (''net/ipv6/conf/all/accept_source_route'', 0),
     (''net/ipv6/conf/default/accept_source_route'', 0),
     (''net/ipv4/conf/all/proxy_arp'', 0),
     (''net/ipv4/conf/all/arp_ignore'', 1),
     (''net/ipv4/conf/all/arp_announce'', 2),
     (''net/ipv4/conf/default/log_martians'', 0),
     (''net/ipv4/conf/all/log_martians'', 0),
     (''net/ipv4/icmp_ignore_bogus_error_responses'', 0),
     (''net/ipv4/icmp_echo_ignore_broadcasts'', 1)]"

definition sysctl_path :: "string \<Rightarrow> string" where
  "sysctl_path k = ''/proc/sys/'' @ k"

text \<open>\<open>kn p v\<close> is the text the kernel gives back after \<open>v\<close> has been written to \<open>p\<close>.\<close>

definition procsys ::
  "(string \<Rightarrow> string \<Rightarrow> string) \<Rightarrow> string \<Rightarrow> string \<Rightarrow> 'a world_scheme \<Rightarrow> unit outcome \<times> 'a world_scheme" where
  "procsys kn k val w =
     (let p = sysctl_path k; w = logDebug ''setting %s to %v'' w in
      and_then (WriteFile p val w) (\<lambda>_ w.
      let w = put_file (place p w) (kn p val) w in
      and_then (ReadFile p w, w) (\<lambda>result w.
      if val \<noteq> TrimSpace result then (Err (Errorf ''values mismatch after set %s != %s''), w)
      else (Ok (), w))))"

definition rlimit :: "int \<Rightarrow> u64 \<Rightarrow> 'a world_scheme \<Rightarrow> unit outcome \<times> 'a world_scheme" where
  "rlimit k v w =
     (case w_deny w ''setrlimit'' (itoa k) of
        Some e \<Rightarrow> (Err e, w)
      | None \<Rightarrow> (Ok (), emit (EvIoctl ''setrlimit'' [k, uint v, uint v]) w))"

definition sysctl_step ::
  "(string \<Rightarrow> string \<Rightarrow> string) \<Rightarrow> string \<Rightarrow> string \<times> string \<Rightarrow> 'a world_scheme \<Rightarrow> 'a world_scheme" where
  "sysctl_step kn fmt kv w =
     (case procsys kn (fst kv) (snd kv) w of
        (Ok _, w) \<Rightarrow> w
      | (_, w) \<Rightarrow> logError fmt w)"

text \<open>
  The tail of \<open>systemConfig\<close>: limits, built-in sysctls with the file limit appended, the host name, then
  the sysctls of the configuration in the order \<open>ord\<close> of Go's map iteration.
\<close>

definition builtin_vals :: "int \<Rightarrow> gomap" where
  "builtin_vals fds = map (\<lambda>(n, v). (n, itoa v)) (sys_vals @ [(''fs/file-max'', fds)])"

definition user_vals :: "gomap \<Rightarrow> gomap" where
  "user_vals sysctls = map (\<lambda>(k, x). (ReplaceAll k ''.'' ''/'', x)) sysctls"

definition set_limits :: "int \<Rightarrow> 'a world_scheme \<Rightarrow> 'a world_scheme" where
  "set_limits fds w =
     (let w = ignoring (rlimit RLIMIT_NPROC (word_of_int defaultNrProc) w);
          w = logDebug ''setting max procs to %d'' w;
          w = logDebug ''setting max-fds to %d'' w in
      ignoring (rlimit RLIMIT_NOFILE (word_of_int (fds * 2)) w))"

definition set_sysctls ::
  "(string \<Rightarrow> string \<Rightarrow> string) \<Rightarrow> (gomap \<Rightarrow> gomap) \<Rightarrow> gomap \<Rightarrow> string \<Rightarrow> int \<Rightarrow> 'a world_scheme \<Rightarrow> 'a world_scheme" where
  "set_sysctls kn ord sysctls hn fds w =
     (let w = fold (sysctl_step kn ''can not set %s: %s'') (builtin_vals fds) w;
          w = sysctl_step kn ''can not set %s: %s'' (''kernel/hostname'', hn) w in
      fold (sysctl_step kn ''can not set sysctl %s to %v'') (user_vals (ord sysctls)) w)"

definition systemConfig ::
  "sysview \<Rightarrow> (string \<Rightarrow> string \<Rightarrow> string) \<Rightarrow> (gomap \<Rightarrow> gomap) \<Rightarrow> gomap \<Rightarrow> string \<Rightarrow> int \<Rightarrow> machine \<Rightarrow>
   unit outcome \<times> machine" where
  "systemConfig env kn ord sysctls hn maxFds m =
     (let m = logDebug ''removing ld.so'' m;
          m = ignoring (os_Remove ''/etc/ld.so.preload'' m);
          m = ignoring (os_Remove ''/etc/ld.so.cache'' m);
          m = ignoring (os_Chmod ''/dev/sda'' 493 m) in
      and_then (enableContainers m) (\<lambda>_ m.
      and_then (setupSharedMemory env m) (\<lambda>_ m.
      let fds = max_int minFds maxFds in
      (Ok (), set_sysctls kn ord sysctls hn fds (set_limits fds m)))))"


section \<open>The value a sysctl ends up with\<close>

lemma procsys_view:
  assumes "usable (sysctl_path k) w"
  shows "w_fs (snd (procsys kn k v w)) =
      (w_fs w)(place (sysctl_path k) w \<mapsto> File (kn (sysctl_path k) v))"
proof -
  let ?p = "sysctl_path k"
  let ?w = "logDebug ''setting %s to %v'' w"
  have s: "seen ?p ?w = seen ?p w" by (rule seen_cong) simp_all
  then have u: "usable ?p ?w" "place ?p ?w = place ?p w" using assms by (simp_all add: seen_def)
  let ?w1 = "emit (EvWrite ?p v) (put_file (place ?p w) v ?w)"
  have "WriteFile ?p v ?w = (Ok (), ?w1)" using usable_write [OF u(1)] u(2) by simp
  moreover have "place ?p ?w1 = place ?p w"
    using seen_cong [of ?w1 "put_file (place ?p w) v ?w" ?p] seen_put_same [OF u(1), of v] u(2)
    by (simp add: seen_def)
  ultimately show ?thesis
    by (auto simp: procsys_def Let_def and_then_def split: outcome.splits prod.splits if_splits)
qed

lemma procsys_deny: "w_deny (snd (procsys kn k v w)) = w_deny w"
  by (auto simp: procsys_def Let_def and_then_def WriteFile_cases split: outcome.splits prod.splits if_splits option.splits)

lemma sysctl_step_world:
  "w_fs (sysctl_step kn fmt kv w) = w_fs (snd (procsys kn (fst kv) (snd kv) w))"
  "w_deny (sysctl_step kn fmt kv w) = w_deny w"
  using procsys_deny [of kn "fst kv" "snd kv" w]
  by (auto simp: sysctl_step_def split: prod.splits outcome.splits)

definition sysctl_entry :: "(string \<Rightarrow> string \<Rightarrow> string) \<Rightarrow> string \<times> string \<times> string \<Rightarrow> 'a world_scheme \<Rightarrow> 'a world_scheme" where
  "sysctl_entry kn e w = sysctl_step kn (fst e) (snd e) w"

interpretation sysctl: writer "sysctl_entry kn" "\<lambda>e. sysctl_path (fst (snd e))"
    "\<lambda>e. kn (sysctl_path (fst (snd e))) (snd (snd e))" for kn
  by unfold_locales (simp_all add: sysctl_entry_def sysctl_step_world procsys_view)

definition all_vals :: "gomap \<Rightarrow> string \<Rightarrow> int \<Rightarrow> gomap" where
  "all_vals sysctls hn fds = builtin_vals fds @ (''kernel/hostname'', hn) # user_vals sysctls"

lemma set_sysctls_entries:
  "\<exists>es. map snd es = all_vals (ord sysctls) hn fds \<and>
     set_sysctls kn ord sysctls hn fds w = fold (sysctl_entry kn) es w"
proof -
  let ?a = "''can not set %s: %s''" and ?b = "''can not set sysctl %s to %v''"
  let ?es = "map (Pair ?a) (builtin_vals fds) @ (?a, ''kernel/hostname'', hn) # map (Pair ?b) (user_vals (ord sysctls))"
  have f: "fold (sysctl_step kn fmt) l v = fold (sysctl_entry kn) (map (Pair fmt) l) v"
    for fmt l and v :: "'a world_scheme"
    by (induction l arbitrary: v) (simp_all add: sysctl_entry_def)
  have "set_sysctls kn ord sysctls hn fds w = fold (sysctl_entry kn) ?es w"
    by (simp add: set_sysctls_def f sysctl_entry_def)
  moreover have "map snd ?es = all_vals (ord sysctls) hn fds" by (simp add: all_vals_def comp_def)
  ultimately show ?thesis by blast
qed

lemma find_last:
  assumes "P x" and "\<forall>y \<in> set post. \<not> P y"
  shows "List.find P (rev (pre @ x # post)) = Some x"
proof -
  have "List.find P (rev post) = None" using assms(2) by (simp add: find_None_iff)
  with assms(1) show ?thesis by (simp add: find_append)
qed

section \<open>Properties\<close>



definition sysctl_dirs :: "string list" where
  "sysctl_dirs = [''proc'', ''sys'', ''vm'', ''kernel'', ''fs'', ''net'', ''core'', ''ipv4'', ''ipv6'', ''conf'', ''all'',
     ''default'']"

definition sysctl_world :: world where
  "sysctl_world = (world_of [])\<lparr>w_fs := (\<lambda>q. if q \<noteq> [] \<and> List.member sysctl_dirs (last q) then Some Dir else None)\<rparr>"

definition sysctl_sample :: gomap where
  "sysctl_sample = [(''vm.swappiness'', ''10'')]"

lemma sysctl_keys:
  "map fst (all_vals sysctls hn fds) =
     map fst sys_vals @ ''fs/file-max'' # ''kernel/hostname'' # map fst (user_vals sysctls)"
  by (simp add: all_vals_def builtin_vals_def case_prod_unfold comp_def)

lemma sysctl_sample_user: "user_vals sysctl_sample = [(''vm/swappiness'', ''10'')]"
  by code_simp

lemma sysctl_keys_usable:
  "list_all (\<lambda>k. usable (sysctl_path k) sysctl_world)
     (map fst sys_vals @ [''fs/file-max'', ''kernel/hostname'', ''vm/swappiness''])"
  by code_simp

lemma sysctl_sample_usable:
  "\<forall>kv \<in> set (all_vals sysctl_sample ''box'' 1024). usable (sysctl_path (fst kv)) sysctl_world"
proof
  fix kv assume "kv \<in> set (all_vals sysctl_sample ''box'' 1024)"
  then have "fst kv \<in> set (map fst (all_vals sysctl_sample ''box'' 1024))"
    by (simp only: list.set_map imageI)
  then have "fst kv \<in> set (map fst sys_vals @ [''fs/file-max'', ''kernel/hostname'', ''vm/swappiness''])"
    by (simp only: sysctl_keys sysctl_sample_user list.map fst_conv)
  with sysctl_keys_usable show "usable (sysctl_path (fst kv)) sysctl_world"
    by (simp only: list_all_iff)
qed


end
