(* ===== verification/Cloud.thy ===== *)
theory Cloud
  imports Process GoNet Etc
begin

text \<open>
  The environment and cloud metadata of \<^verbatim>\<open>pkg/vorteil/conf.go\<close>: the variables every program gets, the
  guess of the hypervisor, and the requests to the metadata servers.  The servers' answers, the time
  they take, URL checking and JSON parsing are the parameter \<open>cloudenv\<close>.  A started goroutine is an
  event \<open>go\<close> in the trace.
\<close>

section \<open>Requests\<close>

record httpReq =
  rq_method :: string
  rq_url :: string
  rq_header :: gomap
  rq_query :: gomap
  rq_body :: string

record httpResp =
  rs_status :: nat
  rs_body :: "string outcome"

datatype jsonval = JString string | JOther

record cloudenv =
  ce_NewRequest :: "string \<Rightarrow> goerr option"
  ce_Do :: "nat \<Rightarrow> httpReq \<Rightarrow> nat \<times> httpResp outcome"
  ce_jsonStrings :: "string \<Rightarrow> gomap outcome"
  ce_jsonObject :: "string \<Rightarrow> (string \<times> jsonval) list outcome"
  ce_ordIfcs :: "(string \<times> ifc) list \<Rightarrow> (string \<times> ifc) list"
  ce_ordEnvs :: "gomap \<Rightarrow> gomap"

record cloudReq =
  cr_server :: string
  cr_interfaceURL :: string
  cr_customDataURL :: string
  cr_hostnameURL :: string
  cr_header :: gomap
  cr_query :: gomap

definition metadataURL :: string where "metadataURL = ''http://169.254.169.254''"
definition azureWireServer :: string where "azureWireServer = ''168.63.129.16''"

definition azureReq :: cloudReq where
  "azureReq = \<lparr>cr_server = metadataURL,
     cr_interfaceURL = ''%s/metadata/instance/network/interface/%d/ipv4/ipAddress/0/publicIpAddress'',
     cr_customDataURL = ''%s/metadata/instance/compute/customData'',
     cr_hostnameURL = [],
     cr_header = [(''Metadata'', ''True''), (''Host'', ''metadata.azure.internal'')],
     cr_query = [(''format'', ''text''), (''api-version'', ''2019-02-01'')]\<rparr>"

definition gcpReq :: cloudReq where
  "gcpReq = \<lparr>cr_server = metadataURL,
     cr_interfaceURL = ''%s/computeMetadata/v1/instance/network-interfaces/%d/access-configs/0/external-ip'',
     cr_customDataURL = ''%s/computeMetadata/v1/instance/attributes/vorteil'',
     cr_hostnameURL = ''%s/computeMetadata/v1/instance/hostname'',
     cr_header = [(''Host'', ''metadata.google.internal''), (''Metadata-Flavor'', ''Google'')],
     cr_query = []\<rparr>"

definition ec2Req :: cloudReq where
  "ec2Req = \<lparr>cr_server = metadataURL,
     cr_interfaceURL = ''%s/latest/meta-data/public-ipv4'',
     cr_customDataURL = ''%s/latest/user-data'',
     cr_hostnameURL = ''%s/latest/meta-data/public-hostname'',
     cr_header = [(''Host'', ''metadata.ec2.internal''), (''Metadata'', ''true'')],
     cr_query = []\<rparr>"

text \<open>\<open>fmt.Sprintf\<close> for the verbs \<^verbatim>\<open>%s\<close> and \<^verbatim>\<open>%d\<close>, the arguments already printed.\<close>

fun sprintf :: "string \<Rightarrow> string list \<Rightarrow> string" where
  "sprintf (CHR ''%'' # v # fmt) (a # as) =
     (if v = CHR ''s'' \<or> v = CHR ''d'' then a @ sprintf fmt as else CHR ''%'' # v # sprintf fmt (a # as))"
| "sprintf (c # fmt) as = c # sprintf fmt as"
| "sprintf [] as = []"

text \<open>One exchange with a server: the request leaves the machine and time passes.\<close>

definition http_Do :: "cloudenv \<Rightarrow> httpReq \<Rightarrow> 'a world_scheme \<Rightarrow> httpResp outcome \<times> 'a world_scheme" where
  "http_Do ce req w =
     (let (t, r) = ce_Do ce (w_clock w) req;
          w = emit (EvCall ''http'' [rq_method req, rq_url req, rq_body req]) w in
      (r, w\<lparr>w_clock := w_clock w + t\<rparr>))"

definition doMetadataRequest ::
  "cloudenv \<Rightarrow> string \<Rightarrow> gomap \<Rightarrow> gomap \<Rightarrow> 'a world_scheme \<Rightarrow> string outcome \<times> 'a world_scheme" where
  "doMetadataRequest ce url header query w =
     (case ce_NewRequest ce url of
        Some e \<Rightarrow> (Err e, w)
      | None \<Rightarrow>
          (case http_Do ce \<lparr>rq_method = ''GET'', rq_url = url, rq_header = header, rq_query = query, rq_body = []\<rparr> w of
             (Ok resp, w) \<Rightarrow>
               (case rs_body resp of
                  Ok b \<Rightarrow> if rs_status resp \<noteq> 200 then (Err (Errorf ''metadata not found''), w)
                          else (Ok (TrimSpace b), w)
                | Err e \<Rightarrow> (Err e, logWarn ''error reading metadata %s: %s'' w)
                | Panic x \<Rightarrow> (Panic x, w))
           | (Err e, w) \<Rightarrow> (Err e, logWarn ''error requesting metadata %s: %s'' w)
           | (Panic x, w) \<Rightarrow> (Panic x, w)))"

section \<open>Azure\<close>

text \<open>The first match of the expression \<^verbatim>\<open><tag>([^<]*)</tag>\<close>.\<close>

fun find_tag :: "string \<Rightarrow> string \<Rightarrow> string option" where
  "find_tag tag [] = None"
| "find_tag tag (c # s) =
     (let opening = ''<'' @ tag @ ''>''; closing = ''</'' @ tag @ ''>'';
          body = takeWhile (\<lambda>x. x \<noteq> CHR ''<'') (drop (length opening) (c # s)) in
      if HasPrefix (c # s) opening \<and> HasPrefix (drop (length opening + length body) (c # s)) closing
      then Some body else find_tag tag s)"

definition wire_req :: "string \<Rightarrow> string \<Rightarrow> string \<Rightarrow> httpReq" where
  "wire_req method what body =
     \<lparr>rq_method = method, rq_url = ''http://'' @ azureWireServer @ ''/machine/'',
      rq_header = (if method = ''POST'' then [(''Content-Type'', ''text/xml;charset=utf-8''),
                     (''Content-Length'', nat_str (length body))] else []) @
                   [(''x-ms-agent-name'', ''WALinuxAgent''), (''x-ms-version'', ''2012-11-30'')],
      rq_query = [(''comp'', what)], rq_body = body\<rparr>"

definition health_xml :: "string \<Rightarrow> string \<Rightarrow> string" where
  "health_xml cid iid =
     ''<?xml version=\"1.0\" encoding=\"utf-8\"?><Health xmlns:xsi=\"http://www.w3.org/2001/XMLSchema-instance\" xmlns:xsd=\"http://www.w3.org/2001/XMLSchema\"><GoalStateIncarnation>1</GoalStateIncarnation><Container><ContainerId>''
     @ cid @ ''</ContainerId><RoleInstanceList><Role><InstanceId>'' @ iid @
     ''</InstanceId><Health><State>Ready</State></Health></Role></RoleInstanceList></Container></Health>''"

text \<open>Indexing an empty list of matches panics, before the test for a missing match.\<close>

definition updateHealthAzure :: "cloudenv \<Rightarrow> 'a world_scheme \<Rightarrow> unit outcome \<times> 'a world_scheme" where
  "updateHealthAzure ce w =
     (let w = logDebug ''update azure health'' w in
      case http_Do ce (wire_req ''GET'' ''goalstate'' []) w of
        (Ok resp, w) \<Rightarrow>
          (case rs_body resp of
             Ok r \<Rightarrow>
               if rs_status resp \<noteq> 200 then (Ok (), w)
               else
                 (case (find_tag ''ContainerId'' r, find_tag ''InstanceId'' r) of
                    (Some cid, Some iid) \<Rightarrow>
                      (case http_Do ce (wire_req ''POST'' ''health'' (health_xml cid iid)) w of
                         (Ok resp, w) \<Rightarrow>
                           (Ok (), if rs_status resp \<noteq> 200
                                   then logError ''can not report VM as healthy, final post failed'' w else w)
                       | (_, w) \<Rightarrow> (Ok (), logError ''error updating machine status: %s'' w))
                  | _ \<Rightarrow> (Panic IndexOutOfRange, w))
           | _ \<Rightarrow> (Ok (), w))
      | (_, w) \<Rightarrow> (Ok (), logError ''error updating machine status: %s'' w))"

section \<open>Google load balancers\<close>

definition addVirtualRouting :: "string \<Rightarrow> string \<Rightarrow> 'a world_scheme \<Rightarrow> 'a world_scheme" where
  "addVirtualRouting dev i w = emit (EvCall ''helper_add_gcp_virtual_route'' [dev, i]) w"

definition forwarded_url :: "cloudReq \<Rightarrow> nat \<Rightarrow> string" where
  "forwarded_url creq ix =
     cr_server creq @ ''/computeMetadata/v1/instance/network-interfaces/'' @ nat_str ix @ ''/forwarded-ips/''"

definition forwarded_step :: "cloudenv \<Rightarrow> cloudReq \<Rightarrow> string \<Rightarrow> nat \<Rightarrow> string \<Rightarrow> 'a world_scheme \<Rightarrow> 'a world_scheme" where
  "forwarded_step ce creq name ix s w =
     (case doMetadataRequest ce (forwarded_url creq ix @ s) (cr_header creq) (cr_query creq) w of
        (Ok r, w) \<Rightarrow> addVirtualRouting name r w
      | (_, w) \<Rightarrow> logWarn ''error requesting forward ip: %s'' w)"

definition poll_round :: "cloudenv \<Rightarrow> cloudReq \<Rightarrow> string \<Rightarrow> nat \<Rightarrow> 'a world_scheme \<Rightarrow> 'a world_scheme" where
  "poll_round ce creq name ix w =
     (case doMetadataRequest ce (forwarded_url creq ix) (cr_header creq) (cr_query creq) w of
        (Ok r, w) \<Rightarrow> fold (forwarded_step ce creq name ix) (Split r newline) w
      | (_, w) \<Rightarrow> logWarn ''error requesting list of forward ips: %s'' w)"

lemma doMetadataRequest_clock: "w_clock w \<le> w_clock (snd (doMetadataRequest ce url h q w))"
  by (auto simp: doMetadataRequest_def http_Do_def Let_def split: option.splits outcome.splits prod.splits)

lemma forwarded_step_clock: "w_clock w \<le> w_clock (forwarded_step ce creq name ix s w)"
  using doMetadataRequest_clock [of w ce "forwarded_url creq ix @ s" "cr_header creq" "cr_query creq"]
  by (auto simp: forwarded_step_def addVirtualRouting_def split: prod.splits outcome.splits)

lemma fold_clock: "(\<And>x w. w_clock w \<le> w_clock (f x w)) \<Longrightarrow> w_clock w \<le> w_clock (fold f xs w)"
  by (induction xs arbitrary: w) (auto intro: order_trans)

lemma poll_round_clock: "w_clock w \<le> w_clock (poll_round ce creq name ix w)"
  using doMetadataRequest_clock [of w ce "forwarded_url creq ix" "cr_header creq" "cr_query creq"]
  by (auto simp: poll_round_def split: prod.splits outcome.splits
    intro!: order_trans [OF _ fold_clock [OF forwarded_step_clock]])

lemma time_Sleep_clock [simp]: "w_clock (time_Sleep ms w) = w_clock w + ms"
  by (simp add: time_Sleep_def)

function poll_loop :: "cloudenv \<Rightarrow> cloudReq \<Rightarrow> string \<Rightarrow> nat \<Rightarrow> nat \<Rightarrow> 'a world_scheme \<Rightarrow> 'a world_scheme" where
  "poll_loop ce creq name ix start w =
     (let w = time_Sleep 30000 w in
      if start < w_clock w then logDebug ''no GCP LB found'' w
      else poll_loop ce creq name ix start (poll_round ce creq name ix w))"
  by pat_completeness auto
termination
proof (relation "measure (\<lambda>(ce, creq, name, ix, start, w). start + 30000 - w_clock w)", goal_cases)
  case (2 ce creq name ix start w x)
  then have "w_clock w + 30000 \<le> w_clock (poll_round ce creq name ix x)"
    using poll_round_clock [of x ce creq name ix] by simp
  with 2 show ?case by simp
qed simp

declare poll_loop.simps [simp del]

definition pollGCP :: "cloudenv \<Rightarrow> cloudReq \<Rightarrow> string \<Rightarrow> nat \<Rightarrow> 'a world_scheme \<Rightarrow> 'a world_scheme" where
  "pollGCP ce creq name ix w = poll_loop ce creq name ix (w_clock w + 1800000) w"


section \<open>Environment variables\<close>

definition envHypervisor :: string where "envHypervisor = ''HYPERVISOR''"
definition envCloudProvider :: string where "envCloudProvider = ''CLOUD_PROVIDER''"
definition envEthCount :: string where "envEthCount = ''ETH_COUNT''"
definition envHostname :: string where "envHostname = ''HOSTNAME''"
definition envExtHostname :: string where "envExtHostname = ''EXT_HOSTNAME''"
definition envUserData :: string where "envUserData = ''USERDATA''"
definition envRegion :: string where "envRegion = ''CLOUD_REGION''"
definition envInstanceID :: string where "envInstanceID = ''CLOUD_INSTANCE_ID''"
definition envIP :: "nat \<Rightarrow> string" where "envIP i = ''IP'' @ nat_str i"
definition envExtIP :: "nat \<Rightarrow> string" where "envExtIP i = ''EXT_IP'' @ nat_str i"

definition set_env :: "string \<Rightarrow> string \<Rightarrow> machine \<Rightarrow> machine" where
  "set_env k x m = m\<lparr>hv_envs := map_put k x (hv_envs m)\<rparr>"

text \<open>An interface without an address is a nil dereference.\<close>

fun ifc_envs :: "(string \<times> ifc) list \<Rightarrow> machine \<Rightarrow> unit outcome \<times> machine" where
  "ifc_envs [] m = (Ok (), m)"
| "ifc_envs ((n, i) # is) m =
     (case ifc_addr i of
        None \<Rightarrow> (Panic NilDereference, m)
      | Some a \<Rightarrow>
          ifc_envs is (set_env (envExtIP (ifc_idx i)) (ip_String (net_IP a))
            (set_env (envIP (ifc_idx i)) (ip_String (net_IP a)) m)))"

definition cloudString :: "machine \<Rightarrow> string" where
  "cloudString m = cloudStrings (hv_cloud m)"

definition hypervisorString :: "machine \<Rightarrow> string" where
  "hypervisorString m = hypervisorStrings (hv_hypervisor m)"

definition basicEnv :: "cloudenv \<Rightarrow> machine \<Rightarrow> unit outcome \<times> machine" where
  "basicEnv ce m =
     (let m = set_env envHypervisor (hypervisorString m) m;
          m = set_env envCloudProvider (cloudString m) m;
          m = set_env envEthCount (nat_str (length (ifcs m))) m;
          m = set_env envHostname (hostname m) m;
          m = set_env envExtHostname (hostname m) m in
      ifc_envs (ce_ordIfcs ce (ifcs m)) m)"

section \<open>The hypervisor\<close>

definition uuidHasEc2 :: "'a world_scheme \<Rightarrow> bool \<times> 'a world_scheme" where
  "uuidHasEc2 w =
     (let uuid = ReadFile ''/sys/hypervisor/uuid'' w; w = logDebug ''uuid value: %s'' w in
      (case uuid of Ok u \<Rightarrow> HasPrefix u ''ec2'' | _ \<Rightarrow> False, w))"

definition startVMTools :: "nat \<Rightarrow> string \<Rightarrow> 'a world_scheme \<Rightarrow> 'a world_scheme" where
  "startVMTools cards hn w = emit (EvCall ''vmtools_start'' [nat_str cards, hn]) w"

definition hypervisorGuess :: "string \<Rightarrow> machine \<Rightarrow> (hypervisor \<times> cloud) \<times> machine" where
  "hypervisorGuess bios m =
     (let m = logDebug ''guessing hypervisor: %s'' m in
      if HasPrefix bios ''SeaBIOS'' then ((hvKVM, cpNone), m)
      else if HasPrefix bios ''innotek GmbH'' then ((hvVBox, cpNone), m)
      else if HasPrefix bios ''Phoenix Technologies LTD''
      then ((hvVMWare, cpNone), startVMTools (length (ifcs m)) (hostname m) m)
      else if HasPrefix bios ''Google'' then ((hvKVM, cpGCP), m)
      else if HasPrefix bios ''Amazon'' then ((hvKVM, cpEC2), m)
      else if HasPrefix bios ''Xen'' then
        (let (ec2, m) = uuidHasEc2 m in
         if \<not> ec2 then ((hvXen, cpNone), m)
         else let (ec2, m) = uuidHasEc2 m in
           if ec2 then ((hvXen, cpEC2), m) else ((hvUnknown, cpUnknown), m))
      else if HasPrefix bios ''American Megatrends Inc.'' then
        ((hvHyperV, if hv_cloud m \<noteq> cpAzure then cpNone else cpAzure), m)
      else ((hvUnknown, cpUnknown), m))"

section \<open>Metadata\<close>

fun probe_ifcs :: "cloudenv \<Rightarrow> cloudReq \<Rightarrow> (string \<times> ifc) list \<Rightarrow> machine \<Rightarrow> machine" where
  "probe_ifcs ce creq [] m = m"
| "probe_ifcs ce creq ((n, i) # is) m =
     (let url = (if hv_cloud m = cpEC2 then sprintf (cr_interfaceURL creq) [cr_server creq]
                 else sprintf (cr_interfaceURL creq) [cr_server creq, nat_str (ifc_idx i)]);
          m = logDebug ''probe ip url %s'' m in
      case doMetadataRequest ce url (cr_header creq) (cr_query creq) m of
        (Ok r, m) \<Rightarrow>
          (let m = logDebug ''setting metadata %s to %s'' m;
               m = set_env (envExtIP (ifc_idx i)) r m in
           if hv_cloud m = cpEC2 then m
           else probe_ifcs ce creq is
             (if hv_cloud m = cpGCP then emit (EvCall ''go'' [''pollGCP'', ifc_name i, nat_str (ifc_idx i)]) m
              else m))
      | (_, m) \<Rightarrow> probe_ifcs ce creq is (logWarn ''error requesting metadata: %s'' m))"

definition set_user_env :: "string \<times> string \<Rightarrow> machine \<Rightarrow> machine" where
  "set_user_env kv m = set_env (fst kv) (snd kv) (logDebug ''setting metadata userdata to %s %v'' m)"

definition probe_userdata :: "cloudenv \<Rightarrow> cloudReq \<Rightarrow> machine \<Rightarrow> machine" where
  "probe_userdata ce creq m =
     (let url = sprintf (cr_customDataURL creq) [cr_server creq];
          m = logDebug ''probe custom url %s'' m in
      case doMetadataRequest ce url (cr_header creq) (cr_query creq) m of
        (Ok userdata, m) \<Rightarrow>
          (let m = logDebug ''setting metadata userdata to %s'' m;
               m = set_env envUserData userdata m;
               m = (case ce_jsonStrings ce userdata of
                      Ok es \<Rightarrow> fold set_user_env (ce_ordEnvs ce es) m
                    | _ \<Rightarrow> m);
               m = logDebug ''setting metadata userdata to %s'' m in
           set_env envUserData userdata m)
      | (_, m) \<Rightarrow> logDebug ''error requesting metadata vorteil: %s'' m)"

definition probe_hostname :: "cloudenv \<Rightarrow> cloudReq \<Rightarrow> machine \<Rightarrow> machine" where
  "probe_hostname ce creq m =
     (if cr_hostnameURL creq \<noteq> [] then
        let url = sprintf (cr_hostnameURL creq) [cr_server creq];
            m = logDebug ''probe hostname url %s'' m in
        (case doMetadataRequest ce url (cr_header creq) (cr_query creq) m of
           (Ok hn, m) \<Rightarrow> set_env envExtHostname hn (logDebug ''setting metadata ENV_EXT_HOSTNAME %s'' m)
         | (_, m) \<Rightarrow> logDebug ''error requesting metadata hostname: %s'' m)
      else m)"

definition identity_env :: "(string \<times> jsonval) list \<Rightarrow> string \<times> string \<Rightarrow> machine \<Rightarrow> machine" where
  "identity_env d kv m =
     (case map_of d (fst kv) of
        Some (JString sv) \<Rightarrow> set_env (snd kv) sv m
      | _ \<Rightarrow> m)"

definition probe_identity :: "cloudenv \<Rightarrow> cloudReq \<Rightarrow> machine \<Rightarrow> machine" where
  "probe_identity ce creq m =
     (if hv_cloud m = cpEC2 then
        let url = cr_server creq @ ''/latest/dynamic/instance-identity/document'';
            m = logAlways ''probe aws identity url %s'' m;
            (r, m) = doMetadataRequest ce url (cr_header creq) (cr_query creq) m;
            (hn, m) = (case r of Ok hn \<Rightarrow> (hn, m) | _ \<Rightarrow> ([], logDebug ''error requesting identy: %s'' m));
            (d, m) = (case ce_jsonObject ce hn of
                        Ok d \<Rightarrow> (d, m)
                      | _ \<Rightarrow> ([], logDebug ''error requesting identy: %s'' m)) in
        fold (identity_env d) (ce_ordEnvs ce [(''region'', envRegion), (''instanceId'', envInstanceID)]) m
      else m)"

definition probe :: "cloudenv \<Rightarrow> cloudReq \<Rightarrow> machine \<Rightarrow> machine" where
  "probe ce creq m =
     probe_identity ce creq
       (probe_hostname ce creq
         (probe_userdata ce creq
           (probe_ifcs ce creq (ce_ordIfcs ce (ifcs m)) m)))"

definition fetchCloudMetadata :: "cloudenv \<Rightarrow> machine \<Rightarrow> unit outcome \<times> machine" where
  "fetchCloudMetadata ce m =
     and_then (basicEnv ce m) (\<lambda>_ m.
     let m = logDebug ''cloud values: %s %s'' m in
     if hv_cloud m = cpAzure then
       and_then (updateHealthAzure ce m) (\<lambda>_ m. (Ok (), probe ce azureReq m))
     else if hv_cloud m = cpGCP then (Ok (), probe ce gcpReq m)
     else if hv_cloud m = cpEC2 then (Ok (), probe ce ec2Req m)
     else (Ok (), m))"


section \<open>Polling ends\<close>

fun is_sleep :: "event \<Rightarrow> bool" where
  "is_sleep (EvSleep ms) = True"
| "is_sleep _ = False"

definition sleeps :: "'a world_scheme \<Rightarrow> nat" where
  "sleeps w = length (filter is_sleep (w_trace w))"

lemma sleeps_simps [simp]:
  "\<not> is_sleep e \<Longrightarrow> sleeps (emit e w) = sleeps w" "sleeps (log l f w) = sleeps w"
  "sleeps (time_Sleep ms w) = Suc (sleeps w)" "sleeps (w\<lparr>w_clock := t\<rparr>) = sleeps w"
  by (simp_all add: sleeps_def time_Sleep_def)

lemma doMetadataRequest_sleeps: "sleeps (snd (doMetadataRequest ce url h q w)) = sleeps w"
  by (auto simp: doMetadataRequest_def http_Do_def Let_def split: option.splits outcome.splits prod.splits)

lemma forwarded_step_sleeps: "sleeps (forwarded_step ce creq name ix s w) = sleeps w"
  using doMetadataRequest_sleeps [of ce "forwarded_url creq ix @ s" "cr_header creq" "cr_query creq" w]
  by (auto simp: forwarded_step_def addVirtualRouting_def split: prod.splits outcome.splits)

lemma poll_round_sleeps: "sleeps (poll_round ce creq name ix w) = sleeps w"
proof -
  have "sleeps (fold (forwarded_step ce creq name ix) ss v) = sleeps v" for ss and v :: "'a world_scheme"
    by (induction ss arbitrary: v) (simp_all add: forwarded_step_sleeps)
  then show ?thesis
    using doMetadataRequest_sleeps [of ce "forwarded_url creq ix" "cr_header creq" "cr_query creq" w]
    by (auto simp: poll_round_def split: prod.splits outcome.splits)
qed

lemma poll_loop_sleeps:
  "sleeps (poll_loop ce creq name ix start w) \<le> sleeps w + 1 + (start - w_clock w) div 30000 \<and>
   start < w_clock (poll_loop ce creq name ix start w)"
proof (induction ce creq name ix start w rule: poll_loop.induct)
  case (1 ce creq name ix start w)
  let ?w = "time_Sleep 30000 w"
  show ?case
  proof (cases "start < w_clock ?w")
    case True
    then show ?thesis by (subst (1 2) poll_loop.simps) simp
  next
    case False
    let ?v = "poll_round ce creq name ix ?w"
    note IH = 1 [OF refl False]
    have c: "w_clock w + 30000 \<le> w_clock ?v" using poll_round_clock [of ?w ce creq name ix] by simp
    then have "(start - w_clock ?v) div 30000 \<le> (start - w_clock w - 30000) div 30000"
      by (intro div_le_mono) simp
    moreover have "(start - w_clock w) div 30000 = Suc ((start - w_clock w - 30000) div 30000)"
      using False by (intro le_div_geq) simp_all
    moreover have "sleeps ?v = Suc (sleeps w)" by (simp add: poll_round_sleeps)
    moreover have "poll_loop ce creq name ix start w = poll_loop ce creq name ix start ?v"
      using False by (subst poll_loop.simps) (simp only: Let_def if_False)
    ultimately show ?thesis using IH by simp
  qed
qed

section \<open>The basic variables\<close>

lemma env_names [simp]:
  "envIP a = envIP b \<longleftrightarrow> a = b" "envExtIP a = envExtIP b \<longleftrightarrow> a = b"
  "envIP a \<noteq> envExtIP b" "envExtIP b \<noteq> envIP a"
  "envIP a \<noteq> envEthCount" "envExtIP a \<noteq> envEthCount" "envIP a \<noteq> envHostname" "envExtIP a \<noteq> envHostname"
  "envIP a \<noteq> envHypervisor" "envExtIP a \<noteq> envHypervisor" "envIP a \<noteq> envCloudProvider" "envExtIP a \<noteq> envCloudProvider"
  by (simp_all add: envIP_def envExtIP_def envEthCount_def envHostname_def envHypervisor_def envCloudProvider_def)

lemma set_env_fields [simp]:
  "map_of (hv_envs (set_env k x m)) = (map_of (hv_envs m))(k \<mapsto> x)" "ifcs (set_env k x m) = ifcs m"
  "hostname (set_env k x m) = hostname m" "hv_cloud (set_env k x m) = hv_cloud m"
  by (simp_all add: set_env_def)

lemma ifc_envs_panic:
  "fst (ifc_envs is m) = (if \<exists>(n, i) \<in> set is. ifc_addr i = None then Panic NilDereference else Ok ())"
  by (induction "is" m rule: ifc_envs.induct) (auto split: option.splits)

lemma ifc_envs_other:
  "fst (ifc_envs is m) = Ok () \<Longrightarrow> \<forall>(n, i) \<in> set is. k \<noteq> envIP (ifc_idx i) \<and> k \<noteq> envExtIP (ifc_idx i) \<Longrightarrow>
   map_of (hv_envs (snd (ifc_envs is m))) k = map_of (hv_envs m) k"
  by (induction "is" m rule: ifc_envs.induct) (auto split: option.splits)

lemma ifc_envs_all:
  assumes "fst (ifc_envs is m) = Ok ()" and "distinct (map (\<lambda>(n, i). ifc_idx i) is)" and "(n, i) \<in> set is"
  shows "\<exists>a. ifc_addr i = Some a \<and>
    map_of (hv_envs (snd (ifc_envs is m))) (envIP (ifc_idx i)) = Some (ip_String (net_IP a)) \<and>
    map_of (hv_envs (snd (ifc_envs is m))) (envExtIP (ifc_idx i)) = Some (ip_String (net_IP a))"
  using assms
proof (induction "is" m rule: ifc_envs.induct)
  case (2 n' i' "is" m)
  then obtain a where a: "ifc_addr i' = Some a" by (cases "ifc_addr i'") auto
  show ?case
  proof (cases "(n, i) = (n', i')")
    case True
    have "\<forall>(n, j) \<in> set is. ifc_idx i' \<noteq> ifc_idx j" using 2(3) by force
    with True a 2(2) show ?thesis
      by (auto simp: ifc_envs_other split_beta)
  next
    case False
    with 2 a show ?thesis by auto
  qed
qed simp

section \<open>Properties\<close>


text \<open>
  C33.  The variables of the interfaces.  Whatever the order in which Go visits the interfaces,
  \<open>basicEnv\<close> panics exactly when an interface has no address; otherwise every interface has its
  address in \<open>IPn\<close> and \<open>EXT_IPn\<close>, and the variables of the hypervisor, the cloud, the number of
  interfaces and the host name have these values.
\<close>

theorem basicEnv_correct:
  assumes "mset (ce_ordIfcs ce (ifcs m)) = mset (ifcs m)"
    and "distinct (map (\<lambda>(n, i). ifc_idx i) (ifcs m))"
  shows "fst (basicEnv ce m) =
      (if \<exists>(n, i) \<in> set (ifcs m). ifc_addr i = None then Panic NilDereference else Ok ()) \<and>
    (fst (basicEnv ce m) = Ok () \<longrightarrow>
      (let e = map_of (hv_envs (snd (basicEnv ce m))) in
       e envHypervisor = Some (hypervisorString m) \<and> e envCloudProvider = Some (cloudString m) \<and>
       e envEthCount = Some (nat_str (length (ifcs m))) \<and> e envHostname = Some (hostname m) \<and>
       (\<forall>(n, i) \<in> set (ifcs m). \<exists>a. ifc_addr i = Some a \<and>
          e (envIP (ifc_idx i)) = Some (ip_String (net_IP a)) \<and>
          e (envExtIP (ifc_idx i)) = Some (ip_String (net_IP a)))))"
proof -
  let ?is = "ce_ordIfcs ce (ifcs m)"
  define m1 where "m1 = set_env envHypervisor (hypervisorString m) m"
  define m2 where "m2 = set_env envCloudProvider (cloudString m1) m1"
  define m0 where "m0 = set_env envExtHostname (hostname m2) (set_env envHostname (hostname m2)
    (set_env envEthCount (nat_str (length (ifcs m2))) m2))"
  have f: "ifcs m2 = ifcs m" "hostname m2 = hostname m" by (simp_all add: m2_def m1_def)
  have eq: "basicEnv ce m = ifc_envs ?is m0"
    by (simp add: basicEnv_def Let_def m0_def m1_def m2_def)
  have m0: "map_of (hv_envs m0) envEthCount = Some (nat_str (length (ifcs m)))"
    "map_of (hv_envs m0) envHostname = Some (hostname m)"
    "map_of (hv_envs m0) envHypervisor = Some (hypervisorString m)"
    "map_of (hv_envs m0) envCloudProvider = Some (cloudString m)"
    by (simp_all add: m0_def f)
      (simp_all add: m2_def m1_def cloudString_def envHypervisor_def envCloudProvider_def envEthCount_def
        envHostname_def envExtHostname_def)
  have s: "set ?is = set (ifcs m)" using assms(1) by (metis set_mset_mset)
  have d: "distinct (map (\<lambda>(n, i). ifc_idx i) ?is)"
    using assms by (metis mset_map mset_eq_imp_distinct_iff)
  let ?r = "ifc_envs ?is m0"
  have other: "map_of (hv_envs (snd ?r)) k = map_of (hv_envs m0) k"
    if "fst ?r = Ok ()" "k = envEthCount \<or> k = envHostname \<or> k = envHypervisor \<or> k = envCloudProvider" for k
    using that env_names(5-12) by (intro ifc_envs_other) (auto dest: sym)
  have "fst ?r = (if \<exists>(n, i) \<in> set (ifcs m). ifc_addr i = None then Panic NilDereference else Ok ())"
    using ifc_envs_panic [of ?is m0] s by simp
  moreover have "let e = map_of (hv_envs (snd ?r)) in
      e envHypervisor = Some (hypervisorString m) \<and> e envCloudProvider = Some (cloudString m) \<and>
      e envEthCount = Some (nat_str (length (ifcs m))) \<and> e envHostname = Some (hostname m) \<and>
      (\<forall>(n, i) \<in> set (ifcs m). \<exists>a. ifc_addr i = Some a \<and>
         e (envIP (ifc_idx i)) = Some (ip_String (net_IP a)) \<and>
         e (envExtIP (ifc_idx i)) = Some (ip_String (net_IP a)))" if "fst ?r = Ok ()"
    using other [OF that] m0 ifc_envs_all [OF that d] s by (auto simp: Let_def)
  ultimately show ?thesis unfolding eq by blast
qed

text \<open>Two interfaces with addresses, visited in the other order.\<close>

definition sample_ifc :: "nat \<Rightarrow> byte \<Rightarrow> ifc" where
  "sample_ifc i b = \<lparr>ifc_name = ''eth'' @ nat_str i, ifc_idx = i,
     ifc_netIfc = \<lparr>if_Name = ''eth'' @ nat_str i, if_HardwareAddr = []\<rparr>,
     ifc_addr = Some \<lparr>net_IP = [10, 0, 0, b], net_Mask = [255, 255, 255, 0]\<rparr>, ifc_gw = []\<rparr>"

definition quiet_cloud :: cloudenv where
  "quiet_cloud = \<lparr>ce_NewRequest = (\<lambda>_. None), ce_Do = (\<lambda>_ _. (0, Err (Errno ''ENETUNREACH''))),
     ce_jsonStrings = (\<lambda>_. Err (Errorf ''json'')), ce_jsonObject = (\<lambda>_. Err (Errorf ''json'')),
     ce_ordIfcs = rev, ce_ordEnvs = id\<rparr>"

theorem basicEnv_correct_witness:
  "let m = (New (world_of []))\<lparr>ifcs := [(''eth0'', sample_ifc 0 1), (''eth1'', sample_ifc 1 2)], hostname := ''box''\<rparr>;
       e = map_of (hv_envs (snd (basicEnv quiet_cloud m))) in
   fst (basicEnv quiet_cloud m) = Ok () \<and> e envHostname = Some ''box'' \<and>
   e (envIP 1) = Some (ip_String [10, 0, 0, 2])"
  using basicEnv_correct [of quiet_cloud
      "(New (world_of []))\<lparr>ifcs := [(''eth0'', sample_ifc 0 1), (''eth1'', sample_ifc 1 2)], hostname := ''box''\<rparr>"]
  by (auto simp: quiet_cloud_def sample_ifc_def Let_def)

end
