(* ===== verification/Ethtool.thy ===== *)
theory Ethtool
  imports Utils OsModel
begin

text \<open>
  The ethtool requests of \<^verbatim>\<open>network.go\<close>: the structures the kernel reads and writes, as they are in memory, and
  \<open>ioctl\<close>, which hands one to the kernel.
\<close>

section \<open>Structures\<close>

record channels =
  ch_cmd :: u32
  ch_maxRx :: u32
  ch_maxTx :: u32
  ch_maxOther :: u32
  ch_maxCombined :: u32
  ch_rxCount :: u32
  ch_txCount :: u32
  ch_otherCount :: u32
  ch_combinedCount :: u32

record ringparam =
  rp_cmd :: u32
  rp_rxMaxPending :: u32
  rp_rxMiniMaxPending :: u32
  rp_rxJumboMaxPending :: u32
  rp_txMaxPending :: u32
  rp_rxPending :: u32
  rp_rxMiniPending :: u32
  rp_rxJumboPending :: u32
  rp_txPending :: u32

record ethtoolValue =
  et_cmd :: u32
  et_data :: u32

definition enc_channels :: "channels \<Rightarrow> byte list" where
  "enc_channels c =
     le_enc 4 (ch_cmd c) @ le_enc 4 (ch_maxRx c) @ le_enc 4 (ch_maxTx c) @ le_enc 4 (ch_maxOther c) @
     le_enc 4 (ch_maxCombined c) @ le_enc 4 (ch_rxCount c) @ le_enc 4 (ch_txCount c) @ le_enc 4 (ch_otherCount c) @
     le_enc 4 (ch_combinedCount c)"

definition dec_channels :: "byte list \<Rightarrow> channels" where
  "dec_channels bs =
     \<lparr>ch_cmd = le_dec (sl 0 4 bs), ch_maxRx = le_dec (sl 4 4 bs), ch_maxTx = le_dec (sl 8 4 bs),
      ch_maxOther = le_dec (sl 12 4 bs), ch_maxCombined = le_dec (sl 16 4 bs), ch_rxCount = le_dec (sl 20 4 bs),
      ch_txCount = le_dec (sl 24 4 bs), ch_otherCount = le_dec (sl 28 4 bs), ch_combinedCount = le_dec (sl 32 4 bs)\<rparr>"

definition enc_ringparam :: "ringparam \<Rightarrow> byte list" where
  "enc_ringparam r =
     le_enc 4 (rp_cmd r) @ le_enc 4 (rp_rxMaxPending r) @ le_enc 4 (rp_rxMiniMaxPending r) @
     le_enc 4 (rp_rxJumboMaxPending r) @ le_enc 4 (rp_txMaxPending r) @ le_enc 4 (rp_rxPending r) @
     le_enc 4 (rp_rxMiniPending r) @ le_enc 4 (rp_rxJumboPending r) @ le_enc 4 (rp_txPending r)"

definition dec_ringparam :: "byte list \<Rightarrow> ringparam" where
  "dec_ringparam bs =
     \<lparr>rp_cmd = le_dec (sl 0 4 bs), rp_rxMaxPending = le_dec (sl 4 4 bs), rp_rxMiniMaxPending = le_dec (sl 8 4 bs),
      rp_rxJumboMaxPending = le_dec (sl 12 4 bs), rp_txMaxPending = le_dec (sl 16 4 bs), rp_rxPending = le_dec (sl 20 4 bs),
      rp_rxMiniPending = le_dec (sl 24 4 bs), rp_rxJumboPending = le_dec (sl 28 4 bs), rp_txPending = le_dec (sl 32 4 bs)\<rparr>"

definition enc_ethtoolValue :: "ethtoolValue \<Rightarrow> byte list" where
  "enc_ethtoolValue v = le_enc 4 (et_cmd v) @ le_enc 4 (et_data v)"

definition dec_ethtoolValue :: "byte list \<Rightarrow> ethtoolValue" where
  "dec_ethtoolValue bs = \<lparr>et_cmd = le_dec (sl 0 4 bs), et_data = le_dec (sl 4 4 bs)\<rparr>"

interpretation chn: codec enc_channels dec_channels 36 "\<lambda>_. True"
  by unfold_locales (simp_all add: enc_channels_def dec_channels_def layout_rules sl_glue sl_glue_end)

interpretation rng: codec enc_ringparam dec_ringparam 36 "\<lambda>_. True"
  by unfold_locales (simp_all add: enc_ringparam_def dec_ringparam_def layout_rules sl_glue sl_glue_end)

interpretation etv: codec enc_ethtoolValue dec_ethtoolValue 8 "\<lambda>_. True"
  by unfold_locales (simp_all add: enc_ethtoolValue_def dec_ethtoolValue_def layout_rules sl_glue sl_glue_end)

section \<open>Requests\<close>

definition ethtoolGCHANNELS :: u32 where "ethtoolGCHANNELS = 0x3c"
definition ethtoolSCHANNELS :: u32 where "ethtoolSCHANNELS = 0x3d"
definition ethtoolGRINGPARAM :: u32 where "ethtoolGRINGPARAM = 0x10"
definition ethtoolSRINGPARAM :: u32 where "ethtoolSRINGPARAM = 0x11"

text \<open>
  Both checks take the structure by value: what they assign to its fields is gone when they return.
\<close>

definition raise_ring :: "bool \<times> ringparam \<Rightarrow> bool \<times> ringparam" where
  "raise_ring s =
     (let s = (if rp_rxPending (snd s) < rp_rxMaxPending (snd s)
               then (True, (snd s)\<lparr>rp_rxPending := rp_rxMaxPending (snd s)\<rparr>) else s) in
      if rp_txPending (snd s) < rp_txMaxPending (snd s)
      then (True, (snd s)\<lparr>rp_txPending := rp_txMaxPending (snd s)\<rparr>) else s)"

definition checkRingParams :: "ringparam \<Rightarrow> bool" where
  "checkRingParams r = fst (raise_ring (False, r))"

definition raise_channels :: "u32 \<Rightarrow> bool \<times> channels \<Rightarrow> bool \<times> channels" where
  "raise_channels cpus s =
     (let s = (if ch_combinedCount (snd s) < min_u32 cpus (ch_maxCombined (snd s))
               then (True, (snd s)\<lparr>ch_combinedCount := ch_maxCombined (snd s)\<rparr>) else s);
          s = (if ch_txCount (snd s) < min_u32 cpus (ch_maxTx (snd s))
               then (True, (snd s)\<lparr>ch_txCount := ch_maxTx (snd s)\<rparr>) else s) in
      if ch_rxCount (snd s) < min_u32 cpus (ch_maxRx (snd s))
      then (True, (snd s)\<lparr>ch_rxCount := ch_maxRx (snd s)\<rparr>) else s)"

definition checkChannels :: "nat \<Rightarrow> channels \<Rightarrow> bool" where
  "checkChannels numCPU c = fst (raise_channels (word_of_nat numCPU) (False, c))"

definition channels_request :: "byte list" where
  "channels_request = enc_channels \<lparr>ch_cmd = ethtoolGCHANNELS, ch_maxRx = 0, ch_maxTx = 0, ch_maxOther = 0,
     ch_maxCombined = 0, ch_rxCount = 0, ch_txCount = 0, ch_otherCount = 0, ch_combinedCount = 0\<rparr>"

definition ringparam_request :: "byte list" where
  "ringparam_request = enc_ringparam \<lparr>rp_cmd = ethtoolGRINGPARAM, rp_rxMaxPending = 0, rp_rxMiniMaxPending = 0,
     rp_rxJumboMaxPending = 0, rp_txMaxPending = 0, rp_rxPending = 0, rp_rxMiniPending = 0, rp_rxJumboPending = 0,
     rp_txPending = 0\<rparr>"

text \<open>
  \<open>ioctl\<close> copies the name into an array of 16 bytes that is zero; the kernel's answer is an error, or the
  memory of the structure after the call.
\<close>

definition ifNameSz :: nat where "ifNameSz = 16"

definition ifr_name :: "string \<Rightarrow> string" where
  "ifr_name ifc = take ifNameSz (ifc @ replicate ifNameSz CHR 0x00)"

type_synonym ethkern = "string \<Rightarrow> byte list \<Rightarrow> byte list outcome"

definition ioctl :: "ethkern \<Rightarrow> string \<Rightarrow> byte list \<Rightarrow> 'a world_scheme \<Rightarrow> byte list outcome \<times> 'a world_scheme" where
  "ioctl kern ifc data w = (kern (ifr_name ifc) data, emit (EvIoctl (ifr_name ifc) (map uint data)) w)"

text \<open>Changing the command leaves the rest of the memory as it is.\<close>

lemma channels_command:
  assumes "length mem = 36"
  shows "enc_channels (dec_channels mem\<lparr>ch_cmd := x\<rparr>) = le_enc 4 x @ drop 4 mem"
  using assms by (simp add: enc_channels_def dec_channels_def sl_glue sl_glue_end) (simp add: sl_def)

lemma ringparam_command:
  assumes "length mem = 36"
  shows "enc_ringparam (dec_ringparam mem\<lparr>rp_cmd := x\<rparr>) = le_enc 4 x @ drop 4 mem"
  using assms by (simp add: enc_ringparam_def dec_ringparam_def sl_glue sl_glue_end) (simp add: sl_def)

end
