(* ===== verification/Network.thy ===== *)
theory Network
  imports Launch Ethtool "HOL-Library.List_Lexorder" "HOL-Library.Char_ord"
begin

text \<open>
  \<^verbatim>\<open>pkg/vorteil/network.go\<close> and the routing part of \<^verbatim>\<open>chelper.go\<close>: bringing up the network devices.
  The kernel, the \<open>netlink\<close> library and the DHCP client are the parameter \<open>netkern\<close>.  A goroutine per
  configured device runs after the loop that starts it, in an order that is a parameter too; a
  goroutine that goes on after \<open>networkSetup\<close> is an event \<open>go\<close>.  A send on a channel nobody receives
  from blocks for ever and is the run \<open>None\<close>.
\<close>

section \<open>Device types\<close>

datatype networkType = devtypeUnknown | devtypeNet | devtypeLocalhost

primrec devtype_num :: "networkType \<Rightarrow> nat" where
  "devtype_num devtypeUnknown = 0"
| "devtype_num devtypeNet = 1"
| "devtype_num devtypeLocalhost = 2"

lemma devtype_num_inject: "devtype_num a = devtype_num b \<Longrightarrow> a = b"
  by (cases a; cases b) simp_all

instantiation networkType :: linorder
begin

definition less_eq_networkType :: "networkType \<Rightarrow> networkType \<Rightarrow> bool" where
  "less_eq_networkType a b \<longleftrightarrow> devtype_num a \<le> devtype_num b"

definition less_networkType :: "networkType \<Rightarrow> networkType \<Rightarrow> bool" where
  "less_networkType a b \<longleftrightarrow> devtype_num a < devtype_num b"

instance
  by standard (auto simp: less_eq_networkType_def less_networkType_def intro: devtype_num_inject)

end

definition networkDeviceType :: "string \<Rightarrow> 'a world_scheme \<Rightarrow> networkType" where
  "networkDeviceType name w =
     (case ReadFile (''/sys/class/net/'' @ name @ ''/type'') w of
        Ok dat \<Rightarrow>
          (let s = TrimSpace dat in
           if s = ''1'' then devtypeNet else if s = ''772'' then devtypeLocalhost else devtypeUnknown)
      | _ \<Rightarrow> devtypeUnknown)"

section \<open>The outside\<close>

text \<open>The fields of an offer the program reads; a nil option is \<open>[]\<close> or \<open>None\<close>.\<close>

record offer =
  of_YourIPAddr :: ip
  of_Router :: ip
  of_SubnetMask :: ip
  of_ServerIdentifier :: ip
  of_AzureEndpoint :: "byte list"
  of_NTPServers :: "ip list"
  of_DomainSearch :: "string list option"
  of_HostName :: string
  of_RenewTime :: "byte list option"
  of_DNS :: "ip list"

record netkern =
  nk_Interfaces :: "net_Interface list outcome"
  nk_NumCPU :: nat
  nk_ethtool :: ethkern
  nk_bcast :: "string \<Rightarrow> nat \<Rightarrow> int outcome"
  nk_listen :: "string \<Rightarrow> nat \<Rightarrow> int outcome"
  nk_discover :: "string \<Rightarrow> nat \<Rightarrow> nat \<Rightarrow> offer option \<times> goerr option"
  nk_LinkByName :: "string \<Rightarrow> goerr option"
  nk_LinkSetUp :: "string \<Rightarrow> goerr option"
  nk_ParseAddr :: "string \<Rightarrow> goerr option"
  nk_AddrAdd :: "string \<Rightarrow> string \<Rightarrow> goerr option"
  nk_ResolveUDP :: "string \<Rightarrow> goerr option"
  nk_add_route :: "string \<Rightarrow> int list \<Rightarrow> bool"
  nk_StdoutPipe :: "string \<Rightarrow> goerr option"
  nk_Start :: "string \<Rightarrow> goerr option"
  nk_ordIfcs :: "(string \<times> ifc) list \<Rightarrow> (string \<times> ifc) list"
  nk_ordTasks :: "(string \<times> NetworkInterface) list \<Rightarrow> (string \<times> NetworkInterface) list"

section \<open>Queues\<close>

definition config_channels :: "netkern \<Rightarrow> string \<Rightarrow> 'a world_scheme \<Rightarrow> 'a world_scheme" where
  "config_channels nk name w =
     (case ioctl (nk_ethtool nk) name channels_request w of
        (Ok mem, w) \<Rightarrow>
          (let c = dec_channels mem in
           if checkChannels (nk_NumCPU nk) c
           then snd (ioctl (nk_ethtool nk) name (enc_channels (c\<lparr>ch_cmd := ethtoolSCHANNELS\<rparr>))
                  (logDebug ''updating network queues'' w))
           else w)
      | (_, w) \<Rightarrow> w)"

fun configQueues :: "netkern \<Rightarrow> (string \<times> ifc) list \<Rightarrow> 'a world_scheme \<Rightarrow> 'a world_scheme" where
  "configQueues nk [] w = w"
| "configQueues nk ((k, i) # is) w =
     (case ioctl (nk_ethtool nk) (ifc_name i) ringparam_request (config_channels nk (ifc_name i) w) of
        (Ok mem, w) \<Rightarrow>
          (let r = dec_ringparam mem in
           configQueues nk is
             (if checkRingParams r
              then snd (ioctl (nk_ethtool nk) (ifc_name i) (enc_ringparam (r\<lparr>rp_cmd := ethtoolSRINGPARAM\<rparr>))
                     (logDebug ''updating network ringparams'' w))
              else w))
      | (_, w) \<Rightarrow> w)"

definition tsoAttrs :: "u32 list" where
  "tsoAttrs = [0x19, 0x22, 0x1f, 0x24, 0x15, 0x17]"

definition tso_step :: "netkern \<Rightarrow> string \<Rightarrow> byte \<Rightarrow> u32 \<Rightarrow> 'a world_scheme \<Rightarrow> 'a world_scheme" where
  "tso_step nk name val attr w =
     (case ioctl (nk_ethtool nk) name (enc_ethtoolValue \<lparr>et_cmd = attr, et_data = ucast val\<rparr>) w of
        (Ok mem, w) \<Rightarrow> w
      | (_, w) \<Rightarrow> logDebug ''can not set tso to %d'' w)"

definition setTSOValues :: "netkern \<Rightarrow> string \<Rightarrow> byte \<Rightarrow> 'a world_scheme \<Rightarrow> 'a world_scheme" where
  "setTSOValues nk name val w = fold (tso_step nk name val) tsoAttrs (logDebug ''setting tso to %d'' w)"

section \<open>Routes\<close>

definition RTF_UP :: int where "RTF_UP = 1"
definition RTF_GATEWAY :: int where "RTF_GATEWAY = 2"
definition RTF_HOST :: int where "RTF_HOST = 4"
definition RTF_STATIC :: int where "RTF_STATIC = 0x400"

definition IPv4bcast :: ip where "IPv4bcast = IPv4 255 255 255 255"

text \<open>The integer of an address, 0 for nil, cut to a C \<open>int\<close>.\<close>

definition nw_int :: "ip \<Rightarrow> int outcome" where
  "nw_int v = (if v \<noteq> [] then bind_out (ip2networkInt v) (\<lambda>n. Ok (sint n)) else Ok 0)"

definition addNetworkRoute4 ::
  "netkern \<Rightarrow> ip \<Rightarrow> ip \<Rightarrow> ip \<Rightarrow> string \<Rightarrow> int \<Rightarrow> 'a world_scheme \<Rightarrow> unit outcome \<times> 'a world_scheme" where
  "addNetworkRoute4 nk dst msk gw dev flags w =
     and_then (nw_int dst, w) (\<lambda>d w.
     and_then (nw_int msk, w) (\<lambda>m w.
     and_then (nw_int gw, w) (\<lambda>g w.
     let w = emit (EvIoctl (''route '' @ dev) [d, m, g, flags]) w in
     if nk_add_route nk dev [d, m, g, flags] then (Ok (), w)
     else (Err (Errorf ''could not set route for %s''), w))))"

definition setDefaultGateway :: "netkern \<Rightarrow> string \<Rightarrow> ip \<Rightarrow> 'a world_scheme \<Rightarrow> unit outcome \<times> 'a world_scheme" where
  "setDefaultGateway nk name p w =
     (case addNetworkRoute4 nk [] [] p name (RTF_UP + RTF_GATEWAY) w of
        (Err e, w) \<Rightarrow> (Err (Errorf ''could not set host route''), w)
      | r \<Rightarrow> r)"

definition config_route :: "netkern \<Rightarrow> Route \<Rightarrow> 'a world_scheme \<Rightarrow> unit outcome \<times> 'a world_scheme" where
  "config_route nk r w =
     (case ParseCIDR (rt_Destination r) of
        None \<Rightarrow> (Ok (), logError ''can not set route destination: %v'' w)
      | Some (dst, nw) \<Rightarrow>
          (let gw = ParseIP (rt_Gateway r) in
           if gw = [] then (Ok (), logError ''gateway %s invalid'' w)
           else
             (case addNetworkRoute4 nk gw (if \<not> net_Contains nw gw then IPv4bcast else net_Mask nw) []
                     (rt_Interface r) (RTF_UP + RTF_HOST) w of
                (Ok _, w) \<Rightarrow>
                  (case addNetworkRoute4 nk dst (net_Mask nw) gw (rt_Interface r)
                          (RTF_UP + RTF_STATIC + RTF_GATEWAY) w of
                     (Err e, w) \<Rightarrow> (Ok (), logError ''can not set route: %v'' w)
                   | r \<Rightarrow> r)
              | (Err e, w) \<Rightarrow> (Ok (), logError ''can not set route direct link: %v'' w)
              | (Panic x, w) \<Rightarrow> (Panic x, w))))"

fun configRoutes :: "netkern \<Rightarrow> Route list \<Rightarrow> 'a world_scheme \<Rightarrow> unit outcome \<times> 'a world_scheme" where
  "configRoutes nk [] w = (Ok (), w)"
| "configRoutes nk (r # rs) w = and_then (config_route nk r w) (\<lambda>_ w. configRoutes nk rs w)"


section \<open>DHCP\<close>

definition attemptLoops :: nat where "attemptLoops = 10"
definition dhcpAttempts :: nat where "dhcpAttempts = 10"
definition dhcpDefaultRenew :: nat where "dhcpDefaultRenew = 360"

definition closeFds :: "int \<times> int \<Rightarrow> 'a world_scheme \<Rightarrow> 'a world_scheme" where
  "closeFds fds w =
     (let w = emit (EvIoctl ''close'' [fst fds]) w in
      if fst fds \<noteq> snd fds then emit (EvIoctl ''close'' [snd fds]) w else w)"

text \<open>
  The inner loop: \<open>n\<close> attempts left, the \<open>a\<close>-th of round \<open>i\<close>.  The result is an offer, or the error of the
  last attempt.
\<close>

fun discover_attempts ::
  "netkern \<Rightarrow> string \<Rightarrow> nat \<Rightarrow> nat \<Rightarrow> nat \<Rightarrow> goerr option \<Rightarrow> 'a world_scheme \<Rightarrow>
   (offer option \<times> goerr option) \<times> 'a world_scheme" where
  "discover_attempts nk name i 0 a err w = ((None, err), w)"
| "discover_attempts nk name i (Suc n) a err w =
     (let w = emit (EvIoctl ''discover'' [int i, int a]) w in
      case nk_discover nk name i a of
        (Some ofr, err) \<Rightarrow> ((Some ofr, err), w)
      | (None, err) \<Rightarrow> discover_attempts nk name i n (Suc a) err (logWarn ''no dhcp discover response'' w))"

text \<open>The outer loop; \<open>ds\<close> are the deferred calls of \<open>closeFds\<close>, which run last in, first out.\<close>

fun discover_rounds ::
  "netkern \<Rightarrow> string \<Rightarrow> nat \<Rightarrow> nat \<Rightarrow> goerr option \<Rightarrow> (int \<times> int) list \<Rightarrow> 'a world_scheme \<Rightarrow>
   (offer option \<times> goerr option) \<times> 'a world_scheme" where
  "discover_rounds nk name 0 i err ds w = ((None, err), fold closeFds ds w)"
| "discover_rounds nk name (Suc n) i err ds w =
     (let w = logDebug ''discover request for %s'' w in
      case nk_bcast nk name i of
        Ok sfd \<Rightarrow>
          (case nk_listen nk name i of
             Ok rfd \<Rightarrow>
               (case discover_attempts nk name i dhcpAttempts 0 err w of
                  ((Some ofr, err), w) \<Rightarrow> ((Some ofr, err), fold closeFds ((sfd, rfd) # ds) w)
                | ((None, err), w) \<Rightarrow>
                    discover_rounds nk name n (Suc i) err ((sfd, rfd) # ds)
                      (closeFds (sfd, rfd) (logWarn ''can not get dhcp ip: %v, try %d'' w)))
           | Err e \<Rightarrow> ((None, Some e), fold closeFds ds w)
           | Panic x \<Rightarrow> ((None, None), w))
      | Err e \<Rightarrow> ((None, Some e), fold closeFds ds w)
      | Panic x \<Rightarrow> ((None, None), w))"

definition dhcpDiscover ::
  "netkern \<Rightarrow> net_Interface \<Rightarrow> 'a world_scheme \<Rightarrow> (offer option \<times> goerr option) \<times> 'a world_scheme" where
  "dhcpDiscover nk nif w = discover_rounds nk (if_Name nif) attemptLoops 0 None [] w"

section \<open>One interface\<close>

text \<open>\<open>net.IPNet.String\<close>: the prefix length, or the mask in hexadecimal when it is not contiguous.\<close>

definition mask_len :: "byte list \<Rightarrow> nat option" where
  "mask_len m = List.find (\<lambda>n. m = CIDRMask n (length m)) [0..<8 * length m + 1]"

definition IPNet_String :: "IPNet \<Rightarrow> string" where
  "IPNet_String n =
     (let nn = (if To4 (net_IP n) \<noteq> [] then To4 (net_IP n)
                else if length (net_IP n) = 16 then net_IP n else []);
          m = (if length (net_Mask n) = 4 then (if length nn = 4 then net_Mask n else [])
               else if length (net_Mask n) = 16 then (if length nn = 4 then drop 12 (net_Mask n) else net_Mask n)
               else []) in
      if nn = [] \<or> m = [] then ''<nil>''
      else case mask_len m of
        Some l \<Rightarrow> ip_String nn @ ''/'' @ nat_str l
      | None \<Rightarrow> ip_String nn @ ''/'' @ hex_string m)"

definition addAddrToInterface :: "netkern \<Rightarrow> ifc \<Rightarrow> 'a world_scheme \<Rightarrow> unit outcome \<times> 'a world_scheme" where
  "addAddrToInterface nk i w =
     (let w = logDebug ''add addr to interface %s'' w in
      case nk_LinkByName nk (ifc_name i) of
        Some e \<Rightarrow> (Err e, w)
      | None \<Rightarrow>
          (let a = (case ifc_addr i of None \<Rightarrow> ''<nil>'' | Some n \<Rightarrow> IPNet_String n);
               w = logDebug ''addr to add to %s: %v'' w in
           case nk_ParseAddr nk a of
             Some e \<Rightarrow> (Err e, w)
           | None \<Rightarrow>
               (case nk_AddrAdd nk (ifc_name i) a of
                  Some e \<Rightarrow> (Err e, w)
                | None \<Rightarrow> (Ok (), emit (EvCall ''AddrAdd'' [ifc_name i, a]) w))))"

text \<open>A pointer to an interface is its key in the map.\<close>

definition the_ifc :: "string \<Rightarrow> machine \<Rightarrow> ifc" where
  "the_ifc key m = the (map_of (ifcs m) key)"

definition set_ifc :: "string \<Rightarrow> ifc \<Rightarrow> machine \<Rightarrow> machine" where
  "set_ifc key i m = m\<lparr>ifcs := map_put key i (ifcs m)\<rparr>"

text \<open>
  A \<open>SystemPanic\<close> returns to its caller when the machine is already going down, so the code after it is
  reachable.
\<close>

definition or_panic :: "sysview \<Rightarrow> string \<Rightarrow> unit outcome \<times> machine \<Rightarrow> unit outcome \<times> machine" where
  "or_panic env fmt r = (case r of (Err e, m) \<Rightarrow> (Ok (), SystemPanic env fmt m) | _ \<Rightarrow> r)"

definition configInterface ::
  "sysview \<Rightarrow> netkern \<Rightarrow> string \<Rightarrow> ip \<Rightarrow> ip \<Rightarrow> ip \<Rightarrow> machine \<Rightarrow> unit outcome \<times> machine" where
  "configInterface env nk key p msk router m =
     (let m = logDebug ''%s: %v/%v/%v'' m;
          i = (the_ifc key m)\<lparr>ifc_addr := Some \<lparr>net_IP = p, net_Mask = msk\<rparr>, ifc_gw := router\<rparr>;
          m = set_ifc key i m;
          m = ignoring (addAddrToInterface nk i m) in
      and_then
        (if IP_Equal msk IPv4bcast
         then or_panic env ''could not set host route''
           (addNetworkRoute4 nk router IPv4bcast [] (ifc_name i) (RTF_UP + RTF_HOST) m)
         else (Ok (), m)) (\<lambda>_ m.
      if router \<noteq> []
      then or_panic env ''could not set host route''
        (setDefaultGateway nk (ifc_name i) router (logDebug ''setting default gateway to %s'' m))
      else (Ok (), m)))"

definition BigEndian_Uint32 :: "byte list \<Rightarrow> u32 outcome" where
  "BigEndian_Uint32 bs = le_Uint32 (rev (take 4 bs))"

definition add_ntp :: "ip \<Rightarrow> machine \<Rightarrow> machine" where
  "add_ntp p m =
     (let m = logDebug ''dhcp NTP servers: %v'' m; sys = vc_System (vcfg m) in
      m\<lparr>vcfg := (vcfg m)\<lparr>vc_System := sys\<lparr>sy_NTP := sy_NTP sys @ [ip_String p]\<rparr>\<rparr>\<rparr>)"

definition add_search :: "string \<Rightarrow> machine \<Rightarrow> machine" where
  "add_search ss m =
     (let m = logDebug ''dhcp domain search labels: %v'' m in m\<lparr>searchDomains := searchDomains m @ [ss]\<rparr>)"

text \<open>What \<open>fetchDHCP\<close> takes from the offer after the interface has its address.\<close>

definition use_options :: "offer \<Rightarrow> machine \<Rightarrow> machine" where
  "use_options ofr m =
     (let m = fold add_ntp (of_NTPServers ofr) m;
          m = (case of_DomainSearch ofr of None \<Rightarrow> m | Some ls \<Rightarrow> fold add_search ls m) in
      if of_HostName ofr \<noteq> [] then (logDebug ''Setting hostname to %v'' m)\<lparr>hostname := of_HostName ofr\<rparr> else m)"

definition resolve_or :: "netkern \<Rightarrow> ip \<Rightarrow> string \<Rightarrow> string \<Rightarrow> machine \<Rightarrow> unit outcome \<times> machine" where
  "resolve_or nk p port fmt m =
     (case nk_ResolveUDP nk (ip_String p @ '':'' @ port) of
        Some e \<Rightarrow> (Err e, logError fmt m)
      | None \<Rightarrow> (Ok (), m))"

definition fetchDHCP :: "sysview \<Rightarrow> netkern \<Rightarrow> string \<Rightarrow> machine \<Rightarrow> unit outcome \<times> machine" where
  "fetchDHCP env nk key m =
     (case dhcpDiscover nk (ifc_netIfc (the_ifc key m)) m of
        ((_, Some e), m) \<Rightarrow> (Err e, logError ''can not get IP from DHCP: %s'' m)
      | ((None, None), m) \<Rightarrow> (Panic NilDereference, m)
      | ((Some ofr, None), m) \<Rightarrow>
          (let m = m\<lparr>hv_cloud := (if of_AzureEndpoint ofr \<noteq> [] then cpAzure else cpNone)\<rparr> in
           and_then (configInterface env nk key (of_YourIPAddr ofr) (of_SubnetMask ofr) (of_Router ofr) m) (\<lambda>_ m.
           let m = use_options ofr m in
           and_then (case of_RenewTime ofr of
                       None \<Rightarrow> (Ok (word_of_nat dhcpDefaultRenew), m)
                     | Some rv \<Rightarrow> (BigEndian_Uint32 rv, m)) (\<lambda>renew m.
           and_then (resolve_or nk (of_ServerIdentifier ofr) ''67'' ''can not parse server address: %s'' m) (\<lambda>_ m.
           and_then (resolve_or nk (of_YourIPAddr ofr) ''68'' ''can not parse client address: %s'' m) (\<lambda>_ m.
           let m = m\<lparr>v_dns := v_dns m @ of_DNS ofr\<rparr> in
           (Ok (), emit (EvCall ''go'' [''renew'', ifc_name (the_ifc key m), nat_str (unat renew)]) m)))))))"

section \<open>All interfaces\<close>

definition startLink :: "netkern \<Rightarrow> string \<Rightarrow> 'a world_scheme \<Rightarrow> unit outcome \<times> 'a world_scheme" where
  "startLink nk name w =
     (case nk_LinkByName nk name of
        Some e \<Rightarrow> (Err e, w)
      | None \<Rightarrow>
          (case nk_LinkSetUp nk name of
             Some e \<Rightarrow> (Err e, w)
           | None \<Rightarrow> (Ok (), emit (EvCall ''LinkSetUp'' [name]) w)))"

text \<open>The body of the goroutine of one device; its error is what it sends to the channel.\<close>

definition handleNetworkLink ::
  "sysview \<Rightarrow> netkern \<Rightarrow> string \<times> NetworkInterface \<Rightarrow> machine \<Rightarrow> unit outcome \<times> machine" where
  "handleNetworkLink env nk task m =
     (let (key, ifcg) = task in
      if ni_IP ifcg \<noteq> ''dhcp'' \<and> ni_IP ifcg \<noteq> [] then
        let p = ParseIP (ni_IP ifcg); msk = ParseIP (ni_Mask ifcg); gw = ParseIP (ni_Gateway ifcg) in
        if p = [] \<or> msk = [] \<or> gw = [] then (Err (Errorf ''ip, mask or gateway is not valid''), m)
        else configInterface env nk key p msk gw m
      else fetchDHCP env nk key m)"

text \<open>
  Runs in the goroutine of \<open>networkSetup\<close> itself, before anybody receives from the error channel: a send
  blocks for ever.
\<close>

definition handleNetworkTCPDump :: "netkern \<Rightarrow> string \<Rightarrow> NetworkInterface \<Rightarrow> machine \<Rightarrow> machine option" where
  "handleNetworkTCPDump nk name ifcg m =
     (if ni_TCPDUMP ifcg then
        if nk_StdoutPipe nk name \<noteq> None then None
        else let m = emit (EvCall ''go'' [''tcpdump reader'', name]) m in
          if nk_Start nk name \<noteq> None then None
          else Some (emit (EvExec ''/vorteil/tcpdump'' [''--device='' @ name]) m)
      else Some m)"

definition setup_localhost :: "netkern \<Rightarrow> string \<Rightarrow> machine \<Rightarrow> machine" where
  "setup_localhost nk name m =
     emit (EvCall ''LinkSetMTU'' [name, ''65536''])
       (emit (EvCall ''AddrAdd'' [name, IPNet_String \<lparr>net_IP = IPv4 127 0 0 1, net_Mask = [255, 0, 0, 0]\<rparr>]) m)"

definition eth_name :: "nat \<Rightarrow> string" where "eth_name ic = ''eth'' @ nat_str ic"

definition setup_device :: "netkern \<Rightarrow> net_Interface \<Rightarrow> NetworkInterface \<Rightarrow> machine \<Rightarrow> machine" where
  "setup_device nk i ifcg m =
     (let m = logDebug ''set mtu to %d for %s'' m;
          m = emit (EvCall ''LinkSetMTU'' [if_Name i, nat_str (ni_MTU ifcg)]) m;
          m = logDebug ''disable tso: %v'' m in
      setTSOValues nk (if_Name i) (if ni_DisableTSO ifcg then 0 else 1) m)"

text \<open>
  The loop over the devices: the counter, the goroutines started so far, and the rest of the devices.
  \<open>None\<close> is a loop that blocks.
\<close>

fun setup_loop ::
  "netkern \<Rightarrow> net_Interface list \<Rightarrow> nat \<Rightarrow> (string \<times> NetworkInterface) list \<Rightarrow> machine \<Rightarrow>
   ((string \<times> NetworkInterface) list outcome \<times> machine) option" where
  "setup_loop nk [] ic tasks m = Some (Ok tasks, m)"
| "setup_loop nk (i # is) ic tasks m =
     (let deviceType = networkDeviceType (if_Name i) m in
      case vc_Networks (vcfg m) of
        None \<Rightarrow> setup_loop nk is ic tasks m
      | Some nets \<Rightarrow>
          if deviceType < devtypeNet then setup_loop nk is ic tasks m
          else
            (case startLink nk (if_Name i) (logDebug ''configure %s'' m) of
               (Err e, m) \<Rightarrow> Some (Err e, logError ''can not get enable network device %s: %s'' m)
             | (Panic x, m) \<Rightarrow> Some (Panic x, m)
             | (Ok _, m) \<Rightarrow>
                 if deviceType = devtypeLocalhost then setup_loop nk is ic tasks (setup_localhost nk (if_Name i) m)
                 else
                   (let m = set_ifc (eth_name ic) \<lparr>ifc_name = eth_name ic, ifc_idx = ic, ifc_netIfc = i,
                              ifc_addr = None, ifc_gw = []\<rparr> m in
                    if length nets \<le> ic then setup_loop nk is ic tasks m
                    else
                      (let ifcg = nets ! ic; m = setup_device nk i ifcg m in
                       case handleNetworkTCPDump nk (eth_name ic) ifcg m of
                         None \<Rightarrow> None
                       | Some m \<Rightarrow> setup_loop nk is (Suc ic) (tasks @ [(eth_name ic, ifcg)]) m))))"

text \<open>
  The goroutines, one after the other: the first error is received and the channel is closed; a second
  error is a send on a closed channel.
\<close>

fun run_tasks ::
  "sysview \<Rightarrow> netkern \<Rightarrow> (string \<times> NetworkInterface) list \<Rightarrow> goerr option \<Rightarrow> machine \<Rightarrow> unit outcome \<times> machine" where
  "run_tasks env nk [] err m = (case err of None \<Rightarrow> (Ok (), m) | Some e \<Rightarrow> (Err e, m))"
| "run_tasks env nk (t # ts) err m =
     (case handleNetworkLink env nk t m of
        (Ok _, m) \<Rightarrow> run_tasks env nk ts err m
      | (Err e, m) \<Rightarrow> (case err of None \<Rightarrow> run_tasks env nk ts (Some e) m | Some _ \<Rightarrow> (Panic SendOnClosed, m))
      | (Panic x, m) \<Rightarrow> (Panic x, m))"

fun print_ifcs :: "(string \<times> ifc) list \<Rightarrow> string list \<Rightarrow> machine \<Rightarrow> unit outcome \<times> machine" where
  "print_ifcs is [] m = (Ok (), m)"
| "print_ifcs is (k # ks) m =
     (case ifc_addr (the (map_of is k)) of
        None \<Rightarrow> (Panic NilDereference, m)
      | Some a \<Rightarrow>
          print_ifcs is ks
            (logAlways ''%s gateway : %s'' (logAlways ''%s mask : %s'' (logAlways ''%s ip : %s'' m))))"

definition sortAndPrint :: "(string \<times> ifc) list \<Rightarrow> machine \<Rightarrow> unit outcome \<times> machine" where
  "sortAndPrint is m =
     and_then (print_ifcs is (sort (map fst is)) m)
       (\<lambda>_ m. (Ok (), if is = [] then logAlways ''ip : no network devices available'' m else m))"

definition networkSetup :: "sysview \<Rightarrow> netkern \<Rightarrow> machine \<Rightarrow> run" where
  "networkSetup env nk m =
     (case nk_Interfaces nk of
        Err e \<Rightarrow> Some (Err e, logError ''can not get network interfaces: %s'' m)
      | Panic x \<Rightarrow> Some (Panic x, m)
      | Ok ifaces \<Rightarrow>
          (case setup_loop nk ifaces 0 [] m of
             None \<Rightarrow> None
           | Some (Err e, m) \<Rightarrow> Some (Err e, m)
           | Some (Panic x, m) \<Rightarrow> Some (Panic x, m)
           | Some (Ok tasks, m) \<Rightarrow> Some (
               and_then (run_tasks env nk (nk_ordTasks nk tasks) None m) (\<lambda>_ m.
               let m = logDebug ''network configured'' m in
               and_then (sortAndPrint (ifcs m) m) (\<lambda>_ m.
               and_then (configRoutes nk (vc_Routing (vcfg m)) m) (\<lambda>_ m.
               (Ok (), configQueues nk (nk_ordIfcs nk (ifcs m)) m)))))))"

end
