(* ===== verification/NetworkSpec.thy ===== *)
theory NetworkSpec
  imports Network Frame Cloud
begin

text \<open>
  Properties of the network set-up: which interfaces end up with an address, how the discovery ends,
  and what the queue configuration asks of the kernel.
\<close>

section \<open>What the loop over the devices keeps\<close>

definition netst :: "machine \<Rightarrow> fs \<times> (string \<Rightarrow> string \<Rightarrow> goerr option) \<times> VCFG \<times> (string \<times> ifc) list" where
  "netst m = (w_fs m, w_deny m, vcfg m, ifcs m)"

lemma netst_emit [simp]: "netst (emit e m) = netst m"
  by (simp add: netst_def)

lemma netst_log [simp]: "netst (log l f m) = netst m"
  by (simp add: log_def)

lemma netst_startLink [simp]: "netst (snd (startLink nk name m)) = netst m"
  by (simp add: startLink_def split: option.splits)

lemma netst_localhost [simp]: "netst (setup_localhost nk name m) = netst m"
  by (simp add: setup_localhost_def)

lemma netst_tso_step [simp]: "netst (tso_step nk name val attr m) = netst m"
  by (simp add: tso_step_def ioctl_def split: outcome.splits)

lemma netst_fold_tso [simp]: "netst (fold (tso_step nk name val) as m) = netst m"
  by (induction as arbitrary: m) simp_all

lemma netst_setup_device [simp]: "netst (setup_device nk i ifcg m) = netst m"
  by (simp add: setup_device_def Let_def setTSOValues_def)

lemma netst_tcpdump: "handleNetworkTCPDump nk name ifcg m = Some m' \<Longrightarrow> netst m' = netst m"
  by (auto simp: handleNetworkTCPDump_def Let_def split: if_splits)

lemma netst_set_ifc: "netst (set_ifc k i m) = (w_fs m, w_deny m, vcfg m, map_put k i (ifcs m))"
  by (simp add: netst_def set_ifc_def)

lemma ReadFile_cong: "w_fs v = w_fs w \<Longrightarrow> w_deny v = w_deny w \<Longrightarrow> ReadFile p v = ReadFile p w"
  by (simp add: ReadFile_def split: option.splits)

definition is_device :: "machine \<Rightarrow> net_Interface \<Rightarrow> bool" where
  "is_device m i \<longleftrightarrow> networkDeviceType (if_Name i) m = devtypeNet"

definition blank_ifc :: "nat \<Rightarrow> net_Interface \<Rightarrow> ifc" where
  "blank_ifc ic i = \<lparr>ifc_name = eth_name ic, ifc_idx = ic, ifc_netIfc = i, ifc_addr = None, ifc_gw = []\<rparr>"

text \<open>
  The loop as a function of the devices only: the interface map and the goroutines it starts.  A device
  beyond the configured networks takes the name of the counter and does not move it.
\<close>

fun name_devices :: "nat \<Rightarrow> net_Interface list \<Rightarrow> nat \<Rightarrow> (string \<times> ifc) list \<Rightarrow> (string \<times> ifc) list" where
  "name_devices n [] ic acc = acc"
| "name_devices n (i # is) ic acc =
     name_devices n is (if ic < n then Suc ic else ic) (map_put (eth_name ic) (blank_ifc ic i) acc)"

lemma setup_loop_result:
  assumes "setup_loop nk is ic tasks m = Some (Ok ts, m')" and "vc_Networks (vcfg m) = Some nets"
  shows "netst m' = (w_fs m, w_deny m, vcfg m, name_devices (length nets) (filter (is_device m) is) ic (ifcs m)) \<and>
    ts = tasks @ map (\<lambda>j. (eth_name j, nets ! j)) [ic..<max ic (min (length nets) (ic + length (filter (is_device m) is)))]"
  using assms
proof (induction "is" arbitrary: ic tasks m)
  case Nil
  then show ?case by (simp add: netst_def)
next
  case (Cons i "is")
  have dev: "is_device m1 = is_device m" if "w_fs m1 = w_fs m" "w_deny m1 = w_deny m" for m1
    by (simp add: is_device_def networkDeviceType_def ReadFile_cong [OF that] fun_eq_iff)
  let ?t = "networkDeviceType (if_Name i) m"
  show ?case
  proof (cases ?t)
    case devtypeUnknown
    then have "setup_loop nk is ic tasks m = Some (Ok ts, m')" "\<not> is_device m i"
      using Cons.prems by (simp_all add: less_networkType_def is_device_def)
    with Cons.IH [of ic tasks m] Cons.prems(2) show ?thesis by simp
  next
    case devtypeLocalhost
    let ?l = "startLink nk (if_Name i) (logDebug ''configure %s'' m)"
    obtain m1 where m1: "?l = (Ok (), m1)"
      "setup_loop nk is ic tasks (setup_localhost nk (if_Name i) m1) = Some (Ok ts, m')"
      using Cons.prems devtypeLocalhost
      by (auto simp: less_networkType_def split: prod.splits outcome.splits)
    define m2 where "m2 = setup_localhost nk (if_Name i) m1"
    have n2: "netst m2 = netst m"
      using netst_startLink [of nk "if_Name i" "logDebug ''configure %s'' m"] m1(1) by (simp add: m2_def)
    then have "is_device m2 = is_device m" by (intro dev) (simp_all add: netst_def)
    moreover have "\<not> is_device m i" using devtypeLocalhost by (simp add: is_device_def)
    ultimately show ?thesis
      using Cons.IH [OF m1(2) [folded m2_def]] Cons.prems(2) n2 by (simp add: netst_def)
  next
    case devtypeNet
    let ?l = "startLink nk (if_Name i) (logDebug ''configure %s'' m)"
    obtain m1 where m1: "?l = (Ok (), m1)"
      using Cons.prems devtypeNet
      by (auto simp: less_networkType_def split: prod.splits outcome.splits)
    define m2 where "m2 = set_ifc (eth_name ic) (blank_ifc ic i) m1"
    have "netst m1 = netst m"
      using netst_startLink [of nk "if_Name i" "logDebug ''configure %s'' m"] m1(1) by simp
    then have n2: "netst m2 = (w_fs m, w_deny m, vcfg m, map_put (eth_name ic) (blank_ifc ic i) (ifcs m))"
      by (simp add: m2_def netst_set_ifc) (simp add: netst_def)
    have is_dev: "is_device m i" using devtypeNet by (simp add: is_device_def)
    have d2: "is_device m2 = is_device m" using n2 by (intro dev) (simp_all add: netst_def)
    show ?thesis
    proof (cases "ic < length nets")
      case False
      then have "setup_loop nk is ic tasks m2 = Some (Ok ts, m')"
        using Cons.prems devtypeNet m1
        by (simp add: less_networkType_def m2_def blank_ifc_def)
      from Cons.IH [OF this] show ?thesis
        using n2 Cons.prems(2) d2 is_dev False by (simp add: netst_def)
    next
      case True
      then obtain m3 where m3: "handleNetworkTCPDump nk (eth_name ic) (nets ! ic) (setup_device nk i (nets ! ic) m2) = Some m3"
        "setup_loop nk is (Suc ic) (tasks @ [(eth_name ic, nets ! ic)]) m3 = Some (Ok ts, m')"
        using Cons.prems devtypeNet m1
        by (auto simp: less_networkType_def m2_def blank_ifc_def Let_def split: option.splits)
      have n3: "netst m3 = netst m2" using netst_tcpdump [OF m3(1)] by simp
      have "is_device m3 = is_device m" using n3 n2 by (intro dev) (simp_all add: netst_def)
      with Cons.IH [OF m3(2)] show ?thesis
        using n3 n2 Cons.prems(2) is_dev True by (simp add: netst_def upt_rec [of ic])
    qed
  qed
qed


section \<open>What the goroutine of a device changes\<close>

context bystander
begin

lemma view_addAddr [simp]: "view (snd (addAddrToInterface nk i m)) = view m"
  by (simp add: addAddrToInterface_def Let_def split: option.splits)

lemma view_addNetworkRoute4: "view (snd (addNetworkRoute4 nk dst msk gw dev flags m)) = view m"
  by (simp add: addNetworkRoute4_def and_then_def Let_def split: outcome.splits)

lemma view_setDefaultGateway [simp]: "view (snd (setDefaultGateway nk name p m)) = view m"
  using view_addNetworkRoute4 [of nk "[]" "[]" p name "RTF_UP + RTF_GATEWAY" m]
  by (auto simp: setDefaultGateway_def split: prod.splits outcome.splits)

lemma view_or_panic [simp]: "view (snd (or_panic env fmt r)) = view (snd r)"
  by (simp add: or_panic_def split: prod.splits outcome.splits)

lemma view_config_route: "view (snd (config_route nk r m)) = view m"
proof -
  have route: "view v' = view v" if "addNetworkRoute4 nk dst msk gw dev flags v = (x, v')" for dst msk gw dev flags v x v'
    using that view_addNetworkRoute4 [of nk dst msk gw dev flags v] by simp
  show ?thesis
    by (auto simp: config_route_def Let_def dest!: route split: option.splits prod.splits outcome.splits)
qed

lemma view_configRoutes [simp]: "view (snd (configRoutes nk rs m)) = view m"
proof (induction rs arbitrary: m)
  case (Cons r rs)
  then show ?case using view_config_route [of nk r m]
    by (auto simp: and_then_def split: prod.splits outcome.splits)
qed simp

lemma view_configQueues [simp]: "view (configQueues nk is m) = view m"
  by (induction nk "is" m rule: configQueues.induct)
    (auto simp: config_channels_def ioctl_def Let_def split: outcome.splits)

lemma view_closeFds [simp]: "view (closeFds fds m) = view m"
  by (simp add: closeFds_def Let_def)

lemma view_fold_closeFds [simp]: "view (fold closeFds ds m) = view m"
  by (induction ds arbitrary: m) simp_all

lemma view_discover_attempts: "view (snd (discover_attempts nk name i n a err m)) = view m"
  by (induction nk name i n a err m rule: discover_attempts.induct)
    (auto simp: Let_def split: prod.splits option.splits)

lemma view_discover_rounds [simp]: "view (snd (discover_rounds nk name n i err ds m)) = view m"
proof (induction n arbitrary: i err ds m)
  case (Suc n)
  then show ?case
    using view_discover_attempts [of nk name i dhcpAttempts 0 err "logDebug ''discover request for %s'' m"]
    by (auto simp: Let_def split: prod.splits option.splits outcome.splits)
qed simp

lemma view_dhcpDiscover [simp]: "view (snd (dhcpDiscover nk nif m)) = view m"
  by (simp add: dhcpDiscover_def)

declare view_addNetworkRoute4 [simp]

lemma view_print_ifcs [simp]: "view (snd (print_ifcs is ks m)) = view m"
  by (induction "is" ks m rule: print_ifcs.induct) (auto split: option.splits)

lemma view_sortAndPrint [simp]: "view (snd (sortAndPrint is m)) = view m"
proof -
  obtain r m1 where p: "print_ifcs is (sort (map fst is)) m = (r, m1)"
    by (cases "print_ifcs is (sort (map fst is)) m") auto
  have "view m1 = view m" using view_print_ifcs [of "is" "sort (map fst is)" m] by (simp add: p)
  then show ?thesis by (cases r) (simp_all add: sortAndPrint_def p)
qed

end


lemma set_ifc_ifcs [simp]: "ifcs (set_ifc k i m) = map_put k i (ifcs m)"
  by (simp add: set_ifc_def)

lemma configInterface_ifcs:
  "ifcs (snd (configInterface env nk key p msk router m)) =
     map_put key ((the_ifc key m)\<lparr>ifc_addr := Some \<lparr>net_IP = p, net_Mask = msk\<rparr>, ifc_gw := router\<rparr>) (ifcs m)"
proof -
  have v: "the_ifc key (log l f m) = the_ifc key m" for l f by (simp add: the_ifc_def)
  define i where "i = (the_ifc key m)\<lparr>ifc_addr := Some \<lparr>net_IP = p, net_Mask = msk\<rparr>, ifc_gw := router\<rparr>"
  define m1 where "m1 = snd (addAddrToInterface nk i (set_ifc key i (logDebug ''%s: %v/%v/%v'' m)))"
  define r where "r = (if IP_Equal msk IPv4bcast
       then or_panic env ''could not set host route''
         (addNetworkRoute4 nk router IPv4bcast [] (ifc_name i) (RTF_UP + RTF_HOST) m1)
       else (Ok (), m1))"
  have r: "ifcs (snd r) = map_put key i (ifcs m)" by (simp add: r_def m1_def)
  have "configInterface env nk key p msk router m = and_then r (\<lambda>_ m.
      if router \<noteq> []
      then or_panic env ''could not set host route''
        (setDefaultGateway nk (ifc_name i) router (logDebug ''setting default gateway to %s'' m))
      else (Ok (), m))"
    by (simp add: configInterface_def Let_def v i_def [symmetric] m1_def r_def ignoring_def)
  then show ?thesis
    using r unfolding i_def [symmetric]
    by (auto simp: and_then_def split: prod.splits outcome.splits)
qed

lemma configInterface_addr:
  "\<exists>i. ifc_addr i \<noteq> None \<and> ifcs (snd (configInterface env nk key p msk router m)) = map_put key i (ifcs m)"
  by (intro exI conjI, rule_tac [2] configInterface_ifcs) simp

lemma use_options_ifcs [simp]: "ifcs (use_options ofr m) = ifcs m"
proof -
  have "ifcs (fold add_ntp ps m) = ifcs m" for ps m
    by (induction ps arbitrary: m) (simp_all add: add_ntp_def Let_def)
  moreover have "ifcs (fold add_search ls m) = ifcs m" for ls m
    by (induction ls arbitrary: m) (simp_all add: add_search_def Let_def)
  ultimately show ?thesis by (simp add: use_options_def Let_def split: option.splits)
qed

lemma resolve_or_ifcs: "ifcs (snd (resolve_or nk p port fmt m)) = ifcs m"
  by (simp add: resolve_or_def split: option.splits)

text \<open>A goroutine touches its own entry only, and leaves an address there when it succeeds.\<close>

definition touched :: "string \<Rightarrow> machine \<Rightarrow> machine \<Rightarrow> bool" where
  "touched key m m' \<longleftrightarrow>
     ifcs m' = ifcs m \<or> (\<exists>i. ifc_addr i \<noteq> None \<and> ifcs m' = map_put key i (ifcs m))"

lemma fetchDHCP_touched:
  assumes "fetchDHCP env nk key m = (r, m')"
  shows "touched key m m' \<and> (r = Ok () \<longrightarrow> (\<exists>i. ifc_addr i \<noteq> None \<and> map_of (ifcs m') key = Some i))"
proof -
  obtain oe m1 where d: "dhcpDiscover nk (ifc_netIfc (the_ifc key m)) m = (oe, m1)"
    by (cases "dhcpDiscover nk (ifc_netIfc (the_ifc key m)) m") auto
  have m1: "ifcs m1 = ifcs m"
    using ic.view_dhcpDiscover [of nk "ifc_netIfc (the_ifc key m)" m] by (simp add: d)
  show ?thesis
  proof (cases oe)
    case (Pair ofr err)
    show ?thesis
    proof (cases "err = None \<and> ofr \<noteq> None")
      case False
      then show ?thesis
        using assms m1 by (auto simp: fetchDHCP_def d Pair touched_def split: option.splits)
    next
      case True
      then obtain x where x: "ofr = Some x" "err = None" by auto
      define m2 where "m2 = m1\<lparr>hv_cloud := (if of_AzureEndpoint x \<noteq> [] then cpAzure else cpNone)\<rparr>"
      obtain r3 m3 where c: "configInterface env nk key (of_YourIPAddr x) (of_SubnetMask x) (of_Router x) m2 = (r3, m3)"
        by (cases "configInterface env nk key (of_YourIPAddr x) (of_SubnetMask x) (of_Router x) m2") auto
      have m3: "\<exists>i. ifc_addr i \<noteq> None \<and> ifcs m3 = map_put key i (ifcs m)"
        using configInterface_addr [of env nk key "of_YourIPAddr x" "of_SubnetMask x" "of_Router x" m2] c m1
        by (simp add: m2_def)
      have "ifcs m' = ifcs m3"
        using assms resolve_or_ifcs
        by (auto simp: fetchDHCP_def d Pair x m2_def [symmetric] c and_then_def Let_def
          split: outcome.splits prod.splits option.splits) (metis snd_conv use_options_ifcs)+
      with m3 show ?thesis by (auto simp: touched_def)
    qed
  qed
qed


lemma handleNetworkLink_touched:
  assumes "handleNetworkLink env nk t m = (r, m')"
  shows "touched (fst t) m m' \<and> (r = Ok () \<longrightarrow> (\<exists>i. ifc_addr i \<noteq> None \<and> map_of (ifcs m') (fst t) = Some i))"
proof -
  obtain key g where t: "t = (key, g)" by (cases t) auto
  consider (dhcp) "fetchDHCP env nk key m = (r, m')"
    | (bad) "m' = m" "r \<noteq> Ok ()"
    | (static) p msk gw where "configInterface env nk key p msk gw m = (r, m')"
    using assms by (auto simp: handleNetworkLink_def t Let_def split: if_splits)
  then show ?thesis
  proof cases
    case dhcp
    then show ?thesis using fetchDHCP_touched by (simp add: t)
  next
    case bad
    then show ?thesis by (simp add: touched_def)
  next
    case static
    then show ?thesis using configInterface_addr [of env nk key p msk gw m] by (auto simp: t touched_def)
  qed
qed

lemma touched_distinct: "touched k m m' \<Longrightarrow> distinct (map fst (ifcs m)) \<Longrightarrow> distinct (map fst (ifcs m'))"
  by (auto simp: touched_def)

lemma touched_other: "touched k m m' \<Longrightarrow> k' \<noteq> k \<Longrightarrow> map_of (ifcs m') k' = map_of (ifcs m) k'"
  by (auto simp: touched_def)

lemma run_tasks_keep:
  "run_tasks env nk ts err m = (r, m') \<Longrightarrow>
     (distinct (map fst (ifcs m)) \<longrightarrow> distinct (map fst (ifcs m'))) \<and>
     (\<forall>k. k \<notin> fst ` set ts \<longrightarrow> map_of (ifcs m') k = map_of (ifcs m) k)"
proof (induction ts arbitrary: err m)
  case Nil
  then show ?case by (auto split: option.splits)
next
  case (Cons t ts)
  obtain r1 m1 where h: "handleNetworkLink env nk t m = (r1, m1)"
    by (cases "handleNetworkLink env nk t m") auto
  note tc = handleNetworkLink_touched [OF h, THEN conjunct1]
  have "m' = m1 \<or> (\<exists>err'. run_tasks env nk ts err' m1 = (r, m'))"
    using Cons.prems by (auto simp: h split: outcome.splits option.splits)
  with Cons.IH show ?case using touched_distinct [OF tc] touched_other [OF tc] by fastforce
qed

lemma print_ifcs_result:
  "fst (print_ifcs is ks m) =
     (if \<exists>k \<in> set ks. ifc_addr (the (map_of is k)) = None then Panic NilDereference else Ok ())"
  by (induction "is" ks m rule: print_ifcs.induct) (auto split: option.splits)

lemma sortAndPrint_eq: "fst (sortAndPrint is m) = fst (print_ifcs is (sort (map fst is)) m)"
proof (cases "print_ifcs is (sort (map fst is)) m")
  case (Pair r m1)
  then show ?thesis by (cases r) (simp_all add: sortAndPrint_def)
qed

lemma sortAndPrint_result:
  assumes "distinct (map fst is)"
  shows "fst (sortAndPrint is m) =
    (if \<exists>(k, i) \<in> set is. ifc_addr i = None then Panic NilDereference else Ok ())"
proof -
  have "(\<exists>k \<in> set (sort (map fst is)). ifc_addr (the (map_of is k)) = None) \<longleftrightarrow>
      (\<exists>(k, i) \<in> set is. ifc_addr i = None)"
    using assms by force
  then show ?thesis by (simp only: sortAndPrint_eq print_ifcs_result)
qed

lemma name_devices_distinct:
  "distinct (map fst acc) \<Longrightarrow> distinct (map fst (name_devices n is ic acc))"
  by (induction n "is" ic acc rule: name_devices.induct) simp_all

lemma name_devices_surplus:
  "ic \<le> n \<Longrightarrow> n < ic + length is \<Longrightarrow>
     \<exists>i. map_of (name_devices n is ic acc) (eth_name n) = Some i \<and> ifc_addr i = None"
proof (induction n "is" ic acc rule: name_devices.induct)
  case (2 n i "is" ic acc)
  show ?case
  proof (cases "ic < n")
    case True
    then show ?thesis using 2 by simp
  next
    case False
    have "\<exists>j. map_of (name_devices n is n acc') (eth_name n) = Some j \<and> ifc_addr j = None"
      if "\<exists>j. map_of acc' (eth_name n) = Some j \<and> ifc_addr j = None" for acc'
      using that by (induction "is" arbitrary: acc') (simp_all add: blank_ifc_def)
    with False 2(2) show ?thesis by (simp add: blank_ifc_def)
  qed
qed simp


lemma setup_loop_no_networks:
  "vc_Networks (vcfg m) = None \<Longrightarrow> setup_loop nk is ic tasks m = Some (Ok tasks, m)"
  by (induction "is") simp_all

lemma setup_loop_distinct:
  assumes "setup_loop nk is ic tasks m = Some (Ok ts, m')" and "distinct (map fst (ifcs m))"
  shows "distinct (map fst (ifcs m'))"
proof (cases "vc_Networks (vcfg m)")
  case None
  then show ?thesis using assms setup_loop_no_networks [OF None, of nk "is" ic tasks] by simp
next
  case (Some nets)
  then show ?thesis
    using setup_loop_result [OF assms(1) Some] assms(2) name_devices_distinct by (simp add: netst_def)
qed

text \<open>The tail of \<open>networkSetup\<close>, after the goroutines.\<close>

definition after_tasks :: "netkern \<Rightarrow> machine \<Rightarrow> unit outcome \<times> machine" where
  "after_tasks nk m =
     (let m = logDebug ''network configured'' m in
      and_then (sortAndPrint (ifcs m) m) (\<lambda>_ m.
      and_then (configRoutes nk (vc_Routing (vcfg m)) m) (\<lambda>_ m.
      (Ok (), configQueues nk (nk_ordIfcs nk (ifcs m)) m))))"

lemma networkSetup_steps:
  assumes "nk_Interfaces nk = Ok ifaces" and "setup_loop nk ifaces 0 [] m = Some (Ok tasks, m1)"
  shows "networkSetup env nk m =
    Some (and_then (run_tasks env nk (nk_ordTasks nk tasks) None m1) (\<lambda>_ m. after_tasks nk m))"
  using assms by (simp add: networkSetup_def after_tasks_def Let_def)

lemma networkSetup_OkE:
  assumes "networkSetup env nk m = Some (Ok (), m')"
  obtains ifaces tasks m1 m2 where "nk_Interfaces nk = Ok ifaces"
    and "setup_loop nk ifaces 0 [] m = Some (Ok tasks, m1)"
    and "run_tasks env nk (nk_ordTasks nk tasks) None m1 = (Ok (), m2)" and "after_tasks nk m2 = (Ok (), m')"
proof -
  obtain ifaces tasks m1 where 1: "nk_Interfaces nk = Ok ifaces" "setup_loop nk ifaces 0 [] m = Some (Ok tasks, m1)"
    using assms by (auto simp: networkSetup_def split: outcome.splits option.splits prod.splits)
  from networkSetup_steps [OF this, of env] assms
  have "and_then (run_tasks env nk (nk_ordTasks nk tasks) None m1) (\<lambda>_ m. after_tasks nk m) = (Ok (), m')" by simp
  then obtain m2 where
    "run_tasks env nk (nk_ordTasks nk tasks) None m1 = (Ok (), m2)" "after_tasks nk m2 = (Ok (), m')"
    by (auto simp: and_then_Ok_iff)
  with 1 that show ?thesis by blast
qed

lemma after_tasks_Ok:
  assumes "after_tasks nk m = (Ok (), m')" and "distinct (map fst (ifcs m))"
  shows "ifcs m' = ifcs m \<and> (\<forall>(k, i) \<in> set (ifcs m). ifc_addr i \<noteq> None)"
proof -
  let ?m = "logDebug ''network configured'' m"
  obtain m1 m2 where s: "sortAndPrint (ifcs m) ?m = (Ok (), m1)"
    "configRoutes nk (vc_Routing (vcfg m1)) m1 = (Ok (), m2)" "m' = configQueues nk (nk_ordIfcs nk (ifcs m2)) m2"
    using assms(1) by (auto simp: after_tasks_def and_then_Ok_iff)
  have "ifcs m1 = ifcs m" "ifcs m2 = ifcs m1"
    using ic.view_sortAndPrint [of "ifcs m" ?m] ic.view_configRoutes [of nk "vc_Routing (vcfg m1)" m1] s
    by (simp_all del: ic.view_configRoutes ic.view_sortAndPrint)
  moreover have "\<forall>(k, i) \<in> set (ifcs m). ifc_addr i \<noteq> None"
    using sortAndPrint_result [OF assms(2), of ?m] s(1) by (auto split: if_splits)
  ultimately show ?thesis using s(3) by simp
qed

lemma after_tasks_blank:
  assumes "distinct (map fst (ifcs m))" and "map_of (ifcs m) k = Some i" and "ifc_addr i = None"
  shows "fst (after_tasks nk m) = Panic NilDereference"
proof -
  let ?m = "logDebug ''network configured'' m"
  have "(k, i) \<in> set (ifcs m)" using assms(2) by (rule map_of_SomeD)
  then have "fst (sortAndPrint (ifcs m) ?m) = Panic NilDereference"
    using sortAndPrint_result [OF assms(1), of ?m] assms(3) by auto
  then show ?thesis
    by (cases "sortAndPrint (ifcs m) ?m") (simp add: after_tasks_def)
qed

section \<open>A sample machine\<close>

definition sample_offer :: offer where
  "sample_offer = \<lparr>of_YourIPAddr = [10, 0, 0, 5], of_Router = [10, 0, 0, 1], of_SubnetMask = [255, 255, 255, 0],
     of_ServerIdentifier = [10, 0, 0, 1], of_AzureEndpoint = [], of_NTPServers = [], of_DomainSearch = None,
     of_HostName = [], of_RenewTime = None, of_DNS = [[10, 0, 0, 2]]\<rparr>"

text \<open>A kernel that accepts everything, with the given devices and a DHCP server.\<close>

definition sample_nk :: "string list \<Rightarrow> netkern" where
  "sample_nk names = \<lparr>nk_Interfaces = Ok (map (\<lambda>n. \<lparr>if_Name = n, if_HardwareAddr = []\<rparr>) names), nk_NumCPU = 4,
     nk_ethtool = (\<lambda>_ _. Err EINVAL),
     nk_bcast = (\<lambda>_ _. Ok 5), nk_listen = (\<lambda>_ _. Ok 6), nk_discover = (\<lambda>_ _ _. (Some sample_offer, None)),
     nk_LinkByName = (\<lambda>_. None), nk_LinkSetUp = (\<lambda>_. None), nk_ParseAddr = (\<lambda>_. None),
     nk_AddrAdd = (\<lambda>_ _. None), nk_ResolveUDP = (\<lambda>_. None), nk_add_route = (\<lambda>_ _. True),
     nk_StdoutPipe = (\<lambda>_. None), nk_Start = (\<lambda>_. None), nk_ordIfcs = id, nk_ordTasks = id\<rparr>"

definition dhcp_net :: NetworkInterface where
  "dhcp_net = \<lparr>ni_IP = ''dhcp'', ni_Mask = [], ni_Gateway = [], ni_MTU = 1500, ni_TCPDUMP = False,
     ni_DisableTSO = False\<rparr>"

definition net_machine :: machine where
  "net_machine = (New (world_of []))\<lparr>
     w_fs := (\<lambda>q. if q \<noteq> [] \<and> last q = ''type'' then Some (File ''1'') else Some Dir),
     vcfg := zero_VCFG\<lparr>vc_Networks := Some [dhcp_net]\<rparr>\<rparr>"

lemma sample_devices:
  "networkDeviceType ''a'' net_machine = devtypeNet" "networkDeviceType ''b'' net_machine = devtypeNet"
proof -
  have c: "comps ''/sys/class/net/a/type'' = [''sys'', ''class'', ''net'', ''a'', ''type'']"
    "comps ''/sys/class/net/b/type'' = [''sys'', ''class'', ''net'', ''b'', ''type'']"
    by code_simp+
  have t: "TrimSpace ''1'' = ''1''" by code_simp
  show "networkDeviceType ''a'' net_machine = devtypeNet" "networkDeviceType ''b'' net_machine = devtypeNet"
    by (simp_all add: networkDeviceType_def ReadFile_def resolve_def c t net_machine_def New_def world_of_def)
qed

lemma sample_machine_fields:
  "vc_Networks (vcfg net_machine) = Some [dhcp_net]" "ifcs net_machine = []" "vc_Routing (vcfg net_machine) = []"
  by (simp_all add: net_machine_def zero_VCFG_def New_def)

lemma sample_fetch:
  "\<exists>m'. fetchDHCP env (sample_nk ns) k m = (Ok (), m') \<and> vcfg m' = vcfg m"
  by (simp add: fetchDHCP_def dhcpDiscover_def attemptLoops_def dhcpAttempts_def eval_nat_numeral sample_nk_def
    Let_def sample_offer_def configInterface_def addNetworkRoute4_def setDefaultGateway_def or_panic_def nw_int_def
    ip2networkInt_def le_Uint32_def IP_Equal_def IPv4bcast_def IPv4_def v4_prefix_def To4_def resolve_or_def
    use_options_def set_ifc_def ignoring_def closeFds_def)

lemma sample_loop:
  "\<exists>m1. setup_loop (sample_nk ns) (map (\<lambda>n. \<lparr>if_Name = n, if_HardwareAddr = []\<rparr>) [''a'']) 0 [] net_machine =
     Some (Ok [(eth_name 0, dhcp_net)], m1)"
  by (simp add: sample_devices sample_machine_fields less_networkType_def startLink_def sample_nk_def
    handleNetworkTCPDump_def dhcp_net_def Let_def)

lemma sample_loop2:
  "\<exists>m1. setup_loop (sample_nk ns) (map (\<lambda>n. \<lparr>if_Name = n, if_HardwareAddr = []\<rparr>) [''a'', ''b'']) 0 [] net_machine =
     Some (Ok [(eth_name 0, dhcp_net)], m1)"
proof -
  let ?nk = "sample_nk ns"
  define a where "a = \<lparr>if_Name = ''a'', if_HardwareAddr = []\<rparr>"
  define b where "b = \<lparr>if_Name = ''b'', if_HardwareAddr = []\<rparr>"
  have second: "\<exists>m1. setup_loop ?nk [b] (Suc 0) ts m = Some (Ok ts, m1)"
    if "w_fs m = w_fs net_machine" "w_deny m = w_deny net_machine" "vcfg m = vcfg net_machine" for ts m
    using that sample_devices(2)
    by (simp add: b_def sample_machine_fields less_networkType_def startLink_def sample_nk_def
      networkDeviceType_def ReadFile_cong [OF that(1,2)])
  define m where "m = setup_device ?nk a dhcp_net (set_ifc (eth_name 0) (blank_ifc 0 a)
    (emit (EvCall ''LinkSetUp'' [''a'']) (logDebug ''configure %s'' net_machine)))"
  have "setup_loop ?nk [a, b] 0 [] net_machine = setup_loop ?nk [b] (Suc 0) [(eth_name 0, dhcp_net)] m"
    by (simp add: m_def a_def sample_devices sample_machine_fields less_networkType_def startLink_def
      sample_nk_def handleNetworkTCPDump_def dhcp_net_def Let_def blank_ifc_def)
  moreover have "netst m = (w_fs net_machine, w_deny net_machine, vcfg net_machine,
      map_put (eth_name 0) (blank_ifc 0 a) (ifcs net_machine))"
    by (simp add: m_def netst_set_ifc)
  ultimately show ?thesis using second [of m] by (simp add: netst_def a_def b_def)
qed

lemma after_tasks_addressed:
  assumes "distinct (map fst (ifcs m))" and "\<forall>(k, i) \<in> set (ifcs m). ifc_addr i \<noteq> None" and "vc_Routing (vcfg m) = []"
  shows "fst (after_tasks nk m) = Ok ()"
proof -
  let ?m = "logDebug ''network configured'' m"
  obtain r m1 where p: "sortAndPrint (ifcs m) ?m = (r, m1)" by (cases "sortAndPrint (ifcs m) ?m") auto
  have "r = Ok ()" using sortAndPrint_result [OF assms(1), of ?m] assms(2) p by (auto split: if_splits)
  moreover have "vcfg m1 = vcfg m"
    using vc.view_sortAndPrint [of "ifcs m" ?m] by (simp add: p)
  ultimately show ?thesis using assms(3) p by (simp add: after_tasks_def)
qed

lemma sample_setup: "\<exists>m'. networkSetup quiet_system (sample_nk [''a'']) net_machine = Some (Ok (), m')"
proof -
  let ?nk = "sample_nk [''a'']" and ?is = "map (\<lambda>n. \<lparr>if_Name = n, if_HardwareAddr = []\<rparr>) [''a'']"
  obtain m1 where m1: "setup_loop ?nk ?is 0 [] net_machine = Some (Ok [(eth_name 0, dhcp_net)], m1)"
    using sample_loop by blast
  obtain m2 where m2: "fetchDHCP quiet_system ?nk (eth_name 0) m1 = (Ok (), m2)" "vcfg m2 = vcfg m1"
    using sample_fetch by blast
  have l: "ifcs m1 = [(eth_name 0, blank_ifc 0 \<lparr>if_Name = ''a'', if_HardwareAddr = []\<rparr>)]" "vcfg m1 = vcfg net_machine"
    using setup_loop_result [OF m1 sample_machine_fields(1)]
    by (simp_all add: netst_def is_device_def sample_devices sample_machine_fields)
  have "handleNetworkLink quiet_system ?nk (eth_name 0, dhcp_net) m1 = (Ok (), m2)"
    using m2 by (simp add: handleNetworkLink_def dhcp_net_def)
  then have "run_tasks quiet_system ?nk (nk_ordTasks ?nk [(eth_name 0, dhcp_net)]) None m1 = (Ok (), m2)"
    by (simp add: sample_nk_def)
  moreover have "distinct (map fst (ifcs m2)) \<and> (\<forall>(k, i) \<in> set (ifcs m2). ifc_addr i \<noteq> None)"
    using fetchDHCP_touched [OF m2(1)] l by (auto simp: touched_def)
  then have "fst (after_tasks ?nk m2) = Ok ()"
    using m2(2) l(2) by (intro after_tasks_addressed) (simp_all add: sample_machine_fields)
  then obtain m' where "after_tasks ?nk m2 = (Ok (), m')" by (cases "after_tasks ?nk m2") auto
  moreover have "nk_Interfaces ?nk = Ok ?is" by (simp add: sample_nk_def)
  ultimately show ?thesis using networkSetup_steps [OF _ m1, of quiet_system] by simp
qed

section \<open>Properties\<close>



text \<open>
  More devices than configured networks crash the machine.  When the machine has more network
  devices than the configuration has networks and every configured one comes up, \<open>networkSetup\<close>
  dereferences the nil address of the surplus device.
\<close>

theorem surplus_device_panics:
  assumes "nk_Interfaces nk = Ok ifaces" and "vc_Networks (vcfg m) = Some nets"
    and "length nets < length (filter (is_device m) ifaces)" and "distinct (map fst (ifcs m))"
    and "setup_loop nk ifaces 0 [] m = Some (Ok tasks, m1)"
    and "run_tasks env nk (nk_ordTasks nk tasks) None m1 = (Ok (), m2)"
    and "set (nk_ordTasks nk tasks) = set tasks"
  shows "\<exists>m'. networkSetup env nk m = Some (Panic NilDereference, m')"
proof -
  note loop = setup_loop_result [OF assms(5,2)]
  have m1: "ifcs m1 = name_devices (length nets) (filter (is_device m) ifaces) 0 (ifcs m)"
    and ts: "tasks = map (\<lambda>j. (eth_name j, nets ! j)) [0..<length nets]"
    using loop assms(3) by (simp_all add: netst_def min_def)
  obtain i where i: "map_of (ifcs m1) (eth_name (length nets)) = Some i" "ifc_addr i = None"
    using name_devices_surplus [of 0 "length nets" "filter (is_device m) ifaces" "ifcs m"] assms(3) m1 by auto
  have "eth_name (length nets) \<notin> fst ` set tasks" unfolding ts by (auto simp: eth_name_def)
  then have "eth_name (length nets) \<notin> fst ` set (nk_ordTasks nk tasks)" unfolding assms(7) .
  then have i2: "map_of (ifcs m2) (eth_name (length nets)) = Some i" "distinct (map fst (ifcs m2))"
    using run_tasks_keep [OF assms(6)] i(1) setup_loop_distinct [OF assms(5,4)] by simp_all
  obtain r m' where r: "after_tasks nk m2 = (r, m')" by (cases "after_tasks nk m2") auto
  then have "r = Panic NilDereference" using after_tasks_blank [OF i2(2,1) i(2), of nk] by simp
  then show ?thesis using networkSetup_steps [OF assms(1,5), of env] assms(6) r by simp
qed


theorem surplus_device_panics_witness:
  "\<exists>m'. networkSetup quiet_system (sample_nk [''a'', ''b'']) net_machine = Some (Panic NilDereference, m')"
proof -
  let ?nk = "sample_nk [''a'', ''b'']"
  let ?is = "map (\<lambda>n. \<lparr>if_Name = n, if_HardwareAddr = []\<rparr>) [''a'', ''b'']"
  obtain m1 where m1: "setup_loop ?nk ?is 0 [] net_machine = Some (Ok [(eth_name 0, dhcp_net)], m1)"
    using sample_loop2 by blast
  obtain m2 where m2: "fetchDHCP quiet_system ?nk (eth_name 0) m1 = (Ok (), m2)"
    using sample_fetch by blast
  then have "run_tasks quiet_system ?nk (nk_ordTasks ?nk [(eth_name 0, dhcp_net)]) None m1 = (Ok (), m2)"
    by (simp add: sample_nk_def handleNetworkLink_def dhcp_net_def)
  moreover have "nk_Interfaces ?nk = Ok ?is" "nk_ordTasks ?nk = id" by (simp_all add: sample_nk_def)
  ultimately show ?thesis
    using surplus_device_panics [OF _ sample_machine_fields(1) _ _ m1, of quiet_system m2]
    by (simp add: sample_machine_fields is_device_def sample_devices)
qed

end
