(* ===== verification/DhcpSpec.thy ===== *)
theory DhcpSpec
  imports Network
begin

text \<open>
  How the DHCP discovery ends, what it does with its sockets, and what the queue configuration sends to
  the kernel.
\<close>

section \<open>Discovery\<close>

fun is_discover :: "event \<Rightarrow> bool" where
  "is_discover (EvIoctl n xs) = (n = ''discover'')"
| "is_discover _ = False"

definition discovers :: "'a world_scheme \<Rightarrow> nat" where
  "discovers w = length (filter is_discover (w_trace w))"

text \<open>The descriptors closed so far.\<close>

fun closed_fds :: "event \<Rightarrow> int list" where
  "closed_fds (EvIoctl n xs) = (if n = ''close'' then xs else [])"
| "closed_fds _ = []"

definition closes :: "'a world_scheme \<Rightarrow> int list" where
  "closes w = concat (map closed_fds (w_trace w))"

definition fd_list :: "int \<times> int \<Rightarrow> int list" where
  "fd_list fds = (if fst fds \<noteq> snd fds then [fst fds, snd fds] else [fst fds])"

lemma closes_simps [simp]:
  "closes (log l f w) = closes w" "closes (emit (EvIoctl ''discover'' xs) w) = closes w"
  "closes (closeFds fds w) = closes w @ fd_list fds"
  by (simp_all add: closes_def closeFds_def fd_list_def Let_def)

lemma discovers_simps [simp]:
  "discovers (log l f w) = discovers w" "discovers (emit (EvIoctl ''discover'' xs) w) = Suc (discovers w)"
  "discovers (closeFds fds w) = discovers w"
  by (simp_all add: discovers_def closeFds_def Let_def)

lemma fold_closeFds [simp]:
  "closes (fold closeFds ds w) = closes w @ concat (map fd_list ds)"
  "discovers (fold closeFds ds w) = discovers w"
  by (induction ds arbitrary: w) simp_all

text \<open>The attempts of one round, as a search.\<close>

definition offers :: "netkern \<Rightarrow> string \<Rightarrow> nat \<Rightarrow> nat list \<Rightarrow> offer option" where
  "offers nk name i as =
     (case List.find (\<lambda>a. fst (nk_discover nk name i a) \<noteq> None) as of
        None \<Rightarrow> None
      | Some a \<Rightarrow> fst (nk_discover nk name i a))"

lemma offers_step:
  "offers nk name i [a..<Suc (a + n)] =
     (case fst (nk_discover nk name i a) of None \<Rightarrow> offers nk name i [Suc a..<Suc (a + n)] | Some x \<Rightarrow> Some x)"
  by (simp add: offers_def upt_conv_Cons del: upt_Suc split: option.splits)

lemma discover_attempts_result:
  "fst (fst (discover_attempts nk name i n a err w)) = offers nk name i [a..<a + n] \<and>
   discovers (snd (discover_attempts nk name i n a err w)) \<le> discovers w + n \<and>
   closes (snd (discover_attempts nk name i n a err w)) = closes w"
proof (induction n arbitrary: a err w)
  case (Suc n)
  obtain x e where d: "nk_discover nk name i a = (x, e)" by (cases "nk_discover nk name i a") auto
  let ?w = "emit (EvIoctl ''discover'' [int i, int a]) w"
  show ?case
    using Suc [of "Suc a" e "logWarn ''no dhcp discover response'' ?w"]
    by (cases x) (simp_all add: d offers_step del: upt_Suc)
qed (simp add: offers_def)

text \<open>All attempts, round by round.\<close>

definition tries :: "nat \<Rightarrow> nat \<Rightarrow> (nat \<times> nat) list" where
  "tries i n = List.product [i..<i + n] [0..<dhcpAttempts]"

definition all_offers :: "netkern \<Rightarrow> string \<Rightarrow> (nat \<times> nat) list \<Rightarrow> offer option" where
  "all_offers nk name ps =
     (case List.find (\<lambda>(i, a). fst (nk_discover nk name i a) \<noteq> None) ps of
        None \<Rightarrow> None
      | Some (i, a) \<Rightarrow> fst (nk_discover nk name i a))"

lemma all_offers_round:
  "all_offers nk name (map (Pair i) as @ ps) =
     (case offers nk name i as of None \<Rightarrow> all_offers nk name ps | Some x \<Rightarrow> Some x)"
  by (induction as) (auto simp: all_offers_def offers_def split: option.splits)

lemma tries_Suc: "tries i (Suc n) = map (Pair i) [0..<dhcpAttempts] @ tries (Suc i) n"
  by (simp add: tries_def upt_conv_Cons del: upt_Suc)

text \<open>Sockets that can be opened, the pair of round \<open>i\<close> being \<open>fds i\<close>.\<close>

definition sockets :: "netkern \<Rightarrow> string \<Rightarrow> (nat \<Rightarrow> int \<times> int) \<Rightarrow> bool" where
  "sockets nk name fds \<longleftrightarrow>
     (\<forall>i. nk_bcast nk name i = Ok (fst (fds i)) \<and> nk_listen nk name i = Ok (snd (fds i)))"

lemma discover_rounds_result:
  assumes "sockets nk name fds"
  shows "fst (fst (discover_rounds nk name n i err ds w)) = all_offers nk name (tries i n) \<and>
    discovers (snd (discover_rounds nk name n i err ds w)) \<le> discovers w + n * dhcpAttempts"
proof (induction n arbitrary: i err ds w)
  case (Suc n)
  obtain x e w1 where d: "discover_attempts nk name i dhcpAttempts 0 err (logDebug ''discover request for %s'' w) = ((x, e), w1)"
    by (metis prod.exhaust)
  have x: "x = offers nk name i [0..<dhcpAttempts]" "discovers w1 \<le> discovers w + dhcpAttempts"
    using discover_attempts_result [of nk name i dhcpAttempts 0 err "logDebug ''discover request for %s'' w"]
    by (simp_all add: d)
  have s: "nk_bcast nk name i = Ok (fst (fds i))" "nk_listen nk name i = Ok (snd (fds i))"
    using assms by (simp_all add: sockets_def)
  show ?case
  proof (cases x)
    case None
    let ?w = "closeFds (fds i) (logWarn ''can not get dhcp ip: %v, try %d'' w1)"
    have "discover_rounds nk name (Suc n) i err ds w = discover_rounds nk name n (Suc i) e (fds i # ds) ?w"
      using None by (simp add: s d)
    then show ?thesis
      using Suc [of "Suc i" e "fds i # ds" ?w] x None by (simp add: tries_Suc all_offers_round)
  next
    case (Some y)
    then show ?thesis using x by (simp add: s d tries_Suc all_offers_round)
  qed
qed (simp add: tries_def all_offers_def)

lemma discover_rounds_closes:
  assumes "sockets nk name fds" and "\<forall>i a. fst (nk_discover nk name i a) = None"
  shows "closes (snd (discover_rounds nk name n i err ds w)) =
    closes w @ concat (map (fd_list \<circ> fds) [i..<i + n]) @ concat (map (fd_list \<circ> fds) (rev [i..<i + n])) @
    concat (map fd_list ds)"
proof (induction n arbitrary: i err ds w)
  case (Suc n)
  obtain x e w1 where d: "discover_attempts nk name i dhcpAttempts 0 err (logDebug ''discover request for %s'' w) = ((x, e), w1)"
    by (metis prod.exhaust)
  have x: "x = None" "closes w1 = closes w"
    using discover_attempts_result [of nk name i dhcpAttempts 0 err "logDebug ''discover request for %s'' w"] assms(2)
    by (simp_all add: d offers_def split: option.splits)
  have s: "nk_bcast nk name i = Ok (fst (fds i))" "nk_listen nk name i = Ok (snd (fds i))"
    using assms(1) by (simp_all add: sockets_def)
  let ?w = "closeFds (fds i) (logWarn ''can not get dhcp ip: %v, try %d'' w1)"
  have "discover_rounds nk name (Suc n) i err ds w = discover_rounds nk name n (Suc i) e (fds i # ds) ?w"
    using x by (simp add: s d)
  then show ?case
    using Suc [of "Suc i" e "fds i # ds" ?w] x by (simp add: upt_conv_Cons del: upt_Suc)
qed simp

section \<open>Queues\<close>

text \<open>
  The queue configuration asks for the structures, and what it sends back is what the kernel reported, with another
  command: the assignments of \<open>checkChannels\<close> and \<open>checkRingParams\<close> are lost.
\<close>

definition echoes :: "netkern \<Rightarrow> event \<Rightarrow> bool" where
  "echoes nk e \<longleftrightarrow>
     (\<forall>n xs. e = EvIoctl n xs \<longrightarrow>
        (\<exists>request \<in> {channels_request, ringparam_request}. xs = map uint request \<or>
           (\<exists>mem. nk_ethtool nk n request = Ok mem \<and> drop 4 xs = map uint (drop 4 mem))))"

lemma echoes_simps:
  "echoes nk (EvLog l f)"
  "echoes nk (EvIoctl n (map uint channels_request))"
  "echoes nk (EvIoctl n (map uint ringparam_request))"
  by (auto simp: echoes_def)

lemma echoes_back:
  assumes "nk_ethtool nk n channels_request = Ok mem" and "length mem = 36"
  shows "echoes nk (EvIoctl n (map uint (enc_channels (dec_channels mem\<lparr>ch_cmd := x\<rparr>))))"
  using assms channels_command [OF assms(2), of x] by (auto simp: echoes_def)

lemma echoes_back_ring:
  assumes "nk_ethtool nk n ringparam_request = Ok mem" and "length mem = 36"
  shows "echoes nk (EvIoctl n (map uint (enc_ringparam (dec_ringparam mem\<lparr>rp_cmd := x\<rparr>))))"
  using assms ringparam_command [OF assms(2), of x] by (auto simp: echoes_def)

text \<open>The kernel writes inside the structure it is given.\<close>

definition in_place :: "netkern \<Rightarrow> bool" where
  "in_place nk \<longleftrightarrow> (\<forall>n data mem. nk_ethtool nk n data = Ok mem \<longrightarrow> length mem = length data)"

lemma in_place_36:
  assumes "in_place nk"
  shows "nk_ethtool nk n channels_request = Ok mem \<Longrightarrow> length mem = 36"
    "nk_ethtool nk n ringparam_request = Ok mem \<Longrightarrow> length mem = 36"
  using assms chn.enc_length rng.enc_length unfolding in_place_def channels_request_def ringparam_request_def by metis+

lemma config_channels_echoes:
  assumes "in_place nk"
  shows "\<exists>es. w_trace (config_channels nk name w) = w_trace w @ es \<and> list_all (echoes nk) es"
proof (cases "nk_ethtool nk (ifr_name name) channels_request")
  case (Ok mem)
  from echoes_back [OF Ok in_place_36(1) [OF assms Ok]] Ok show ?thesis
    by (auto simp: config_channels_def ioctl_def Let_def echoes_simps)
qed (auto simp: config_channels_def ioctl_def echoes_simps)

lemma configQueues_echoes:
  assumes "in_place nk"
  shows "\<exists>es. w_trace (configQueues nk is w) = w_trace w @ es \<and> list_all (echoes nk) es"
proof (induction "is" arbitrary: w)
  case (Cons ki "is")
  obtain k i where ki: "ki = (k, i)" by (cases ki)
  obtain es where c: "w_trace (config_channels nk (ifc_name i) w) = w_trace w @ es" "list_all (echoes nk) es"
    using config_channels_echoes [OF assms] by blast
  show ?case
  proof (cases "nk_ethtool nk (ifr_name (ifc_name i)) ringparam_request")
    case (Ok mem)
    define v where "v = snd (ioctl (nk_ethtool nk) (ifc_name i) ringparam_request (config_channels nk (ifc_name i) w))"
    define u where "u = (if checkRingParams (dec_ringparam mem)
      then snd (ioctl (nk_ethtool nk) (ifc_name i) (enc_ringparam (dec_ringparam mem\<lparr>rp_cmd := ethtoolSRINGPARAM\<rparr>))
             (logDebug ''updating network ringparams'' v)) else v)"
    have "\<exists>es. w_trace u = w_trace w @ es \<and> list_all (echoes nk) es"
      using c echoes_back_ring [OF Ok in_place_36(2) [OF assms Ok]] by (auto simp: u_def v_def ioctl_def echoes_simps)
    then obtain es' where u: "w_trace u = w_trace w @ es'" "list_all (echoes nk) es'" by blast
    have "configQueues nk (ki # is) w = configQueues nk is u" by (simp add: ki Ok ioctl_def Let_def u_def v_def)
    with Cons.IH [of u] u show ?thesis by auto
  qed (use c in \<open>auto simp: ki ioctl_def echoes_simps\<close>)
qed simp

section \<open>Properties\<close>

text \<open>
  C35.  The discovery returns the first offer.  When the sockets can be opened, \<open>dhcpDiscover\<close> makes at
  most 100 attempts, ten in each of ten rounds, and returns the offer of the first attempt that gets
  one, or none when no attempt does.
\<close>

theorem dhcpDiscover_first_offer:
  assumes "sockets nk (if_Name nif) fds"
  shows "fst (fst (dhcpDiscover nk nif w)) =
      all_offers nk (if_Name nif) (List.product [0..<10] [0..<10]) \<and>
    discovers (snd (dhcpDiscover nk nif w)) \<le> discovers w + 100"
  using discover_rounds_result [OF assms, of attemptLoops 0 None "[]" w]
  by (simp add: dhcpDiscover_def tries_def attemptLoops_def dhcpAttempts_def)

text \<open>
  A discovery without an answer closes its descriptors twice.  Every pair of sockets is closed at
  the end of its round and again by the deferred calls when the function returns, when the numbers may
  already belong to other files of the process.
\<close>

theorem dhcpDiscover_closes_twice:
  assumes "sockets nk (if_Name nif) fds" and "\<forall>i a. fst (nk_discover nk (if_Name nif) i a) = None"
  shows "closes (snd (dhcpDiscover nk nif w)) =
    closes w @ concat (map (fd_list \<circ> fds) [0..<10]) @ concat (map (fd_list \<circ> fds) (rev [0..<10]))"
  using discover_rounds_closes [OF assms, of attemptLoops 0 None "[]" w]
  by (simp add: dhcpDiscover_def attemptLoops_def del: upt_Suc)


definition silent_nk :: netkern where
  "silent_nk = \<lparr>nk_Interfaces = Ok [], nk_NumCPU = 1,
     nk_ethtool = (\<lambda>_ _. Err EINVAL),
     nk_bcast = (\<lambda>_ i. Ok (10 + 2 * int i)), nk_listen = (\<lambda>_ i. Ok (11 + 2 * int i)),
     nk_discover = (\<lambda>_ i a. (None, Some (Errno ''ETIMEDOUT''))),
     nk_LinkByName = (\<lambda>_. None), nk_LinkSetUp = (\<lambda>_. None), nk_ParseAddr = (\<lambda>_. None),
     nk_AddrAdd = (\<lambda>_ _. None), nk_ResolveUDP = (\<lambda>_. None), nk_add_route = (\<lambda>_ _. True),
     nk_StdoutPipe = (\<lambda>_. None), nk_Start = (\<lambda>_. None), nk_ordIfcs = id, nk_ordTasks = id\<rparr>"

definition eth_nif :: net_Interface where
  "eth_nif = \<lparr>if_Name = ''eth0'', if_HardwareAddr = []\<rparr>"

definition late_offer :: offer where
  "late_offer = \<lparr>of_YourIPAddr = [10, 0, 0, 5], of_Router = [], of_SubnetMask = [255, 255, 255, 0],
     of_ServerIdentifier = [10, 0, 0, 1], of_AzureEndpoint = [], of_NTPServers = [], of_DomainSearch = None,
     of_HostName = [], of_RenewTime = None, of_DNS = []\<rparr>"

text \<open>A server that answers the fourth attempt of the third round.\<close>

definition late_nk :: netkern where
  "late_nk = silent_nk\<lparr>nk_discover := (\<lambda>_ i a. if i = 2 \<and> 3 \<le> a then (Some late_offer, None)
     else (None, Some (Errno ''ETIMEDOUT'')))\<rparr>"

theorem dhcpDiscover_first_offer_witness:
  "fst (fst (dhcpDiscover late_nk eth_nif (world_of []))) = Some late_offer \<and>
   discovers (snd (dhcpDiscover late_nk eth_nif (world_of []))) \<le> 100"
  using dhcpDiscover_first_offer [of late_nk eth_nif "\<lambda>i. (10 + 2 * int i, 11 + 2 * int i)" "world_of []"]
  by (simp add: sockets_def late_nk_def silent_nk_def all_offers_def discovers_def world_of_def upt_conv_Cons)

theorem dhcpDiscover_closes_twice_witness:
  "filter (\<lambda>fd. fd = 10) (closes (snd (dhcpDiscover silent_nk eth_nif (world_of [])))) = [10, 10]"
  using dhcpDiscover_closes_twice [of silent_nk eth_nif "\<lambda>i. (10 + 2 * int i, 11 + 2 * int i)" "world_of []"]
  by (simp add: sockets_def silent_nk_def closes_def world_of_def fd_list_def upt_conv_Cons)

end
