(* ===== verification/Lease.thy ===== *)
theory Lease
  imports DhcpSpec
begin

text \<open>
  \<^verbatim>\<open>network.go\<close>: \<open>renewDHCP\<close> and the goroutine \<open>fetchDHCP\<close> leaves behind, which first gets the offer
  acknowledged and then renews the lease for ever.  The sockets and the exchange with the server are the
  parameter; its functions take the number of the attempt.
\<close>

section \<open>Model\<close>

record leasekern =
  lk_listen :: "nat \<Rightarrow> int outcome"
  lk_bcast :: "nat \<Rightarrow> int outcome"
  lk_request :: "nat \<Rightarrow> goerr option"
  lk_SendReceive :: "nat \<Rightarrow> goerr option"

definition open_fd :: "int \<Rightarrow> 'a world_scheme \<Rightarrow> 'a world_scheme" where
  "open_fd fd w = emit (EvIoctl ''socket'' [fd]) w"

text \<open>The call of \<open>closeFds\<close> is deferred only once both sockets are there.\<close>

definition renewDHCP :: "leasekern \<Rightarrow> nat \<Rightarrow> 'a world_scheme \<Rightarrow> unit outcome \<times> 'a world_scheme" where
  "renewDHCP lk k w =
     and_then (lk_listen lk k, w) (\<lambda>rfd w.
     let w = open_fd rfd w in
     and_then (lk_bcast lk k, w) (\<lambda>sfd w.
     let w = logDebug ''send dhcp'' (open_fd sfd w) in
     case lk_request lk k of
       Some e \<Rightarrow> (Err e, closeFds (sfd, rfd) w)
     | None \<Rightarrow>
         let w = emit (EvIoctl ''request'' [int k]) w in
         (case lk_SendReceive lk k of
            Some e \<Rightarrow> (Err e, closeFds (sfd, rfd) w)
          | None \<Rightarrow> (Ok (), closeFds (sfd, rfd) w))))"

text \<open>The jump back to \<open>again\<close>; the result is the number of the attempt that was acknowledged.\<close>

partial_function (option) ack_loop :: "leasekern \<Rightarrow> nat \<Rightarrow> 'a world_scheme \<Rightarrow> (nat outcome \<times> 'a world_scheme) option" where
  "ack_loop lk k w =
     (case renewDHCP lk k w of
        (Ok _, w) \<Rightarrow> Some (Ok k, w)
      | (Err e, w) \<Rightarrow> ack_loop lk (Suc k) (logWarn ''can not ack IP address: %s'' w)
      | (Panic x, w) \<Rightarrow> Some (Panic x, w))"

text \<open>The first \<open>n\<close> rounds of the endless loop; the error of a renewal is ignored.\<close>

primrec renewals :: "leasekern \<Rightarrow> u32 \<Rightarrow> nat \<Rightarrow> nat \<Rightarrow> 'a world_scheme \<Rightarrow> unit outcome \<times> 'a world_scheme" where
  "renewals lk renew 0 k w = (Ok (), w)"
| "renewals lk renew (Suc n) k w =
     (let w = logDebug ''renew with %v'' (time_Sleep (unat renew * 1000) w) in
      case renewDHCP lk k w of
        (Panic x, w) \<Rightarrow> (Panic x, w)
      | (_, w) \<Rightarrow> renewals lk renew n (Suc k) w)"

definition lease :: "leasekern \<Rightarrow> u32 \<Rightarrow> nat \<Rightarrow> 'a world_scheme \<Rightarrow> (unit outcome \<times> 'a world_scheme) option" where
  "lease lk renew n w =
     map_option (\<lambda>r. and_then r (\<lambda>k w. renewals lk renew n (Suc k) (logDebug ''dhcp acknowledged: %v, renew %d'' w)))
       (ack_loop lk 0 w)"

section \<open>One attempt\<close>

text \<open>The descriptors opened so far, and those an attempt leaves open.\<close>

fun opened_fds :: "event \<Rightarrow> int list" where
  "opened_fds (EvIoctl n xs) = (if n = ''socket'' then xs else [])"
| "opened_fds _ = []"

definition opens :: "'a world_scheme \<Rightarrow> int list" where
  "opens w = concat (map opened_fds (w_trace w))"

definition leaked :: "leasekern \<Rightarrow> nat \<Rightarrow> int list" where
  "leaked lk k = (case (lk_listen lk k, lk_bcast lk k) of (Ok rfd, Err e) \<Rightarrow> [rfd] | _ \<Rightarrow> [])"

definition acked :: "leasekern \<Rightarrow> nat \<Rightarrow> bool" where
  "acked lk k \<longleftrightarrow>
     (case (lk_listen lk k, lk_bcast lk k) of
        (Ok _, Ok _) \<Rightarrow> lk_request lk k = None \<and> lk_SendReceive lk k = None
      | _ \<Rightarrow> False)"

text \<open>What the kernel promises: no call crashes, and two open sockets have different descriptors.\<close>

definition lease_kernel :: "leasekern \<Rightarrow> bool" where
  "lease_kernel lk \<longleftrightarrow>
     (\<forall>k x. lk_listen lk k \<noteq> Panic x \<and> lk_bcast lk k \<noteq> Panic x) \<and>
     (\<forall>k fd. lk_listen lk k = Ok fd \<longrightarrow> lk_bcast lk k \<noteq> Ok fd)"

text \<open>The descriptors in use: opened and not closed.\<close>

definition in_use :: "'a world_scheme \<Rightarrow> int multiset \<Rightarrow> bool" where
  "in_use w fds \<longleftrightarrow> mset (opens w) = mset (closes w) + fds"

lemma opens_simps [simp]:
  "opens (log l f w) = opens w" "opens (open_fd fd w) = opens w @ [fd]" "opens (time_Sleep ms w) = opens w"
  "opens (emit (EvIoctl ''request'' xs) w) = opens w" "opens (closeFds fds w) = opens w"
  by (simp_all add: opens_def open_fd_def time_Sleep_def closeFds_def Let_def)

lemma closes_lease [simp]:
  "closes (open_fd fd w) = closes w" "closes (emit (EvIoctl ''request'' xs) w) = closes w"
  "closes (time_Sleep ms w) = closes w"
  by (simp_all add: closes_def open_fd_def time_Sleep_def)

lemma clock_lease [simp]: "w_clock (open_fd fd w) = w_clock w" "w_clock (closeFds fds w) = w_clock w"
  "w_clock (time_Sleep ms w) = w_clock w + ms"
  by (simp_all add: open_fd_def closeFds_def time_Sleep_def Let_def)

lemma in_use_simps [simp]:
  "in_use (log l f w) fds = in_use w fds" "in_use (time_Sleep ms w) fds = in_use w fds"
  by (simp_all add: in_use_def)

lemma renewDHCP_attempt:
  assumes "lease_kernel lk"
  shows "\<exists>r w'. renewDHCP lk k w = (r, w') \<and> (if acked lk k then r = Ok () else \<exists>e. r = Err e) \<and>
    w_clock w' = w_clock w \<and> (in_use w fds \<longrightarrow> in_use w' (fds + mset (leaked lk k)))"
proof (cases "lk_listen lk k")
  case (Ok rfd)
  note rfd = Ok
  show ?thesis
  proof (cases "lk_bcast lk k")
    case (Ok sfd)
    with rfd assms have "sfd \<noteq> rfd" by (auto simp: lease_kernel_def)
    with Ok rfd show ?thesis
      by (cases "lk_request lk k"; cases "lk_SendReceive lk k")
        (auto simp: renewDHCP_def acked_def leaked_def in_use_def fd_list_def Let_def)
  next
    case (Err e)
    with rfd show ?thesis by (auto simp: renewDHCP_def acked_def leaked_def in_use_def Let_def)
  qed (use assms in \<open>auto simp: lease_kernel_def\<close>)
next
  case (Err e)
  then show ?thesis by (auto simp: renewDHCP_def acked_def leaked_def split: outcome.split)
qed (use assms in \<open>auto simp: lease_kernel_def\<close>)

lemma ack_loop_ends:
  assumes "lease_kernel lk" and "acked lk (k + n)" and "\<forall>j < n. \<not> acked lk (k + j)" and "in_use w fds"
  shows "\<exists>w'. ack_loop lk k w = Some (Ok (k + n), w') \<and> w_clock w' = w_clock w \<and>
    in_use w' (fds + mset (concat (map (leaked lk) [k..<Suc (k + n)])))"
  using assms(2-4)
proof (induction n arbitrary: k w fds)
  case 0
  then obtain w' where "renewDHCP lk k w = (Ok (), w')" "w_clock w' = w_clock w" "in_use w' (fds + mset (leaked lk k))"
    using renewDHCP_attempt [OF assms(1), of k w fds] by auto
  then show ?case by (subst ack_loop.simps) simp
next
  case (Suc n)
  from Suc.prems(2) have "\<not> acked lk k" by force
  with Suc.prems(3) obtain e w1 where 1: "renewDHCP lk k w = (Err e, w1)" "w_clock w1 = w_clock w"
      "in_use w1 (fds + mset (leaked lk k))"
    using renewDHCP_attempt [OF assms(1), of k w fds] by auto
  have "\<forall>j<n. \<not> acked lk (Suc k + j)" using Suc.prems(2) by (metis Suc_less_eq add_Suc_right add_Suc)
  then obtain w' where "ack_loop lk (Suc k) (logWarn ''can not ack IP address: %s'' w1) = Some (Ok (Suc k + n), w')"
      "w_clock w' = w_clock w" "in_use w' (fds + mset (leaked lk k) + mset (concat (map (leaked lk) [Suc k..<Suc (Suc k + n)])))"
    using Suc.IH [of "Suc k" "logWarn ''can not ack IP address: %s'' w1" "fds + mset (leaked lk k)"] Suc.prems(1) 1 by auto
  then show ?case
    by (subst ack_loop.simps) (simp add: 1 upt_conv_Cons [of k] add.assoc del: upt_Suc)
qed

lemma renewals_end:
  assumes "lease_kernel lk" and "in_use w fds"
  shows "\<exists>w'. renewals lk renew n k w = (Ok (), w') \<and> w_clock w' = w_clock w + n * (unat renew * 1000) \<and>
    in_use w' (fds + mset (concat (map (leaked lk) [k..<k + n])))"
  using assms(2)
proof (induction n arbitrary: k w fds)
  case (Suc n)
  let ?w = "logDebug ''renew with %v'' (time_Sleep (unat renew * 1000) w)"
  obtain r w1 where 1: "renewDHCP lk k ?w = (r, w1)" "\<forall>x. r \<noteq> Panic x" "w_clock w1 = w_clock w + unat renew * 1000"
      "in_use w1 (fds + mset (leaked lk k))"
    using renewDHCP_attempt [OF assms(1), of k ?w fds] Suc.prems by (auto split: if_splits)
  then show ?case
    using Suc.IH [OF 1(4), of "Suc k"]
    by (cases r) (auto simp: upt_conv_Cons [of k] add.assoc simp del: upt_Suc)
qed simp

text \<open>Without an acknowledgement the goroutine never gets past its first loop.\<close>

lemma ack_loop_acked:
  assumes "ack_loop lk k w = Some r"
  shows "lease_kernel lk \<longrightarrow> (\<exists>j \<ge> k. acked lk j)"
  using assms
proof (rule ack_loop.raw_induct [rotated], goal_cases)
  case (1 f lk k w r)
  show ?case
  proof
    assume lk: "lease_kernel lk"
    show "\<exists>j \<ge> k. acked lk j"
    proof (cases "acked lk k")
      case False
      then obtain e w1 where "renewDHCP lk k w = (Err e, w1)"
        using renewDHCP_attempt [OF lk, of k w "{#}"] by auto
      with 1(2) have "f lk (Suc k) (logWarn ''can not ack IP address: %s'' w1) = Some r" by simp
      from 1(1) [OF this] lk show ?thesis using Suc_leD by blast
    qed blast
  qed
qed

section \<open>Properties\<close>


text \<open>A server that answers the third request; the broadcast socket of the second attempt cannot be opened.\<close>

definition slow_server :: leasekern where
  "slow_server =
     \<lparr>lk_listen = (\<lambda>k. Ok (7 + 2 * int k)), lk_bcast = (\<lambda>k. if k = 1 then Err EINVAL else Ok (8 + 2 * int k)),
      lk_request = (\<lambda>_. None), lk_SendReceive = (\<lambda>k. if k = 2 then None else Some EINVAL)\<rparr>"


end
