(* ===== verification/Helper.thy ===== *)
theory Helper
  imports DhcpSpec
begin

text \<open>
  \<^verbatim>\<open>helper.c\<close>: the two routing calls behind \<^verbatim>\<open>chelper.go\<close>.  A structure handed to the kernel is a record of
  the bytes of its fields; memory the code does not initialise is a parameter.  The answers of the kernel
  are the parameter \<open>routekern\<close>.
\<close>

section \<open>Routes through ioctl\<close>

definition AF_INET :: u16 where "AF_INET = 2"

definition set_sockaddr :: "int \<Rightarrow> byte list" where
  "set_sockaddr addr = le_enc 2 AF_INET @ [0, 0] @ le_enc 4 (word_of_int addr :: u32) @ replicate 8 0"

record rtentry =
  rt_dst :: "byte list"
  rt_gateway :: "byte list"
  rt_genmask :: "byte list"
  rt_flags :: u16
  rt_dev :: string

record routekern =
  rk_socket :: "goerr option"
  rk_strerror :: string
  rk_SIOCADDRT :: "rtentry \<Rightarrow> bool"
  rk_netlink :: bool
  rk_send :: "byte list \<Rightarrow> int"
  rk_inet_addr :: "string \<Rightarrow> u32"
  rk_nametoindex :: "string \<Rightarrow> u32"

text \<open>The result is the C return value, 0 for success.\<close>

definition helper_add_route ::
  "routekern \<Rightarrow> int \<Rightarrow> int \<Rightarrow> int \<Rightarrow> string \<Rightarrow> int \<Rightarrow> 'a world_scheme \<Rightarrow> int \<times> 'a world_scheme" where
  "helper_add_route rk dst msk gw dev flags w =
     (let rm = \<lparr>rt_dst = set_sockaddr dst, rt_gateway = set_sockaddr gw, rt_genmask = set_sockaddr msk,
                rt_flags = word_of_int flags, rt_dev = dev\<rparr> in
      case rk_socket rk of
        Some e \<Rightarrow> (1, emit (EvWrite ''/dev/stderr'' (''can not add route: '' @ rk_strerror rk @ [CHR 0x0A])) w)
      | None \<Rightarrow>
          if rk_SIOCADDRT rk rm then (0, w)
          else (-1, emit (EvWrite ''/dev/stderr'' (''can not add route: '' @ rk_strerror rk @ [CHR 0x0A])) w))"

section \<open>The virtual route of Google Cloud\<close>

definition RTM_NEWROUTE :: u16 where "RTM_NEWROUTE = 24"
definition NLM_F_REQUEST :: u16 where "NLM_F_REQUEST = 1"
definition NLM_F_ACK :: u16 where "NLM_F_ACK = 4"
definition NLM_F_EXCL :: u16 where "NLM_F_EXCL = 0x200"
definition NLM_F_CREATE :: u16 where "NLM_F_CREATE = 0x400"
definition RTA_DST :: u16 where "RTA_DST = 1"
definition RTA_OIF :: u16 where "RTA_OIF = 4"

record rtmsg =
  rtm_family :: byte
  rtm_dst_len :: byte
  rtm_src_len :: byte
  rtm_tos :: byte
  rtm_table :: byte
  rtm_protocol :: byte
  rtm_scope :: byte
  rtm_type :: byte
  rtm_flags :: u32

definition enc_rtmsg :: "rtmsg \<Rightarrow> byte list" where
  "enc_rtmsg r =
     [rtm_family r, rtm_dst_len r, rtm_src_len r, rtm_tos r, rtm_table r, rtm_protocol r, rtm_scope r, rtm_type r] @
     le_enc 4 (rtm_flags r)"

definition dec_rtmsg :: "byte list \<Rightarrow> rtmsg" where
  "dec_rtmsg bs =
     \<lparr>rtm_family = bs ! 0, rtm_dst_len = bs ! 1, rtm_src_len = bs ! 2, rtm_tos = bs ! 3, rtm_table = bs ! 4,
      rtm_protocol = bs ! 5, rtm_scope = bs ! 6, rtm_type = bs ! 7, rtm_flags = le_dec (sl 8 4 bs)\<rparr>"

definition nlattr :: "u16 \<Rightarrow> byte list \<Rightarrow> byte list" where
  "nlattr type data = le_enc 2 (8 :: u16) @ le_enc 2 type @ data"

definition local_route :: rtmsg where
  "local_route =
     \<lparr>rtm_family = 2, rtm_dst_len = 32, rtm_src_len = 0, rtm_tos = 0, rtm_table = 255, rtm_protocol = 0x42,
      rtm_scope = 254, rtm_type = 2, rtm_flags = 0\<rparr>"

text \<open>
  The request as it is in memory.  \<open>seq\<close>, \<open>port\<close> and \<open>rest\<close> are what the stack held: the code sets neither the
  two fields of the header nor the buffer behind the second attribute, of which \<open>memset\<close> clears eight bytes
  from its data on.
\<close>

definition nl_request :: "u32 \<Rightarrow> u32 \<Rightarrow> byte list \<Rightarrow> u32 \<Rightarrow> u32 \<Rightarrow> byte list" where
  "nl_request seq port rest addr ix =
     enc_nl \<lparr>nl_Len = 44, nl_Type = RTM_NEWROUTE, nl_Flags = NLM_F_REQUEST OR NLM_F_ACK OR NLM_F_EXCL OR NLM_F_CREATE,
             nl_Seq = seq, nl_Pid = port\<rparr> @
     enc_rtmsg local_route @ nlattr RTA_DST (le_enc 4 addr) @ nlattr RTA_OIF (le_enc 4 ix) @ [0, 0, 0, 0] @ rest"

definition helper_add_gcp_virtual_route ::
  "routekern \<Rightarrow> u32 \<Rightarrow> u32 \<Rightarrow> byte list \<Rightarrow> string \<Rightarrow> string \<Rightarrow> int" where
  "helper_add_gcp_virtual_route rk seq port rest dev p =
     (if \<not> rk_netlink rk then 1
      else rk_send rk (nl_request seq port rest (rk_inet_addr rk p) (rk_nametoindex rk dev)))"

section \<open>What the kernel is told\<close>

text \<open>The four bytes of an address in the order of the network; the address \<open>nil\<close> is 0.0.0.0.\<close>

definition quad :: "ip \<Rightarrow> byte list" where
  "quad p = (if p = [] then [0, 0, 0, 0] else if length p = 16 then drop 12 p else take 4 p)"

definition sockaddr_of :: "ip \<Rightarrow> byte list" where
  "sockaddr_of p = [2, 0, 0, 0] @ quad p @ replicate 8 0"

lemma AF_INET_bytes: "le_enc 2 AF_INET = [2, 0]"
  by code_simp

lemma nw_int_sockaddr:
  assumes "p = [] \<or> 4 \<le> length p"
  shows "\<exists>n. nw_int p = Ok n \<and> set_sockaddr n = sockaddr_of p"
proof (cases "p = []")
  case True
  have "le_enc 4 (0 :: u32) = [0, 0, 0, 0]" by code_simp
  with True show ?thesis by (simp add: nw_int_def set_sockaddr_def sockaddr_of_def quad_def AF_INET_bytes)
next
  case False
  define bs where "bs = (if length p = 16 then sl 12 4 p else take 4 p)"
  have bs: "length bs = 4" "bs = quad p" "ip2networkInt p = Ok (le_dec bs)"
    using assms False by (auto simp: bs_def quad_def sl_def ip2networkInt_def le_Uint32_def)
  then show ?thesis
    using False by (simp add: nw_int_def set_sockaddr_def sockaddr_of_def AF_INET_bytes)
qed

text \<open>The network code with this helper behind it.\<close>

definition with_helper :: "routekern \<Rightarrow> netkern \<Rightarrow> netkern" where
  "with_helper rk nk =
     nk\<lparr>nk_add_route := \<lambda>dev xs. case xs of
          [d, m, g, flags] \<Rightarrow> fst (helper_add_route rk d m g dev flags (world_of [])) = 0
        | _ \<Rightarrow> False\<rparr>"

text \<open>
  C37.  The kernel gets the addresses of the configuration.  For IPv4 addresses in either form, or \<open>nil\<close>,
  \<open>addNetworkRoute4\<close> succeeds exactly if the kernel accepts the route entry whose destination, mask and
  gateway are Internet addresses with the bytes of the given ones in network order, port 0, and the
  given flags and device.
\<close>

theorem route_entry_correct:
  assumes "list_all (\<lambda>p. p = [] \<or> 4 \<le> length p) [dst, msk, gw]"
  shows "\<exists>r w'. addNetworkRoute4 (with_helper rk nk) dst msk gw dev flags w = (r, w') \<and>
    (r = Ok ()) = (rk_socket rk = None \<and>
      rk_SIOCADDRT rk \<lparr>rt_dst = sockaddr_of dst, rt_gateway = sockaddr_of gw, rt_genmask = sockaddr_of msk,
        rt_flags = word_of_int flags, rt_dev = dev\<rparr>)"
proof -
  obtain d m g where i: "nw_int dst = Ok d" "nw_int msk = Ok m" "nw_int gw = Ok g"
    and s: "set_sockaddr d = sockaddr_of dst" "set_sockaddr m = sockaddr_of msk" "set_sockaddr g = sockaddr_of gw"
    using nw_int_sockaddr [of dst] nw_int_sockaddr [of msk] nw_int_sockaddr [of gw] assms by auto
  then show ?thesis
    by (simp add: addNetworkRoute4_def with_helper_def helper_add_route_def Let_def split: option.split)
qed

text \<open>A kernel that takes host routes on \<open>eth0\<close> only.\<close>

definition host_routes :: routekern where
  "host_routes =
     \<lparr>rk_socket = None, rk_strerror = ''Invalid argument'',
      rk_SIOCADDRT = (\<lambda>r. rt_dst r = [2, 0, 0, 0, 10, 0, 0, 1, 0, 0, 0, 0, 0, 0, 0, 0] \<and>
        rt_genmask r = [2, 0, 0, 0, 255, 255, 255, 255, 0, 0, 0, 0, 0, 0, 0, 0] \<and> rt_dev r = ''eth0''),
      rk_netlink = True, rk_send = (\<lambda>bs. int (length bs)), rk_inet_addr = (\<lambda>_. 0), rk_nametoindex = (\<lambda>_. 2)\<rparr>"

theorem route_entry_correct_witness:
  "fst (addNetworkRoute4 (with_helper host_routes silent_nk) (IPv4 10 0 0 1) IPv4bcast [] ''eth0'' 5 (world_of [])) = Ok ()"
proof -
  have "sockaddr_of (IPv4 10 0 0 1) = [2, 0, 0, 0, 10, 0, 0, 1, 0, 0, 0, 0, 0, 0, 0, 0]"
    "sockaddr_of IPv4bcast = [2, 0, 0, 0, 255, 255, 255, 255, 0, 0, 0, 0, 0, 0, 0, 0]"
    by (simp_all add: sockaddr_of_def quad_def IPv4bcast_def IPv4_def v4_prefix_def eval_nat_numeral)
  then show ?thesis
    using route_entry_correct [of "IPv4 10 0 0 1" IPv4bcast "[]" host_routes silent_nk "''eth0''" 5 "world_of []"]
    by (auto simp: host_routes_def IPv4bcast_def IPv4_def)
qed

section \<open>How the kernel reads the request\<close>

text \<open>
  The receive loop of the kernel takes messages as long as a header with a length of at least 16 and at most
  the bytes left follows, and ends silently otherwise; the attributes of a message are walked in the same way.
\<close>

function netlink_rcv :: "byte list \<Rightarrow> (NlMsghdr \<times> byte list) list" where
  "netlink_rcv bs =
     (if length bs < NLMSG_HDRLEN then []
      else let h = dec_nl (take 16 bs); n = unat (nl_Len h) in
           if n < NLMSG_HDRLEN \<or> length bs < n then []
           else (h, sl NLMSG_HDRLEN (n - NLMSG_HDRLEN) bs) # netlink_rcv (drop (nlmAlignOf n) bs))"
  by pat_completeness auto
termination
proof (relation "measure length", simp, goal_cases)
  case (1 bs h n)
  then show ?case using nlmAlignOf_ge [of n] by (auto simp: NLMSG_HDRLEN_def)
qed

function rta_walk :: "byte list \<Rightarrow> (u16 \<times> byte list) list" where
  "rta_walk bs =
     (if length bs < 4 then []
      else let n = unat (le_dec (sl 0 2 bs) :: u16) in
           if n < 4 \<or> length bs < n then []
           else (le_dec (sl 2 2 bs), sl 4 (n - 4) bs) # rta_walk (drop (nlmAlignOf n) bs))"
  by pat_completeness auto
termination
proof (relation "measure length", simp, goal_cases)
  case (1 bs n)
  then show ?case using nlmAlignOf_ge [of n] by auto
qed

declare netlink_rcv.simps [simp del] rta_walk.simps [simp del]

lemma take8: "8 \<le> length bs \<Longrightarrow> [bs ! 0, bs ! 1, bs ! 2, bs ! 3, bs ! 4, bs ! 5, bs ! 6, bs ! 7] = take 8 bs"
  by (rule nth_equalityI) (auto simp: less_Suc_eq eval_nat_numeral)

interpretation rtm: codec enc_rtmsg dec_rtmsg 12 "\<lambda>_. True"
proof
  show "length (enc_rtmsg r) = 12" for r by (simp add: enc_rtmsg_def)
  show "dec_rtmsg (enc_rtmsg r) = r" for r
    by (simp add: enc_rtmsg_def dec_rtmsg_def layout_rules)
  show "enc_rtmsg (dec_rtmsg bs) = bs" if "length bs = 12" for bs
  proof -
    have "enc_rtmsg (dec_rtmsg bs) = take 8 bs @ sl 8 4 bs"
      using that by (simp add: enc_rtmsg_def dec_rtmsg_def take8 [symmetric])
    also have "\<dots> = bs" using that by (simp add: sl_def)
    finally show ?thesis .
  qed
qed simp

lemma rta_walk_nlattr:
  assumes "length data = 4"
  shows "rta_walk (nlattr type data @ bs) = (type, data) # rta_walk bs"
proof -
  define xs where "xs = nlattr type data @ bs"
  have "le_dec (sl 0 2 xs) = (8 :: u16)" "le_dec (sl 2 2 xs) = type" "sl 4 4 xs = data" "drop 8 xs = bs" "8 \<le> length xs"
    using assms by (simp_all add: xs_def nlattr_def layout_rules)
  then show ?thesis
    unfolding xs_def [symmetric] by (subst rta_walk.simps) (simp add: nlmAlignOf_def)
qed

lemma request_read:
  "\<exists>h body. netlink_rcv (nl_request seq port rest addr ix) = [(h, body)] \<and>
     nl_Type h = RTM_NEWROUTE \<and> nl_Flags h = NLM_F_REQUEST OR NLM_F_ACK OR NLM_F_EXCL OR NLM_F_CREATE \<and>
     dec_rtmsg (take 12 body) = local_route \<and>
     rta_walk (drop 12 body) = [(RTA_DST, le_enc 4 addr), (RTA_OIF, le_enc 4 ix)]"
proof -
  define h where "h = \<lparr>nl_Len = 44, nl_Type = RTM_NEWROUTE,
    nl_Flags = NLM_F_REQUEST OR NLM_F_ACK OR NLM_F_EXCL OR NLM_F_CREATE, nl_Seq = seq, nl_Pid = port\<rparr>"
  define at where "at = nlattr RTA_DST (le_enc 4 addr) @ nlattr RTA_OIF (le_enc 4 ix)"
  have req: "nl_request seq port rest addr ix = enc_nl h @ (enc_rtmsg local_route @ at) @ [0, 0, 0, 0] @ rest"
    by (simp add: nl_request_def h_def at_def)
  have len: "length at = 16" by (simp add: at_def nlattr_def)
  have rest: "netlink_rcv ([0, 0, 0, 0] @ rest) = []"
  proof -
    have "le_dec [0, 0, 0, 0 :: byte] = (0 :: u32)" by code_simp
    then have "nl_Len (dec_nl (take 16 ([0, 0, 0, 0] @ rest))) = 0"
      by (simp add: dec_nl_def sl_def)
    then show ?thesis by (subst netlink_rcv.simps) (simp add: NLMSG_HDRLEN_def del: append_Cons)
  qed
  define xs where "xs = nl_request seq port rest addr ix"
  have "dec_nl (take 16 xs) = h" "unat (nl_Len h) = 44" "44 \<le> length xs" "sl 16 28 xs = enc_rtmsg local_route @ at"
    "drop 44 xs = [0, 0, 0, 0] @ rest"
    by (simp_all add: xs_def req nl.enc_length nl.dec_enc rtm.enc_length len sl_def) (simp add: h_def)
  then have "netlink_rcv xs = [(h, enc_rtmsg local_route @ at)]"
    using rest by (subst netlink_rcv.simps) (simp add: NLMSG_HDRLEN_def nlmAlignOf_def)
  moreover have "rta_walk at = [(RTA_DST, le_enc 4 addr), (RTA_OIF, le_enc 4 ix)]"
    unfolding at_def using rta_walk.simps [of "[]"] rta_walk_nlattr [of "le_enc 4 ix" RTA_OIF "[]"]
    by (simp add: rta_walk_nlattr)
  ultimately show ?thesis by (simp add: xs_def rtm.enc_length rtm.dec_enc h_def)
qed

text \<open>
  C38.  The request for the virtual route.  Whatever the uninitialised parts of the request hold, the kernel reads
  exactly one message from the bytes sent: a request to create a local host route with the
  destination address and the interface as its two attributes.  The zeroes behind the second attribute are what keeps
  it from taking the rest of the stack for further messages.
\<close>

theorem gcp_route_request:
  "\<exists>bs h body. helper_add_gcp_virtual_route rk seq port rest dev p = (if rk_netlink rk then rk_send rk bs else 1) \<and>
     netlink_rcv bs = [(h, body)] \<and>
     nl_Type h = RTM_NEWROUTE \<and> nl_Flags h = NLM_F_REQUEST OR NLM_F_ACK OR NLM_F_EXCL OR NLM_F_CREATE \<and>
     dec_rtmsg (take 12 body) = local_route \<and>
     rta_walk (drop 12 body) = [(RTA_DST, le_enc 4 (rk_inet_addr rk p)), (RTA_OIF, le_enc 4 (rk_nametoindex rk dev))]"
  using request_read [of seq port rest "rk_inet_addr rk p" "rk_nametoindex rk dev"]
  by (fastforce simp: helper_add_gcp_virtual_route_def)

end
