(* ===== verification/Services.thy ===== *)
theory Services
  imports Conf Cloud LaunchEnv
begin

text \<open>
  The smaller services: \<^verbatim>\<open>dns.go\<close>, \<^verbatim>\<open>nfs.go\<close>, \<^verbatim>\<open>ntp.go\<close>, \<^verbatim>\<open>power.go\<close>, \<^verbatim>\<open>rnd.go\<close>, the busybox links of
  \<^verbatim>\<open>process.go\<close> and the terminals and log levels of \<^verbatim>\<open>log.go\<close>.  Name resolution, the DNS proxy, the
  results of started programs and the kernel's answers are parameters of the operations.
\<close>

section \<open>DNS\<close>

record dnsenv =
  de_Parse :: "string list \<Rightarrow> goerr option"
  de_Start :: "string list \<Rightarrow> goerr option"
  de_ord :: "gomap \<Rightarrow> gomap"

definition defaultDNSAddr :: string where "defaultDNSAddr = ''127.0.0.1''"

definition printDNS :: "string list \<Rightarrow> 'a world_scheme \<Rightarrow> 'a world_scheme" where
  "printDNS dns w = (if dns \<noteq> [] then logAlways ''dns  : %s'' w else logAlways ''dns  : none'' w)"

definition config_dns :: "dnsenv \<Rightarrow> gomap \<Rightarrow> string \<Rightarrow> ip list" where
  "config_dns de es d =
     (let d = fold (\<lambda>(k, x) d. ReplaceAll d (replaceString k) x) (de_ord de es) d; p = ParseIP d in
      if p \<noteq> [] then [p] else [])"

text \<open>\<open>dns\<close> is the package variable with the upstream servers; it is returned with what was appended.\<close>

definition startDNS ::
  "dnsenv \<Rightarrow> string \<Rightarrow> bool \<Rightarrow> string list \<Rightarrow> machine \<Rightarrow> (unit outcome \<times> string list) \<times> machine" where
  "startDNS de dnsAddr verbose dns m =
     (let m = (if v_dns m = []
               then m\<lparr>v_dns := concat (map (config_dns de (hv_envs m)) (sy_DNS (vc_System (vcfg m))))\<rparr> else m);
          m = m\<lparr>v_dns := uniqueIPs (v_dns m)\<rparr>;
          dns = dns @ map ip_String (v_dns m);
          m = (if verbose then printDNS dns m else m) in
      if dns = [] then ((Ok (), dns), m)
      else case de_Parse de dns of
        Some e \<Rightarrow> ((Err e, dns), logError ''can not start dns: %v'' m)
      | None \<Rightarrow>
          (let m = emit (EvCall ''dnsproxy'' (defaultDNSAddr # dns)) m in
           case de_Start de dns of Some e \<Rightarrow> ((Err e, dns), m) | None \<Rightarrow> ((Ok (), dns), m)))"

section \<open>NFS\<close>

definition resolveNFS :: "(string \<Rightarrow> ip list outcome) \<Rightarrow> string \<Rightarrow> 'a world_scheme \<Rightarrow> ip \<times> 'a world_scheme" where
  "resolveNFS lookup name w =
     (let w = logDebug ''resolving nfs server: %s'' w in
      case lookup name of
        Ok ips \<Rightarrow> (case List.find (\<lambda>i. To4 i \<noteq> []) ips of Some i \<Rightarrow> i | None \<Rightarrow> [], w)
      | _ \<Rightarrow> ([], logError ''can not resolve %s'' w))"

definition mount_nfs :: "(string \<Rightarrow> ip list outcome) \<Rightarrow> NFSSettings \<Rightarrow> 'a world_scheme \<Rightarrow> 'a world_scheme" where
  "mount_nfs lookup n w =
     (let srvInfo = SplitN (nfs_Server n) '':'' 2 in
      if length srvInfo \<noteq> 2 then logError ''can not parse nfs server %s, format server:mount'' w
      else
        let s = ParseIP (srvInfo ! 0);
            (s, w) = (if s = [] then resolveNFS lookup (srvInfo ! 0) w else (s, w)) in
        if s = [] then logError ''can not resolve %s'' w
        else
          let data = Join [nfs_Arguments n, ''addr='' @ ip_String s] '','';
              w = logDebug ''nfs mount %s to %s with %s'' w;
              w = ignoring (MkdirAll (nfs_MountPoint n) w) in
          (case syscall_Mount ('':'' @ srvInfo ! 1) (nfs_MountPoint n) ''nfs'' 0 data w of
             (Ok _, w) \<Rightarrow> w
           | (_, w) \<Rightarrow> logError ''can not mount NFS: %s'' w))"

definition setupNFS :: "(string \<Rightarrow> ip list outcome) \<Rightarrow> NFSSettings list \<Rightarrow> 'a world_scheme \<Rightarrow> 'a world_scheme" where
  "setupNFS lookup mounts w = fold (mount_nfs lookup) mounts w"

section \<open>NTP\<close>

definition chronydCfgPath :: string where "chronydCfgPath = ''/etc/chrony.conf''"

definition chronydCfgData :: string where
  "chronydCfgData = newline @ ''driftfile /etc/chrony.drift'' @ newline @ ''makestep 1.0 3'' @ newline @ ''rtcsync''"

definition startChrony :: "goerr option \<Rightarrow> 'a world_scheme \<Rightarrow> unit outcome \<times> 'a world_scheme" where
  "startChrony start w =
     (case start of
        Some e \<Rightarrow> (Err e, w)
      | None \<Rightarrow> (Ok (), emit (EvExec ''/vorteil/chronyd'' []) w))"

definition add_server :: "string \<Rightarrow> string \<Rightarrow> string" where
  "add_server s cfg = ''server '' @ s @ '' iburst'' @ newline @ cfg"

definition setupChronyD :: "goerr option \<Rightarrow> string list \<Rightarrow> 'a world_scheme \<Rightarrow> unit outcome \<times> 'a world_scheme" where
  "setupChronyD start ntps w =
     (let w = logDebug ''ntp servers found: %d'' w in
      if is_ok (os_Stat chronydCfgPath w) then startChrony start (logAlways ''chrony config file found'' w)
      else if ntps \<noteq> [] then
        let w = logAlways ''ntp servers : %s'' w;
            (r, w) = (if IsNotExist (os_Stat (path_Dir chronydCfgPath) w)
                      then MkdirAll (path_Dir chronydCfgPath) w else (Ok (), w)) in
        (case r of
           Err e \<Rightarrow> (Err (Errorf ''could not create directory: %v''), w)
         | Panic x \<Rightarrow> (Panic x, w)
         | Ok _ \<Rightarrow>
             (case WriteFile chronydCfgPath (fold add_server ntps chronydCfgData) w of
                (Ok _, w) \<Rightarrow> (Ok (), snd (startChrony start (logDebug ''ntp config: %s'' w)))
              | (Err e, w) \<Rightarrow> (Err (Errorf ''could not write config file: %v''), w)
              | (Panic x, w) \<Rightarrow> (Panic x, w)))
      else (Ok (), w))"

section \<open>Power\<close>

definition sbin_link :: "string \<Rightarrow> 'a world_scheme \<Rightarrow> 'a world_scheme" where
  "sbin_link name w =
     (let w = logDebug ''removing %s'' w;
          w = ignoring (os_Remove name w) in
      case os_Symlink ''/vorteil/vinitd'' name w of
        (Ok _, w) \<Rightarrow> w
      | (_, w) \<Rightarrow> logWarn ''can not listen to power off (shudown): %s'' w)"

definition prepSbinPower :: "'a world_scheme \<Rightarrow> 'a world_scheme" where
  "prepSbinPower w =
     (let (r, w) = (if IsNotExist (os_Stat ''/sbin'' w) then mkdir1 [''sbin''] w else (Ok (), w)) in
      case r of
        Ok _ \<Rightarrow> sbin_link ''/sbin/reboot'' (sbin_link ''/sbin/poweroff'' w)
      | _ \<Rightarrow> logWarn ''can not listen to power off (orderly shutdown): %s'' w)"

text \<open>
  The line of the power button's handlers: the last line read, which is the first one with
  \<open>Handlers\<close> after the button, or the last line of the file; nothing when a line is too long to scan.
\<close>

fun handler_line :: "bool \<Rightarrow> string \<Rightarrow> string list \<Rightarrow> string option" where
  "handler_line toggle l [] = Some l"
| "handler_line toggle l (x # xs) =
     (if maxScanTokenSize \<le> length x then None
      else let x = drop_cr x; toggle = toggle \<or> Contains x ''Power Button'' in
        if toggle \<and> Contains x ''Handlers'' then Some x else handler_line toggle x xs)"

text \<open>The event files the handlers name; listening to the first of them never returns.\<close>

definition power_handlers :: "string \<Rightarrow> string list option" where
  "power_handlers l =
     (let ss = SplitN l ''Handlers='' 2 in
      if length ss \<noteq> 2 then None else Some (filter (\<lambda>s. HasPrefix s ''event'') (Fields (ss ! 1))))"

record epoll =
  ep_Create :: "goerr option"
  ep_Ctl :: "goerr option"

definition listenToPowerEventFile :: "epoll \<Rightarrow> string \<Rightarrow> machine \<Rightarrow> bool \<times> machine" where
  "listenToPowerEventFile ep name m =
     (case os_Open (''/dev/input/'' @ name) m of
        Ok _ \<Rightarrow>
          (let m = (if ep_Create ep \<noteq> None then logWarn ''can not listen to power off (epoll): %s'' m else m);
               m = (if ep_Ctl ep \<noteq> None then logWarn ''can not listen to power off (epolladd): %s'' m else m) in
           (True, emit (EvCall ''listenPowerLoop'' [name]) m))
      | _ \<Rightarrow> (False, logWarn ''can not listen to power off (dev): %s'' m))"

fun listen_files :: "epoll \<Rightarrow> string list \<Rightarrow> machine \<Rightarrow> machine" where
  "listen_files ep [] m = m"
| "listen_files ep (s # ss) m =
     (case listenToPowerEventFile ep s m of (True, m) \<Rightarrow> m | (False, m) \<Rightarrow> listen_files ep ss m)"

definition listenToPowerEvent :: "epoll \<Rightarrow> machine \<Rightarrow> machine" where
  "listenToPowerEvent ep m =
     (case ReadFile ''/proc/bus/input/devices'' m of
        Ok c \<Rightarrow>
          (case handler_line False [] (raw_lines c) of
             None \<Rightarrow> logWarn ''can not listen to power off (scan): %s'' m
           | Some l \<Rightarrow>
               (case power_handlers l of
                  None \<Rightarrow> logWarn ''can not listen to power off (handlers): no handler'' m
                | Some ss \<Rightarrow> listen_files ep ss m))
      | _ \<Rightarrow> logWarn ''can not listen to power off (devices): %s'' m)"


section \<open>Busybox\<close>

definition busboxScript :: string where "busboxScript = ''/vorteil/busybox''"

definition busybox_link :: "string \<Rightarrow> 'a world_scheme \<Rightarrow> unit outcome \<times> 'a world_scheme" where
  "busybox_link a w = (if IsNotExist (os_Stat a w) then os_Symlink busboxScript a w else (Ok (), w))"

fun busybox_links :: "string list \<Rightarrow> 'a world_scheme \<Rightarrow> unit outcome \<times> 'a world_scheme" where
  "busybox_links [] w = (Ok (), w)"
| "busybox_links (app # apps) w =
     (if app \<noteq> ''['' \<and> app \<noteq> ''[['' \<and> app \<noteq> [] then
        and_then (busybox_link (PathJoin [''/bin'', app]) w) (\<lambda>_ w.
        and_then (busybox_link (PathJoin [''/usr/bin'', app]) w) (\<lambda>_ w. busybox_links apps w))
      else busybox_links apps w)"

text \<open>\<open>out\<close> is the output of \<^verbatim>\<open>busybox --list\<close>.\<close>

definition runBusyboxScript :: "string outcome \<Rightarrow> 'a world_scheme \<Rightarrow> unit outcome \<times> 'a world_scheme" where
  "runBusyboxScript out w =
     (if is_ok (os_Stat busboxScript w) then
        let w = ignoring (MkdirAll ''/bin'' w);
            w = ignoring (MkdirAll ''/usr/bin'' w) in
        and_then (out, emit (EvExec busboxScript [''--list'']) w) (\<lambda>apps. busybox_links (Split apps newline))
      else (Ok (), w))"

section \<open>Entropy\<close>

definition EPOLLOUT :: u32 where "EPOLLOUT = 4"

text \<open>The argument of the ioctl as it lies in memory: Go's \<open>int\<close> has 64 bits.\<close>

record randIn =
  ri_count :: u64
  ri_size :: u64
  ri_buf :: u64

definition randIn_bytes :: "randIn \<Rightarrow> byte list" where
  "randIn_bytes r = le_enc 8 (ri_count r) @ le_enc 8 (ri_size r) @ le_enc 8 (ri_buf r)"

definition addEntropy :: "byte list outcome \<Rightarrow> goerr option \<Rightarrow> 'a world_scheme \<Rightarrow> int outcome \<times> 'a world_scheme" where
  "addEntropy rnd ret w =
     (case rnd of
        Ok b \<Rightarrow>
          (let info = \<lparr>ri_count = 64, ri_size = 8, ri_buf = le_dec b\<rparr>;
               w = emit (EvIoctl ''RNDADDENTROPY'' (map uint (randIn_bytes info))) w in
           case ret of None \<Rightarrow> (Ok 8, w) | Some e \<Rightarrow> (Err e, w))
      | _ \<Rightarrow> (Ok 0, w))"

text \<open>One wake-up of \<open>runEntropy\<close>: the number of events and their mask.\<close>

definition runEntropy ::
  "byte list outcome \<Rightarrow> goerr option \<Rightarrow> nat outcome \<Rightarrow> u32 \<Rightarrow> 'a world_scheme \<Rightarrow> 'a world_scheme" where
  "runEntropy rnd ret n events w =
     (case n of
        Ok k \<Rightarrow> if k = 1 \<and> events AND EPOLLOUT = EPOLLOUT then snd (addEntropy rnd ret w) else w
      | _ \<Rightarrow> w)"

definition runRandom :: "sysview \<Rightarrow> epoll \<Rightarrow> machine \<Rightarrow> machine" where
  "runRandom env ep m =
     (let m = (case os_Open ''/dev/random'' m of
                 Ok _ \<Rightarrow> m | _ \<Rightarrow> SystemPanic env ''open /dev/random failed: %s'' m);
          m = (if ep_Create ep \<noteq> None then SystemPanic env ''epoll error: %v'' m else m);
          m = (if ep_Ctl ep \<noteq> None then SystemPanic env ''epoll error: %v'' m else m) in
      emit (EvCall ''runEntropy'' []) m)"

section \<open>Terminals and log levels\<close>

datatype Level = ErrorLevel | WarnLevel | DebugLevel

definition level_of :: "int \<Rightarrow> Level" where
  "level_of i = (if 6 < i then DebugLevel else if 3 < i then WarnLevel else ErrorLevel)"

text \<open>An empty file makes the index panic.\<close>

definition setLoglevel :: "Level \<Rightarrow> 'a world_scheme \<Rightarrow> Level outcome \<times> 'a world_scheme" where
  "setLoglevel lvl w =
     (case ReadFile ''/proc/sys/kernel/printk'' w of
        Ok [] \<Rightarrow> (Panic IndexOutOfRange, w)
      | Ok (c # _) \<Rightarrow>
          (case Atoi [c] of
             Ok i \<Rightarrow> (Ok (level_of i), w)
           | _ \<Rightarrow> (Ok (level_of 1), logAlways ''can not get log level: %v'' w))
      | _ \<Rightarrow> (Ok lvl, logAlways ''can not configure logging: %v'' w))"

definition LogDebugEarly :: "string \<Rightarrow> 'a world_scheme \<Rightarrow> 'a world_scheme" where
  "LogDebugEarly txt w =
     (case OpenFile False False ''/dev/kmsg'' w of
        (Ok q, w) \<Rightarrow>
          (case w_deny w ''write'' ''/dev/kmsg'' of
             None \<Rightarrow> emit (EvWrite ''/dev/kmsg'' (''<7>'' @ txt)) w
           | Some e \<Rightarrow> w)
      | (_, w) \<Rightarrow> w)"

definition printVersion :: "'a world_scheme \<Rightarrow> unit outcome \<times> 'a world_scheme" where
  "printVersion w =
     and_then (ReadFile ''/proc/version'' w, w) (\<lambda>pv w.
     and_then (ReadFile ''/proc/sys/kernel/version'' w, w) (\<lambda>kv w.
     (Ok (), logAlways ''%s (%s)'' w)))"

record ttys =
  tt_tty :: "string option"
  tt_ttyS :: "string option"
  tt_ttyRedir :: "string option"

definition open_tty :: "string \<Rightarrow> string \<Rightarrow> machine \<Rightarrow> string option \<times> machine" where
  "open_tty p fmt m =
     (case OpenFile False False p m of (Ok q, m) \<Rightarrow> (Some p, m) | (_, m) \<Rightarrow> (None, logAlways fmt m))"

definition enableTTYS :: "machine \<Rightarrow> string option \<times> machine" where
  "enableTTYS m = open_tty ''/dev/ttyS0'' ''can not setup ttys: %v'' m"

definition enableTTY :: "machine \<Rightarrow> string option \<times> machine" where
  "enableTTY m = open_tty ''/dev/tty1'' ''can not setup tty: %v'' m"

definition assign_std :: "machine \<Rightarrow> machine" where
  "assign_std m =
     (case OpenFile True True defaultTTY m of
        (Ok q, m) \<Rightarrow> m
      | (_, m) \<Rightarrow> logWarn ''can not assign /dev/vtty to vinitd'' m)"

definition setupVtty :: "StdoutMode \<Rightarrow> ttys \<times> machine \<Rightarrow> ttys \<times> machine" where
  "setupVtty mode tm =
     (let (t, m) = tm;
          (t, m) = (case mode of
             StdoutModeScreenOnly \<Rightarrow> (let (x, m) = enableTTY m in (t\<lparr>tt_tty := x, tt_ttyS := None\<rparr>, m))
           | StdoutModeSerialOnly \<Rightarrow> (let (x, m) = enableTTYS m in (t\<lparr>tt_ttyS := x, tt_tty := None\<rparr>, m))
           | StdoutModeDisabled \<Rightarrow> (t\<lparr>tt_tty := None, tt_ttyS := None\<rparr>, m)
           | _ \<Rightarrow> (let (x, m) = enableTTYS m; (y, m) = enableTTY m in (t\<lparr>tt_ttyS := x, tt_tty := y\<rparr>, m))) in
      (t, assign_std (assign_std m)))"

text \<open>One event of \<open>checkLogs\<close>: what was read from the virtual terminal goes to every open terminal.\<close>

definition tty_list :: "ttys \<Rightarrow> string list" where
  "tty_list t = List.map_filter id [tt_tty t, tt_ttyS t, tt_ttyRedir t]"

definition checkLogs_event :: "ttys \<Rightarrow> string outcome \<Rightarrow> machine \<Rightarrow> machine" where
  "checkLogs_event t rd m =
     (let (txt, m) = (case rd of Ok s \<Rightarrow> (s, m) | _ \<Rightarrow> ([], logError ''epoll error: %v'' m)) in
      fold (\<lambda>p m. emit (EvWrite p txt) m) (tty_list t) m)"

text \<open>
  The initialiser of the package: without the virtual terminal the logger stays \<open>nil\<close>.
\<close>

definition log_init :: "'a world_scheme \<Rightarrow> Level option \<times> 'a world_scheme" where
  "log_init w =
     (case OpenFile False True defaultTTY w of
        (Ok q, w) \<Rightarrow> (Some ErrorLevel, w)
      | (_, w) \<Rightarrow> (None, logAlways ''can not assign /dev/vtty to logger'' w))"

text \<open>
  \<open>checkLogs\<close>: the set-up, whose errors end it, and the rounds of its loop.  A round is a return of \<open>EpollWait\<close>,
  with the terminals open at that time: an error, temporary or not, or the result of a read for every event.
\<close>

datatype wake = WaitError bool | Events "string outcome list"

record logkern =
  lg_SetNonblock :: "goerr option"
  lg_EpollCreate :: "goerr option"
  lg_EpollCtl :: "goerr option"

definition checkLogs_round :: "ttys \<times> wake \<Rightarrow> machine \<Rightarrow> machine" where
  "checkLogs_round r m =
     (case snd r of
        WaitError temporary \<Rightarrow> if temporary then m else logError ''epoll error: %v'' m
      | Events rds \<Rightarrow> fold (checkLogs_event (fst r)) rds m)"

definition checkLogs :: "logkern \<Rightarrow> Level \<Rightarrow> (ttys \<times> wake) list \<Rightarrow> machine \<Rightarrow> Level outcome \<times> machine" where
  "checkLogs lg lvl rounds m =
     and_then (setLoglevel lvl m) (\<lambda>lvl m.
     case os_Open defaultTTY m of
       Ok _ \<Rightarrow>
         if lg_SetNonblock lg \<noteq> None \<or> lg_EpollCreate lg \<noteq> None \<or> lg_EpollCtl lg \<noteq> None
         then (Ok lvl, logAlways ''can not setup logging: %v'' m)
         else (Ok lvl, fold checkLogs_round rounds m)
     | _ \<Rightarrow> (Ok lvl, logAlways ''can not setup logging: %v'' m))"

end
