(* ===== verification/ServicesSpec.thy ===== *)
theory ServicesSpec
  imports Services
begin

text \<open>
  What the services of theory \<open>Services\<close> promise: the upstream servers of the DNS proxy, the NFS
  mounts, the configuration of the time server and the entropy handed to the kernel.
\<close>

section \<open>NFS\<close>

definition is_mount :: "event \<Rightarrow> bool" where
  "is_mount e = (case e of EvMount _ _ _ _ _ \<Rightarrow> True | _ \<Rightarrow> False)"

definition mounts_of :: "'a world_scheme \<Rightarrow> event list" where
  "mounts_of w = filter is_mount (w_trace w)"

lemma mounts_of_emit [simp]: "mounts_of (emit e w) = mounts_of w @ (if is_mount e then [e] else [])"
  by (simp add: mounts_of_def)

lemma mounts_of_log [simp]: "mounts_of (log l f w) = mounts_of w"
  by (simp add: log_def is_mount_def)

lemma mounts_of_fs [simp]: "mounts_of (w\<lparr>w_fs := t\<rparr>) = mounts_of w"
  by (simp add: mounts_of_def)

lemma mkdir1_frame: "mounts_of (snd (mkdir1 cs w)) = mounts_of w \<and> w_deny (snd (mkdir1 cs w)) = w_deny w"
  by (auto simp: mkdir1_def is_mount_def Let_def split: outcome.split node.split option.split)

lemma MkdirAll_frame:
  "mounts_of (snd (MkdirAll p w)) = mounts_of w" "w_deny (snd (MkdirAll p w)) = w_deny w"
proof -
  have "mounts_of (snd (mkdir_prefixes d cs w)) = mounts_of w \<and> w_deny (snd (mkdir_prefixes d cs w)) = w_deny w" for d cs
  proof (induction cs arbitrary: d w)
    case (Cons c cs)
    then show ?case
      using mkdir1_frame [of "d @ [c]" w] by (auto simp: and_then_def split: prod.splits outcome.splits)
  qed simp
  then show "mounts_of (snd (MkdirAll p w)) = mounts_of w" "w_deny (snd (MkdirAll p w)) = w_deny w"
    by (simp_all add: MkdirAll_def)
qed

text \<open>The server's address: the literal one, or the first IPv4 address of the name.\<close>

definition nfs_address :: "(string \<Rightarrow> ip list outcome) \<Rightarrow> string \<Rightarrow> ip" where
  "nfs_address lookup name =
     (if ParseIP name \<noteq> [] then ParseIP name
      else case lookup name of
        Ok ips \<Rightarrow> (case List.find (\<lambda>i. To4 i \<noteq> []) ips of Some i \<Rightarrow> i | None \<Rightarrow> [])
      | _ \<Rightarrow> [])"

text \<open>The mount one entry of the configuration stands for, if any.\<close>

definition nfs_event :: "(string \<Rightarrow> ip list outcome) \<Rightarrow> NFSSettings \<Rightarrow> event option" where
  "nfs_event lookup n =
     (case SplitN (nfs_Server n) '':'' 2 of
        [host, dir] \<Rightarrow>
          (let a = nfs_address lookup host in
           if a = [] then None
           else Some (EvMount ('':'' @ dir) (nfs_MountPoint n) ''nfs'' 0 (nfs_Arguments n @ '',addr='' @ ip_String a)))
      | _ \<Rightarrow> None)"

lemma resolveNFS_result:
  "\<exists>w'. (if ParseIP host = [] then resolveNFS lookup host w else (ParseIP host, w)) = (nfs_address lookup host, w') \<and>
    mounts_of w' = mounts_of w \<and> w_deny w' = w_deny w"
  by (auto simp: resolveNFS_def nfs_address_def Let_def split: outcome.split)

lemma mount_nfs_frame:
  assumes "w_deny w ''mount'' (nfs_MountPoint n) = None"
  shows "w_deny (mount_nfs lookup n w) = w_deny w \<and>
    mounts_of (mount_nfs lookup n w) = mounts_of w @ (case nfs_event lookup n of None \<Rightarrow> [] | Some e \<Rightarrow> [e])"
proof (cases "length (SplitN (nfs_Server n) '':'' 2) = 2")
  case True
  then obtain host dir where s: "SplitN (nfs_Server n) '':'' 2 = [host, dir]"
    by (auto simp: length_Suc_conv numeral_2_eq_2)
  obtain w' where "(if ParseIP host = [] then resolveNFS lookup host w else (ParseIP host, w)) = (nfs_address lookup host, w')"
    "mounts_of w' = mounts_of w" "w_deny w' = w_deny w"
    using resolveNFS_result by metis
  then show ?thesis
    using assms by (auto simp: mount_nfs_def nfs_event_def s Let_def ignoring_def syscall_Mount_def MkdirAll_frame is_mount_def)
next
  case False
  then show ?thesis
    by (auto simp: mount_nfs_def nfs_event_def Let_def split: list.split)
qed

text \<open>
  Every usable NFS entry is mounted, in the order of the configuration.  An entry stands for a
  mount when its server has the form \<^verbatim>\<open>host:path\<close> and the host is an address or resolves to an IPv4
  address; the other entries are skipped and never keep a later one from being mounted.
\<close>

theorem setupNFS_mounts:
  assumes "\<And>n. n \<in> set ns \<Longrightarrow> w_deny w ''mount'' (nfs_MountPoint n) = None"
  shows "mounts_of (setupNFS lookup ns w) = mounts_of w @ List.map_filter (nfs_event lookup) ns"
  using assms
proof (induction ns arbitrary: w)
  case (Cons n ns)
  then show ?case
    using mount_nfs_frame [of w n lookup]
    by (auto simp: setupNFS_def List.map_filter_simps split: option.split)
qed (simp add: setupNFS_def List.map_filter_simps)


definition nfs_sample :: "NFSSettings list" where
  "nfs_sample = [\<lparr>nfs_Server = ''nohost'', nfs_MountPoint = ''/a'', nfs_Arguments = ''ro''\<rparr>,
     \<lparr>nfs_Server = ''s:/d'', nfs_MountPoint = ''/b'', nfs_Arguments = ''rw''\<rparr>]"

theorem setupNFS_mounts_witness:
  "mounts_of (setupNFS (\<lambda>_. Ok [IPv4 1 2 3 4]) nfs_sample (world_of [])) =
     [EvMount '':/d'' ''/b'' ''nfs'' 0 ''rw,addr=1.2.3.4'']"
proof -
  have "List.map_filter (nfs_event (\<lambda>_. Ok [IPv4 1 2 3 4])) nfs_sample =
      [EvMount '':/d'' ''/b'' ''nfs'' 0 ''rw,addr=1.2.3.4'']" by code_simp
  then show ?thesis
    using setupNFS_mounts [of nfs_sample "world_of []" "\<lambda>_. Ok [IPv4 1 2 3 4]"]
    by (simp add: world_of_def mounts_of_def)
qed

section \<open>DNS\<close>

definition is_proxy :: "event \<Rightarrow> bool" where
  "is_proxy e = (case e of EvCall f _ \<Rightarrow> f = ''dnsproxy'' | _ \<Rightarrow> False)"

lemma v_dns_emit [simp]: "v_dns (emit e m) = v_dns m" "v_dns (log l f m) = v_dns m"
  by (simp_all add: emit_def log_def)

text \<open>
  The upstream servers of the local DNS.  On the first start they are the servers DHCP gave, and
  only without those the ones of the configuration that are addresses; no server occurs twice and
  none is lost; the proxy is started on the loopback address with exactly
  this list, unless the list is empty or not accepted.
\<close>

theorem startDNS_upstreams:
  assumes "startDNS de a verbose [] m = ((r, dns), m')"
  defines "given \<equiv> (if v_dns m \<noteq> [] then v_dns m
      else concat (map (config_dns de (hv_envs m)) (sy_DNS (vc_System (vcfg m)))))"
  shows "distinct dns \<and> set dns = ip_String ` set given \<and> dns = map ip_String (v_dns m') \<and>
    filter is_proxy (w_trace m') = filter is_proxy (w_trace m) @
      (if dns \<noteq> [] \<and> de_Parse de dns = None then [EvCall ''dnsproxy'' (''127.0.0.1'' # dns)] else []) \<and>
    (r = Ok () \<longleftrightarrow> dns = [] \<or> de_Parse de dns = None \<and> de_Start de dns = None)"
proof -
  have dns: "dns = map ip_String (uniqueIPs given)" and v: "v_dns m' = uniqueIPs given"
    using assms(1) by (auto simp: startDNS_def Let_def given_def printDNS_def split: if_splits option.splits)
  have "distinct dns" "set dns = ip_String ` set given"
    unfolding dns by (simp_all add: uniqueIPs_def unique_loop_distinct unique_loop_strings)
  then show ?thesis
    using assms(1) dns v
    by (auto simp: startDNS_def Let_def given_def printDNS_def is_proxy_def defaultDNSAddr_def log_def
        split: if_splits option.splits)
qed


definition dns_sample :: dnsenv where
  "dns_sample = \<lparr>de_Parse = (\<lambda>_. None), de_Start = (\<lambda>_. None), de_ord = id\<rparr>"

theorem startDNS_upstreams_witness:
  "snd (fst (startDNS dns_sample [] True [] ((New (world_of []))\<lparr>v_dns := [IPv4 1 2 3 4, [1, 2, 3, 4]]\<rparr>))) = [''1.2.3.4'']"
proof -
  define m where "m = (New (world_of []))\<lparr>v_dns := [IPv4 1 2 3 4, [1, 2, 3, 4]]\<rparr>"
  obtain r dns m' where s: "startDNS dns_sample [] True [] m = ((r, dns), m')"
    by (metis prod.collapse)
  have "ip_String (IPv4 1 2 3 4) = ''1.2.3.4''" "ip_String [1, 2, 3, 4] = ''1.2.3.4''" by code_simp+
  then have "distinct dns" "set dns = {''1.2.3.4''}"
    using startDNS_upstreams [OF s, THEN conjunct1] startDNS_upstreams [OF s, THEN conjunct2, THEN conjunct1]
    by (simp_all add: m_def)
  then have "dns = [''1.2.3.4'']"
    by (cases dns) (auto simp: subset_singleton_iff dest: subset_singletonD)
  then show ?thesis by (simp add: s m_def [symmetric])
qed

section \<open>Time servers\<close>

definition server_line :: "string \<Rightarrow> string" where
  "server_line s = ''server '' @ s @ '' iburst'' @ newline"

lemma add_servers: "fold add_server ntps cfg = concat (map server_line (rev ntps)) @ cfg"
  by (induction ntps arbitrary: cfg) (simp_all add: add_server_def server_line_def)

lemma seen_log: "seen p (log l f w) = seen p w" "seen p (emit e w) = seen p w"
  by (rule seen_cong; simp)+

lemma os_Stat_log: "os_Stat p (log l f w) = os_Stat p w"
  by (simp add: os_Stat_def stat_node_def split: option.split)

lemma world_log:
  "usable p (log l f w) = usable p w" "place p (log l f w) = place p w" "os_Stat p (log l f w) = os_Stat p w"
  "content p (log l f w) = content p w" "content p (emit e w) = content p w"
  using seen_log(1) [of p l f w] seen_log(2) [of p e w] by (simp_all add: seen_def os_Stat_log)

text \<open>
  The configuration of the time server.  An existing file is left as it is; otherwise the file
  has one line per configured server, in reverse order, before the fixed part.  In both cases the
  time server is started last, and without a server and a file nothing is started or written.
\<close>

theorem setupChronyD_config:
  assumes "usable chronydCfgPath w" and "\<not> IsNotExist (os_Stat (path_Dir chronydCfgPath) w)"
    and "setupChronyD None ntps w = (r, w')"
  shows "r = Ok () \<and>
    (if is_ok (os_Stat chronydCfgPath w) then w_fs w' = w_fs w \<and> last (w_trace w') = EvExec ''/vorteil/chronyd'' []
     else if ntps = [] then w_fs w' = w_fs w \<and> w_trace w' = w_trace w @ [EvLog ''debug'' ''ntp servers found: %d'']
     else content chronydCfgPath w' = concat (map server_line (rev ntps)) @ chronydCfgData \<and>
       last (w_trace w') = EvExec ''/vorteil/chronyd'' [])"
proof (cases "is_ok (os_Stat chronydCfgPath w)")
  case True
  then show ?thesis
    using assms(3) by (auto simp: setupChronyD_def world_log startChrony_def)
next
  case False
  let ?w = "logAlways ''ntp servers : %s'' (logDebug ''ntp servers found: %d'' w)"
  have u: "usable chronydCfgPath ?w" using assms(1) by (simp add: world_log)
  have "content chronydCfgPath (put_file (place chronydCfgPath ?w) d ?w) = d" for d
    using seen_put_same [OF u] by (simp add: seen_def)
  then show ?thesis
    using False assms(2,3)
    by (cases "ntps = []")
      (auto simp: setupChronyD_def world_log startChrony_def usable_write [OF u] add_servers Let_def)
qed

text \<open>A machine with a directory for the configuration.\<close>

definition chrony_world :: world where
  "chrony_world = world_of [(''/etc'', Dir)]"

theorem setupChronyD_config_witness:
  "content chronydCfgPath (snd (setupChronyD None [''a'', ''b''] chrony_world)) =
     ''server b iburst'' @ newline @ ''server a iburst'' @ newline @ chronydCfgData"
proof -
  obtain r w' where s: "setupChronyD None [''a'', ''b''] chrony_world = (r, w')" by (metis prod.collapse)
  have f: "usable chronydCfgPath chrony_world" "\<not> IsNotExist (os_Stat (path_Dir chronydCfgPath) chrony_world)"
    "\<not> is_ok (os_Stat chronydCfgPath chrony_world)" by code_simp+
  show ?thesis
    using setupChronyD_config [OF f(1,2) s] f(3) by (simp add: s server_line_def)
qed

section \<open>Entropy\<close>

text \<open>
  The ioctl reads a 32-bit entropy count, a 32-bit size in bytes and then the bytes.  The structure
  the program passes has 64-bit fields, so the kernel finds a credit of 64 bits and a size of zero.
\<close>

theorem addEntropy_adds_no_bytes:
  "\<exists>mem. w_trace (snd (addEntropy (Ok b) ret w)) = w_trace w @ [EvIoctl ''RNDADDENTROPY'' (map uint mem)] \<and>
    (le_dec (sl 0 4 mem) :: u32) = 64 \<and> (le_dec (sl 4 4 mem) :: u32) = 0 \<and> length mem = 24"
proof -
  have c: "le_enc 8 (64 :: u64) = [64, 0, 0, 0, 0, 0, 0, 0]" "(le_dec [64, 0, 0, 0] :: u32) = 64"
    "(le_dec [0, 0, 0, 0] :: u32) = 0" by code_simp+
  show ?thesis
    by (rule exI [of _ "randIn_bytes \<lparr>ri_count = 64, ri_size = 8, ri_buf = le_dec b\<rparr>"])
      (simp add: addEntropy_def Let_def randIn_bytes_def sl_def c del: le_dec.simps split: option.split)
qed

section \<open>The console\<close>

text \<open>What has been written to a terminal, and what one round of \<open>checkLogs\<close> has for it.\<close>

fun text_for :: "string \<Rightarrow> event \<Rightarrow> string" where
  "text_for p (EvWrite q txt) = (if q = p then txt else [])"
| "text_for p _ = []"

definition shown :: "string \<Rightarrow> 'a world_scheme \<Rightarrow> string" where
  "shown p w = concat (map (text_for p) (w_trace w))"

fun read_text :: "string outcome \<Rightarrow> string" where
  "read_text (Ok s) = s"
| "read_text _ = []"

definition delivered :: "string \<Rightarrow> ttys \<times> wake \<Rightarrow> string" where
  "delivered p r =
     (case snd r of
        WaitError _ \<Rightarrow> []
      | Events rds \<Rightarrow> if p \<in> set (tty_list (fst r)) then concat (map read_text rds) else [])"

lemma shown_emit [simp]: "shown p (emit e w) = shown p w @ text_for p e" "shown p (log l f w) = shown p w"
  by (simp_all add: shown_def)

lemma shown_ttys:
  "distinct ps \<Longrightarrow>
     shown p (fold (\<lambda>q m. emit (EvWrite q txt) m) ps m) = shown p m @ (if p \<in> set ps then txt else [])"
  by (induction ps arbitrary: m) auto

lemma shown_event:
  "distinct (tty_list t) \<Longrightarrow>
     shown p (checkLogs_event t rd m) = shown p m @ (if p \<in> set (tty_list t) then read_text rd else [])"
  by (cases rd) (simp_all add: checkLogs_event_def shown_ttys)

lemma shown_events:
  "distinct (tty_list t) \<Longrightarrow>
     shown p (fold (checkLogs_event t) rds m) =
       shown p m @ (if p \<in> set (tty_list t) then concat (map read_text rds) else [])"
  by (induction rds arbitrary: m) (simp_all add: shown_event)

lemma shown_round:
  "distinct (tty_list (fst r)) \<Longrightarrow> shown p (checkLogs_round r m) = shown p m @ delivered p r"
  by (simp add: checkLogs_round_def delivered_def shown_events split: wake.split)

lemma shown_rounds:
  "list_all (\<lambda>r. distinct (tty_list (fst r))) rs \<Longrightarrow>
     shown p (fold checkLogs_round rs m) = shown p m @ concat (map (delivered p) rs)"
  by (induction rs arbitrary: m) (simp_all add: shown_round)

lemma os_Open_log [simp]: "os_Open q (log l f w) = os_Open q w"
  by (simp only: os_Open_def log_fields)

lemma setLoglevel_logs:
  "setLoglevel lvl m = (r, m') \<Longrightarrow> shown p m' = shown p m \<and> os_Open q m' = os_Open q m"
  by (auto simp: setLoglevel_def split: outcome.splits list.splits)


definition console_machine :: machine where
  "console_machine = New (world_of [(''/dev'', Dir), (''/dev/vtty'', File []), (''/proc'', Dir), (''/proc/sys'', Dir),
     (''/proc/sys/kernel'', Dir), (''/proc/sys/kernel/printk'', File ''7'')])"

definition console_rounds :: "(ttys \<times> wake) list" where
  "console_rounds =
     [(\<lparr>tt_tty = Some ''/dev/tty1'', tt_ttyS = Some ''/dev/ttyS0'', tt_ttyRedir = None\<rparr>, Events [Ok ''booting'']),
      (\<lparr>tt_tty = Some ''/dev/tty1'', tt_ttyS = None, tt_ttyRedir = None\<rparr>, Events [Ok '' up'']),
      (\<lparr>tt_tty = None, tt_ttyS = Some ''/dev/ttyS0'', tt_ttyRedir = None\<rparr>, Events [Err EINVAL, Ok '' done''])]"


end
