(* ===== verification/Logging.thy ===== *)
theory Logging
  imports Services
begin

text \<open>
  \<^verbatim>\<open>pkg/vorteil/logging.go\<close>: the configuration of the log forwarder.  The configuration file is a list of
  sections, each with a header and its lines, and is turned into text when it is written.  Directory
  listings, changes of owner and the start of the forwarder are answered by the parameter \<open>logenv\<close>.
\<close>

record logenv =
  lo_ReadDir :: "string \<Rightarrow> fs \<Rightarrow> nat outcome"
  lo_Start :: "goerr option"
  lo_statik :: "string \<Rightarrow> string outcome"
  lo_ordIfcs :: "(string \<times> ifc) list \<Rightarrow> (string \<times> ifc) list"

datatype sec = Sec string "(string \<times> string) list"

definition line_text :: "string \<times> string \<Rightarrow> string" where
  "line_text kv = ''    '' @ fst kv @ '' '' @ snd kv @ newline"

primrec sec_text :: "sec \<Rightarrow> string" where
  "sec_text (Sec h ls) = ''['' @ h @ '']'' @ newline @ concat (map line_text ls)"

definition conf_text :: "sec list \<Rightarrow> string" where
  "conf_text ss = concat (map sec_text ss)"

definition vlogDir :: string where "vlogDir = ''/vlogs''"
definition vlogType :: string where "vlogType = ''vlogfs''"

text \<open>The sections written so far, the keys of \<open>logInputs\<close>, and the machine.\<close>

record logstate =
  ls_secs :: "sec list"
  ls_inputs :: "string list"
  ls_m :: machine

definition add_sec :: "sec \<Rightarrow> logstate \<Rightarrow> logstate" where
  "add_sec x s = s\<lparr>ls_secs := ls_secs s @ [x]\<rparr>"

definition on_machine :: "(machine \<Rightarrow> machine) \<Rightarrow> logstate \<Rightarrow> logstate" where
  "on_machine f s = s\<lparr>ls_m := f (ls_m s)\<rparr>"

section \<open>Outputs\<close>

text \<open>An entry without an equals sign is reported and then indexed out of range.\<close>

fun output_lines :: "gomap \<Rightarrow> string list \<Rightarrow> machine \<Rightarrow> (string \<times> string) list outcome \<times> machine" where
  "output_lines es [] m = (Ok [], m)"
| "output_lines es (l # ls) m =
     (case SplitN l ''='' 2 of
        [k, x] \<Rightarrow>
          (let (x, m) = (if HasPrefix x ''$'' then
                           (case map_of es (tl x) of
                              Some e \<Rightarrow> (e, logDebug ''replacing $%s for %s'' m)
                            | None \<Rightarrow> (x, m))
                         else (x, m)) in
           and_then (output_lines es ls m) (\<lambda>rest m. (Ok ((k, x) # rest), m)))
      | _ \<Rightarrow> (Panic IndexOutOfRange, logError ''can not add logging output for %s'' m))"

definition addLogginOutput :: "Logging \<Rightarrow> string \<Rightarrow> gomap \<Rightarrow> logstate \<Rightarrow> unit outcome \<times> logstate" where
  "addLogginOutput entry match es s =
     (case output_lines es (lg_Config entry) (ls_m s) of
        (Ok ls, m) \<Rightarrow> (Ok (), add_sec (Sec ''OUTPUT'' (ls @ [(''Match_Regex'', match)])) (s\<lparr>ls_m := m\<rparr>))
      | (Err e, m) \<Rightarrow> (Err e, s\<lparr>ls_m := m\<rparr>)
      | (Panic x, m) \<Rightarrow> (Panic x, s\<lparr>ls_m := m\<rparr>))"

section \<open>Inputs\<close>

definition add_input :: "string \<Rightarrow> sec \<Rightarrow> logstate \<Rightarrow> logstate" where
  "add_input name x s =
     (if name \<in> set (ls_inputs s) then s else add_sec x (s\<lparr>ls_inputs := name # ls_inputs s\<rparr>))"

definition system_input :: "string \<Rightarrow> sec" where
  "system_input name = Sec ''INPUT'' [(''Name'', name), (''Tag'', ''vsystem-'' @ name)]"

definition netif_input :: "string \<times> ifc \<Rightarrow> sec" where
  "netif_input ki = Sec ''INPUT'' [(''Name'', ''netif''), (''Interface'', ifc_name (snd ki)),
     (''Tag'', ''vsystem-'' @ ifc_name (snd ki))]"

definition addSystemLogging :: "(string \<times> ifc) list \<Rightarrow> logstate \<Rightarrow> logstate" where
  "addSystemLogging is s =
     (let s = fold (\<lambda>n. add_input n (system_input n)) [''cpu'', ''disk'', ''mem'', ''vdisk''] s in
      fold (\<lambda>ki. add_sec (netif_input ki)) is s)"

definition addKernelLogging :: "logstate \<Rightarrow> logstate" where
  "addKernelLogging s =
     add_input ''kmsg'' (Sec ''INPUT'' [(''Name'', ''kmsg''), (''Tag'', ''vkernel'')]) s"

definition addStdoutLogging :: "logstate \<Rightarrow> logstate" where
  "addStdoutLogging s =
     add_input ''tail'' (Sec ''INPUT'' [(''Name'', ''tail''), (''Refresh_Interval'', ''10''),
       (''Path'', vlogDir @ ''/stdout''), (''Path_Key'', ''filename''), (''Skip_Long_Lines'', ''On''),
       (''Tag'', ''vstdout'')]) s"

definition prog_input :: "string \<Rightarrow> sec" where
  "prog_input l = Sec ''INPUT'' [(''Name'', ''tail''), (''Path'', l), (''Path_Key'', ''filename''),
     (''Skip_Long_Lines'', ''On''), (''Tag'', ''vprog'')]"

definition os_Mkdir :: "string \<Rightarrow> 'a world_scheme \<Rightarrow> unit outcome \<times> 'a world_scheme" where
  "os_Mkdir p w =
     (case w_deny w ''mkdir'' p of
        Some e \<Rightarrow> (Err e, w)
      | None \<Rightarrow>
          (case resolve (w_fs w) False p of
             Ok (q, None) \<Rightarrow> (Ok (), emit (EvMkdir p) (w\<lparr>w_fs := (w_fs w)(q \<mapsto> Dir)\<rparr>))
           | Ok (q, Some _) \<Rightarrow> (Err (Errno ''EEXIST''), w)
           | Err e \<Rightarrow> (Err e, w)
           | Panic x \<Rightarrow> (Panic x, w)))"

definition mount_vlogs :: "sysview \<Rightarrow> machine \<Rightarrow> machine" where
  "mount_vlogs env m = ignoring (mountFs env vlogDir vlogType [] (ignoring (os_Mkdir vlogDir m)))"

definition add_log_file :: "sysview \<Rightarrow> logenv \<Rightarrow> string \<Rightarrow> logstate \<Rightarrow> logstate" where
  "add_log_file env lo l s =
     (let dir = path_Dir l;
          m = ignoring (os_Mkdir dir (logDebug ''creating logging dir %v'' (ls_m s))) in
      case lo_ReadDir lo dir (w_fs m) of
        Ok n \<Rightarrow>
          (let m = (if 0 < n then logWarn ''logging directory not empty, using real directory'' m
                    else ignoring (mountFs env dir vlogType [] (logDebug ''mounting %s as log dir'' m)));
               m = emit (EvCall ''chown'' [dir, nat_str userID, nat_str userID]) m in
           add_sec (prog_input l) (s\<lparr>ls_m := m\<rparr>))
      | _ \<Rightarrow> s\<lparr>ls_m := logError ''can not read directory for logging: %s'' m\<rparr>)"

definition addProgLogging :: "sysview \<Rightarrow> logenv \<Rightarrow> program list \<Rightarrow> logstate \<Rightarrow> logstate" where
  "addProgLogging env lo ps s =
     fold (add_log_file env lo) (concat (map (\<lambda>a. vp_LogFiles (pr_vcfgProg a)) ps)) (on_machine (mount_vlogs env) s)"

section \<open>The forwarder\<close>

text \<open>The redirection of the output; whether the redirected terminal could be opened is not kept here.\<close>

definition redir :: "sysview \<Rightarrow> machine \<Rightarrow> machine" where
  "redir env m =
     (let m = mount_vlogs env m;
          m = snd (OpenFile True False ''/vlogs/stdout'' m) in
      case OpenFile False False ''/vlogs/stdout'' m of
        (Ok q, m) \<Rightarrow> m
      | (_, m) \<Rightarrow> logError ''can not enable ttyRedir: %v'' m)"

definition log_entry :: "sysview \<Rightarrow> logenv \<Rightarrow> Logging \<Rightarrow> logstate \<Rightarrow> unit outcome \<times> logstate" where
  "log_entry env lo l s =
     (let s = on_machine (logDebug ''logging type: %s'') s; t = lg_Type l;
          is = lo_ordIfcs lo (ifcs (ls_m s)); es = hv_envs (ls_m s); ps = programs (ls_m s) in
      if t = ''system'' then addLogginOutput l ''vsystem-*'' es (addSystemLogging is s)
      else if t = ''kernel'' then addLogginOutput l ''vkernel'' es (addKernelLogging s)
      else if t = ''stdout'' then
        and_then (addLogginOutput l ''vstdout'' es (addStdoutLogging s)) (\<lambda>_ s. (Ok (), on_machine (redir env) s))
      else if t = ''programs'' then addLogginOutput l ''vprog'' es (addProgLogging env lo ps s)
      else
        and_then (addLogginOutput l t es
            (addProgLogging env lo ps (addStdoutLogging (addKernelLogging (addSystemLogging is s)))))
          (\<lambda>_ s. (Ok (), on_machine (redir env) s)))"

fun log_entries :: "sysview \<Rightarrow> logenv \<Rightarrow> Logging list \<Rightarrow> logstate \<Rightarrow> unit outcome \<times> logstate" where
  "log_entries env lo [] s = (Ok (), s)"
| "log_entries env lo (l # ls) s = and_then (log_entry env lo l s) (\<lambda>_ s. log_entries env lo ls s)"

definition service_sec :: sec where
  "service_sec = Sec ''SERVICE'' [(''Flush'', ''10''), (''Daemon'', ''off''), (''Log_Level'', ''error''),
     (''Parsers_File '', ''/etc/parsers.conf'')]"

definition hostname_filter :: sec where
  "hostname_filter = Sec ''FILTER'' [(''Name'', ''record_modifier''), (''Match'', ''*''),
     (''Record'', ''hostname ${HOSTNAME}'')]"

definition instance_filter :: "string \<Rightarrow> sec" where
  "instance_filter iid = Sec ''FILTER'' [(''Name'', ''record_modifier''), (''Match'', ''*''),
     (''Record '', ''ec2_instance_id '' @ iid)]"

definition add_filters :: "logstate \<Rightarrow> logstate" where
  "add_filters s =
     (let s = add_sec hostname_filter s in
      if hv_cloud (ls_m s) = cpEC2 then
        (case map_of (hv_envs (ls_m s)) envInstanceID of
           Some iid \<Rightarrow> add_sec (instance_filter iid) s
         | None \<Rightarrow> s)
      else s)"

definition start_forwarder :: "logenv \<Rightarrow> sec list \<Rightarrow> machine \<Rightarrow> machine" where
  "start_forwarder lo secs m =
     (case WriteFile ''/etc/fb.cfg'' (conf_text secs) m of
        (Ok _, m) \<Rightarrow>
          (let m = logDebug ''logging conf: %s'' m in
           case OpenFile False False ''/dev/vtty'' m of
             (Ok q, m) \<Rightarrow>
               (case OpenFile False False ''/dev/vtty'' m of
                  (Ok q, m) \<Rightarrow>
                    (case lo_Start lo of
                       None \<Rightarrow> emit (EvExec ''/vorteil/fluent-bit'' [''--config=/etc/fb.cfg'', ''--quiet'',
                                 ''--plugin=/vorteil/flb-in_vdisk.so'']) m
                     | Some e \<Rightarrow> logError ''%s'' m)
                | (_, m) \<Rightarrow> logError ''can not create fluentbit stdout: %s'' m)
           | (_, m) \<Rightarrow> logError ''can not create fluentbit stderr: %s'' m)
      | (_, m) \<Rightarrow> logError ''can not create fluent-bit config file: %s'' m)"

definition startLogging :: "sysview \<Rightarrow> logenv \<Rightarrow> machine \<Rightarrow> unit outcome \<times> machine" where
  "startLogging env lo m =
     (let m = ignoring (writeEtcFile (lo_statik lo) ''parsers.conf'' (PathJoin [''/etc'', ''parsers.conf'']) m);
          s = \<lparr>ls_secs = [service_sec], ls_inputs = [], ls_m = m\<rparr> in
      case log_entries env lo (vc_Logging (vcfg m)) s of
        (Ok _, s) \<Rightarrow> (let s = add_filters s in (Ok (), start_forwarder lo (ls_secs s) (ls_m s)))
      | (Err e, s) \<Rightarrow> (Err e, ls_m s)
      | (Panic x, s) \<Rightarrow> (Panic x, ls_m s))"


section \<open>Inputs are added once\<close>

primrec is_input :: "string \<Rightarrow> sec \<Rightarrow> bool" where
  "is_input name (Sec h ls) = (h = ''INPUT'' \<and> (''Name'', name) \<in> set ls)"

definition inputs_of :: "string \<Rightarrow> logstate \<Rightarrow> nat" where
  "inputs_of name s = length (filter (is_input name) (ls_secs s))"

text \<open>The inputs \<open>logInputs\<close> guards and that have no other use of their name.\<close>

definition guarded :: "string list" where
  "guarded = [''cpu'', ''disk'', ''mem'', ''vdisk'', ''kmsg'']"

definition once_each :: "logstate \<Rightarrow> bool" where
  "once_each s \<longleftrightarrow> (\<forall>n \<in> set guarded. inputs_of n s = (if n \<in> set (ls_inputs s) then 1 else 0))"

lemma once_each_machine [simp]: "once_each (s\<lparr>ls_m := m\<rparr>) = once_each s" "once_each (on_machine f s) = once_each s"
  by (simp_all add: once_each_def inputs_of_def on_machine_def)

lemma once_each_sec:
  "once_each s \<Longrightarrow> (\<And>n. n \<in> set guarded \<Longrightarrow> \<not> is_input n x) \<Longrightarrow> once_each (add_sec x s)"
  by (simp add: once_each_def inputs_of_def add_sec_def)

lemma once_each_input:
  assumes "once_each s" and "\<And>n. n \<in> set guarded \<Longrightarrow> is_input n x \<longleftrightarrow> n = name"
  shows "once_each (add_input name x s)"
  using assms by (auto simp: once_each_def inputs_of_def add_input_def add_sec_def)

lemma guarded_cases: "n \<in> set guarded \<longleftrightarrow> n = ''cpu'' \<or> n = ''disk'' \<or> n = ''mem'' \<or> n = ''vdisk'' \<or> n = ''kmsg''"
  by (simp add: guarded_def)

lemma once_each_fold:
  "once_each s \<Longrightarrow> (\<And>x s. x \<in> set xs \<Longrightarrow> once_each s \<Longrightarrow> once_each (f x s)) \<Longrightarrow> once_each (fold f xs s)"
  by (induction xs arbitrary: s) simp_all

lemma once_each_system: "once_each s \<Longrightarrow> once_each (addSystemLogging is s)"
  unfolding addSystemLogging_def Let_def
  by (intro once_each_fold once_each_input once_each_sec) (auto simp: system_input_def netif_input_def guarded_cases)

lemma once_each_kernel: "once_each s \<Longrightarrow> once_each (addKernelLogging s)"
  unfolding addKernelLogging_def by (rule once_each_input) (auto simp: guarded_cases)

lemma once_each_stdout: "once_each s \<Longrightarrow> once_each (addStdoutLogging s)"
  unfolding addStdoutLogging_def by (rule once_each_input) (auto simp: guarded_cases vlogDir_def)

lemma once_each_file: "once_each s \<Longrightarrow> once_each (add_log_file env lo l s)"
  by (auto simp: add_log_file_def Let_def prog_input_def guarded_cases split: outcome.splits intro!: once_each_sec)

lemma once_each_prog: "once_each s \<Longrightarrow> once_each (addProgLogging env lo ps s)"
  unfolding addProgLogging_def by (rule once_each_fold) (simp_all add: once_each_file)

lemma once_each_output: "once_each s \<Longrightarrow> once_each (snd (addLogginOutput l match es s))"
  by (auto simp: addLogginOutput_def split: prod.splits outcome.splits intro!: once_each_sec)

lemmas once_each_rules = once_each_system once_each_kernel once_each_stdout once_each_prog once_each_output

lemma once_each_then:
  "once_each (snd r) \<Longrightarrow> (\<And>x s. once_each s \<Longrightarrow> once_each (snd (k x s))) \<Longrightarrow> once_each (snd (and_then r k))"
  by (auto simp: and_then_def split: prod.splits outcome.splits)

lemma once_each_entry: "once_each s \<Longrightarrow> once_each (snd (log_entry env lo l s))"
  by (auto simp: log_entry_def Let_def intro!: once_each_rules once_each_then)

lemma once_each_entries: "once_each s \<Longrightarrow> once_each (snd (log_entries env lo ls s))"
  by (induction ls arbitrary: s) (auto intro: once_each_then once_each_entry)

section \<open>Properties\<close>

text \<open>
  The forwarder's inputs are declared once.  However many logging entries the configuration has, of
  whatever types and in whatever order, the configuration built from them holds at most one input
  section for each of the inputs cpu, disk, mem, vdisk and kmsg, and the section is there exactly when
  the input was recorded.
\<close>

theorem log_inputs_once:
  "\<forall>n \<in> set guarded.
     let s = snd (log_entries env lo ls \<lparr>ls_secs = [service_sec], ls_inputs = [], ls_m = m\<rparr>) in
     inputs_of n s = (if n \<in> set (ls_inputs s) then 1 else 0)"
proof -
  have "once_each \<lparr>ls_secs = [service_sec], ls_inputs = [], ls_m = m\<rparr>"
    by (simp add: once_each_def inputs_of_def service_sec_def)
  from once_each_entries [OF this] show ?thesis by (simp add: once_each_def Let_def)
qed


definition plain_lo :: logenv where
  "plain_lo = \<lparr>lo_ReadDir = (\<lambda>_ _. Ok 0), lo_Start = None, lo_statik = (\<lambda>_. Err ErrNotExist), lo_ordIfcs = id\<rparr>"

definition system_entry :: Logging where
  "system_entry = \<lparr>lg_Type = ''system'', lg_Config = []\<rparr>"

theorem log_inputs_once_witness:
  "let s = snd (log_entries \<lparr>sv_ps = Ok [], sv_exit_at = (\<lambda>_. None)\<rparr> plain_lo [system_entry, system_entry]
     \<lparr>ls_secs = [service_sec], ls_inputs = [], ls_m = New (world_of [])\<rparr>) in
   ''cpu'' \<in> set (ls_inputs s) \<and> inputs_of ''cpu'' s = 1 \<and> inputs_of ''kmsg'' s = 0"
proof -
  let ?s = "snd (log_entries \<lparr>sv_ps = Ok [], sv_exit_at = (\<lambda>_. None)\<rparr> plain_lo [system_entry, system_entry]
     \<lparr>ls_secs = [service_sec], ls_inputs = [], ls_m = New (world_of [])\<rparr>)"
  have i: "ls_inputs ?s = [''vdisk'', ''mem'', ''disk'', ''cpu'']"
    by (simp add: log_entry_def Let_def system_entry_def addLogginOutput_def addSystemLogging_def add_input_def
      add_sec_def on_machine_def New_def plain_lo_def)
  show ?thesis
    using log_inputs_once [of "\<lparr>sv_ps = Ok [], sv_exit_at = (\<lambda>_. None)\<rparr>" plain_lo "[system_entry, system_entry]"
        "New (world_of [])"] i
    by (simp add: guarded_def Let_def)
qed

end
