(* ===== verification/WatchSpec.thy ===== *)
theory WatchSpec
  imports ShutdownSpec
begin

text \<open>
  The process connector from end to end: the subscription, the datagrams of the kernel, and when they
  switch the machine off.
\<close>

section \<open>Datagrams\<close>

lemma runs_log [simp]: "something_runs env (log l f m) = something_runs env m"
  by (simp add: something_runs_def)

lemma handleExit_running: "something_runs env m \<Longrightarrow> handleExit env m = m"
  by (simp add: handleExit_eq)

lemma handleExit_off: "\<not> something_runs env m \<Longrightarrow> initStatus (handleExit env m) = statusPoweroff"
  using core_wind_down by (simp add: handleExit_eq shutdown_eq core_def)

lemma handleExit_stays_off: "initStatus m = statusPoweroff \<Longrightarrow> handleExit env m = m"
  by (simp add: handleExit_eq shutdown_eq)

lemma parse_stays_off:
  "initStatus m = statusPoweroff \<Longrightarrow> initStatus (fold (parseNetlinkMessage env) ms m) = statusPoweroff"
  by (induction ms arbitrary: m) (simp_all add: parseNetlinkMessage_def handleExit_stays_off)

lemma parse_off_iff:
  "initStatus m \<noteq> statusPoweroff \<Longrightarrow>
     (initStatus (fold (parseNetlinkMessage env) ms m) = statusPoweroff) =
       (list_ex is_exit_message ms \<and> \<not> something_runs env m) \<and>
     (initStatus (fold (parseNetlinkMessage env) ms m) \<noteq> statusPoweroff \<longrightarrow>
       programs (fold (parseNetlinkMessage env) ms m) = programs m)"
proof (induction ms arbitrary: m)
  case (Cons x ms)
  show ?case
  proof (cases "is_exit_message x")
    case False
    with Cons show ?thesis by (simp add: parseNetlinkMessage_def)
  next
    case True
    note exit = True
    show ?thesis
    proof (cases "something_runs env m")
      case True
      then show ?thesis
        using exit Cons.IH [of "logDebug ''remove application %d'' m"] Cons.prems
        by (simp add: parseNetlinkMessage_def handleExit_running)
    next
      case False
      then have "initStatus (parseNetlinkMessage env x m) = statusPoweroff"
        using exit by (simp add: parseNetlinkMessage_def handleExit_off)
      with exit False parse_stays_off show ?thesis by simp
    qed
  qed
qed simp

text \<open>A datagram as the kernel sends it.\<close>

definition kernel_datagram :: "sysview \<times> NetlinkMessage list \<Rightarrow> sysview \<times> byte list \<times> u32 option \<times> goerr option" where
  "kernel_datagram d = (fst d, concat (map frame (snd d)), Some 0, None)"

definition framed :: "NetlinkMessage list \<Rightarrow> bool" where
  "framed ms \<longleftrightarrow> ms \<noteq> [] \<and> list_all msg_wf ms"

lemma round_parses:
  "framed (snd d) \<Longrightarrow>
     (\<lambda>(env, p, from, err). listen_round env p from err) (kernel_datagram d) m =
       fold (parseNetlinkMessage (fst d)) (snd d) m"
  by (simp add: kernel_datagram_def framed_def listen_round_def recv_frames)

definition switches_off :: "machine \<Rightarrow> sysview \<times> NetlinkMessage list \<Rightarrow> bool" where
  "switches_off m d \<longleftrightarrow> list_ex is_exit_message (snd d) \<and> \<not> something_runs (fst d) m"

lemma rounds_off_iff:
  assumes "list_all (framed \<circ> snd) ds" and "initStatus m \<noteq> statusPoweroff"
  shows "(initStatus (fold (\<lambda>(env, p, from, err). listen_round env p from err) (map kernel_datagram ds) m) =
      statusPoweroff) = list_ex (switches_off m) ds"
  using assms
proof (induction ds arbitrary: m)
  case (Cons d ds)
  let ?round = "\<lambda>(env, p, from, err). listen_round env p from err"
  let ?m = "fold (parseNetlinkMessage (fst d)) (snd d) m"
  have step: "?round (kernel_datagram d) m = ?m" using Cons.prems by (intro round_parses) simp
  have off: "initStatus (fold ?round (map kernel_datagram ds) n) = statusPoweroff"
    if "initStatus n = statusPoweroff" "list_all (framed \<circ> snd) ds" for n ds
    using that
  proof (induction ds arbitrary: n)
    case (Cons e ds)
    then show ?case using round_parses [of e n] by (simp add: parse_stays_off)
  qed simp
  show ?case
  proof (cases "initStatus ?m = statusPoweroff")
    case True
    then have "switches_off m d" using parse_off_iff [OF Cons.prems(2)] by (simp add: switches_off_def)
    with True off [of ?m ds] Cons.prems(1) show ?thesis by (simp add: step comp_def)
  next
    case False
    then have "\<not> switches_off m d" "programs ?m = programs m"
      using parse_off_iff [OF Cons.prems(2), of "fst d" "snd d"] by (auto simp: switches_off_def)
    moreover from this(2) have "switches_off ?m = switches_off m" by (simp add: fun_eq_iff switches_off_def something_runs_def)
    ultimately show ?thesis using Cons.IH [OF _ False] Cons.prems(1) by (simp add: step)
  qed
qed simp

section \<open>Properties\<close>



end
