(* ===== verification/Uptime.thy ===== *)
theory Uptime
  imports OsModel
begin

text \<open>
  \<open>uptime\<close> of \<^verbatim>\<open>utils.go\<close> and \<open>UptimeForTools\<close> of \<^verbatim>\<open>chelper.go\<close>, with what they use of \<^verbatim>\<open>strconv\<close> and \<^verbatim>\<open>fmt\<close>.  A
  floating-point number is its mantissa and its exponent; parsing and printing round to
  the nearest, and to the even one of two.  \<open>ParseFloat\<close> is modelled for decimal fractions without sign and exponent, the
  only notation the kernel uses in \<^verbatim>\<open>/proc/uptime\<close>; for any other text its answer is the parameter \<open>pf\<close>, which may also be
  a negative or infinite number, \<open>Special\<close>, known by what the verb \<^verbatim>\<open>%f\<close> prints for it.
\<close>

section \<open>Floating-point numbers\<close>

datatype f64 = F64 nat int | Special string

definition round_even :: "nat \<Rightarrow> nat \<Rightarrow> nat" where
  "round_even n d =
     (let q = n div d; r = n mod d in if 2 * r < d \<or> 2 * r = d \<and> even q then q else Suc q)"

text \<open>\<open>n / d * 2 ^ t\<close> as a fraction.\<close>

definition scaled :: "nat \<Rightarrow> nat \<Rightarrow> int \<Rightarrow> nat \<times> nat" where
  "scaled n d t = (if 0 \<le> t then (n * 2 ^ nat t, d) else (n, d * 2 ^ nat (- t)))"

text \<open>The number of binary digits.\<close>

fun bits :: "nat \<Rightarrow> nat" where
  "bits n = (if n = 0 then 0 else Suc (bits (n div 2)))"

declare bits.simps [simp del]

text \<open>The exponent that leaves a mantissa of 53 bits, and the nearest number; \<open>None\<close> when it is out of range.\<close>

definition exponent :: "nat \<Rightarrow> nat \<Rightarrow> int" where
  "exponent n d =
     (let e = int (bits n) - int (bits d) - 53; (a, b) = scaled n d (- e) in
      max (- 1074) (if 2 ^ 53 \<le> a div b then e + 1 else e))"

definition nearest :: "nat \<Rightarrow> nat \<Rightarrow> f64 option" where
  "nearest n d =
     (if n = 0 then Some (F64 0 0)
      else
        let e = exponent n d; (a, b) = scaled n d (- e); m = round_even a b in
        if 0 \<le> e \<and> 2 ^ 1024 \<le> m * 2 ^ nat e then None else Some (F64 m e))"

section \<open>Parsing and printing\<close>

definition decimal :: "string \<Rightarrow> (nat \<times> nat) option" where
  "decimal s =
     (let a = takeWhile is_digit s in
      case dropWhile is_digit s of
        [] \<Rightarrow> if a = [] then None else Some (nat (digits_val a), 1)
      | c # b \<Rightarrow>
          if c = CHR ''.'' \<and> list_all is_digit b \<and> a @ b \<noteq> []
          then Some (nat (digits_val (a @ b)), 10 ^ length b) else None)"

definition ParseFloat :: "(string \<Rightarrow> f64 option) \<Rightarrow> string \<Rightarrow> f64 option" where
  "ParseFloat pf s = (case decimal s of Some (n, d) \<Rightarrow> nearest n d | None \<Rightarrow> pf s)"

text \<open>The verb \<^verbatim>\<open>%f\<close>: six digits after the point.\<close>

definition Sprintf_f :: "f64 \<Rightarrow> string" where
  "Sprintf_f x =
     (case x of
        Special s \<Rightarrow> s
      | F64 m e \<Rightarrow>
        let (a, b) = scaled (m * 10 ^ 6) 1 e; v = round_even a b; s = nat_str (v mod 10 ^ 6) in
        nat_str (v div 10 ^ 6) @ ''.'' @ replicate (6 - length s) CHR ''0'' @ s)"

text \<open>\<open>Sscanf\<close> with the format \<^verbatim>\<open>%d.%d\<close> into two 64-bit numbers that are zero.\<close>

definition scan_uint :: "string \<Rightarrow> nat option" where
  "scan_uint ds = (if ds = [] \<or> 2 ^ 64 \<le> digits_val ds then None else Some (nat (digits_val ds)))"

definition Sscanf_d_d :: "string \<Rightarrow> nat \<times> nat" where
  "Sscanf_d_d s =
     (case scan_uint (takeWhile is_digit s) of
        None \<Rightarrow> (0, 0)
      | Some d1 \<Rightarrow>
          (case dropWhile is_digit s of
             c # r \<Rightarrow>
               if c = CHR ''.'' then (d1, case scan_uint (takeWhile is_digit r) of None \<Rightarrow> 0 | Some d2 \<Rightarrow> d2)
               else (d1, 0)
           | [] \<Rightarrow> (d1, 0)))"

section \<open>The uptime\<close>

definition procFile :: string where "procFile = ''/proc/uptime''"

definition uptime :: "(string \<Rightarrow> f64 option) \<Rightarrow> 'a world_scheme \<Rightarrow> f64" where
  "uptime pf w =
     (case ReadFile procFile w of
        Ok up \<Rightarrow> (case ParseFloat pf (SplitN up '' '' 2 ! 0) of Some f \<Rightarrow> f | None \<Rightarrow> F64 0 0)
      | _ \<Rightarrow> F64 0 0)"

definition UptimeForTools :: "(string \<Rightarrow> f64 option) \<Rightarrow> 'a world_scheme \<Rightarrow> int" where
  "UptimeForTools pf w =
     (let (d1, d2) = Sscanf_d_d (Sprintf_f (uptime pf w)) in
      sint (ucast (of_nat d1 * 100 + of_nat d2 :: u64) :: u32))"

section \<open>Rounding\<close>

lemma round_even_error:
  assumes "0 < d"
  shows "2 * (round_even n d * d) \<le> 2 * n + d" "2 * n \<le> 2 * (round_even n d * d) + d"
proof -
  have n: "n = n div d * d + n mod d" by simp
  have "n mod d < d" using assms by simp
  then show "2 * (round_even n d * d) \<le> 2 * n + d" "2 * n \<le> 2 * (round_even n d * d) + d"
    using n unfolding round_even_def Let_def by (cases "2 * (n mod d) < d \<or> 2 * (n mod d) = d \<and> even (n div d)"; simp; linarith)+
qed

lemma round_even_unique:
  assumes "2 * n < 2 * (q * d) + d" and "2 * (q * d) < 2 * n + d"
  shows "round_even n d = q"
proof -
  define p where "p = round_even n d"
  have d: "0 < d" using assms by linarith
  note e = round_even_error [OF d, of n, folded p_def]
  have "p * d < q * d + d" "q * d < p * d + d" using e assms by linarith+
  then have "p * d < Suc q * d" "q * d < Suc p * d" by simp_all
  then have "p < Suc q" "q < Suc p" using d by (simp_all only: mult_less_cancel2)
  then show ?thesis by (simp add: p_def)
qed

lemma bits_bound: "n < 2 ^ k \<Longrightarrow> bits n \<le> k"
proof (induction n arbitrary: k rule: bits.induct)
  case (1 n)
  show ?case
  proof (cases "n = 0")
    case True
    then show ?thesis by (simp add: bits.simps)
  next
    case False
    with 1(2) obtain j where j: "k = Suc j" by (cases k) auto
    with 1(2) have "n div 2 < 2 ^ j" by auto
    from 1(1) [OF False this] show ?thesis using False j by (subst bits.simps) simp
  qed
qed

text \<open>
  A number of hundredths below 2 to the 30 seconds: the nearest floating-point number is so near that six
  digits after the point print it exactly.
\<close>

lemma print_nearest:
  assumes "n < 2 ^ 37" and "n \<noteq> 0"
  obtains m t where "nearest n 100 = Some (F64 m (- int t))" and "22 \<le> t" and
    "round_even (m * 10 ^ 6) (2 ^ t) = n * 10 ^ 4"
proof -
  define t where "t = nat (- exponent n 100)"
  have "bits 100 = 7" by (simp add: bits.simps)
  moreover have "bits n \<le> 37" using assms(1) by (rule bits_bound)
  ultimately have e: "exponent n 100 = - int t" "22 \<le> t"
    by (auto simp: t_def exponent_def Let_def case_prod_beta)
  define m where "m = round_even (n * 2 ^ t) 100"
  have "nearest n 100 = Some (F64 m (- int t))"
    using assms(2) e by (simp add: nearest_def scaled_def m_def)
  moreover have "round_even (m * 10 ^ 6) (2 ^ t) = n * 10 ^ 4"
  proof (rule round_even_unique)
    have "(2 :: nat) ^ 22 \<le> 2 ^ t" using e(2) by (intro power_increasing) simp_all
    then have t: "1000000 < (2 :: nat) ^ t" by simp
    have "2 * (m * 100) \<le> 2 * (n * 2 ^ t) + 100" "2 * (n * 2 ^ t) \<le> 2 * (m * 100) + 100"
      using round_even_error [of 100 "n * 2 ^ t"] by (simp_all add: m_def)
    then show "2 * (m * 10 ^ 6) < 2 * (n * 10 ^ 4 * 2 ^ t) + 2 ^ t" "2 * (n * 10 ^ 4 * 2 ^ t) < 2 * (m * 10 ^ 6) + 2 ^ t"
      using t by simp_all
  qed
  ultimately show ?thesis using that e(2) by blast
qed

section \<open>Digits\<close>

lemma is_digit_char: "n < 10 \<Longrightarrow> is_digit (digit_char n)"
  by (simp add: is_digit_def digit_char_def)

lemma nat_str_digits: "list_all is_digit (nat_str n)" "nat_str n \<noteq> []"
proof -
  show "list_all is_digit (nat_str n)"
  proof (induction n rule: nat_str.induct)
    case (1 n)
    then show ?case by (subst nat_str.simps) (simp add: is_digit_char)
  qed
  show "nat_str n \<noteq> []" by (subst nat_str.simps) simp
qed

lemma digits_val_append: "digits_val (a @ b) = digits_val a * 10 ^ length b + digits_val b"
proof -
  have f: "foldl (\<lambda>a c. a * 10 + (of_char c - 48)) x b = x * 10 ^ length b + digits_val b" for x :: int and b
    by (induction b rule: rev_induct) (simp_all add: digits_val_def algebra_simps)
  have "digits_val (a @ b) = foldl (\<lambda>a c. a * 10 + (of_char c - 48)) (digits_val a) b"
    by (simp add: digits_val_def)
  then show ?thesis by (simp only: f)
qed

lemma digits_val_zeros: "digits_val (replicate k CHR ''0'') = 0"
proof (induction k)
  case (Suc k)
  have "replicate (Suc k) CHR ''0'' = replicate k CHR ''0'' @ ''0''" by (simp add: replicate_append_same)
  moreover have "digits_val ''0'' = 0" by (simp add: digits_val_def)
  ultimately show ?case using Suc by (simp only: digits_val_append)
qed (simp add: digits_val_def)

text \<open>A number below one hundred with two digits, as the kernel prints the hundredths.\<close>

definition hundredths :: "nat \<Rightarrow> string" where
  "hundredths c = [digit_char (c div 10), digit_char (c mod 10)]"

lemma hundredths_digits: "c < 100 \<Longrightarrow> list_all is_digit (hundredths c)"
  by (auto simp: hundredths_def intro!: is_digit_char)

lemma hundredths_val:
  assumes "c < 100"
  shows "digits_val (hundredths c) = int c"
proof -
  have "digits_val (hundredths c) = int (c div 10) * 10 + int (c mod 10)"
    using assms by (simp add: hundredths_def digits_val_def of_digit_char del: of_nat_mod of_nat_div)
  also have "\<dots> = int (c div 10 * 10 + c mod 10)" by (simp only: of_nat_add of_nat_mult of_nat_numeral)
  finally show ?thesis by (simp only: div_mult_mod_eq)
qed

lemma point_no_digit: "\<not> is_digit CHR ''.''" "\<not> is_digit CHR '' ''"
  by (simp_all add: is_digit_def)

lemma take_digits:
  assumes "list_all is_digit a"
  shows "takeWhile is_digit (a @ CHR ''.'' # b) = a" "dropWhile is_digit (a @ CHR ''.'' # b) = CHR ''.'' # b"
    "takeWhile is_digit a = a"
  using assms point_no_digit by (simp_all add: list_all_iff takeWhile_append dropWhile_append takeWhile_eq_all_conv)

lemma decimal_hundredths:
  assumes "c < 100"
  shows "decimal (nat_str s @ ''.'' @ hundredths c) = Some (s * 100 + c, 100)"
proof -
  have "digits_val (nat_str s @ hundredths c) = int (s * 100 + c)"
    using assms by (simp add: digits_val_append digits_val_nat_str hundredths_val) (simp add: hundredths_def)
  moreover have "length (hundredths c) = 2" by (simp add: hundredths_def)
  ultimately show ?thesis
    using take_digits(1,2) [OF nat_str_digits(1) [of s], of "hundredths c"] hundredths_digits [OF assms] nat_str_digits(2) [of s]
    by (simp add: decimal_def nat_add_distrib nat_mult_distrib)
qed

lemma uptime_hundredths:
  assumes "ReadFile procFile w = Ok (nat_str s @ ''.'' @ hundredths c @ '' '' @ rest)" and "c < 100"
  shows "uptime pf w = (case nearest (s * 100 + c) 100 of Some f \<Rightarrow> f | None \<Rightarrow> F64 0 0)"
proof -
  let ?a = "nat_str s @ ''.'' @ hundredths c"
  have "x \<noteq> CHR '' ''" if "x \<in> set ?a" for x
    using that nat_str_digits(1) [of s] hundredths_digits [OF assms(2)] point_no_digit by (auto simp: list_all_iff)
  then have "takeWhile (\<lambda>x. x \<noteq> CHR '' '') (?a @ CHR '' '' # rest) = ?a"
    by (subst takeWhile_append2) auto
  then have "SplitN (?a @ '' '' @ rest) '' '' 2 ! 0 = ?a" by (simp add: SplitN2_eq)
  then show ?thesis
    using assms decimal_hundredths [OF assms(2), of s] by (simp add: uptime_def ParseFloat_def)
qed

lemma digit_zero: "digit_char 0 = CHR ''0''"
  by code_simp

lemma nat_str_ten: "0 < n \<Longrightarrow> nat_str (n * 10) = nat_str n @ ''0''"
  by (subst nat_str.simps) (simp add: digit_zero)

lemma pad_hundredths:
  assumes "c < 100"
  shows "replicate (6 - length (nat_str (c * 10 ^ 4))) CHR ''0'' @ nat_str (c * 10 ^ 4) = hundredths c @ ''0000''"
proof (cases "c = 0")
  case True
  have "nat_str 0 = [digit_char 0]" by (subst nat_str.simps) simp
  moreover have "replicate 5 CHR ''0'' = ''00000''" by code_simp
  ultimately show ?thesis using True by (simp add: hundredths_def digit_zero)
next
  case False
  have pos: "0 < c" "0 < c * 10" "0 < c * 10 * 10" "0 < c * 10 * 10 * 10" using False by simp_all
  have "nat_str (c * 10 * 10 * 10 * 10) = nat_str c @ ''0000''"
    by (simp only: nat_str_ten [OF pos(4)] nat_str_ten [OF pos(3)] nat_str_ten [OF pos(2)] nat_str_ten [OF pos(1)]
        append_assoc append_Cons append_Nil)
  moreover have "c * 10 * 10 * 10 * 10 = c * 10 ^ 4" by simp
  ultimately have s: "nat_str (c * 10 ^ 4) = nat_str c @ ''0000''" by (simp only:)
  show ?thesis
  proof (cases "c < 10")
    case True
    then have "nat_str c = [digit_char c]" by (subst nat_str.simps) simp
    with s True show ?thesis by (simp add: hundredths_def digit_zero)
  next
    case False
    have "nat_str (c div 10) = [digit_char (c div 10)]" using assms by (subst nat_str.simps) simp
    with False have "nat_str c = hundredths c" by (subst nat_str.simps) (simp add: hundredths_def)
    with s show ?thesis by (simp add: hundredths_def)
  qed
qed

lemma print_hundredths:
  assumes "s < 2 ^ 30" and "c < 100"
  shows "Sprintf_f (case nearest (s * 100 + c) 100 of Some f \<Rightarrow> f | None \<Rightarrow> F64 0 0) = nat_str s @ ''.'' @ hundredths c @ ''0000''"
proof -
  define v where "v = (s * 100 + c) * 10 ^ 4"
  have "v = c * 10 ^ 4 + s * 10 ^ 6" and "c * 10 ^ 4 < (10 ^ 6 :: nat)" using assms(2) by (simp_all add: v_def)
  then have split: "v div 10 ^ 6 = s" "v mod 10 ^ 6 = c * 10 ^ 4" by simp_all
  have "\<exists>m e. nearest (s * 100 + c) 100 = Some (F64 m e) \<and>
      (let (a, b) = scaled (m * 10 ^ 6) 1 e in round_even a b) = v"
  proof (cases "s * 100 + c = 0")
    case True
    then show ?thesis by (simp add: nearest_def scaled_def round_even_def v_def)
  next
    case False
    have "s * 100 + c < 2 ^ 37" using assms by simp
    from print_nearest [OF this False] obtain m t where "nearest (s * 100 + c) 100 = Some (F64 m (- int t))" "22 \<le> t"
      "round_even (m * 10 ^ 6) (2 ^ t) = (s * 100 + c) * 10 ^ 4" .
    then show ?thesis by (intro exI [of _ m] exI [of _ "- int t"]) (simp add: scaled_def v_def)
  qed
  then obtain m e where "nearest (s * 100 + c) 100 = Some (F64 m e)"
    "(let (a, b) = scaled (m * 10 ^ 6) 1 e in round_even a b) = v" by blast
  then show ?thesis
    using split pad_hundredths [OF assms(2)] by (simp add: Sprintf_f_def Let_def case_prod_beta)
qed

lemma scan_hundredths:
  assumes "s < 2 ^ 30" and "c < 100"
  shows "Sscanf_d_d (nat_str s @ ''.'' @ hundredths c @ ''0000'') = (s, c * 10000)"
proof -
  have "list_all is_digit (hundredths c @ ''0000'')"
    using hundredths_digits [OF assms(2)] by (simp add: is_digit_def)
  then have t: "takeWhile is_digit (hundredths c @ ''0000'') = hundredths c @ ''0000''" by (rule take_digits(3))
  have "digits_val ''0000'' = 0" by (simp add: digits_val_def)
  then have v: "digits_val (hundredths c @ ''0000'') = int (c * 10000)"
    using hundredths_val [OF assms(2)] by (simp add: digits_val_append)
  have "int s < 2 ^ 64" "int (c * 10000) < 2 ^ 64" using assms by simp_all
  then show ?thesis
    using take_digits(1,2) [OF nat_str_digits(1) [of s], of "hundredths c @ ''0000''"] nat_str_digits(2) [of s] t v
    by (simp add: Sscanf_d_d_def scan_uint_def digits_val_nat_str nat_mult_distrib)
qed

section \<open>Properties\<close>

text \<open>
  C19.  The uptime survives the way through floating-point numbers, and is then misread.  For every uptime of less
  than 194 days that the kernel shows, the nearest floating-point number printed with six digits is exactly what the kernel
  wrote; but the VMware tools get the six digits read back as a number of hundredths, ten thousand times
  the hundredths of the uptime.
\<close>

theorem uptime_for_tools:
  assumes "ReadFile procFile w = Ok (nat_str s @ ''.'' @ hundredths c @ '' '' @ rest)" and "s < 2 ^ 24" and "c < 100"
  shows "Sprintf_f (uptime pf w) = nat_str s @ ''.'' @ hundredths c @ ''0000'' \<and>
    UptimeForTools pf w = 100 * int s + 10000 * int c"
proof -
  have s: "s < 2 ^ 30" using assms(2) by simp
  have p: "Sprintf_f (uptime pf w) = nat_str s @ ''.'' @ hundredths c @ ''0000''"
    using uptime_hundredths [OF assms(1,3)] print_hundredths [OF s assms(3)] by simp
  define x where "x = s * 100 + c * 10000"
  have x: "x < 2 ^ 31" using assms(2,3) by (simp add: x_def)
  have "(of_nat s * 100 + of_nat (c * 10000) :: u64) = of_nat x" by (simp add: x_def)
  moreover have "sint (ucast (of_nat x :: u64) :: u32) = int x"
    using x by (simp add: sint_uint unsigned_of_nat take_bit_nat_eq_self signed_take_bit_int_eq_self unsigned_ucast_eq)
  ultimately show ?thesis
    using p scan_hundredths [OF s assms(3)] by (simp add: UptimeForTools_def x_def)
qed

definition twelve_seconds :: world where
  "twelve_seconds = \<lparr>w_fs = [[''proc''] \<mapsto> Dir, [''proc'', ''uptime''] \<mapsto> File ''12.34 8.15''],
     w_deny = (\<lambda>_ _. None), w_others = (\<lambda>_ t. t), w_clock = 0, w_trace = []\<rparr>"

theorem uptime_for_tools_witness:
  "Sprintf_f (uptime (\<lambda>_. None) twelve_seconds) = ''12.340000'' \<and> UptimeForTools (\<lambda>_. None) twelve_seconds = 341200"
proof -
  have n: "nat_str 12 = ''12''" "hundredths 34 = ''34''" by code_simp+
  have "ReadFile procFile twelve_seconds = Ok ''12.34 8.15''" by code_simp
  then have "ReadFile procFile twelve_seconds = Ok (nat_str 12 @ ''.'' @ hundredths 34 @ '' '' @ ''8.15'')" by (simp add: n)
  from uptime_for_tools [OF this, of "\<lambda>_. None"] show ?thesis by (simp add: n)
qed

end
