(* ===== verification/VmTools.thy ===== *)
theory VmTools
  imports Cloud Uptime
begin

text \<open>
  \<^verbatim>\<open>pkg/vorteil/vmtools.c\<close> and \<^verbatim>\<open>vmtools.h\<close>: the guest side of the VMware tools, a thread that polls the
  hypervisor for commands and answers them.  The hypervisor is a parameter: what the three port
  instructions do to the registers and, for \<open>insb\<close>, to memory, as functions on a state of its own.
  The registers that hold addresses are left zero, the bytes they point to are an argument.
  An access outside an array is the outcome \<open>Panic IndexOutOfRange\<close>; the theorems show it does not happen.
\<close>

section \<open>Registers\<close>

record vm_backdoor =
  fr_eax :: u64
  fr_ebx :: u64
  fr_ecx :: u64
  fr_edx :: u64
  fr_esi :: u64
  fr_edi :: u64
  fr_ebp :: u64

definition reg_parts :: "u16 \<Rightarrow> u16 \<Rightarrow> u64" where
  "reg_parts low high = ucast low OR push_bit 16 (ucast high)"

definition reg_low :: "u64 \<Rightarrow> u16" where "reg_low r = ucast r"
definition reg_high :: "u64 \<Rightarrow> u16" where "reg_high r = ucast (drop_bit 16 r)"
definition reg_word :: "u64 \<Rightarrow> u32" where "reg_word r = ucast r"

definition VM_MAGIC :: u64 where "VM_MAGIC = 0x564D5868"
definition VM_RPC_FLAG_COOKIE :: u32 where "VM_RPC_FLAG_COOKIE = 0x80000000"
definition VM_CMD_RPC :: u16 where "VM_CMD_RPC = 0x1e"
definition VM_RPC_OPEN :: u16 where "VM_RPC_OPEN = 0"
definition VM_RPC_SET_LENGTH :: u16 where "VM_RPC_SET_LENGTH = 1"
definition VM_RPC_GET_LENGTH :: u16 where "VM_RPC_GET_LENGTH = 3"
definition VM_RPC_GET_END :: u16 where "VM_RPC_GET_END = 5"
definition VM_RPC_CLOSE :: u16 where "VM_RPC_CLOSE = 6"
definition VM_RPC_OPEN_RPCI :: u32 where "VM_RPC_OPEN_RPCI = 0x49435052"
definition VM_RPC_OPEN_TCLO :: u32 where "VM_RPC_OPEN_TCLO = 0x4F4C4354"
definition VM_RPC_ENH_DATA :: u32 where "VM_RPC_ENH_DATA = 0x00010000"
definition VM_PORT_CMD :: u16 where "VM_PORT_CMD = 0x5658"
definition VM_PORT_RPC :: u16 where "VM_PORT_RPC = 0x5659"
definition VM_RPC_REPLY_SUCCESS :: u16 where "VM_RPC_REPLY_SUCCESS = 1"
definition VM_RPC_REPLY_DORECV :: u16 where "VM_RPC_REPLY_DORECV = 2"
definition VM_RPC_REPLY_OK :: string where "VM_RPC_REPLY_OK = ''OK ''"
definition VM_RPC_RESET_REPLY :: string where "VM_RPC_RESET_REPLY = ''OK ATR toolbox''"
definition VM_RPC_REPLY_ERROR :: string where "VM_RPC_REPLY_ERROR = ''ERROR Unknown command''"
definition VM_VERSION_UNMANAGED :: nat where "VM_VERSION_UNMANAGED = 0x7fffffff"
definition VMT_RPC_BUFLEN :: nat where "VMT_RPC_BUFLEN = 4096"
definition LOOP_WAIT_MS :: nat where "LOOP_WAIT_MS = 5000"

section \<open>State\<close>

record vm_rpc =
  rp_channel :: u16
  rp_cookie1 :: u32
  rp_cookie2 :: u32
  rp_error :: bool
  rp_tclo_ping :: bool
  rp_set_guest_os :: bool
  rp_buf :: "byte list"

text \<open>The hypervisor, the kernel's answers on the interfaces, and the calls into Go.\<close>

record 'h vmenv =
  ve_cmd :: "vm_backdoor \<Rightarrow> 'h \<Rightarrow> vm_backdoor \<times> 'h"
  ve_outs :: "vm_backdoor \<Rightarrow> byte list \<Rightarrow> 'h \<Rightarrow> vm_backdoor \<times> 'h"
  ve_ins :: "vm_backdoor \<Rightarrow> 'h \<Rightarrow> vm_backdoor \<times> (nat \<Rightarrow> byte) \<times> 'h"
  ve_hwaddr :: "string \<Rightarrow> byte list option"
  ve_netmask :: "string \<Rightarrow> u32 option"
  ve_addr :: "string \<Rightarrow> byte list option"
  ve_ParseFloat :: "string \<Rightarrow> f64 option"
  ve_sys :: sysview

record 'h vmt =
  vt_rpc :: vm_rpc
  vt_fdelay :: nat
  vt_cards :: int
  vt_hostname :: string
  vt_card :: "byte list list"
  vt_m :: machine
  vt_h :: 'h

definition cbytes :: "string \<Rightarrow> byte list" where
  "cbytes s = map of_char s"

definition cstr :: "byte list \<Rightarrow> byte list" where
  "cstr buf = takeWhile (\<lambda>b. b \<noteq> 0) buf"

text \<open>Writing into an array.\<close>

definition put_at :: "nat \<Rightarrow> byte list \<Rightarrow> byte list \<Rightarrow> byte list outcome" where
  "put_at off bs buf =
     (if off + length bs \<le> length buf then Ok (take off buf @ bs @ drop (off + length bs) buf)
      else Panic IndexOutOfRange)"

definition err_print :: "string \<Rightarrow> 'h vmt \<Rightarrow> 'h vmt" where
  "err_print txt s = s\<lparr>vt_m := emit (EvWrite ''/dev/vtty'' (txt @ newline)) (vt_m s)\<rparr>"

definition set_buf :: "byte list \<Rightarrow> 'h vmt \<Rightarrow> 'h vmt" where
  "set_buf b s = s\<lparr>vt_rpc := (vt_rpc s)\<lparr>rp_buf := b\<rparr>\<rparr>"

definition set_error :: "'h vmt \<Rightarrow> 'h vmt" where
  "set_error s = s\<lparr>vt_rpc := (vt_rpc s)\<lparr>rp_error := True\<rparr>\<rparr>"

section \<open>Remote procedure calls\<close>

definition rpc_frame :: "u32 \<Rightarrow> u16 \<Rightarrow> vm_rpc \<Rightarrow> vm_backdoor" where
  "rpc_frame ebx sub r =
     \<lparr>fr_eax = VM_MAGIC, fr_ebx = ucast ebx, fr_ecx = reg_parts VM_CMD_RPC sub,
      fr_edx = reg_parts VM_PORT_CMD (rp_channel r), fr_esi = ucast (rp_cookie1 r), fr_edi = ucast (rp_cookie2 r),
      fr_ebp = 0\<rparr>"

definition vm_cmd :: "'h vmenv \<Rightarrow> vm_backdoor \<Rightarrow> 'h vmt \<Rightarrow> vm_backdoor \<times> 'h vmt" where
  "vm_cmd env fr s = (let (fr, h) = ve_cmd env fr (vt_h s) in (fr, s\<lparr>vt_h := h\<rparr>))"

text \<open>The result is the opened channel, or nothing.\<close>

definition vm_rpc_open :: "'h vmenv \<Rightarrow> u32 \<Rightarrow> vm_rpc \<Rightarrow> 'h vmt \<Rightarrow> vm_rpc option \<times> 'h vmt" where
  "vm_rpc_open env proto r s =
     (let fr = \<lparr>fr_eax = VM_MAGIC, fr_ebx = ucast (proto OR VM_RPC_FLAG_COOKIE),
            fr_ecx = reg_parts VM_CMD_RPC VM_RPC_OPEN, fr_edx = reg_parts VM_PORT_CMD 0, fr_esi = 0, fr_edi = 0, fr_ebp = 0\<rparr>;
          (fr, s) = vm_cmd env fr s in
      if reg_high (fr_ecx fr) \<noteq> 1 \<or> reg_low (fr_edx fr) \<noteq> 0 then (None, err_print ''vmware: open failed'' s)
      else (Some (r\<lparr>rp_channel := reg_high (fr_edx fr), rp_cookie1 := reg_word (fr_esi fr),
              rp_cookie2 := reg_word (fr_edi fr)\<rparr>), s))"

definition vm_rpc_send :: "'h vmenv \<Rightarrow> vm_rpc \<Rightarrow> byte list \<Rightarrow> 'h vmt \<Rightarrow> bool \<times> 'h vmt" where
  "vm_rpc_send env r data s =
     (let (fr, s) = vm_cmd env (rpc_frame (word_of_nat (length data)) VM_RPC_SET_LENGTH r) s in
      if reg_high (fr_ecx fr) AND VM_RPC_REPLY_SUCCESS = 0 then (False, err_print ''vmware: sending length failed'' s)
      else if data = [] then (True, s)
      else
        let fr = \<lparr>fr_eax = VM_MAGIC, fr_ebx = ucast VM_RPC_ENH_DATA, fr_ecx = word_of_nat (length data),
              fr_edx = reg_parts VM_PORT_RPC (rp_channel r), fr_esi = 0, fr_edi = ucast (rp_cookie2 r),
              fr_ebp = ucast (rp_cookie1 r)\<rparr>;
            (fr, h) = ve_outs env fr data (vt_h s); s = s\<lparr>vt_h := h\<rparr> in
        if reg_word (fr_ebx fr) \<noteq> VM_RPC_ENH_DATA then (False, err_print ''vmtools send failed'' s)
        else (True, s))"

definition vm_rpc_send_str :: "'h vmenv \<Rightarrow> string \<Rightarrow> 'h vmt \<Rightarrow> bool \<times> 'h vmt" where
  "vm_rpc_send_str env str s = vm_rpc_send env (vt_rpc s) (cbytes str) s"

definition vm_rpc_get_length :: "'h vmenv \<Rightarrow> vm_rpc \<Rightarrow> 'h vmt \<Rightarrow> (u32 \<times> u16) option \<times> 'h vmt" where
  "vm_rpc_get_length env r s =
     (let (fr, s) = vm_cmd env (rpc_frame 0 VM_RPC_GET_LENGTH r) s in
      if reg_high (fr_ecx fr) AND VM_RPC_REPLY_SUCCESS = 0 then (None, err_print ''vmware get length failed'' s)
      else if reg_high (fr_ecx fr) AND VM_RPC_REPLY_DORECV = 0 then (Some (0, 0), s)
      else (Some (reg_word (fr_ebx fr), reg_high (fr_edx fr)), s))"

text \<open>The bytes received go to \<open>data\<close>, which is returned; a zero is written behind them.\<close>

definition vm_rpc_get_data ::
  "'h vmenv \<Rightarrow> vm_rpc \<Rightarrow> byte list \<Rightarrow> nat \<Rightarrow> u16 \<Rightarrow> 'h vmt \<Rightarrow> (bool \<times> byte list) outcome \<times> 'h vmt" where
  "vm_rpc_get_data env r data len dataid s =
     (let fr = \<lparr>fr_eax = VM_MAGIC, fr_ebx = ucast VM_RPC_ENH_DATA, fr_ecx = word_of_nat len,
            fr_edx = reg_parts VM_PORT_RPC (rp_channel r), fr_esi = ucast (rp_cookie1 r), fr_edi = 0,
            fr_ebp = ucast (rp_cookie2 r)\<rparr>;
          (fr, mem, h) = ve_ins env fr (vt_h s); s = s\<lparr>vt_h := h\<rparr> in
      and_then (put_at 0 (map mem [0..<len] @ [0]) data, s) (\<lambda>data s.
      if reg_word (fr_ebx fr) \<noteq> VM_RPC_ENH_DATA then (Ok (False, data), err_print ''vmware get data failed'' s)
      else
        let (fr, s) = vm_cmd env (rpc_frame (ucast dataid) VM_RPC_GET_END r) s in
        if reg_high (fr_ecx fr) = 0 then (Ok (False, data), err_print ''vmware ack data failed'' s)
        else (Ok (True, data), s)))"

text \<open>It always returns success.\<close>

definition vm_rpc_close :: "'h vmenv \<Rightarrow> vm_rpc \<Rightarrow> 'h vmt \<Rightarrow> vm_rpc \<times> 'h vmt" where
  "vm_rpc_close env r s =
     (let (fr, s) = vm_cmd env (rpc_frame 0 VM_RPC_CLOSE r) s;
          s = (if reg_high (fr_ecx fr) = 0 \<or> reg_low (fr_ecx fr) \<noteq> 0 then err_print ''vmware close failed'' s else s) in
      (r\<lparr>rp_channel := 0, rp_cookie1 := 0, rp_cookie2 := 0, rp_tclo_ping := False\<rparr>, s))"

definition zero_rpc :: vm_rpc where
  "zero_rpc = \<lparr>rp_channel = 0, rp_cookie1 = 0, rp_cookie2 = 0, rp_error = False, rp_tclo_ping = False,
     rp_set_guest_os = False, rp_buf = []\<rparr>"

definition capped :: "u32 \<Rightarrow> nat" where
  "capped rlen = (if VMT_RPC_BUFLEN \<le> unat rlen then VMT_RPC_BUFLEN - 1 else unat rlen)"

text \<open>The reply of the host is read into the buffer the command was sent from.\<close>

definition rpci_reply :: "'h vmenv \<Rightarrow> vm_rpc \<Rightarrow> 'h vmt \<Rightarrow> bool outcome \<times> 'h vmt" where
  "rpci_reply env rpci s =
     (case vm_rpc_get_length env rpci s of
        (None, s) \<Rightarrow> (Ok False, err_print ''failed to get length of rpci response data'' s)
      | (Some (rlen, ack), s) \<Rightarrow>
          if rlen = 0 then (Ok True, s)
          else and_then (vm_rpc_get_data env rpci (rp_buf (vt_rpc s)) (capped rlen) ack s) (\<lambda>(ok, buf) s.
            let s = set_buf buf s in
            if \<not> ok then (Ok False, err_print ''failed to get rpci response data'' s) else (Ok True, s)))"

definition vm_rpc_send_rpci_tx_buf :: "'h vmenv \<Rightarrow> nat \<Rightarrow> 'h vmt \<Rightarrow> bool outcome \<times> 'h vmt" where
  "vm_rpc_send_rpci_tx_buf env len s =
     (case vm_rpc_open env VM_RPC_OPEN_RPCI zero_rpc s of
        (None, s) \<Rightarrow> (Ok False, err_print ''rpci channel open failed'' s)
      | (Some rpci, s) \<Rightarrow>
          if length (rp_buf (vt_rpc s)) < len then (Panic IndexOutOfRange, s)
          else
            let (ok, s) = vm_rpc_send env rpci (take len (rp_buf (vt_rpc s))) s in
            and_then (if ok then rpci_reply env rpci s else (Ok False, err_print ''unable to send rpci command'' s))
              (\<lambda>result s. (Ok result, snd (vm_rpc_close env rpci s))))"

definition vm_rpc_send_rpci_tx :: "'h vmenv \<Rightarrow> string \<Rightarrow> 'h vmt \<Rightarrow> bool outcome \<times> 'h vmt" where
  "vm_rpc_send_rpci_tx env txt s =
     and_then (put_at 0 (take (VMT_RPC_BUFLEN - 1) (cbytes txt) @ [0]) (rp_buf (vt_rpc s)), s) (\<lambda>buf s.
     let s = set_buf buf s in
     if VMT_RPC_BUFLEN \<le> length txt
     then (Ok False, err_print ''%s: rpci command didn't fit in buffer'' s)
     else vm_rpc_send_rpci_tx_buf env (length txt) s)"

text \<open>A command whose failure is reported and marks the channel as broken.\<close>

definition rpci_or_error :: "'h vmenv \<Rightarrow> string \<Rightarrow> string \<Rightarrow> 'h vmt \<Rightarrow> unit outcome \<times> 'h vmt" where
  "rpci_or_error env txt msg s =
     and_then (vm_rpc_send_rpci_tx env txt s)
       (\<lambda>ok s. (Ok (), if ok then s else set_error (err_print msg s)))"

definition reply_or_error :: "'h vmenv \<Rightarrow> string \<Rightarrow> string \<Rightarrow> 'h vmt \<Rightarrow> 'h vmt" where
  "reply_or_error env txt msg s =
     (let (ok, s) = vm_rpc_send_str env txt s in if ok then s else set_error (err_print msg s))"

definition vm_rpci_response_successful :: "'h vmt \<Rightarrow> bool outcome" where
  "vm_rpci_response_successful s =
     (case rp_buf (vt_rpc s) of a # b # _ \<Rightarrow> Ok (a = of_char CHR ''1'' \<and> b = of_char CHR '' '') | _ \<Rightarrow> Panic IndexOutOfRange)"


section \<open>Network cards\<close>

text \<open>
  The message about the network cards: a header with their number, a slot of 72 bytes for each, and
  a trailer.  The program has the message for one to four cards as constants and fills in the slots.
\<close>

definition be32 :: "nat \<Rightarrow> byte list" where
  "be32 n = rev (le_enc 4 (word_of_nat n :: u32))"

definition card_slot :: "byte list \<times> byte list \<times> nat \<Rightarrow> byte list" where
  "card_slot c =
     (let (mac, addr, prefix) = c in
      be32 17 @ mac @ [0, 0, 0] @ be32 1 @ be32 1 @ be32 4 @ addr @ be32 prefix @ be32 0 @ be32 1 @ be32 1 @
      replicate 16 0)"

definition card_message :: "(byte list \<times> byte list \<times> nat) list \<Rightarrow> byte list" where
  "card_message cs =
     cbytes ''SetGuestInfo  9 '' @ be32 3 @ be32 1 @ be32 (length cs) @ concat (map card_slot cs) @ replicate 20 0"

definition sample_slots :: "(byte list \<times> byte list \<times> nat) list" where
  "sample_slots =
     [(cbytes ''00:50:56:a1:be:f8'', [10, 0, 0, 0x4f], 24), (cbytes ''00:50:56:a1:f0:aa'', [10, 0, 0, 0x59], 24),
      (cbytes ''00:50:56:a1:ee:9c'', [10, 0, 0, 0x5a], 24), (cbytes ''00:50:56:a1:1d:08'', [10, 0, 0, 0x5b], 24)]"

definition card1 :: "byte list" where "card1 = card_message (take 1 sample_slots)"
definition card2 :: "byte list" where "card2 = card_message (take 2 sample_slots)"
definition card3 :: "byte list" where "card3 = card_message (take 3 sample_slots)"
definition card4 :: "byte list" where "card4 = card_message (take 4 sample_slots)"

text \<open>
  \<^verbatim>\<open>%02x\<close> of a \<open>char\<close>: on this machine a \<open>char\<close> is signed, so a byte from \<^verbatim>\<open>0x80\<close> on is extended to 32 bits and
  printed with eight digits.
\<close>

definition hex02 :: "byte \<Rightarrow> string" where
  "hex02 b =
     (let n = (if unat b < 128 then unat b else unat b + 0xffffff00) in
      (if n < 16 then ''0'' else []) @ hex_str n)"

definition mac_text :: "byte list \<Rightarrow> string" where
  "mac_text bs = Join (map hex02 bs) '':''"

function prefix_loop :: "int \<Rightarrow> nat \<Rightarrow> nat" where
  "prefix_loop n i = (if 0 < n then prefix_loop (n div 2) (i + 1) else i)"
  by pat_completeness auto
termination
  by (relation "measure (\<lambda>(n, i). nat n)") auto

declare prefix_loop.simps [simp del]

definition set_network_info :: "'h vmenv \<Rightarrow> nat \<Rightarrow> byte list \<Rightarrow> byte list outcome" where
  "set_network_info env card_no msg =
     (let name = ''eth'' @ nat_str card_no in
      case ve_hwaddr env name of
        None \<Rightarrow> Ok msg
      | Some mac_address \<Rightarrow>
          (case ve_netmask env name of
             None \<Rightarrow> Ok msg
           | Some n \<Rightarrow>
               (case ve_addr env name of
                  None \<Rightarrow> Ok msg
                | Some a \<Rightarrow>
                    bind_out (put_at (32 + card_no * 72) (take 17 (cbytes (mac_text mac_address))) msg) (\<lambda>msg.
                    bind_out (put_at (64 + card_no * 72) a msg) (\<lambda>msg.
                    put_at (71 + card_no * 72) (le_enc 4 (word_of_nat (prefix_loop (sint n) 0) :: u32)) msg)))))"

fun fill_cards :: "'h vmenv \<Rightarrow> nat list \<Rightarrow> byte list \<Rightarrow> byte list outcome" where
  "fill_cards env [] msg = Ok msg"
| "fill_cards env (i # is) msg = bind_out (set_network_info env i msg) (fill_cards env is)"

text \<open>Which of the four messages is used; more cards than four are reported as one.\<close>

definition card_index :: "int \<Rightarrow> nat" where
  "card_index n = (if n = 2 then 1 else if n = 3 then 2 else if n = 4 then 3 else 0)"

definition send_cards :: "'h vmenv \<Rightarrow> 'h vmt \<Rightarrow> unit outcome \<times> 'h vmt" where
  "send_cards env s =
     (let c = card_index (vt_cards s) in
      and_then (fill_cards env [0..<Suc c] (vt_card s ! c), s) (\<lambda>msg s.
      let s = s\<lparr>vt_card := (vt_card s)[c := msg]\<rparr> in
      and_then (put_at 0 msg (rp_buf (vt_rpc s)), s) (\<lambda>buf s.
      and_then (vm_rpc_send_rpci_tx_buf env (length msg) (set_buf buf s)) (\<lambda>_ s. (Ok (), s)))))"

definition vmt_update_guest_info :: "'h vmenv \<Rightarrow> 'h vmt \<Rightarrow> unit outcome \<times> 'h vmt" where
  "vmt_update_guest_info env s =
     and_then (rpci_or_error env (''SetGuestInfo  1 '' @ vt_hostname s) ''unable to set hostname'' s) (\<lambda>_ s.
     and_then (send_cards env s) (\<lambda>_ s.
     if rp_set_guest_os (vt_rpc s) then (Ok (), s)
     else
       and_then (rpci_or_error env ''SetGuestInfo  5 vorteil.io 1.0 amd64_x86'' ''unable to set full guest OS'' s) (\<lambda>_ s.
       and_then (rpci_or_error env ''SetGuestInfo  6 other-64'' ''unable to set guest OS'' s) (\<lambda>_ s.
       (Ok (), s\<lparr>vt_rpc := (vt_rpc s)\<lparr>rp_set_guest_os := True\<rparr>\<rparr>)))))"

section \<open>Commands\<close>

definition check_reply :: "string \<Rightarrow> 'h vmt \<Rightarrow> unit outcome \<times> 'h vmt" where
  "check_reply msg s = and_then (vm_rpci_response_successful s, s) (\<lambda>ok s. (Ok (), if ok then s else err_print msg s))"

definition vmt_tclo_capreg :: "'h vmenv \<Rightarrow> 'h vmt \<Rightarrow> unit outcome \<times> 'h vmt" where
  "vmt_tclo_capreg env s =
     and_then (rpci_or_error env ''vmx.capability.unified_loop toolbox'' ''unable to set unified loop'' s) (\<lambda>_ s.
     and_then (check_reply ''host rejected unified loop setting'' s) (\<lambda>_ s.
     and_then (rpci_or_error env ''tools.capability.statechange '' ''unable to send statechange capability'' s) (\<lambda>_ s.
     and_then (check_reply ''host rejected statechange capability'' s) (\<lambda>_ s.
     and_then (rpci_or_error env (''tools.set.version '' @ nat_str VM_VERSION_UNMANAGED) ''unable to set tools version'' s) (\<lambda>_ s.
     (Ok (), reply_or_error env VM_RPC_REPLY_OK ''error sending capabilities_register response'' s))))))"

definition vmt_tclo_state_change_success :: "'h vmenv \<Rightarrow> nat \<Rightarrow> 'h vmt \<Rightarrow> unit outcome \<times> 'h vmt" where
  "vmt_tclo_state_change_success env state s =
     rpci_or_error env (''tools.os.statechange.status 1 '' @ nat_str state) ''unable to send state change result'' s"

definition vmt_tclo_halt :: "'h vmenv \<Rightarrow> 'h vmt \<Rightarrow> unit outcome \<times> 'h vmt" where
  "vmt_tclo_halt env s =
     and_then (vmt_tclo_state_change_success env 1 s) (\<lambda>_ s.
     let s = snd (vm_rpc_send_str env VM_RPC_REPLY_OK s) in
     (Ok (), s\<lparr>vt_m := ShutdownForTools (ve_sys env) (vt_m s)\<rparr>))"

definition vmt_tclo_reboot :: "'h vmenv \<Rightarrow> 'h vmt \<Rightarrow> unit outcome \<times> 'h vmt" where
  "vmt_tclo_reboot env s =
     and_then (vmt_tclo_state_change_success env 2 s) (\<lambda>_ s.
     let s = snd (vm_rpc_send_str env VM_RPC_REPLY_OK s) in
     (Ok (), s\<lparr>vt_m := RebootForTools (ve_sys env) (vt_m s)\<rparr>))"

definition vmt_tclo_poweron :: "'h vmenv \<Rightarrow> 'h vmt \<Rightarrow> unit outcome \<times> 'h vmt" where
  "vmt_tclo_poweron env s =
     and_then (vmt_tclo_state_change_success env 3 s) (\<lambda>_ s.
     (Ok (), reply_or_error env VM_RPC_REPLY_OK ''error sending poweron response'' (s\<lparr>vt_fdelay := LOOP_WAIT_MS\<rparr>)))"

definition vmt_tclo_resume :: "'h vmenv \<Rightarrow> 'h vmt \<Rightarrow> unit outcome \<times> 'h vmt" where
  "vmt_tclo_resume env s =
     and_then (vmt_update_guest_info env s) (\<lambda>_ s.
     and_then (vmt_tclo_state_change_success env 4 s) (\<lambda>_ s.
     (Ok (), reply_or_error env VM_RPC_REPLY_OK ''error sending resume response'' s)))"

definition vmt_tclo_suspend :: "'h vmenv \<Rightarrow> 'h vmt \<Rightarrow> unit outcome \<times> 'h vmt" where
  "vmt_tclo_suspend env s =
     and_then (vmt_tclo_state_change_success env 5 s) (\<lambda>_ s.
     (Ok (), reply_or_error env VM_RPC_REPLY_OK ''error sending suspend response'' s))"

definition vmt_update_guest_uptime :: "'h vmenv \<Rightarrow> 'h vmt \<Rightarrow> unit outcome \<times> 'h vmt" where
  "vmt_update_guest_uptime env s =
     rpci_or_error env (''SetGuestInfo  7 '' @ itoa (UptimeForTools (ve_ParseFloat env) (vt_m s)) @ ''00'') ''unable to set guest uptime'' s"

definition vmt_tclo_ping :: "'h vmenv \<Rightarrow> 'h vmt \<Rightarrow> unit outcome \<times> 'h vmt" where
  "vmt_tclo_ping env s =
     and_then (vmt_update_guest_uptime env s) (\<lambda>_ s.
     and_then (vmt_update_guest_info env s) (\<lambda>_ s.
     (Ok (), reply_or_error env VM_RPC_REPLY_OK ''error sending ping response'' s)))"

definition vmt_tclo_broadcastip :: "'h vmenv \<Rightarrow> 'h vmt \<Rightarrow> unit outcome \<times> 'h vmt" where
  "vmt_tclo_broadcastip env s =
     (case ve_addr env ''eth0'' of
        None \<Rightarrow> (Ok (), s)
      | Some a \<Rightarrow>
          and_then (rpci_or_error env (''info-set guestinfo.ip '' @ ip_String a) ''unable to send guest IP address'' s) (\<lambda>_ s.
          (Ok (), reply_or_error env VM_RPC_REPLY_OK ''error sending broadcastIP response'' s)))"

definition vmt_tclo_reset :: "'h vmenv \<Rightarrow> 'h vmt \<Rightarrow> unit outcome \<times> 'h vmt" where
  "vmt_tclo_reset env s =
     (if rp_error (vt_rpc s) then
        let s = err_print ''resetting rpc'' s; (r, s) = vm_rpc_close env (vt_rpc s) s in
        (Ok (), set_error (s\<lparr>vt_rpc := r\<rparr>))
      else (Ok (), reply_or_error env VM_RPC_RESET_REPLY ''failed to send reset reply'' s))"

definition vmt_tclo_rpc :: "'h vmenv \<Rightarrow> (string \<times> ('h vmt \<Rightarrow> unit outcome \<times> 'h vmt)) list" where
  "vmt_tclo_rpc env =
     [(''Capabilities_Register'', vmt_tclo_capreg env), (''OS_Halt'', vmt_tclo_halt env),
      (''OS_PowerOn'', vmt_tclo_poweron env), (''OS_Reboot'', vmt_tclo_reboot env),
      (''Set_Option broadcastIP 1'', vmt_tclo_broadcastip env), (''ping'', vmt_tclo_ping env),
      (''reset'', vmt_tclo_reset env), (''OS_Resume'', vmt_tclo_resume env), (''OS_Suspend'', vmt_tclo_suspend env)]"

text \<open>The command in the buffer; the result says whether it is known.\<close>

definition vmt_tclo_process :: "'h vmenv \<Rightarrow> 'h vmt \<Rightarrow> bool outcome \<times> 'h vmt" where
  "vmt_tclo_process env s =
     (case List.find (\<lambda>(n, cb). cbytes n = cstr (rp_buf (vt_rpc s))) (vmt_tclo_rpc env) of
        Some (n, cb) \<Rightarrow> and_then (cb s) (\<lambda>_ s. (Ok True, s))
      | None \<Rightarrow> (Ok False, s))"

section \<open>The loop\<close>

definition channel_closed :: "vm_rpc \<Rightarrow> bool" where
  "channel_closed r \<longleftrightarrow> rp_channel r = 0 \<and> rp_cookie1 r = 0 \<and> rp_cookie2 r = 0"

text \<open>Opening the channel when it is closed; the result says whether the round goes on.\<close>

definition reopen :: "'h vmenv \<Rightarrow> 'h vmt \<Rightarrow> bool \<times> 'h vmt" where
  "reopen env s =
     (case vm_rpc_open env VM_RPC_OPEN_TCLO (vt_rpc s) (s\<lparr>vt_fdelay := 0\<rparr>) of
        (None, s) \<Rightarrow> (False, (err_print ''unable to reopen TCLO channel'' s)\<lparr>vt_fdelay := 15\<rparr>)
      | (Some r, s) \<Rightarrow>
          (case vm_rpc_send_str env VM_RPC_RESET_REPLY (s\<lparr>vt_rpc := r\<rparr>) of
             (False, s) \<Rightarrow> (False, set_error (err_print ''failed to send reset reply'' s))
           | (True, s) \<Rightarrow> (True, s\<lparr>vt_rpc := (vt_rpc s)\<lparr>rp_error := False\<rparr>\<rparr>)))"

definition ping_host :: "'h vmenv \<Rightarrow> 'h vmt \<Rightarrow> bool \<times> 'h vmt" where
  "ping_host env s =
     (if rp_tclo_ping (vt_rpc s) then
        case vm_rpc_send env (vt_rpc s) [] s of
          (False, s) \<Rightarrow> (False, set_error (err_print ''failed to send TCLO outgoing ping'' s))
        | (True, s) \<Rightarrow> (True, s)
      else (True, s))"

definition serve :: "'h vmenv \<Rightarrow> 'h vmt \<Rightarrow> unit outcome \<times> 'h vmt" where
  "serve env s =
     (let s = set_buf (replicate VMT_RPC_BUFLEN 0) s in
      case vm_rpc_get_length env (vt_rpc s) s of
        (None, s) \<Rightarrow> (Ok (), set_error (err_print ''failed to get length of incoming TCLO data'' s))
      | (Some (rlen, ack), s) \<Rightarrow>
          if rlen = 0 then (Ok (), s\<lparr>vt_rpc := (vt_rpc s)\<lparr>rp_tclo_ping := True\<rparr>\<rparr>)
          else
            and_then (vm_rpc_get_data env (vt_rpc s) (rp_buf (vt_rpc s)) (capped rlen) ack s) (\<lambda>(ok, buf) s.
            let s = set_buf buf s in
            if \<not> ok then (Ok (), set_error (err_print ''failed to get incoming TCLO data'' s))
            else
              and_then (vmt_tclo_process env (s\<lparr>vt_rpc := (vt_rpc s)\<lparr>rp_tclo_ping := False\<rparr>\<rparr>)) (\<lambda>known s.
              (Ok (), if known then s else reply_or_error env VM_RPC_REPLY_ERROR ''error sending unknown command reply'' s))))"

text \<open>One round; \<open>delay\<close> is the time slept at its end.\<close>

definition run_req :: "'h vmenv \<Rightarrow> 'h vmt \<Rightarrow> unit outcome \<times> 'h vmt" where
  "run_req env s =
     (let delay = vt_fdelay s;
          s = (if vt_fdelay s < LOOP_WAIT_MS then s\<lparr>vt_fdelay := vt_fdelay s + 5\<rparr> else s);
          (delay, go, s) =
            (if channel_closed (vt_rpc s) then let (go, s) = reopen env s in (0, go, s) else (delay, True, s));
          (go, s) = (if go then ping_host env s else (False, s)) in
      and_then (if go then serve env s else (Ok (), s)) (\<lambda>_ s.
      let s = (if rp_error (vt_rpc s) then
                 let (r, s) = vm_rpc_close env (vt_rpc s) s in s\<lparr>vt_rpc := r\<lparr>rp_error := False\<rparr>\<rparr>
               else s) in
      (Ok (), s\<lparr>vt_m := time_Sleep delay (vt_m s)\<rparr>)))"

text \<open>\<open>strcpy\<close> of the host name into its array of 1024 bytes; the messages start as the constants.\<close>

definition vmtools_start :: "int \<Rightarrow> string \<Rightarrow> machine \<Rightarrow> 'h \<Rightarrow> 'h vmt outcome" where
  "vmtools_start n hn m h =
     (if 1024 \<le> length hn then Panic IndexOutOfRange
      else Ok \<lparr>vt_rpc = zero_rpc\<lparr>rp_buf := replicate VMT_RPC_BUFLEN 0\<rparr>, vt_fdelay = 0, vt_cards = n, vt_hostname = hn,
        vt_card = [card1, card2, card3, card4], vt_m = m, vt_h = h\<rparr>)"

text \<open>The first \<open>k\<close> rounds of the thread, which has no other end than that of the machine.\<close>

primrec run_rounds :: "'h vmenv \<Rightarrow> nat \<Rightarrow> 'h vmt \<Rightarrow> unit outcome \<times> 'h vmt" where
  "run_rounds env 0 s = (Ok (), s)"
| "run_rounds env (Suc k) s = and_then (run_req env s) (\<lambda>_ s. run_rounds env k s)"

end
