(* ===== verification/VmToolsSpec.thy ===== *)
theory VmToolsSpec
  imports VmTools ShutdownSpec
begin

text \<open>
  The VMware tools thread: no access outside an array in any round, recovery from every error of the
  channel, the reaction to the power commands of the host, and the message about the network cards.
\<close>

section \<open>Operations that succeed and keep an invariant\<close>

text \<open>
  An operation on a state with invariant \<open>inv\<close> that always returns, keeps the invariant and relates the
  states before and after by \<open>rel\<close>.
\<close>

locale steady =
  fixes inv :: "'s \<Rightarrow> bool" and rel :: "'s \<Rightarrow> 's \<Rightarrow> bool"
  assumes rel_refl: "rel s s" and rel_trans: "rel s t \<Longrightarrow> rel t u \<Longrightarrow> rel s u"
begin

definition steady :: "('s \<Rightarrow> 'a outcome \<times> 's) \<Rightarrow> bool" where
  "steady f \<longleftrightarrow> (\<forall>s. inv s \<longrightarrow> (\<exists>x s'. f s = (Ok x, s') \<and> inv s' \<and> rel s s'))"

lemma steadyI:
  "(\<And>s. inv s \<Longrightarrow> \<exists>x s'. f s = (Ok x, s') \<and> inv s' \<and> rel s s') \<Longrightarrow> steady f"
  by (simp add: steady_def)

lemma steadyE:
  assumes "steady f" and "inv s"
  obtains x s' where "f s = (Ok x, s')" and "inv s'" and "rel s s'"
  using assms unfolding steady_def by blast

lemma steady_bind:
  assumes "steady f" and "\<And>x. steady (g x)"
  shows "steady (\<lambda>s. and_then (f s) g)"
proof (rule steadyI)
  fix s assume "inv s"
  with assms(1) obtain x t where f: "f s = (Ok x, t)" "inv t" "rel s t" by (rule steadyE)
  from assms(2) f(2) obtain y u where "g x t = (Ok y, u)" "inv u" "rel t u" by (rule steadyE)
  with f show "\<exists>x s'. and_then (f s) g = (Ok x, s') \<and> inv s' \<and> rel s s'"
    using rel_trans by auto
qed

lemma steady_update: "(\<And>s. inv s \<Longrightarrow> inv (f s) \<and> rel s (f s)) \<Longrightarrow> steady (\<lambda>s. (Ok x, f s))"
  by (simp add: steady_def)

lemma steady_return: "steady (\<lambda>s. (Ok (f s), s))"
  by (simp add: steady_def rel_refl)

lemma steady_if: "steady f \<Longrightarrow> steady g \<Longrightarrow> steady (\<lambda>s. if b s then f s else g s)"
  by (simp add: steady_def)

end

section \<open>Well-formed states\<close>

definition vm_wf :: "'h vmt \<Rightarrow> bool" where
  "vm_wf s \<longleftrightarrow> length (rp_buf (vt_rpc s)) = 4096 \<and> map length (vt_card s) = [120, 192, 264, 336] \<and>
     vt_fdelay s \<le> 5000 \<and> 5 dvd vt_fdelay s"

text \<open>The kernel gives hardware addresses of six and IPv4 addresses of four bytes.\<close>

definition env_wf :: "'h vmenv \<Rightarrow> bool" where
  "env_wf env \<longleftrightarrow> (\<forall>n a. ve_hwaddr env n = Some a \<longrightarrow> length a = 6) \<and> (\<forall>n a. ve_addr env n = Some a \<longrightarrow> length a = 4)"

text \<open>What the remote calls do to the machine: messages on the terminal.\<close>

definition told :: "string list \<Rightarrow> machine \<Rightarrow> machine" where
  "told ms = fold (\<lambda>msg. emit (EvWrite ''/dev/vtty'' (msg @ newline))) ms"

lemma told_append [simp]: "told [] m = m" "told (ms @ ns) m = told ns (told ms m)"
  by (simp_all add: told_def)

lemma told_fields [simp]: "initStatus (told ms m) = initStatus m" "isFirecracker (told ms m) = isFirecracker m"
  by (induction ms arbitrary: m) (simp_all add: told_def)

definition quiet :: "'h vmt \<Rightarrow> 'h vmt \<Rightarrow> bool" where
  "quiet s t \<longleftrightarrow> (\<exists>ms. vt_m t = told ms (vt_m s)) \<and> vt_fdelay t = vt_fdelay s"

interpretation vq: steady vm_wf quiet
proof
  show "quiet s s" for s :: "'h vmt" by (auto simp: quiet_def intro: exI [of _ "[]"])
  show "quiet s u" if st: "quiet s t" and tu: "quiet t u" for s t u :: "'h vmt"
  proof -
    obtain ms ns where "vt_m t = told ms (vt_m s)" "vt_m u = told ns (vt_m t)"
      using st tu unfolding quiet_def by blast
    then have "vt_m u = told (ms @ ns) (vt_m s)" by simp
    with st tu show ?thesis unfolding quiet_def by metis
  qed
qed

interpretation vw: steady vm_wf "\<lambda>_ _. True"
  by unfold_locales simp_all

lemma quiet_steady: "vq.steady f \<Longrightarrow> vw.steady f"
  unfolding vq.steady_def vw.steady_def by blast

section \<open>Remote calls\<close>

text \<open>The calls that leave the global channel record alone.\<close>

definition calm :: "'h vmt \<Rightarrow> 'h vmt \<Rightarrow> bool" where
  "calm s t \<longleftrightarrow> vt_rpc t = vt_rpc s \<and> vt_card t = vt_card s \<and> quiet s t"

lemma calm_refl [simp]: "calm s s" by (simp add: calm_def vq.rel_refl)

lemma calm_trans: "calm s t \<Longrightarrow> calm t u \<Longrightarrow> calm s u"
  by (auto simp: calm_def intro: vq.rel_trans)

lemma calm_wf: "calm s t \<Longrightarrow> vm_wf t = vm_wf s"
  by (auto simp: calm_def quiet_def vm_wf_def)

lemma calm_err: "calm s t \<Longrightarrow> calm s (err_print msg t)"
proof -
  have "calm t (err_print msg t)"
    by (auto simp: calm_def quiet_def err_print_def told_def intro: exI [of _ "[msg]"])
  then show "calm s t \<Longrightarrow> calm s (err_print msg t)" by (rule calm_trans [rotated])
qed

lemma calm_h: "calm s t \<Longrightarrow> calm s (t\<lparr>vt_h := h\<rparr>)"
  by (simp add: calm_def quiet_def)

lemma calm_cmd: "vm_cmd env fr s = (fr', t) \<Longrightarrow> calm s t"
  by (auto simp: vm_cmd_def calm_h split: prod.splits)

lemmas calm_intros = calm_refl calm_err calm_h

lemma calm_open: "vm_rpc_open env proto r s = (x, t) \<Longrightarrow> calm s t"
  by (auto simp: vm_rpc_open_def Let_def split: prod.splits if_splits dest!: calm_cmd intro: calm_intros)

lemma calm_send: "vm_rpc_send env r d s = (x, t) \<Longrightarrow> calm s t"
  by (auto simp: vm_rpc_send_def Let_def split: prod.splits if_splits dest!: calm_cmd intro!: calm_intros)

lemma calm_send_str: "vm_rpc_send_str env str s = (x, t) \<Longrightarrow> calm s t"
  by (auto simp: vm_rpc_send_str_def dest: calm_send)

lemma calm_get_length: "vm_rpc_get_length env r s = (x, t) \<Longrightarrow> calm s t"
  by (auto simp: vm_rpc_get_length_def Let_def split: prod.splits if_splits dest!: calm_cmd intro: calm_intros)

lemma calm_close: "vm_rpc_close env r s = (x, t) \<Longrightarrow> calm s t"
  by (auto simp: vm_rpc_close_def Let_def split: prod.splits if_splits dest!: calm_cmd intro: calm_intros)

lemma put_at_Ok: "off + length bs \<le> length buf \<Longrightarrow> \<exists>b. put_at off bs buf = Ok b \<and> length b = length buf"
  by (simp add: put_at_def)

lemma capped_bound: "capped rlen < 4096"
  by (simp add: capped_def VMT_RPC_BUFLEN_def)

lemma get_data_Ok:
  assumes "len < length data"
  shows "\<exists>ok buf t. vm_rpc_get_data env r data len ack s = (Ok (ok, buf), t) \<and> length buf = length data \<and> calm s t"
proof -
  define fr0 where "fr0 = \<lparr>fr_eax = VM_MAGIC, fr_ebx = ucast VM_RPC_ENH_DATA, fr_ecx = word_of_nat len,
    fr_edx = reg_parts VM_PORT_RPC (rp_channel r), fr_esi = ucast (rp_cookie1 r), fr_edi = 0,
    fr_ebp = ucast (rp_cookie2 r)\<rparr>"
  obtain fr mem h where i: "ve_ins env fr0 (vt_h s) = (fr, mem, h)" by (metis prod.collapse)
  obtain b where b: "put_at 0 (map mem [0..<len] @ [0]) data = Ok b" "length b = length data"
    using put_at_Ok [of 0 "map mem [0..<len] @ [0]" data] assms by auto
  obtain fr2 t where c: "vm_cmd env (rpc_frame (ucast ack) VM_RPC_GET_END r) (s\<lparr>vt_h := h\<rparr>) = (fr2, t)"
    by (metis prod.collapse)
  have "calm s t" using calm_trans [OF calm_h [OF calm_refl] calm_cmd [OF c]] .
  then show ?thesis
    using b by (simp add: vm_rpc_get_data_def fr0_def [symmetric] i c calm_intros ex_bool_eq)
qed

text \<open>Storing a buffer of the right length.\<close>

lemma set_buf_wf: "vm_wf s \<Longrightarrow> length b = 4096 \<Longrightarrow> vm_wf (set_buf b s)"
  by (simp add: vm_wf_def set_buf_def)

lemma set_buf_quiet: "quiet s (set_buf b s)"
  by (auto simp: quiet_def set_buf_def intro: exI [of _ "[]"])

lemma set_error_keeps: "vm_wf (set_error s) = vm_wf s" "quiet s (set_error s)"
  by (auto simp: vm_wf_def set_error_def quiet_def intro: exI [of _ "[]"])

lemma vm_wf_buf: "vm_wf s \<Longrightarrow> length (rp_buf (vt_rpc s)) = 4096"
  by (simp add: vm_wf_def)

lemma calm_keeps: "vm_wf s \<Longrightarrow> calm s t \<Longrightarrow> vm_wf t \<and> quiet s t"
  by (simp add: calm_wf) (simp add: calm_def)

lemma steady_reply: "vq.steady (rpci_reply env rpci)"
proof (rule vq.steadyI)
  fix s :: "'a vmt" assume wf: "vm_wf s"
  obtain x t where g: "vm_rpc_get_length env rpci s = (x, t)" by (metis prod.collapse)
  note c = calm_get_length [OF g]
  have t: "vm_wf t" "quiet s t" using calm_keeps [OF wf c] by auto
  show "\<exists>x s'. rpci_reply env rpci s = (Ok x, s') \<and> vm_wf s' \<and> quiet s s'"
  proof (cases x)
    case None
    then show ?thesis
      using calm_keeps [OF wf calm_err [OF c]] by (simp add: rpci_reply_def g ex_bool_eq)
  next
    case (Some ra)
    obtain rlen ack where ra: "ra = (rlen, ack)" by (cases ra)
    obtain ok buf u where d: "vm_rpc_get_data env rpci (rp_buf (vt_rpc t)) (capped rlen) ack t = (Ok (ok, buf), u)"
      "length buf = 4096" "calm t u"
      using get_data_Ok [of "capped rlen" "rp_buf (vt_rpc t)" env rpci ack t] capped_bound [of rlen] vm_wf_buf [OF t(1)]
      by auto
    have u: "vm_wf (set_buf buf u)" "quiet s (set_buf buf u)"
      using calm_keeps [OF t(1) d(3)] d(2) t(2) set_buf_wf set_buf_quiet vq.rel_trans by blast+
    then show ?thesis
      using t calm_keeps [OF u(1) calm_err [OF calm_refl]] vq.rel_trans [OF u(2)]
      by (auto simp: rpci_reply_def g Some ra d Let_def)
  qed
qed


lemma steady_tx_buf:
  assumes "len \<le> 4096"
  shows "vq.steady (vm_rpc_send_rpci_tx_buf env len)"
proof (rule vq.steadyI)
  fix s :: "'a vmt" assume wf: "vm_wf s"
  obtain x t where o: "vm_rpc_open env VM_RPC_OPEN_RPCI zero_rpc s = (x, t)" by (metis prod.collapse)
  note c = calm_open [OF o]
  show "\<exists>x s'. vm_rpc_send_rpci_tx_buf env len s = (Ok x, s') \<and> vm_wf s' \<and> quiet s s'"
  proof (cases x)
    case None
    then show ?thesis
      using calm_keeps [OF wf calm_err [OF c]] by (simp add: vm_rpc_send_rpci_tx_buf_def o ex_bool_eq)
  next
    case (Some rpci)
    obtain ok u where d: "vm_rpc_send env rpci (take len (rp_buf (vt_rpc t))) t = (ok, u)" by (metis prod.collapse)
    have cu: "calm s u" using c calm_send [OF d] by (rule calm_trans)
    have u: "vm_wf u" "quiet s u" using calm_keeps [OF wf cu] by auto
    have len: "\<not> length (rp_buf (vt_rpc t)) < len" using assms vm_wf_buf [of t] calm_keeps [OF wf c] by simp
    obtain y v where r: "(if ok then rpci_reply env rpci u else (Ok False, err_print ''unable to send rpci command'' u)) = (Ok y, v)"
      "vm_wf v" "quiet s v"
    proof (cases ok)
      case True
      obtain y v where "rpci_reply env rpci u = (Ok y, v)" "vm_wf v" "quiet u v"
        by (rule vq.steadyE [OF steady_reply u(1)])
      with True that vq.rel_trans [OF u(2)] show thesis by auto
    next
      case False
      with that show thesis using calm_keeps [OF wf calm_err [OF cu]] by auto
    qed
    have "vm_wf (snd (vm_rpc_close env rpci v)) \<and> quiet s (snd (vm_rpc_close env rpci v))"
      using calm_keeps [OF r(2) calm_close] vq.rel_trans [OF r(3)] by (metis prod.collapse)
    then show ?thesis
      using len by (auto simp: vm_rpc_send_rpci_tx_buf_def o Some d r(1))
  qed
qed

lemma steady_tx: "vq.steady (vm_rpc_send_rpci_tx env txt)"
proof (rule vq.steadyI)
  fix s :: "'a vmt" assume wf: "vm_wf s"
  let ?d = "take (VMT_RPC_BUFLEN - 1) (cbytes txt) @ [0]"
  have l: "length ?d \<le> 4096" "length txt < 4096 \<longleftrightarrow> \<not> VMT_RPC_BUFLEN \<le> length txt"
    by (auto simp: VMT_RPC_BUFLEN_def)
  then obtain b where b: "put_at 0 ?d (rp_buf (vt_rpc s)) = Ok b" "length b = 4096"
    using put_at_Ok [of 0 ?d "rp_buf (vt_rpc s)"] vm_wf_buf [OF wf] by auto
  have s1: "vm_wf (set_buf b s)" "quiet s (set_buf b s)" using wf b(2) by (simp_all add: set_buf_wf set_buf_quiet)
  show "\<exists>x s'. vm_rpc_send_rpci_tx env txt s = (Ok x, s') \<and> vm_wf s' \<and> quiet s s'"
  proof (cases "VMT_RPC_BUFLEN \<le> length txt")
    case True
    then show ?thesis
      using b s1 calm_keeps [OF s1(1) calm_err [OF calm_refl]] vq.rel_trans [OF s1(2)]
      by (auto simp: vm_rpc_send_rpci_tx_def)
  next
    case False
    then have "vq.steady (vm_rpc_send_rpci_tx_buf env (length txt))" using l(2) by (intro steady_tx_buf) simp
    with s1(1) obtain x t where "vm_rpc_send_rpci_tx_buf env (length txt) (set_buf b s) = (Ok x, t)" "vm_wf t"
      "quiet (set_buf b s) t" by (auto elim: vq.steadyE)
    with False b s1 vq.rel_trans [OF s1(2)] show ?thesis by (auto simp: vm_rpc_send_rpci_tx_def)
  qed
qed

lemma error_keeps: "vm_wf s \<Longrightarrow> vm_wf (set_error (err_print msg s)) \<and> quiet s (set_error (err_print msg s))"
  using calm_keeps [OF _ calm_err [OF calm_refl], of s msg] set_error_keeps vq.rel_trans by blast

lemma steady_rpci_or_error: "vq.steady (rpci_or_error env txt msg)"
  unfolding rpci_or_error_def
  by (rule vq.steady_bind [OF steady_tx]) (rule vq.steady_update, simp add: error_keeps vq.rel_refl)

lemma reply_keeps:
  assumes "vm_wf s"
  shows "vm_wf (reply_or_error env txt msg s) \<and> quiet s (reply_or_error env txt msg s)"
proof -
  obtain ok t where d: "vm_rpc_send_str env txt s = (ok, t)" by (metis prod.collapse)
  have "vm_wf t \<and> quiet s t" using calm_keeps [OF assms calm_send_str [OF d]] .
  then show ?thesis
    using error_keeps [of t msg] vq.rel_trans [of s t] by (auto simp: reply_or_error_def d)
qed

lemma steady_check: "vq.steady (check_reply msg)"
proof (rule vq.steadyI)
  fix s :: "'a vmt" assume wf: "vm_wf s"
  then obtain a b r where "rp_buf (vt_rpc s) = a # b # r"
    using vm_wf_buf [OF wf] by (cases "rp_buf (vt_rpc s)"; cases "tl (rp_buf (vt_rpc s))") auto
  then show "\<exists>x s'. check_reply msg s = (Ok x, s') \<and> vm_wf s' \<and> quiet s s'"
    using wf calm_keeps [OF wf calm_err [OF calm_refl]] vq.rel_refl
    by (auto simp: check_reply_def vm_rpci_response_successful_def)
qed


section \<open>Cards\<close>

lemma hex_str_length: "1 \<le> length (hex_str n)" "16 \<le> n \<Longrightarrow> 2 \<le> length (hex_str n)"
proof -
  show 1: "1 \<le> length (hex_str n)" for n by (subst hex_str.simps) simp
  show "2 \<le> length (hex_str n)" if "16 \<le> n" using that 1 [of "n div 16"] by (subst hex_str.simps) simp
qed

lemma hex02_length: "2 \<le> length (hex02 b)"
  using hex_str_length by (auto simp: hex02_def Let_def)

lemma six_bytes: "length bs = 6 \<Longrightarrow> \<exists>a b c d e f. bs = [a, b, c, d, e, f]"
  by (auto simp: length_Suc_conv eval_nat_numeral)

lemma length_mac_text:
  assumes "length bs = 6"
  shows "17 \<le> length (mac_text bs)"
proof -
  obtain a b c d e f where "bs = [a, b, c, d, e, f]" using six_bytes [OF assms] by blast
  then show ?thesis
    using hex02_length [of a] hex02_length [of b] hex02_length [of c] hex02_length [of d] hex02_length [of e]
      hex02_length [of f] by (simp add: mac_text_def)
qed

lemma length_cbytes [simp]: "length (cbytes s) = length s"
  by (simp add: cbytes_def)

lemma set_network_info_Ok:
  assumes "env_wf env" and "75 + i * 72 \<le> length msg"
  shows "\<exists>msg'. set_network_info env i msg = Ok msg' \<and> length msg' = length msg"
proof -
  let ?n = "''eth'' @ nat_str i"
  show ?thesis
  proof (cases "ve_hwaddr env ?n = None \<or> ve_netmask env ?n = None \<or> ve_addr env ?n = None")
    case True
    then show ?thesis by (auto simp: set_network_info_def Let_def split: option.split)
  next
    case False
    then obtain mac n a where e: "ve_hwaddr env ?n = Some mac" "ve_netmask env ?n = Some n" "ve_addr env ?n = Some a"
      by auto
    with assms(1) have "17 \<le> length (mac_text mac)" "length a = 4" by (auto simp: env_wf_def intro: length_mac_text)
    then show ?thesis
      using assms(2) e by (auto simp: set_network_info_def put_at_def Let_def)
  qed
qed

lemma fill_cards_Ok:
  assumes "env_wf env" and "\<forall>i \<in> set is. 75 + i * 72 \<le> length msg"
  shows "\<exists>msg'. fill_cards env is msg = Ok msg' \<and> length msg' = length msg"
  using assms(2)
proof (induction "is" arbitrary: msg)
  case (Cons i "is")
  then obtain m1 where "set_network_info env i msg = Ok m1" "length m1 = length msg"
    using set_network_info_Ok [OF assms(1), of i msg] by auto
  with Cons.prems Cons.IH [of m1] show ?case by simp
qed simp

lemma card_room:
  assumes "vm_wf s" and "c = card_index n"
  shows "c < 4" "length (vt_card s ! c) = 120 + c * 72" "length (vt_card s) = 4"
    "\<And>msg. length msg = 120 + c * 72 \<Longrightarrow> vm_wf (s\<lparr>vt_card := (vt_card s)[c := msg]\<rparr>)"
proof -
  obtain p q u v where l: "vt_card s = [p, q, u, v]" "length p = 120" "length q = 192" "length u = 264" "length v = 336"
    using assms(1) by (auto simp: vm_wf_def map_eq_Cons_conv)
  show "c < 4" "length (vt_card s ! c) = 120 + c * 72" "length (vt_card s) = 4"
    "\<And>msg. length msg = 120 + c * 72 \<Longrightarrow> vm_wf (s\<lparr>vt_card := (vt_card s)[c := msg]\<rparr>)"
    using l assms by (auto simp: card_index_def vm_wf_def numeral_2_eq_2 numeral_3_eq_3)
qed

lemma steady_send_cards:
  assumes "env_wf env"
  shows "vq.steady (send_cards env)"
proof (rule vq.steadyI)
  fix s :: "'a vmt" assume wf: "vm_wf s"
  define c where "c = card_index (vt_cards s)"
  note r = card_room [OF wf c_def]
  obtain msg where f: "fill_cards env [0..<Suc c] (vt_card s ! c) = Ok msg" "length msg = 120 + c * 72"
    using fill_cards_Ok [OF assms, of "[0..<Suc c]" "vt_card s ! c"] r(2) by auto
  define t where "t = s\<lparr>vt_card := (vt_card s)[c := msg]\<rparr>"
  have t: "vm_wf t" "quiet s t"
    using r(4) [OF f(2)] by (auto simp: t_def quiet_def intro: exI [of _ "[]"])
  have tr: "vt_rpc t = vt_rpc s" by (simp add: t_def)
  obtain b where b: "put_at 0 msg (rp_buf (vt_rpc t)) = Ok b" "length b = 4096"
    using put_at_Ok [of 0 msg "rp_buf (vt_rpc t)"] f(2) r(1) vm_wf_buf [OF t(1)] by auto
  have "vq.steady (vm_rpc_send_rpci_tx_buf env (length msg))" using f(2) r(1) by (intro steady_tx_buf) simp
  then obtain x u where "vm_rpc_send_rpci_tx_buf env (length msg) (set_buf b t) = (Ok x, u)" "vm_wf u"
    "quiet (set_buf b t) u"
    by (rule vq.steadyE) (rule set_buf_wf [OF t(1) b(2)])
  then show "\<exists>x s'. send_cards env s = (Ok x, s') \<and> vm_wf s' \<and> quiet s s'"
    using vq.rel_trans [OF vq.rel_trans [OF t(2) set_buf_quiet]] b(1)
    by (auto simp: tr send_cards_def c_def [symmetric] f(1) t_def [symmetric] simp del: upt_Suc)
qed


section \<open>Commands\<close>

lemmas steady_intros = vq.steady_bind vq.steady_if steady_rpci_or_error steady_check steady_send_cards

lemma steady_rpci_text: "vq.steady (\<lambda>s. rpci_or_error env (f s) msg s)"
  by (rule vq.steadyI) (rule vq.steadyE [OF steady_rpci_or_error], assumption, blast)

lemma steady_guest_info:
  assumes "env_wf env"
  shows "vq.steady (vmt_update_guest_info env)"
proof -
  have os: "vq.steady (\<lambda>s :: 'a vmt. (Ok (), s\<lparr>vt_rpc := (vt_rpc s)\<lparr>rp_set_guest_os := True\<rparr>\<rparr>))"
    by (rule vq.steady_update) (auto simp: vm_wf_def quiet_def intro: exI [of _ "[]"])
  show ?thesis
    unfolding vmt_update_guest_info_def
    by (intro steady_rpci_text os assms vq.steady_bind vq.steady_if steady_rpci_or_error steady_send_cards vq.steady_return)
qed

lemma steady_reply_or_error: "vq.steady (\<lambda>s. (Ok (), reply_or_error env txt msg s))"
  by (rule vq.steady_update) (rule reply_keeps)

lemma steady_state_change: "vq.steady (vmt_tclo_state_change_success env n)"
  unfolding vmt_tclo_state_change_success_def by (rule steady_rpci_or_error)

lemma steady_capreg: "vq.steady (vmt_tclo_capreg env)"
  unfolding vmt_tclo_capreg_def by (intro vq.steady_bind steady_rpci_or_error steady_check steady_reply_or_error)

lemma steady_suspend: "vq.steady (vmt_tclo_suspend env)"
  unfolding vmt_tclo_suspend_def by (intro vq.steady_bind steady_state_change steady_reply_or_error)

lemma steady_resume: "env_wf env \<Longrightarrow> vq.steady (vmt_tclo_resume env)"
  unfolding vmt_tclo_resume_def by (intro vq.steady_bind steady_guest_info steady_state_change steady_reply_or_error)

lemma steady_ping: "env_wf env \<Longrightarrow> vq.steady (vmt_tclo_ping env)"
  unfolding vmt_tclo_ping_def vmt_update_guest_uptime_def
  by (intro vq.steady_bind steady_guest_info steady_rpci_text steady_reply_or_error)

lemma steady_broadcastip: "vq.steady (vmt_tclo_broadcastip env)"
proof (cases "ve_addr env ''eth0''")
  case (Some a)
  then show ?thesis
    unfolding vmt_tclo_broadcastip_def
    by simp (intro vq.steady_bind steady_rpci_or_error steady_reply_or_error)
next
  case None
  then show ?thesis unfolding vmt_tclo_broadcastip_def by (simp add: vq.steady_return)
qed


lemma wf_machine [simp]: "vm_wf (s\<lparr>vt_m := m\<rparr>) = vm_wf s"
  by (simp add: vm_wf_def)

lemma wf_send_str: "vm_wf (snd (vm_rpc_send_str env txt s)) = vm_wf s"
  using calm_wf [OF calm_send_str] by (metis prod.collapse)

lemma steady_power:
  "vw.steady (vmt_tclo_halt env)" "vw.steady (vmt_tclo_reboot env)"
  unfolding vmt_tclo_halt_def vmt_tclo_reboot_def
  by (rule vw.steady_bind [OF quiet_steady [OF steady_state_change]]; simp add: vw.steady_def Let_def wf_send_str)+

lemma steady_poweron: "vw.steady (vmt_tclo_poweron env)"
proof -
  have "vw.steady (\<lambda>s :: 'a vmt. (Ok (), reply_or_error env c msg (s\<lparr>vt_fdelay := LOOP_WAIT_MS\<rparr>)))" for c msg
  proof (rule vw.steady_update)
    fix s :: "'a vmt" assume "vm_wf s"
    then have "vm_wf (s\<lparr>vt_fdelay := LOOP_WAIT_MS\<rparr>)" by (simp add: vm_wf_def LOOP_WAIT_MS_def)
    then show "vm_wf (reply_or_error env c msg (s\<lparr>vt_fdelay := LOOP_WAIT_MS\<rparr>)) \<and> True" using reply_keeps by blast
  qed
  then show ?thesis
    unfolding vmt_tclo_poweron_def by (intro vw.steady_bind quiet_steady [OF steady_state_change])
qed

lemma close_wf:
  assumes "vm_wf s" and "vm_rpc_close env (vt_rpc s) s = (r, t)"
  shows "vm_wf (t\<lparr>vt_rpc := r\<rparr>)" "vm_wf (t\<lparr>vt_rpc := r\<lparr>rp_error := e\<rparr>\<rparr>)" "channel_closed r"
proof -
  have "rp_buf r = rp_buf (vt_rpc s)" "channel_closed r"
    using assms(2) by (auto simp: vm_rpc_close_def Let_def channel_closed_def split: prod.splits if_splits)
  moreover have "vt_card t = vt_card s" "vt_fdelay t = vt_fdelay s"
    using calm_close [OF assms(2)] by (simp_all add: calm_def quiet_def)
  ultimately show "vm_wf (t\<lparr>vt_rpc := r\<rparr>)" "vm_wf (t\<lparr>vt_rpc := r\<lparr>rp_error := e\<rparr>\<rparr>)" "channel_closed r"
    using assms(1) by (simp_all add: vm_wf_def)
qed

lemma steady_reset: "vw.steady (vmt_tclo_reset env)"
proof (rule vw.steadyI)
  fix s :: "'a vmt" assume wf: "vm_wf s"
  let ?s = "err_print ''resetting rpc'' s"
  have "vm_wf ?s" "vt_rpc ?s = vt_rpc s"
    using calm_wf [OF calm_err [OF calm_refl]] wf by (auto simp: err_print_def)
  then have "vm_wf (t\<lparr>vt_rpc := r\<rparr>)" if "vm_rpc_close env (vt_rpc s) ?s = (r, t)" for r t
    using close_wf(1) [of ?s env r t] that by simp
  then show "\<exists>x s'. vmt_tclo_reset env s = (Ok x, s') \<and> vm_wf s' \<and> True"
    using reply_keeps [OF wf]
    by (auto simp: vmt_tclo_reset_def Let_def set_error_keeps(1) \<open>vt_rpc ?s = vt_rpc s\<close> split: prod.split)
qed

lemma steady_process:
  assumes "env_wf env"
  shows "vw.steady (vmt_tclo_process env)"
proof (rule vw.steadyI)
  fix s :: "'a vmt" assume wf: "vm_wf s"
  have cb: "vw.steady cb" if "(n, cb) \<in> set (vmt_tclo_rpc env)" for n cb
    using that assms
    by (auto simp: vmt_tclo_rpc_def intro: steady_power steady_poweron steady_reset quiet_steady steady_capreg
        steady_suspend steady_resume steady_ping steady_broadcastip)
  show "\<exists>x s'. vmt_tclo_process env s = (Ok x, s') \<and> vm_wf s' \<and> True"
  proof (cases "List.find (\<lambda>(n, cb). cbytes n = cstr (rp_buf (vt_rpc s))) (vmt_tclo_rpc env)")
    case None
    then show ?thesis using wf by (simp add: vmt_tclo_process_def ex_bool_eq)
  next
    case (Some p)
    obtain n cb where p: "p = (n, cb)" by (cases p)
    with Some have "vw.steady cb" by (auto simp: find_Some_iff in_set_conv_nth intro!: cb)
    then obtain x t where "cb s = (Ok x, t)" "vm_wf t" using wf by (rule vw.steadyE)
    with Some p show ?thesis by (simp add: vmt_tclo_process_def ex_bool_eq)
  qed
qed


section \<open>Rounds\<close>

lemma error_wf: "vm_wf (set_error (err_print msg s)) = vm_wf s" "vm_wf (err_print msg s) = vm_wf s"
  using calm_wf [OF calm_err [OF calm_refl]] by (simp_all add: set_error_keeps)

lemma reopen_wf:
  assumes "vm_wf s"
  shows "vm_wf (snd (reopen env s))"
proof -
  let ?s = "s\<lparr>vt_fdelay := 0\<rparr>"
  obtain x t where o: "vm_rpc_open env VM_RPC_OPEN_TCLO (vt_rpc s) ?s = (x, t)" by (metis prod.collapse)
  have t: "vm_wf t" "vt_rpc t = vt_rpc s"
    using calm_open [OF o] calm_wf [OF calm_open [OF o]] assms by (simp_all add: vm_wf_def calm_def)
  show ?thesis
  proof (cases x)
    case None
    with t show ?thesis by (simp add: reopen_def o err_print_def vm_wf_def)
  next
    case (Some r)
    then have "rp_buf r = rp_buf (vt_rpc s)"
      using o by (auto simp: vm_rpc_open_def Let_def split: prod.splits if_splits)
    with t have u: "vm_wf (t\<lparr>vt_rpc := r\<rparr>)" by (simp add: vm_wf_def)
    obtain ok v where v: "vm_rpc_send_str env VM_RPC_RESET_REPLY (t\<lparr>vt_rpc := r\<rparr>) = (ok, v)" by (metis prod.collapse)
    have "vm_wf v" using u calm_wf [OF calm_send_str [OF v]] by simp
    then show ?thesis
      using Some by (cases ok) (simp_all add: reopen_def o v error_wf, simp add: vm_wf_def)
  qed
qed

lemma ping_wf: "vm_wf s \<Longrightarrow> vm_wf (snd (ping_host env s))"
proof -
  obtain ok t where t: "vm_rpc_send env (vt_rpc s) [] s = (ok, t)" by (metis prod.collapse)
  show "vm_wf s \<Longrightarrow> vm_wf (snd (ping_host env s))"
    using calm_wf [OF calm_send [OF t]] by (cases ok) (simp_all add: ping_host_def t error_wf)
qed

lemma steady_serve:
  assumes "env_wf env"
  shows "vw.steady (serve env)"
proof (rule vw.steadyI)
  fix s :: "'a vmt" assume "vm_wf s"
  then have wf: "vm_wf (set_buf (replicate VMT_RPC_BUFLEN 0) s)"
    by (intro set_buf_wf) (simp_all add: VMT_RPC_BUFLEN_def)
  define s0 where "s0 = set_buf (replicate VMT_RPC_BUFLEN 0) s"
  obtain x t where g: "vm_rpc_get_length env (vt_rpc s0) s0 = (x, t)" by (metis prod.collapse)
  have t: "vm_wf t" using calm_wf [OF calm_get_length [OF g]] wf by (simp add: s0_def)
  show "\<exists>x s'. serve env s = (Ok x, s') \<and> vm_wf s' \<and> True"
  proof (cases x)
    case None
    with t show ?thesis by (simp add: serve_def s0_def [symmetric] g error_wf)
  next
    case (Some ra)
    obtain rlen ack where ra: "ra = (rlen, ack)" by (cases ra)
    obtain ok buf u where d: "vm_rpc_get_data env (vt_rpc t) (rp_buf (vt_rpc t)) (capped rlen) ack t = (Ok (ok, buf), u)"
      "length buf = 4096" "calm t u"
      using get_data_Ok [of "capped rlen" "rp_buf (vt_rpc t)" env "vt_rpc t" ack t] capped_bound [of rlen] vm_wf_buf [OF t]
      by auto
    have u: "vm_wf (set_buf buf u)" using calm_keeps [OF t d(3)] d(2) set_buf_wf by blast
    define v where "v = (set_buf buf u)\<lparr>vt_rpc := (vt_rpc (set_buf buf u))\<lparr>rp_tclo_ping := False\<rparr>\<rparr>"
    have "vm_wf v" using u by (simp add: v_def vm_wf_def)
    then obtain known q where q: "vmt_tclo_process env v = (Ok known, q)" "vm_wf q"
      by (rule vw.steadyE [OF steady_process [OF assms]])
    have ping: "vm_wf (t\<lparr>vt_rpc := (vt_rpc t)\<lparr>rp_tclo_ping := True\<rparr>\<rparr>)" using t by (simp add: vm_wf_def)
    then show ?thesis
      using u q reply_keeps [OF q(2)]
      by (auto simp: serve_def s0_def [symmetric] g Some ra d Let_def error_wf v_def [symmetric])
  qed
qed

lemma close_error_wf:
  assumes "vm_wf s"
  shows "vm_wf (let (r, s) = vm_rpc_close env (vt_rpc s) s in s\<lparr>vt_rpc := r\<lparr>rp_error := False\<rparr>\<rparr>)"
  using close_wf(2) [OF assms] by (simp add: split: prod.split)

lemma run_req_keeps:
  assumes "vm_wf s" and "env_wf env"
  shows "\<exists>s'. run_req env s = (Ok (), s') \<and> vm_wf s' \<and> \<not> rp_error (vt_rpc s')"
proof -
  define s1 where "s1 = (if vt_fdelay s < LOOP_WAIT_MS then s\<lparr>vt_fdelay := vt_fdelay s + 5\<rparr> else s)"
  have s1: "vm_wf s1" using assms(1) by (auto simp: s1_def vm_wf_def LOOP_WAIT_MS_def)
  obtain delay go s2 where 2: "(if channel_closed (vt_rpc s1) then let (go, s) = reopen env s1 in (0, go, s)
      else (vt_fdelay s, True, s1)) = (delay, go, s2)" by (metis prod.collapse)
  have s2: "vm_wf s2" using 2 s1 reopen_wf [OF s1, of env] by (auto split: if_splits prod.splits)
  obtain go' s3 where 3: "(if go then ping_host env s2 else (False, s2)) = (go', s3)" by (metis prod.collapse)
  have s3: "vm_wf s3" using 3 s2 ping_wf [OF s2, of env] by (auto split: if_splits)
  obtain s4 where 4: "(if go' then serve env s3 else (Ok (), s3)) = (Ok (), s4)" and s4: "vm_wf s4"
    using s3 vw.steadyE [OF steady_serve [OF assms(2)] s3] by (cases go') auto
  define s5 where "s5 = (if rp_error (vt_rpc s4) then
      let (r, s) = vm_rpc_close env (vt_rpc s4) s4 in s\<lparr>vt_rpc := r\<lparr>rp_error := False\<rparr>\<rparr> else s4)"
  have s5: "vm_wf s5" "\<not> rp_error (vt_rpc s5)"
    using s4 close_error_wf [OF s4, of env] by (auto simp: s5_def split: prod.split)
  have "run_req env s = (Ok (), s5\<lparr>vt_m := time_Sleep delay (vt_m s5)\<rparr>)"
    using 2 3 4 by (simp add: run_req_def s1_def [symmetric] s5_def split del: if_split)
       (simp add: Let_def)
  then show ?thesis using s5 by (simp add: vm_wf_def)
qed

section \<open>The messages about the network cards\<close>

text \<open>A slot as the message has room for it.\<close>

definition slot_ok :: "byte list \<times> byte list \<times> nat \<Rightarrow> bool" where
  "slot_ok c \<longleftrightarrow> (case c of (mac, addr, p) \<Rightarrow> length mac = 17 \<and> length addr = 4 \<and> p < 256)"

text \<open>What the kernel knows of an interface, as a slot; without it the slot keeps what it has.\<close>

definition reported :: "'h vmenv \<Rightarrow> nat \<Rightarrow> byte list \<times> byte list \<times> nat \<Rightarrow> byte list \<times> byte list \<times> nat" where
  "reported env i c =
     (let name = ''eth'' @ nat_str i in
      case (ve_hwaddr env name, ve_netmask env name, ve_addr env name) of
        (Some mac, Some n, Some a) \<Rightarrow> (take 17 (cbytes (mac_text mac)), a, prefix_loop (sint n) 0)
      | _ \<Rightarrow> c)"

lemma length_be32 [simp]: "length (be32 n) = 4"
  by (simp add: be32_def)

lemma length_card_slot: "slot_ok c \<Longrightarrow> length (card_slot c) = 72"
  by (auto simp: slot_ok_def card_slot_def split: prod.splits)

lemma length_card_slots: "list_all slot_ok cs \<Longrightarrow> length (concat (map card_slot cs)) = 72 * length cs"
  by (induction cs) (simp_all add: length_card_slot)

lemma length_card_message: "list_all slot_ok cs \<Longrightarrow> length (card_message cs) = 48 + 72 * length cs"
  by (simp add: card_message_def length_card_slots)

lemma sample_slots_ok: "list_all slot_ok (take k sample_slots)"
proof -
  have "list_all slot_ok sample_slots" by (simp add: sample_slots_def slot_ok_def)
  then show ?thesis by (meson list_all_iff in_set_takeD)
qed

lemma length_sample_slots: "length sample_slots = 4"
  by (simp add: sample_slots_def)

lemma start_wf:
  assumes "length hn < 1024"
  shows "\<exists>s. vmtools_start n hn m h = Ok s \<and> vm_wf s \<and> \<not> rp_error (vt_rpc s) \<and>
    vt_card s = map (\<lambda>k. card_message (take k sample_slots)) [1, 2, 3, 4]"
  using assms length_card_message [OF sample_slots_ok] length_card_message [OF sample_slots_ok [of 4]]
  by (simp add: vmtools_start_def vm_wf_def card1_def card2_def card3_def card4_def VMT_RPC_BUFLEN_def
      zero_rpc_def length_sample_slots)

text \<open>The three writes into a slot.\<close>

lemma le_enc_small:
  assumes "n < 256"
  shows "le_enc 4 (word_of_nat n :: u32) = [word_of_nat n, 0, 0, 0]"
proof -
  let ?w = "word_of_nat n :: u32"
  have "unat ?w = n" using assms by (simp add: unat_of_nat)
  then have "unat (drop_bit 8 ?w) = 0" using assms unfolding unat_drop_bit_eq by (simp add: drop_bit_eq_div)
  then have "drop_bit 8 ?w = 0" by (simp only: unat_eq_0)
  moreover have "(ucast ?w :: byte) = word_of_nat n"
    using assms by (intro word_unat_eq_iff [THEN iffD2]) (simp add: unat_of_nat unsigned_ucast_eq \<open>unat ?w = n\<close> take_bit_nat_eq_self)
  ultimately show ?thesis by (simp add: eval_nat_numeral)
qed

lemma be32_small: "n < 256 \<Longrightarrow> be32 n = [0, 0, 0, word_of_nat n]"
  by (simp add: be32_def le_enc_small)

lemma card_message_split:
  assumes "list_all slot_ok cs" and "i < length cs"
  obtains pre post where "length pre = 28 + 72 * i"
    and "\<And>c. card_message (cs[i := c]) = pre @ card_slot c @ post" and "card_message cs = pre @ card_slot (cs ! i) @ post"
proof
  let ?pre = "cbytes ''SetGuestInfo  9 '' @ be32 3 @ be32 1 @ be32 (length cs) @ concat (map card_slot (take i cs))"
  let ?post = "concat (map card_slot (drop (Suc i) cs)) @ replicate 20 0"
  have "list_all slot_ok (take i cs)" using assms(1) by (meson list_all_iff in_set_takeD)
  then show "length ?pre = 28 + 72 * i" using assms(2) by (simp add: length_card_slots)
  show eq: "card_message (cs[i := c]) = ?pre @ card_slot c @ ?post" for c
    using assms(2) by (simp add: card_message_def upd_conv_take_nth_drop Suc_diff_Suc)
  show "card_message cs = ?pre @ card_slot (cs ! i) @ ?post" using eq [of "cs ! i"] by simp
qed

lemma slot_writes:
  assumes "slot_ok c" and "length mac = 17" and "length a = 4" and "p < 256" and "n = length pre"
  shows "bind_out (put_at (n + 4) mac (pre @ card_slot c @ post)) (\<lambda>msg.
         bind_out (put_at (n + 36) a msg) (\<lambda>msg.
         put_at (n + 43) (le_enc 4 (word_of_nat p :: u32)) msg)) = Ok (pre @ card_slot (mac, a, p) @ post)"
proof -
  obtain mac0 a0 p0 where c: "c = (mac0, a0, p0)" by (cases c)
  with assms(1) have l: "length mac0 = 17" "length a0 = 4" "p0 < 256" by (simp_all add: slot_ok_def)
  define tl where "tl = be32 0 @ be32 1 @ be32 1 @ replicate 16 (0 :: byte)"
  have e: "card_slot (x, y, z) = be32 17 @ x @ [0, 0, 0] @ be32 1 @ be32 1 @ be32 4 @ y @ be32 z @ tl" for x y z
    by (simp add: card_slot_def tl_def)
  have tl: "tl = [0, 0, 0] @ drop 3 tl" by (simp add: tl_def be32_small)
  have 1: "put_at (n + 4) mac (pre @ card_slot c @ post) = Ok (pre @ card_slot (mac, a0, p0) @ post)"
    using assms l by (simp add: e c put_at_def)
  have 2: "put_at (n + 36) a (pre @ card_slot (mac, a0, p0) @ post) = Ok (pre @ card_slot (mac, a, p0) @ post)"
    using assms l by (simp add: e put_at_def)
  have 3: "put_at (n + 43) (le_enc 4 (word_of_nat p :: u32)) (pre @ card_slot (mac, a, p0) @ post) =
      Ok (pre @ card_slot (mac, a, p) @ post)"
    unfolding e by (subst tl, subst (2) tl) (use assms l in \<open>simp add: put_at_def be32_small le_enc_small\<close>)
  show ?thesis by (simp add: 1 2 3)
qed

lemma prefix_loop_bits:
  "0 \<le> n \<Longrightarrow> n < 2 ^ k \<Longrightarrow> (k = 0 \<or> 2 ^ (k - 1) \<le> n) \<Longrightarrow> prefix_loop n i = i + k"
proof (induction k arbitrary: n i)
  case 0
  then show ?case by (subst prefix_loop.simps) simp
next
  case (Suc k)
  then have "0 < n" "k = 0 \<or> 2 ^ (k - 1) \<le> n div 2" "0 \<le> n div 2" "n div 2 < 2 ^ k"
    by (cases k; simp add: zdiv_mono1)+
  with Suc.IH [of "n div 2" "i + 1"] show ?case by (subst prefix_loop.simps) simp
qed

lemma prefix_loop_bound: "n < 2 ^ k \<Longrightarrow> prefix_loop n i \<le> i + k"
proof (induction k arbitrary: n i)
  case 0
  then show ?case by (subst prefix_loop.simps) simp
next
  case (Suc k)
  then have "prefix_loop (n div 2) (i + 1) \<le> i + 1 + k" by (intro Suc.IH) simp
  then show ?case by (subst prefix_loop.simps) simp
qed

lemma prefix_loop_sint: "prefix_loop (sint (n :: u32)) 0 < 256"
  using prefix_loop_bound [of "sint n" 31 0] sint_lt [of n] by simp

lemma reported_ok:
  assumes "env_wf env" and "slot_ok c"
  shows "slot_ok (reported env i c)"
proof -
  have "17 \<le> length (mac_text bs)" if "ve_hwaddr env nm = Some bs" for nm bs
    using assms(1) that length_mac_text by (auto simp: env_wf_def)
  then show ?thesis
    using assms prefix_loop_sint
    by (auto simp: reported_def slot_ok_def env_wf_def Let_def min_absorb2 split: option.split)
qed

lemma set_network_info_slot:
  assumes "env_wf env" and "list_all slot_ok cs" and "i < length cs"
  shows "set_network_info env i (card_message cs) = Ok (card_message (cs[i := reported env i (cs ! i)]))"
proof -
  obtain pre post where l: "length pre = 28 + 72 * i"
    and upd: "\<And>c. card_message (cs[i := c]) = pre @ card_slot c @ post"
    and old: "card_message cs = pre @ card_slot (cs ! i) @ post"
    using card_message_split [OF assms(2,3)] by blast
  have ok: "slot_ok (cs ! i)" using assms(2,3) by (simp add: list_all_length)
  define nm where "nm = ''eth'' @ nat_str i"
  show ?thesis
  proof (cases "ve_hwaddr env nm = None \<or> ve_netmask env nm = None \<or> ve_addr env nm = None")
    case True
    then show ?thesis
      unfolding set_network_info_def reported_def Let_def nm_def [symmetric] by (auto split: option.split)
  next
    case False
    then obtain mac n a where e: "ve_hwaddr env nm = Some mac" "ve_netmask env nm = Some n" "ve_addr env nm = Some a"
      by auto
    with assms(1) have "length (take 17 (cbytes (mac_text mac))) = 17" "length a = 4"
      using length_mac_text [of mac] by (auto simp: env_wf_def)
    from slot_writes [OF ok this prefix_loop_sint [of n] l [symmetric], of post]
    show ?thesis
      unfolding set_network_info_def reported_def Let_def nm_def [symmetric] upd
      by (simp add: e old l add.commute mult.commute)
  qed
qed

lemma fill_cards_slots:
  assumes "env_wf env" and "list_all slot_ok cs" and "k \<le> length cs"
  shows "fill_cards env [k..<length cs] (card_message cs) =
    Ok (card_message (take k cs @ map (\<lambda>i. reported env i (cs ! i)) [k..<length cs]))"
  using assms(2,3)
proof (induction "length cs - k" arbitrary: k cs)
  case (Suc n)
  let ?cs = "cs[k := reported env k (cs ! k)]"
  have k: "k < length cs" using Suc.hyps(2) by simp
  have ok: "list_all slot_ok ?cs"
    using Suc.prems(1) reported_ok [OF assms(1)] k by (auto simp: list_all_length nth_list_update)
  have "fill_cards env [Suc k..<length ?cs] (card_message ?cs) =
      Ok (card_message (take (Suc k) ?cs @ map (\<lambda>i. reported env i (?cs ! i)) [Suc k..<length ?cs]))"
    using Suc.hyps(2) k by (intro Suc.hyps(1) ok) auto
  moreover have "take (Suc k) ?cs @ map (\<lambda>i. reported env i (?cs ! i)) [Suc k..<length ?cs] =
      take k cs @ map (\<lambda>i. reported env i (cs ! i)) [k..<length cs]"
    using k by (auto simp: take_Suc_conv_app_nth upt_conv_Cons [of k "length cs"])
  ultimately show ?case
    using k set_network_info_slot [OF assms(1) Suc.prems(1) k] by (simp add: upt_conv_Cons [of k "length cs"])
qed simp

lemma rounds_keep:
  assumes "vm_wf s" and "env_wf env" and "\<not> rp_error (vt_rpc s)"
  shows "\<exists>s'. run_rounds env k s = (Ok (), s') \<and> vm_wf s' \<and> \<not> rp_error (vt_rpc s')"
  using assms(1,3)
proof (induction k arbitrary: s)
  case (Suc k)
  obtain t where "run_req env s = (Ok (), t)" "vm_wf t" "\<not> rp_error (vt_rpc t)"
    using run_req_keeps [OF Suc.prems(1) assms(2)] by blast
  with Suc.IH [of t] show ?case by simp
qed simp

section \<open>Power commands\<close>

lemma inj_of_char: "of_char c = (of_char d :: byte) \<longleftrightarrow> c = d"
proof -
  have u: "unat (of_char c :: byte) = of_char c" for c :: char
    by (simp add: of_char_def horner_sum_bit_eq_take_bit)
  show ?thesis using u [of c] u [of d] by (metis char_of_char)
qed

lemma cbytes_eq [simp]: "cbytes a = cbytes b \<longleftrightarrow> a = b"
  by (simp add: cbytes_def inj_map_eq_map inj_def inj_of_char)

lemma power_handler:
  assumes "vm_wf s"
  shows "\<exists>s' ms. vmt_tclo_halt env s = (Ok (), s') \<and>
      vt_m s' = shutdown (ve_sys env) REBOOT_CMD_POWER_OFF (told ms (vt_m s))"
    "\<exists>s' ms. vmt_tclo_reboot env s = (Ok (), s') \<and>
      vt_m s' = shutdown (ve_sys env) REBOOT_CMD_RESTART (told ms (vt_m s))"
proof -
  have told: "\<exists>t ms. vmt_tclo_state_change_success env n s = (Ok (), t) \<and>
      vt_m (snd (vm_rpc_send_str env VM_RPC_REPLY_OK t)) = told ms (vt_m s)" for n
  proof -
    obtain t where t: "vmt_tclo_state_change_success env n s = (Ok (), t)" "quiet s t"
      using vq.steadyE [OF steady_state_change assms] by (metis (full_types) old.unit.exhaust)
    have "calm t (snd (vm_rpc_send_str env VM_RPC_REPLY_OK t))" by (metis calm_send_str prod.collapse)
    then have "quiet s (snd (vm_rpc_send_str env VM_RPC_REPLY_OK t))" using t(2) vq.rel_trans by (auto simp: calm_def)
    with t show ?thesis by (auto simp: quiet_def)
  qed
  show "\<exists>s' ms. vmt_tclo_halt env s = (Ok (), s') \<and>
      vt_m s' = shutdown (ve_sys env) REBOOT_CMD_POWER_OFF (told ms (vt_m s))"
    using told [of 1] by (auto simp: vmt_tclo_halt_def ShutdownForTools_def Let_def)
  show "\<exists>s' ms. vmt_tclo_reboot env s = (Ok (), s') \<and>
      vt_m s' = shutdown (ve_sys env) REBOOT_CMD_RESTART (told ms (vt_m s))"
    using told [of 2] by (auto simp: vmt_tclo_reboot_def RebootForTools_def Let_def)
qed

lemma process_power:
  "cstr (rp_buf (vt_rpc s)) = cbytes ''OS_Halt'' \<Longrightarrow>
     vmt_tclo_process env s = and_then (vmt_tclo_halt env s) (\<lambda>_ s. (Ok True, s))"
  "cstr (rp_buf (vt_rpc s)) = cbytes ''OS_Reboot'' \<Longrightarrow>
     vmt_tclo_process env s = and_then (vmt_tclo_reboot env s) (\<lambda>_ s. (Ok True, s))"
  by (simp_all add: vmt_tclo_process_def vmt_tclo_rpc_def)

lemma shutdown_status: "initStatus (shutdown env cmd m) = statusPoweroff"
  using core_wind_down [of env m] by (simp add: shutdown_eq core_def)

section \<open>Properties\<close>

text \<open>A hypervisor that leaves the registers as they are, on a machine with one interface.\<close>

definition sample_host :: "unit vmenv" where
  "sample_host =
     \<lparr>ve_cmd = (\<lambda>f h. (f, h)), ve_outs = (\<lambda>f bs h. (f, h)), ve_ins = (\<lambda>f h. (f, \<lambda>_. 0, h)),
      ve_hwaddr = (\<lambda>n. if n = ''eth0'' then Some [0, 0x50, 0x56, 0x1a, 0x2b, 0x7c] else None),
      ve_netmask = (\<lambda>n. if n = ''eth0'' then Some 0x00ffffff else None),
      ve_addr = (\<lambda>n. if n = ''eth0'' then Some [192, 168, 1, 10] else None),
      ve_ParseFloat = (\<lambda>_. None), ve_sys = quiet_system\<rparr>"

lemma sample_host_wf: "env_wf sample_host"
  by (simp add: env_wf_def sample_host_def)

text \<open>
  C22.  The tools thread never leaves its arrays.  Whatever the hypervisor answers and however much data it
  announces, with a host name that fits its array the thread starts, and after any number of rounds it is
  still running with a command buffer of 4096 bytes, the four messages at their lengths, a delay of at
  most five seconds between two rounds, and the error flag of the channel cleared: no round reads or
  writes out of bounds, and every error of the channel ends in a closed channel that the next round opens again.
\<close>

theorem tools_rounds_safe:
  assumes "length hn < 1024" and "env_wf env"
  shows "\<exists>s s'. vmtools_start n hn m h = Ok s \<and> run_rounds env k s = (Ok (), s') \<and> vm_wf s' \<and>
    \<not> rp_error (vt_rpc s')"
  using start_wf [OF assms(1), of n m h] rounds_keep [OF _ assms(2)] by blast

theorem tools_rounds_safe_witness:
  "\<exists>s s'. vmtools_start 1 ''vorteil'' (New (world_of [])) () = Ok s \<and>
    run_rounds sample_host 20 s = (Ok (), s') \<and> vm_wf s' \<and> \<not> rp_error (vt_rpc s')"
  by (rule tools_rounds_safe [OF _ sample_host_wf]) simp

text \<open>
  C23.  The host can switch the machine off and restart it.  The command \<open>OS_Halt\<close> or \<open>OS_Reboot\<close> in the buffer is
  a known command; its handler reports to the host, with at most some messages on the terminal if that
  fails, and then runs the shutdown of \<^verbatim>\<open>power.go\<close>, which ends in the \<open>reboot\<close> system call for it.
\<close>

theorem host_power_commands:
  assumes "vm_wf s" and "initStatus (vt_m s) \<noteq> statusPoweroff"
    and "(name, cmd) \<in> {(''OS_Halt'', REBOOT_CMD_POWER_OFF), (''OS_Reboot'', REBOOT_CMD_RESTART)}"
    and "cstr (rp_buf (vt_rpc s)) = cbytes name"
  shows "\<exists>s' ms. vmt_tclo_process env s = (Ok True, s') \<and> vt_m s' = shutdown (ve_sys env) cmd (told ms (vt_m s)) \<and>
    initStatus (vt_m s') = statusPoweroff \<and>
    last (w_trace (vt_m s')) = EvReboot (if isFirecracker (vt_m s) then REBOOT_CMD_RESTART else cmd)"
proof -
  have "\<exists>s' ms. vmt_tclo_process env s = (Ok True, s') \<and> vt_m s' = shutdown (ve_sys env) cmd (told ms (vt_m s))"
    using assms(3,4) power_handler [OF assms(1), of env] process_power [of s env] by auto
  then show ?thesis using assms(2) by (fastforce simp: shutdown_status shutdown_last)
qed

definition halting :: "unit vmt" where
  "halting =
     \<lparr>vt_rpc = zero_rpc\<lparr>rp_buf := cbytes ''OS_Halt'' @ replicate 4089 0\<rparr>, vt_fdelay = 0, vt_cards = 1,
      vt_hostname = ''vorteil'', vt_card = [card1, card2, card3, card4], vt_m = New (world_of []), vt_h = ()\<rparr>"

theorem host_power_commands_witness:
  "\<exists>s' ms. vmt_tclo_process sample_host halting = (Ok True, s') \<and>
    vt_m s' = shutdown quiet_system REBOOT_CMD_POWER_OFF (told ms (New (world_of []))) \<and>
    initStatus (vt_m s') = statusPoweroff \<and> last (w_trace (vt_m s')) = EvReboot REBOOT_CMD_POWER_OFF"
proof -
  have "vm_wf halting"
    using length_card_message [OF sample_slots_ok] length_card_message [OF sample_slots_ok [of 4]]
    by (simp add: halting_def vm_wf_def card1_def card2_def card3_def card4_def length_sample_slots)
  moreover have "cstr (rp_buf (vt_rpc halting)) = cbytes ''OS_Halt''"
    by (simp add: halting_def cstr_def cbytes_def)
  moreover have "initStatus (vt_m halting) \<noteq> statusPoweroff" "vt_m halting = New (world_of [])"
    "isFirecracker (vt_m halting) = False" "ve_sys sample_host = quiet_system"
    by (simp_all add: halting_def New_def sample_host_def)
  ultimately show ?thesis
    using host_power_commands [of halting "''OS_Halt''" REBOOT_CMD_POWER_OFF sample_host] by simp
qed



text \<open>
  The prefix length is the bit length of the mask in the order of the machine, as a signed number: it is right
  for masks of one, two and three whole bytes, zero for a mask of more than 24 bits, and the next byte's end for
  the others.  A byte of the hardware address from \<^verbatim>\<open>0x80\<close> on takes eight digits, so what fits of the text is wrong.
\<close>

lemma prefix_of_masks:
  "prefix_loop (sint (0x000000ff :: u32)) 0 = 8" "prefix_loop (sint (0x0000ffff :: u32)) 0 = 16"
  "prefix_loop (sint (0x00ffffff :: u32)) 0 = 24" "prefix_loop (sint (0x00feffff :: u32)) 0 = 24"
  "prefix_loop (sint (0x80ffffff :: u32)) 0 = 0" "prefix_loop (sint (0xffffffff :: u32)) 0 = 0"
  using prefix_loop_bits [of "0xff" 8 0] prefix_loop_bits [of "0xffff" 16 0] prefix_loop_bits [of "0xffffff" 24 0]
    prefix_loop_bits [of "0xfeffff" 24 0]
  by (simp_all add: prefix_loop.simps [of "- k" for k])

lemma mac_with_high_byte: "take 17 (mac_text [0x52, 0x54, 0x00, 0xa1, 0xbe, 0xf8]) = ''52:54:00:ffffffa1''"
  by (simp add: mac_text_def hex02_def hex_str.simps hex_char_def char_of_def bit_0)

end
