(* ===== verification/ForkJoin.thy ===== *)
theory ForkJoin
  imports Prelude
begin

text \<open>
  The fork and join of \<open>Setup\<close>, \<open>PostSetup\<close> and \<open>networkSetup\<close>: goroutines that report an error on an
  unbuffered channel before they are done, and a main goroutine that waits for the end of all of them or
  for the first error, after which it closes the channel.  A worker is identified by its position;
  \<open>fails i\<close> is the error worker \<open>i\<close> ends with, if any.  The steps interleave freely.
\<close>

datatype wphase = Working | Sending goerr | Finished

datatype mphase = Waiting | Joined | Failed goerr

record forkjoin =
  fj_ws :: "wphase list"
  fj_main :: mphase
  fj_crashed :: bool

definition fj_init :: "nat \<Rightarrow> forkjoin" where
  "fj_init n = \<lparr>fj_ws = replicate n Working, fj_main = Waiting, fj_crashed = False\<rparr>"

inductive fj_step :: "(nat \<Rightarrow> goerr option) \<Rightarrow> forkjoin \<Rightarrow> forkjoin \<Rightarrow> bool"
  for fails :: "nat \<Rightarrow> goerr option" where
  fj_ok: "\<lbrakk>\<not> fj_crashed s; i < length (fj_ws s); fj_ws s ! i = Working; fails i = None\<rbrakk> \<Longrightarrow>
    fj_step fails s (s\<lparr>fj_ws := (fj_ws s)[i := Finished]\<rparr>)"
| fj_err: "\<lbrakk>\<not> fj_crashed s; i < length (fj_ws s); fj_ws s ! i = Working; fails i = Some e\<rbrakk> \<Longrightarrow>
    fj_step fails s (s\<lparr>fj_ws := (fj_ws s)[i := Sending e]\<rparr>)"
| fj_receive: "\<lbrakk>\<not> fj_crashed s; fj_main s = Waiting; i < length (fj_ws s); fj_ws s ! i = Sending e\<rbrakk> \<Longrightarrow>
    fj_step fails s (s\<lparr>fj_ws := (fj_ws s)[i := Finished], fj_main := Failed e\<rparr>)"
| fj_join: "\<lbrakk>\<not> fj_crashed s; fj_main s = Waiting; \<forall>p \<in> set (fj_ws s). p = Finished\<rbrakk> \<Longrightarrow>
    fj_step fails s (s\<lparr>fj_main := Joined\<rparr>)"
| fj_closed: "\<lbrakk>\<not> fj_crashed s; fj_main s = Failed d; i < length (fj_ws s); fj_ws s ! i = Sending e\<rbrakk> \<Longrightarrow>
    fj_step fails s (s\<lparr>fj_crashed := True\<rparr>)"

inductive fj_reach :: "nat \<Rightarrow> (nat \<Rightarrow> goerr option) \<Rightarrow> forkjoin \<Rightarrow> bool"
  for n :: nat and fails :: "nat \<Rightarrow> goerr option" where
  fj_start: "fj_reach n fails (fj_init n)"
| fj_next: "fj_reach n fails s \<Longrightarrow> fj_step fails s s' \<Longrightarrow> fj_reach n fails s'"

inductive_cases fj_stepE: "fj_step fails s s'"

definition fj_final :: "(nat \<Rightarrow> goerr option) \<Rightarrow> forkjoin \<Rightarrow> bool" where
  "fj_final fails s \<longleftrightarrow> (\<forall>s'. \<not> fj_step fails s s')"

section \<open>Every run ends\<close>

primrec phase_work :: "wphase \<Rightarrow> nat" where
  "phase_work Working = 2"
| "phase_work (Sending e) = 1"
| "phase_work Finished = 0"

definition fj_work :: "forkjoin \<Rightarrow> nat" where
  "fj_work s = sum_list (map phase_work (fj_ws s)) + (if fj_main s = Waiting then 1 else 0) +
     (if fj_crashed s then 0 else 1)"

lemma fj_step_work: "fj_step fails s s' \<Longrightarrow> fj_work s' < fj_work s"
  by (erule fj_stepE) (auto simp: fj_work_def intro!: add_less_le_mono sum_list_update_less less_SucI)

section \<open>What reachable states look like\<close>

definition failing :: "nat \<Rightarrow> (nat \<Rightarrow> goerr option) \<Rightarrow> nat set" where
  "failing n fails = {i. i < n \<and> fails i \<noteq> None}"

text \<open>
  A worker that sends has the error it fails with; a failing worker is finished only when its error was
  the one received.
\<close>

definition fj_inv :: "nat \<Rightarrow> (nat \<Rightarrow> goerr option) \<Rightarrow> forkjoin \<Rightarrow> bool" where
  "fj_inv n fails s \<longleftrightarrow>
     length (fj_ws s) = n \<and>
     (\<forall>i < n. \<forall>e. fj_ws s ! i = Sending e \<longrightarrow> fails i = Some e) \<and>
     (case fj_main s of
        Waiting \<Rightarrow> \<forall>i < n. fj_ws s ! i = Finished \<longrightarrow> fails i = None
      | Joined \<Rightarrow> (\<forall>i < n. fj_ws s ! i = Finished \<and> fails i = None)
      | Failed e \<Rightarrow> \<exists>j < n. fails j = Some e \<and> fj_ws s ! j = Finished \<and>
                      (\<forall>i < n. i \<noteq> j \<longrightarrow> fj_ws s ! i = Finished \<longrightarrow> fails i = None)) \<and>
     (fj_crashed s \<longrightarrow> (\<exists>e. fj_main s = Failed e) \<and> (\<exists>i < n. \<exists>e. fj_ws s ! i = Sending e))"

lemma fj_inv_init: "fj_inv n fails (fj_init n)"
  by (simp add: fj_inv_def fj_init_def)

lemma fj_inv_step:
  assumes "fj_inv n fails s" and "fj_step fails s s'"
  shows "fj_inv n fails s'"
  using assms(2)
proof cases
  case (fj_ok i)
  with assms(1) show ?thesis
    by (auto simp: fj_inv_def nth_list_update split: mphase.splits)
next
  case (fj_err i e)
  show ?thesis
  proof (cases "fj_main s")
    case (Failed d)
    then obtain j where j: "j < n" "fails j = Some d" "fj_ws s ! j = Finished"
      "\<forall>i < n. i \<noteq> j \<longrightarrow> fj_ws s ! i = Finished \<longrightarrow> fails i = None"
      using assms(1) by (auto simp: fj_inv_def)
    with fj_err have "i \<noteq> j" by auto
    with Failed fj_err j assms(1) show ?thesis
      by (simp add: fj_inv_def nth_list_update) (intro exI [of _ j], simp)
  qed (use fj_err assms(1) in \<open>auto simp: fj_inv_def nth_list_update\<close>)
next
  case (fj_receive i e)
  with assms(1) show ?thesis
    by (auto simp: fj_inv_def nth_list_update intro!: exI [of _ i])
next
  case fj_join
  with assms(1) show ?thesis by (auto simp: fj_inv_def)
next
  case (fj_closed d i e)
  with assms(1) show ?thesis by (auto simp: fj_inv_def)
qed

lemma fj_reach_inv: "fj_reach n fails s \<Longrightarrow> fj_inv n fails s"
  by (induction rule: fj_reach.induct) (auto intro: fj_inv_init fj_inv_step)

section \<open>Final states\<close>

text \<open>In a state that is not final, nobody waits in vain: a final state has no sender left.\<close>

lemma fj_final_workers:
  assumes "fj_final fails s" and "\<not> fj_crashed s" and "i < length (fj_ws s)"
  shows "fj_ws s ! i = Finished \<or> (fj_main s = Joined \<and> (\<exists>e. fj_ws s ! i = Sending e))"
proof (cases "fj_ws s ! i")
  case Working
  then show ?thesis
    using assms fj_ok [OF assms(2,3) Working, of fails] fj_err [OF assms(2,3) Working, of fails]
    by (cases "fails i") (auto simp: fj_final_def)
next
  case (Sending e)
  then show ?thesis
    using assms fj_receive [OF assms(2) _ assms(3) Sending] fj_closed [OF assms(2) _ assms(3) Sending]
    by (cases "fj_main s") (auto simp: fj_final_def)
qed simp

lemma fj_final_main:
  assumes "fj_final fails s" and "\<not> fj_crashed s"
  shows "fj_main s \<noteq> Waiting"
proof
  assume w: "fj_main s = Waiting"
  then have "\<forall>p \<in> set (fj_ws s). p = Finished"
    using fj_final_workers [OF assms] by (auto simp: in_set_conv_nth)
  from fj_join [OF assms(2) w this] assms(1) show False by (auto simp: fj_final_def)
qed

lemma failing_finite: "finite (failing n fails)"
  by (simp add: failing_def)

lemma final_cases:
  assumes "fj_inv n fails s" and "fj_final fails s"
  shows "if fj_crashed s then 2 \<le> card (failing n fails)
    else if fj_main s = Joined then failing n fails = {}
    else \<exists>j e. fj_main s = Failed e \<and> failing n fails = {j} \<and> fails j = Some e"
proof (cases "fj_crashed s")
  case True
  then obtain e d i j where "fj_main s = Failed e" "j < n" "fails j = Some e" "fj_ws s ! j = Finished"
    "i < n" "fj_ws s ! i = Sending d" "fails i = Some d"
    using assms(1) by (auto simp: fj_inv_def)
  then have "{i, j} \<subseteq> failing n fails" "i \<noteq> j" by (auto simp: failing_def)
  then have "card {i, j} \<le> card (failing n fails)" by (intro card_mono failing_finite)
  with True \<open>i \<noteq> j\<close> show ?thesis by simp
next
  case False
  show ?thesis
  proof (cases "fj_main s")
    case Waiting
    then show ?thesis using fj_final_main [OF assms(2) False] by simp
  next
    case Joined
    then have "failing n fails = {}" using assms(1) by (auto simp: fj_inv_def failing_def)
    with Joined False show ?thesis by simp
  next
    case (Failed e)
    then obtain j where j: "j < n" "fails j = Some e" "\<forall>i < n. i \<noteq> j \<longrightarrow> fj_ws s ! i = Finished \<longrightarrow> fails i = None"
      "length (fj_ws s) = n"
      using assms(1) by (auto simp: fj_inv_def)
    have "fails i = None" if "i < n" "i \<noteq> j" for i
      using that j fj_final_workers [OF assms(2) False, of i] Failed by auto
    then have "failing n fails = {j}" using j(1,2) by (fastforce simp: failing_def)
    with Failed False j show ?thesis by auto
  qed
qed

lemma fj_run_work: "(fj_step fails ^^ k) s s' \<Longrightarrow> k + fj_work s' \<le> fj_work s"
proof (induction k arbitrary: s')
  case (Suc k)
  then obtain t where "(fj_step fails ^^ k) s t" "fj_step fails t s'" by auto
  with Suc.IH [of t] fj_step_work [of fails t s'] show ?case by simp
qed simp

lemma fj_run_bounded: "(fj_step fails ^^ k) (fj_init n) s \<Longrightarrow> k \<le> 2 * n + 2"
  using fj_run_work [of k fails "fj_init n" s] by (simp add: fj_work_def fj_init_def sum_list_replicate)

section \<open>Properties\<close>

text \<open>
  C28.  A fork and join ends, and how it ends depends on the number of failing workers only.  A run of
  \<open>n\<close> workers makes at most \<open>2 n + 2\<close> steps, so every run ends; and whatever the interleaving, the run ends with the join when no
  worker fails, with the error of the failing worker when exactly one fails, and with the crash of the
  whole process, by a send on the closed channel, when two or more fail (unless the caller has the machine switched off
  before).
\<close>

theorem forkjoin_outcome:
  assumes "fj_reach n fails s" and "fj_final fails s"
  shows "(\<forall>k t. (fj_step fails ^^ k) (fj_init n) t \<longrightarrow> k \<le> 2 * n + 2) \<and>
    (fj_crashed s \<longleftrightarrow> 2 \<le> card (failing n fails)) \<and>
    (\<not> fj_crashed s \<and> fj_main s = Joined \<longleftrightarrow> failing n fails = {}) \<and>
    (\<forall>j e. failing n fails = {j} \<and> fails j = Some e \<longrightarrow> \<not> fj_crashed s \<and> fj_main s = Failed e)"
proof -
  note c = final_cases [OF fj_reach_inv [OF assms(1)] assms(2)]
  show ?thesis
  proof (cases "fj_crashed s")
    case True
    with c have "2 \<le> card (failing n fails)" by simp
    with True fj_run_bounded show ?thesis by auto
  next
    case False
    with c fj_run_bounded show ?thesis by (auto split: if_splits)
  qed
qed

section \<open>A run of three workers, two of which fail\<close>

definition two_fail :: "nat \<Rightarrow> goerr option" where
  "two_fail i = (if i = 0 \<or> i = 2 then Some EIO else None)"

definition fj_crash :: forkjoin where
  "fj_crash = \<lparr>fj_ws = [Finished, Finished, Sending EIO], fj_main = Failed EIO, fj_crashed = True\<rparr>"

lemma fj_crash_run:
  assumes "fails 0 = Some EIO" and "fails 1 = None" and "fails 2 = Some EIO"
  shows "(fj_step fails ^^ 5) (fj_init 3) fj_crash"
proof -
  let ?s = "\<lambda>ws m c. \<lparr>fj_ws = ws, fj_main = m, fj_crashed = c\<rparr>"
  have 1: "fj_step fails (fj_init 3) (?s [Sending EIO, Working, Working] Waiting False)"
    using fj_err [of "fj_init 3" 0 fails EIO] by (simp add: fj_init_def numeral_3_eq_3 assms)
  have 2: "fj_step fails (?s [Sending EIO, Working, Working] Waiting False)
      (?s [Finished, Working, Working] (Failed EIO) False)"
    using fj_receive [of "?s [Sending EIO, Working, Working] Waiting False" 0 EIO fails] by simp
  have 3: "fj_step fails (?s [Finished, Working, Working] (Failed EIO) False)
      (?s [Finished, Finished, Working] (Failed EIO) False)"
    using fj_ok [of "?s [Finished, Working, Working] (Failed EIO) False" 1 fails] by (simp add: assms [simplified])
  have 4: "fj_step fails (?s [Finished, Finished, Working] (Failed EIO) False)
      (?s [Finished, Finished, Sending EIO] (Failed EIO) False)"
    using fj_err [of "?s [Finished, Finished, Working] (Failed EIO) False" 2 fails EIO] by (simp add: assms [simplified])
  have 5: "fj_step fails (?s [Finished, Finished, Sending EIO] (Failed EIO) False) fj_crash"
    using fj_closed [of "?s [Finished, Finished, Sending EIO] (Failed EIO) False" EIO 2 EIO fails]
    by (simp add: fj_crash_def)
  note run = relpowp_Suc_I [where P = "fj_step fails"]
  have "(fj_step fails ^^ Suc (Suc (Suc (Suc (Suc 0))))) (fj_init 3) fj_crash"
    by (rule run [OF run [OF run [OF run [OF run [OF relpowp_0_I 1] 2] 3] 4] 5])
  moreover have "Suc (Suc (Suc (Suc (Suc 0)))) = 5" by simp
  ultimately show ?thesis by (simp only:)
qed

lemma fj_run_reach: "(fj_step fails ^^ k) (fj_init n) s \<Longrightarrow> fj_reach n fails s"
  by (induction k arbitrary: s) (auto intro: fj_reach.intros)

lemma two_fail_run: "(fj_step two_fail ^^ 5) (fj_init 3) fj_crash"
  by (rule fj_crash_run) (simp_all add: two_fail_def)

lemma fj_crash_final: "fj_final fails fj_crash"
  by (auto simp: fj_final_def fj_crash_def elim: fj_stepE)

theorem forkjoin_outcome_witness:
  "fj_reach 3 two_fail fj_crash \<and> fj_final two_fail fj_crash \<and> 2 \<le> card (failing 3 two_fail)"
  using forkjoin_outcome [OF fj_run_reach [OF two_fail_run] fj_crash_final] fj_run_reach [OF two_fail_run]
    fj_crash_final by (simp add: fj_crash_def)

end
