(* ===== verification/Vinitd.thy ===== *)
theory Vinitd
  imports Network Logging Hostname ForkJoin
begin

text \<open>
  \<^verbatim>\<open>pkg/vorteil/vinitd.go\<close> and \<^verbatim>\<open>cmd/vorteil.go\<close>: the stages of the boot and the main program.  Everything
  from outside is collected in the record \<open>bootenv\<close>.  The goroutines a stage waits for run one after the
  other in an order that is a parameter; theory \<open>ForkJoin\<close> has their free interleaving.  The goroutines
  a stage starts and does not wait for run where they are started.
\<close>

record bootenv =
  be_sys :: sysview
  be_nk :: netkern
  be_kern :: diskkern
  be_fmt :: bootfmt
  be_kn :: "string \<Rightarrow> string \<Rightarrow> string"
  be_ord :: "gomap \<Rightarrow> gomap"
  be_statik :: "string \<Rightarrow> string outcome"
  be_ce :: cloudenv
  be_de :: dnsenv
  be_lo :: logenv
  be_lookup :: "string \<Rightarrow> ip list outcome"
  be_chrony :: "goerr option"
  be_busybox :: "string outcome"
  be_launch :: launchenv
  be_epoll :: epoll
  be_rnd :: "nat \<Rightarrow> nat"
  be_unicode :: "string \<Rightarrow> string"
  be_SaltedHostname :: "VCFG \<Rightarrow> string"
  be_blocks :: "string list outcome"
  be_device :: "string \<Rightarrow> dev"
  be_network_in :: "string \<Rightarrow> (string \<times> string \<times> string) outcome"
  be_setup_order :: "nat list"
  be_post_order :: "nat list"
  be_launch_order :: "nat list"

text \<open>The machine with its boot disk, its terminals and the upstream name servers.\<close>

record boot =
  bt_m :: machine
  bt_disk :: dev
  bt_tty :: ttys
  bt_dns :: "string list"

type_synonym boot_run = "(unit outcome \<times> boot) option"

definition on_m :: "(machine \<Rightarrow> machine) \<Rightarrow> boot \<Rightarrow> boot" where
  "on_m f b = b\<lparr>bt_m := f (bt_m b)\<rparr>"

section \<open>Kernel command line and mount options\<close>

definition hasCmdLineString :: "string \<Rightarrow> 'a world_scheme \<Rightarrow> bool \<times> 'a world_scheme" where
  "hasCmdLineString ss w =
     (case ReadFile ''/proc/cmdline'' w of
        Ok cmd \<Rightarrow>
          (let w = logDebug ''cmdline: %s'' w;
               w = logDebug ''check cmdline for string: %v'' w in
           if List.member (Split (TrimSuffix cmd newline) '' '') ss
           then (True, logDebug ''found string in cmdline %s'' w) else (False, w))
      | _ \<Rightarrow> (False, w))"

definition MS_RDONLY :: nat where "MS_RDONLY = 1"
definition MS_REMOUNT :: nat where "MS_REMOUNT = 32"
definition MS_NOATIME :: nat where "MS_NOATIME = 1024"
definition MS_SILENT :: nat where "MS_SILENT = 32768"
definition MS_LAZYTIME :: nat where "MS_LAZYTIME = 2 ^ 25"

record mountline =
  ml_dev :: string
  ml_path :: string
  ml_fstype :: string
  ml_opts :: string

text \<open>The four words of a line; a word that cannot be scanned keeps its value of the line before.\<close>

definition scan_mount :: "string \<Rightarrow> mountline \<Rightarrow> mountline" where
  "scan_mount l v =
     (case scan_word l of None \<Rightarrow> v | Some (a, l) \<Rightarrow> let v = v\<lparr>ml_dev := a\<rparr> in
      case scan_word l of None \<Rightarrow> v | Some (a, l) \<Rightarrow> let v = v\<lparr>ml_path := a\<rparr> in
      case scan_word l of None \<Rightarrow> v | Some (a, l) \<Rightarrow> let v = v\<lparr>ml_fstype := a\<rparr> in
      case scan_word l of None \<Rightarrow> v | Some (a, l) \<Rightarrow> v\<lparr>ml_opts := a\<rparr>)"

definition root_opts :: "string \<Rightarrow> string option" where
  "root_opts fstype =
     (if fstype = ''ext2'' then Some ''barrier=0''
      else if fstype = ''ext4'' then Some ''nodiscard,commit=30,inode_readahead_blks=64''
      else if fstype = ''xfs'' then Some ''nodiscard,attr2,inode64,noquota''
      else None)"

text \<open>The flags are disjoint bits, so their sum is the bitwise or.\<close>

definition root_flags :: "bool \<Rightarrow> bool \<Rightarrow> nat" where
  "root_flags record_mode ro =
     (if record_mode then MS_REMOUNT else MS_REMOUNT + MS_NOATIME + MS_LAZYTIME) + (if ro then MS_RDONLY else 0)"

fun mount_loop ::
  "string \<Rightarrow> bool \<Rightarrow> string list \<Rightarrow> mountline \<Rightarrow> 'a world_scheme \<Rightarrow> unit outcome \<times> 'a world_scheme" where
  "mount_loop part ro [] v w = (Err (Errorf ''can not find root filesystem''), w)"
| "mount_loop part ro (l # ls) v w =
     (let v = scan_mount l v;
          w = logDebug ''mount options %s'' w;
          (rec, w) = hasCmdLineString ''recordmode'' w;
          flags = root_flags rec ro in
      if ml_path v = ''/'' then
        let w = logDebug ''config %s filesystem on %s, %s'' w in
        (case root_opts (ml_fstype v) of
           None \<Rightarrow> (Err (Errorf ''unknown filesystem format: %s''), w)
         | Some opts \<Rightarrow>
             syscall_Mount part ''/'' (ml_fstype v) flags opts (logDebug ''using fs opts %s, flags %x'' w))
      else mount_loop part ro ls v w)"

definition setupMountOptions :: "string \<Rightarrow> bool \<Rightarrow> 'a world_scheme \<Rightarrow> unit outcome \<times> 'a world_scheme" where
  "setupMountOptions disk ro w =
     and_then (os_Open ''/proc/mounts'' w, w) (\<lambda>_ w.
     let content = (case ReadFile ''/proc/mounts'' w of Ok c \<Rightarrow> c | _ \<Rightarrow> []);
         v = \<lparr>ml_dev = [], ml_path = [], ml_fstype = [], ml_opts = []\<rparr>;
         scan_error = length (scan_lines content) < length (raw_lines content) in
     case mount_loop (disk @ ''2'') ro (scan_lines content) v w of
       (Err e, w) \<Rightarrow>
         (Err (if e = Errorf ''can not find root filesystem'' \<and> scan_error
               then Errorf ''could not detect filesystem type: %s'' else e), w)
     | r \<Rightarrow> r)"

section \<open>PreSetup\<close>

definition direktivDir :: string where "direktivDir = ''/direktiv-data''"

definition uuidPlain :: "byte list" where
  "uuidPlain = [0x7d, 0x44, 0x48, 0x40, 0x9d, 0xc0, 0x11, 0xd1, 0xb2, 0x45, 0x5f, 0xfd, 0xce, 0x74, 0xfa, 0xd3]"

definition create_log :: "sysview \<Rightarrow> string \<Rightarrow> machine \<Rightarrow> machine" where
  "create_log env name m =
     (case OpenFile True False (PathJoin [direktivDir, name]) m of
        (Ok q, m) \<Rightarrow> m
      | (_, m) \<Rightarrow> SystemPanic env ''can not create log file: %v'' m)"

text \<open>The first network of the configuration takes the settings of the data disk.\<close>

definition set_first_network :: "string \<times> string \<times> string \<Rightarrow> machine \<Rightarrow> unit outcome \<times> machine" where
  "set_first_network nws m =
     (let (i, k, g) = nws in
      case vc_Networks (vcfg m) of
        Some (n # ns) \<Rightarrow>
          (Ok (), m\<lparr>vcfg := (vcfg m)\<lparr>vc_Networks := Some (n\<lparr>ni_IP := i, ni_Gateway := g, ni_Mask := k\<rparr> # ns)\<rparr>\<rparr>)
      | _ \<Rightarrow> (Panic IndexOutOfRange, m))"

definition use_data_disk :: "bootenv \<Rightarrow> string \<Rightarrow> machine \<Rightarrow> unit outcome \<times> machine" where
  "use_data_disk be f m =
     (let env = be_sys be;
          m = logDebug ''mounting %s to %s'' m;
          (r, m) = syscall_Mount (''/dev/'' @ f @ ''1'') direktivDir ''ext2'' (MS_NOATIME + MS_SILENT) ''barrier=0'' m;
          m = (if is_ok r then m else SystemPanic env ''can not mount direktiv data disk: %v'' m);
          nw = ReadFile (PathJoin [direktivDir, ''network.in'']) m;
          m = (if is_ok nw then m else SystemPanic env ''can not read direktiv network settings: %v'' m);
          nws = be_network_in be (case nw of Ok c \<Rightarrow> c | _ \<Rightarrow> []);
          m = (if is_ok nws then m else SystemPanic env ''can not read direktiv network settings json: %v'' m);
          m = create_log env ''error.log'' m;
          m = create_log env ''log.log'' m in
      and_then (set_first_network (case nws of Ok x \<Rightarrow> x | _ \<Rightarrow> ([], [], [])) m)
        (\<lambda>_ m. (Ok (), m\<lparr>isFirecracker := True\<rparr>)))"

fun scan_disks :: "bootenv \<Rightarrow> string list \<Rightarrow> machine \<Rightarrow> unit outcome \<times> machine" where
  "scan_disks be [] m = (Ok (), m)"
| "scan_disks be (f # fs) m =
     (if \<not> HasPrefix f ''loop'' \<and> f \<noteq> path_Base (diskname m) then
        let m = logDebug ''checking disk for flux: %v'' m; p = PathJoin [''/dev'', f] in
        (case os_Open p m of
           Ok _ \<Rightarrow>
             (case f_read_at 16 (512 + 56) \<lparr>fdev = be_device be p, fpos = 0\<rparr> of
                Ok puid \<Rightarrow>
                  if puid = uuidPlain then and_then (use_data_disk be f m) (\<lambda>_ m. scan_disks be fs m)
                  else scan_disks be fs m
              | _ \<Rightarrow> scan_disks be fs m)
         | _ \<Rightarrow> scan_disks be fs m)
      else scan_disks be fs m)"

definition direktiv_disk :: "bootenv \<Rightarrow> machine \<Rightarrow> unit outcome \<times> machine" where
  "direktiv_disk be m =
     (let (d, m) = hasCmdLineString ''direktiv'' m in
      if d then (case be_blocks be of Ok files \<Rightarrow> scan_disks be files m | _ \<Rightarrow> (Ok (), m)) else (Ok (), m))"

definition mount_options :: "machine \<Rightarrow> machine" where
  "mount_options m =
     (let (ro, m) = hasCmdLineString ''ro'' m;
          m = m\<lparr>readOnly := ro\<rparr> in
      case setupMountOptions (diskname m) ro m of
        (Ok _, m) \<Rightarrow> m
      | (_, m) \<Rightarrow> logError ''can not setup mount options: %s'' m)"

text \<open>Milliseconds; a configuration without a value comes from an old image.\<close>

definition set_terminate_wait :: "machine \<Rightarrow> machine" where
  "set_terminate_wait m =
     (let t = sy_TerminateWait (vc_System (vcfg m)); m = m\<lparr>terminateWait := t\<rparr> in
      if t = 0
      then (logWarn ''system.terminate-wait is empty. This suggests vorteil binary is out of date'' m)\<lparr>terminateWait := 3000\<rparr>
      else m)"

text \<open>The boot disk, the configuration on it, the mount options and the data disk.\<close>

definition load_config :: "bootenv \<Rightarrow> dev \<Rightarrow> machine \<Rightarrow> unit outcome \<times> machine" where
  "load_config be d m =
     and_then (bootDisk m, m) (\<lambda>p m.
       let m = m\<lparr>diskname := p\<rparr> in
       case readVCFG (be_fmt be) p d m of
         (Err e, m) \<Rightarrow> (Err e, logWarn ''error loading vcfg: %s'' m)
       | (Panic x, m) \<Rightarrow> (Panic x, m)
       | (Ok _, m) \<Rightarrow> direktiv_disk be (mount_options m))"

definition PreSetup :: "bootenv \<Rightarrow> boot \<Rightarrow> unit outcome \<times> boot" where
  "PreSetup be b =
     (let (t, m) = setupVtty StdoutModeUnknown (bt_tty b, bt_m b);
          b = b\<lparr>bt_tty := t\<rparr> in
      case setupBasicDirectories (be_sys be) ''/'' m of
        (Err e, m) \<Rightarrow> (Err e, b\<lparr>bt_m := logError ''error prep directories: %s'' m\<rparr>)
      | (Panic x, m) \<Rightarrow> (Panic x, b\<lparr>bt_m := m\<rparr>)
      | (Ok _, m) \<Rightarrow>
          (case load_config be (bt_disk b) (emit (EvCall ''go'' [''checkLogs'']) m) of
             (Err e, m) \<Rightarrow> (Err e, b\<lparr>bt_m := m\<rparr>)
           | (Panic x, m) \<Rightarrow> (Panic x, b\<lparr>bt_m := m\<rparr>)
           | (Ok _, m) \<Rightarrow>
               (case growDisks (be_kern be) (bt_disk b, m) of
                  (Err e, d, m) \<Rightarrow> (Err e, b\<lparr>bt_m := m, bt_disk := d\<rparr>)
                | (Panic x, d, m) \<Rightarrow> (Panic x, b\<lparr>bt_m := m, bt_disk := d\<rparr>)
                | (Ok _, d, m) \<Rightarrow>
                    (Ok (), b\<lparr>bt_disk := d,
                       bt_m := set_terminate_wait (logDebug ''pre-setup finished successfully'' m)\<rparr>))))"

section \<open>Fork and join\<close>

text \<open>
  The workers one after the other.  A worker that never returns keeps the join from happening; the first
  error is received and the channel closed, so a second error is a panic.
\<close>

fun join_workers :: "('s \<Rightarrow> (unit outcome \<times> 's) option) list \<Rightarrow> goerr option \<Rightarrow> bool \<Rightarrow> 's \<Rightarrow> (unit outcome \<times> 's) option" where
  "join_workers [] err blocked s =
     (case err of
        Some e \<Rightarrow> Some (Err e, s)
      | None \<Rightarrow> if blocked then None else Some (Ok (), s))"
| "join_workers (w # ws) err blocked s =
     (case w s of
        None \<Rightarrow> join_workers ws err True s
      | Some (Ok _, s) \<Rightarrow> join_workers ws err blocked s
      | Some (Err e, s) \<Rightarrow>
          (case err of None \<Rightarrow> join_workers ws (Some e) blocked s | Some _ \<Rightarrow> Some (Panic SendOnClosed, s))
      | Some (Panic x, s) \<Rightarrow> Some (Panic x, s))"


section \<open>Setup\<close>

definition network_worker :: "bootenv \<Rightarrow> machine \<Rightarrow> run" where
  "network_worker be m =
     (case networkSetup (be_sys be) (be_nk be) m of
        Some (Err e, m) \<Rightarrow> Some (Err e, logError ''error setting up network: %s'' m)
      | r \<Rightarrow> r)"

text \<open>The error of the system configuration is logged and not reported.\<close>

definition config_worker :: "bootenv \<Rightarrow> machine \<Rightarrow> run" where
  "config_worker be m =
     (case systemConfig (be_sys be) (be_kn be) (be_ord be) (vc_Sysctl (vcfg m)) (hostname m)
             (int (sy_MaxFDs (vc_System (vcfg m)))) m of
        (Err e, m) \<Rightarrow> Some (Ok (), logError ''can not setup basic config: %s'' m)
      | r \<Rightarrow> Some r)"

definition etc_worker :: "bootenv \<Rightarrow> machine \<Rightarrow> run" where
  "etc_worker be m =
     (if readOnly m then Some (Ok (), m)
      else case etcGenerateFiles (be_statik be) (be_ord be) (hostname m) (v_user m) m of
        (Err e, m) \<Rightarrow> Some (Err e, logError ''error creating etc files: %s'' m)
      | r \<Rightarrow> Some r)"

definition setup_workers :: "bootenv \<Rightarrow> (machine \<Rightarrow> run) list" where
  "setup_workers be = map (\<lambda>i. [network_worker be, config_worker be, etc_worker be] ! i) (be_setup_order be)"

definition resolv_text :: "string \<Rightarrow> string list \<Rightarrow> string" where
  "resolv_text rc domains =
     rc @ ''options edns0'' @ newline @ ''search'' @ concat (map (\<lambda>s. '' '' @ s) domains) @ newline"

definition write_resolv :: "machine \<Rightarrow> unit outcome \<times> machine" where
  "write_resolv m =
     (if searchDomains m \<noteq> [] then
        and_then (ReadFile ''/etc/resolv.conf'' m, m)
          (\<lambda>rc m. WriteFile ''/etc/resolv.conf'' (resolv_text rc (searchDomains m)) m)
      else (Ok (), m))"

definition update_hostname :: "string \<Rightarrow> machine \<Rightarrow> machine" where
  "update_hostname hn m =
     (if hostname m \<noteq> hn then
        let m = logDebug ''changed hostname from %s to %s'' m;
            m = ignoring (os_Remove ''/etc/hosts'' m);
            m = ignoring (os_Remove ''/etc/hostname'' m) in
        ignoring (genHostnameFile (hostname m) m)
      else m)"

definition prep_programs :: "machine \<Rightarrow> machine" where
  "prep_programs m = fold (\<lambda>(i, p) m. prepProgram p i m) (List.enumerate 0 (vc_Programs (vcfg m))) m"

definition after_setup :: "string \<Rightarrow> machine \<Rightarrow> unit outcome \<times> machine" where
  "after_setup hn m =
     and_then (write_resolv m)
       (\<lambda>_ m. (Ok (), logDebug ''system setup successful'' (prep_programs (update_hostname hn m))))"

text \<open>The goroutines \<open>Setup\<close> starts first; only the disk scheduler can panic.\<close>

definition setup_background :: "bootenv \<Rightarrow> machine \<Rightarrow> unit outcome \<times> machine" where
  "setup_background be m =
     (let m = emit (EvCall ''go'' [''waitForSignal'']) m in
      and_then (changeDiskScheduler (diskname m) m) (\<lambda>_ m.
      let m = listenToPowerEvent (be_epoll be) m;
          m = (if \<not> readOnly m then prepSbinPower m else m);
          m = emit (EvCall ''reboot'' [''CAD_OFF'']) m in
      (Ok (), ignoring (printVersion m))))"

definition choose_hostname :: "bootenv \<Rightarrow> machine \<Rightarrow> string outcome \<times> machine" where
  "choose_hostname be m =
     (case setHostname (be_rnd be) (be_unicode be) (be_SaltedHostname be (vcfg m)) of
        Ok hn \<Rightarrow> (Ok hn, logDebug ''set hostname to %s'' (m\<lparr>hostname := hn\<rparr>))
      | Err e \<Rightarrow> (Ok [], logDebug ''set hostname to %s'' (logWarn ''could not set hostname: %s'' m))
      | Panic x \<Rightarrow> (Panic x, m))"

definition Setup :: "bootenv \<Rightarrow> boot \<Rightarrow> boot_run" where
  "Setup be b =
     (let m = logDebug ''output mode: %v'' (bt_m b);
          (t, m) = setupVtty (sy_StdoutMode (vc_System (vcfg m))) (bt_tty b, m);
          b = b\<lparr>bt_tty := t\<rparr>;
          (r, m) = and_then (setup_background be m) (\<lambda>_ m. choose_hostname be m) in
      case r of
        Err e \<Rightarrow> Some (Err e, b\<lparr>bt_m := m\<rparr>)
      | Panic x \<Rightarrow> Some (Panic x, b\<lparr>bt_m := m\<rparr>)
      | Ok hn \<Rightarrow>
          (case join_workers (setup_workers be) None False (logDebug ''system setup waiting to finish'' m) of
             None \<Rightarrow> None
           | Some (Panic x, m) \<Rightarrow> Some (Panic x, b\<lparr>bt_m := m\<rparr>)
           | Some (r, m) \<Rightarrow>
               (let m = (if is_ok r then m else SystemPanic (be_sys be) ''system setup failed: %s'' m);
                    (r, m) = after_setup hn m in
                Some (r, b\<lparr>bt_m := m\<rparr>))))"

section \<open>PostSetup\<close>

definition nfs_worker :: "bootenv \<Rightarrow> machine \<Rightarrow> run" where
  "nfs_worker be m = Some (Ok (), setupNFS (be_lookup be) (vc_NFS (vcfg m)) m)"

definition logging_worker :: "bootenv \<Rightarrow> machine \<Rightarrow> run" where
  "logging_worker be m =
     (if vc_Logging (vcfg m) \<noteq> [] \<and> \<not> readOnly m then Some (startLogging (be_sys be) (be_lo be) m)
      else if vc_Logging (vcfg m) \<noteq> [] then Some (Ok (), logWarn ''filesystem read-only, can not start logging'' m)
      else Some (Ok (), m))"

definition cloud_worker :: "bootenv \<Rightarrow> machine \<Rightarrow> run" where
  "cloud_worker be m =
     (case ReadFile ''/sys/devices/virtual/dmi/id/bios_vendor'' m of
        Ok bios \<Rightarrow>
          (let ((h, c), m) = hypervisorGuess bios m in
           Some (fetchCloudMetadata (be_ce be) (m\<lparr>hv_hypervisor := h, hv_cloud := c\<rparr>)))
      | _ \<Rightarrow>
          Some (basicEnv (be_ce be)
            ((logWarn ''can not read bios vendor'' m)\<lparr>hv_hypervisor := hvUnknown, hv_cloud := cpUnknown\<rparr>)))"

definition busybox_worker :: "bootenv \<Rightarrow> machine \<Rightarrow> run" where
  "busybox_worker be m = Some (runBusyboxScript (be_busybox be) m)"

definition chrony_worker :: "bootenv \<Rightarrow> machine \<Rightarrow> run" where
  "chrony_worker be m = Some (setupChronyD (be_chrony be) (sy_NTP (vc_System (vcfg m))) m)"

text \<open>The logging worker waits for the cloud metadata: it comes after it in every order.\<close>

definition post_workers :: "bootenv \<Rightarrow> (machine \<Rightarrow> run) list" where
  "post_workers be =
     map (\<lambda>i. [nfs_worker be, logging_worker be, cloud_worker be, busybox_worker be, chrony_worker be] ! i)
       (be_post_order be)"

definition PostSetup :: "bootenv \<Rightarrow> boot \<Rightarrow> boot_run" where
  "PostSetup be b =
     (case basicEnv (be_ce be) (bt_m b) of
        (Panic x, m) \<Rightarrow> Some (Panic x, b\<lparr>bt_m := m\<rparr>)
      | (_, m) \<Rightarrow>
          (let ((r, dns), m) = startDNS (be_de be) defaultDNSAddr True (bt_dns b) m;
               b = b\<lparr>bt_dns := dns\<rparr>;
               m = (if is_ok r then m else logWarn ''can not start local DNS server'' m) in
           case join_workers (post_workers be) None False m of
             None \<Rightarrow> None
           | Some (Panic x, m) \<Rightarrow> Some (Panic x, b\<lparr>bt_m := m\<rparr>)
           | Some (r, m) \<Rightarrow>
               (let m = (if is_ok r then m else SystemPanic (be_sys be) ''system post-setup failed: %s'' m);
                    m = (logDebug ''post setup finished successfully'' m)\<lparr>initStatus := statusRun\<rparr> in
                Some (Ok (), b\<lparr>bt_m := m\<rparr>))))"

section \<open>The main program\<close>

definition Launch_stage :: "bootenv \<Rightarrow> boot \<Rightarrow> boot_run" where
  "Launch_stage be b =
     map_option (\<lambda>(r, m). (r, b\<lparr>bt_m := m\<rparr>)) (Launch (be_launch be) (be_sys be) (be_launch_order be) (bt_m b))"

definition stages :: "bootenv \<Rightarrow> (string \<times> (boot \<Rightarrow> boot_run)) list" where
  "stages be = [(''pre-setup'', \<lambda>b. Some (PreSetup be b)), (''setup'', Setup be), (''post-setup'', PostSetup be),
     (''launch'', Launch_stage be)]"

text \<open>A stage that fails shuts the machine down; the loop goes on when that call returns.\<close>

fun run_stages :: "bootenv \<Rightarrow> (string \<times> (boot \<Rightarrow> boot_run)) list \<Rightarrow> boot \<Rightarrow> boot_run" where
  "run_stages be [] b = Some (Ok (), b)"
| "run_stages be ((name, fn) # ss) b =
     (case fn (on_m (LogDebugEarly (''starting seq '' @ name)) b) of
        None \<Rightarrow> None
      | Some (Ok _, b) \<Rightarrow> run_stages be ss b
      | Some (Err e, b) \<Rightarrow> run_stages be ss (on_m (SystemPanic (be_sys be) ''can not run %s: %s'') b)
      | Some (Panic x, b) \<Rightarrow> Some (Panic x, b))"

definition main_init :: "bootenv \<Rightarrow> world \<Rightarrow> dev \<Rightarrow> boot_run" where
  "main_init be w d =
     run_stages be (stages be)
       \<lparr>bt_m = New w, bt_disk = d, bt_tty = \<lparr>tt_tty = None, tt_ttyS = None, tt_ttyRedir = None\<rparr>, bt_dns = []\<rparr>"

definition AppPoweroff :: string where "AppPoweroff = ''/sbin/poweroff''"
definition AppReboot :: string where "AppReboot = ''/sbin/reboot''"

text \<open>The program called by the name of a power command: it signals process 1.\<close>

definition main_tool :: "string \<Rightarrow> goerr option \<Rightarrow> 'a world_scheme \<Rightarrow> 'a world_scheme" where
  "main_tool arg0 kill w =
     (case OpenFile False False ''/dev/vtty'' w of
        (Ok q, w) \<Rightarrow>
          (let sig = (if arg0 = AppPoweroff then SIGPWR else SIGINT) in
           case kill of
             None \<Rightarrow> emit (EvKill 1 sig) w
           | Some e \<Rightarrow> emit (EvWrite ''/dev/vtty'' ''can not send signal to process 1: %s'') w)
      | (_, w) \<Rightarrow> w)"

end
