(* ===== verification/BootFrame.thy ===== *)
theory BootFrame
  imports Vinitd Frame
begin

text \<open>
  What the stages of the boot leave alone.  An operation on any world keeps everything beyond the world
  (\<open>world.more\<close>); an operation on the machine keeps the programs and their configuration, whatever it
  does to the rest.
\<close>

section \<open>Operations on the world\<close>

lemma more_and_then [simp]:
  "(\<And>x s. world.more (snd (k x s)) = world.more s) \<Longrightarrow> world.more (snd (and_then r k)) = world.more (snd r)"
  by (cases r; cases "fst r") (auto simp: and_then_def split: outcome.split)

lemma more_ignoring [simp]: "world.more (ignoring r) = world.more (snd r)"
  by (simp add: ignoring_def)

lemma more_fold [simp]:
  "(\<And>x s. world.more (f x s) = world.more s) \<Longrightarrow> world.more (fold f xs w) = world.more w"
  by (induction xs arbitrary: w) simp_all

lemma more_base [simp]:
  "world.more (emit e w) = world.more w" "world.more (log l f w) = world.more w"
  "world.more (put_file q d w) = world.more w" "world.more (time_Sleep ms w) = world.more w"
  by (simp_all add: emit_def log_def put_file_def time_Sleep_def)

lemma more_OpenFile [simp]: "world.more (snd (OpenFile c t p w)) = world.more w"
  by (simp add: OpenFile_def split: outcome.split)

lemma more_WriteFile [simp]: "world.more (snd (WriteFile p d w)) = world.more w"
  by (simp add: WriteFile_cases split: outcome.split option.split)

lemma more_mkdir1 [simp]: "world.more (snd (mkdir1 cs w)) = world.more w"
  by (simp add: mkdir1_def Let_def split: outcome.split option.split node.split prod.split)

lemma more_mkdir_prefixes [simp]: "world.more (snd (mkdir_prefixes d cs w)) = world.more w"
  by (induction cs arbitrary: d w) (simp_all split: prod.split)

lemma more_MkdirAll [simp]: "world.more (snd (MkdirAll p w)) = world.more w"
  by (simp add: MkdirAll_def)

lemma more_links [simp]:
  "world.more (snd (os_Symlink t p w)) = world.more w" "world.more (snd (os_Remove p w)) = world.more w"
  "world.more (snd (os_Chmod p perm w)) = world.more w" "world.more (snd (syscall_Mount a b c n d w)) = world.more w"
  by (simp_all add: os_Symlink_def os_Remove_def os_Chmod_def syscall_Mount_def Let_def
      split: outcome.split option.split node.split prod.split)

lemmas boot_splits = outcome.split option.split node.split list.split

lemma more_services [simp]:
  "world.more (printDNS d w) = world.more w" "world.more (snd (resolveNFS lk h w)) = world.more w"
  "world.more (snd (startChrony st w)) = world.more w" "world.more (sbin_link n w) = world.more w"
  "world.more (snd (busybox_link a w)) = world.more w" "world.more (LogDebugEarly txt w) = world.more w"
  "world.more (snd (printVersion w)) = world.more w"
  by (simp_all add: printDNS_def resolveNFS_def startChrony_def sbin_link_def busybox_link_def LogDebugEarly_def
      printVersion_def Let_def case_prod_beta split: boot_splits)

lemma more_nfs [simp]: "world.more (setupNFS lk ns w) = world.more w"
proof -
  have "world.more (mount_nfs lk n w) = world.more w" for n and w :: "'a world_scheme"
    by (simp add: mount_nfs_def Let_def case_prod_beta split: boot_splits)
  then show ?thesis by (simp add: setupNFS_def)
qed

lemma more_chrony [simp]: "world.more (snd (setupChronyD st ns w)) = world.more w"
  by (simp add: setupChronyD_def Let_def case_prod_beta split: boot_splits)

lemma more_prepSbinPower [simp]: "world.more (prepSbinPower w) = world.more w"
  by (simp add: prepSbinPower_def Let_def case_prod_beta split: boot_splits)

lemma more_busybox_links [simp]: "world.more (snd (busybox_links as w)) = world.more w"
  by (induction as w rule: busybox_links.induct) (simp_all add: Let_def case_prod_beta)

lemma more_busybox [simp]: "world.more (snd (runBusyboxScript out w)) = world.more w"
  by (simp add: runBusyboxScript_def Let_def case_prod_beta split: boot_splits)

lemma more_conf [simp]:
  "world.more (snd (changeDiskScheduler d w)) = world.more w" "world.more (cgroup_loop cs n w) = world.more w"
  "world.more (snd (procsys kn p x w)) = world.more w" "world.more (snd (rlimit k lim w)) = world.more w"
  by (simp_all add: changeDiskScheduler_def procsys_def rlimit_def Let_def case_prod_beta split: boot_splits)
    (induction cs n w rule: cgroup_loop.induct, simp_all add: Let_def case_prod_beta split: boot_splits)

lemma more_config [simp]:
  "world.more (snd (enableContainers w)) = world.more w" "world.more (set_limits fds w) = world.more w"
  "world.more (sysctl_step kn f kv w) = world.more w"
  by (simp_all add: enableContainers_def set_limits_def sysctl_step_def Let_def case_prod_beta split: boot_splits)

lemma more_sysctls [simp]: "world.more (set_sysctls kn ord sc hn fds w) = world.more w"
  by (simp add: set_sysctls_def Let_def case_prod_beta)

lemma more_etc [simp]:
  "world.more (snd (writeEtcFile st f d w)) = world.more w" "world.more (generateEtcHosts hn w) = world.more w"
  "world.more (appendUserFile k x u w) = world.more w" "world.more (createUserFile k x u w) = world.more w"
  "world.more (generateEtcMachineID uu w) = world.more w" "world.more (snd (genHostnameFile hn w)) = world.more w"
  by (simp_all add: writeEtcFile_def generateEtcHosts_def appendUserFile_def createUserFile_def
      generateEtcMachineID_def genHostnameFile_def Let_def case_prod_beta split: boot_splits)

lemma more_etc_steps [simp]:
  "world.more (user_file_step u kv w) = world.more w" "world.more (etc_file_step st f w) = world.more w"
  by (simp_all add: user_file_step_def etc_file_step_def Let_def case_prod_beta split: boot_splits)

lemma more_users [simp]: "world.more (addVorteilUserGroup ord u w) = world.more w"
  by (simp add: addVorteilUserGroup_def Let_def case_prod_beta)

lemma more_etcGenerateFiles [simp]: "world.more (snd (etcGenerateFiles st ord hn u w)) = world.more w"
  by (simp add: etcGenerateFiles_def Let_def case_prod_beta split: boot_splits)

lemma more_requests [simp]:
  "world.more (snd (http_Do ce req w)) = world.more w" "world.more (addVirtualRouting dev i w) = world.more w"
  "world.more (startVMTools n hn w) = world.more w" "world.more (snd (uuidHasEc2 w)) = world.more w"
  by (simp_all add: http_Do_def addVirtualRouting_def startVMTools_def uuidHasEc2_def Let_def case_prod_beta split: boot_splits)

lemma more_doMetadataRequest [simp]: "world.more (snd (doMetadataRequest ce u h q w)) = world.more w"
  by (simp add: doMetadataRequest_def Let_def case_prod_beta split: boot_splits)

lemma more_updateHealthAzure [simp]: "world.more (snd (updateHealthAzure ce w)) = world.more w"
  by (simp add: updateHealthAzure_def Let_def case_prod_beta split: boot_splits)

lemma more_poll [simp]: "world.more (pollGCP ce cr n i w) = world.more w"
proof -
  have fwd: "world.more (forwarded_step ce cr n i x w) = world.more w" for x and w :: "'a world_scheme"
    by (simp add: forwarded_step_def Let_def case_prod_beta split: boot_splits)
  have "world.more (poll_round ce cr n i w) = world.more w" for w :: "'a world_scheme"
    by (simp add: poll_round_def fwd Let_def case_prod_beta split: boot_splits)
  then have "world.more (poll_loop ce cr n i t w) = world.more w" for t and w :: "'a world_scheme"
    by (induction ce cr n i t w rule: poll_loop.induct) (subst poll_loop.simps, simp add: Let_def)
  then show ?thesis by (simp add: pollGCP_def Let_def)
qed

lemma more_queues [simp]:
  "world.more (config_channels nk n w) = world.more w" "world.more (tso_step nk n b a w) = world.more w"
  by (simp_all add: config_channels_def tso_step_def ioctl_def Let_def case_prod_beta split: boot_splits)

lemma more_configQueues [simp]: "world.more (configQueues nk is w) = world.more w"
  by (induction nk "is" w rule: configQueues.induct) (simp_all add: ioctl_def Let_def case_prod_beta split: boot_splits)

lemma more_setTSOValues [simp]: "world.more (setTSOValues nk n b w) = world.more w"
  by (simp add: setTSOValues_def Let_def)

lemma more_route4 [simp]: "world.more (snd (addNetworkRoute4 nk a b c d f w)) = world.more w"
  by (simp add: addNetworkRoute4_def Let_def)

lemma more_gateway [simp]: "world.more (snd (setDefaultGateway nk n p w)) = world.more w"
  using more_route4 [of nk "[]" "[]" p n "RTF_UP + RTF_GATEWAY" w]
  by (cases "addNetworkRoute4 nk [] [] p n (RTF_UP + RTF_GATEWAY) w")
    (auto simp: setDefaultGateway_def split: outcome.split)

lemma more_links4 [simp]:
  "world.more (snd (addAddrToInterface nk i w)) = world.more w" "world.more (snd (startLink nk n w)) = world.more w"
  "world.more (closeFds fds w) = world.more w"
  by (simp_all add: addAddrToInterface_def startLink_def closeFds_def Let_def split: boot_splits)

lemma more_attempts [simp]: "world.more (snd (discover_attempts nk n i k a e w)) = world.more w"
  by (induction k arbitrary: a e w) (simp_all add: Let_def case_prod_beta split: boot_splits)

lemma more_rounds [simp]: "world.more (snd (discover_rounds nk n k i e ds w)) = world.more w"
  by (induction k arbitrary: i e ds w) (simp_all add: Let_def case_prod_beta split: boot_splits)

lemma more_dhcpDiscover [simp]: "world.more (snd (dhcpDiscover nk nif w)) = world.more w"
  by (simp add: dhcpDiscover_def)

lemma more_os_Mkdir [simp]: "world.more (snd (os_Mkdir p w)) = world.more w"
  by (simp add: os_Mkdir_def Let_def case_prod_beta split: boot_splits)

lemma more_config_route [simp]: "world.more (snd (config_route nk r w)) = world.more w"
proof -
  have keep: "world.more w2 = world.more w1" if "addNetworkRoute4 nk a b c d f w1 = (r, w2)"
    for a b c d f r and w1 w2 :: "'a world_scheme"
    using that more_route4 [of nk a b c d f w1] by simp
  show ?thesis
    by (auto simp: config_route_def Let_def split: outcome.split option.split prod.split dest!: keep)
qed

lemma more_configRoutes [simp]: "world.more (snd (configRoutes nk rs w)) = world.more w"
  by (induction rs arbitrary: w) simp_all

section \<open>The programs\<close>

text \<open>The programs prepared so far, and those of the configuration.\<close>

definition plan :: "machine \<Rightarrow> program list \<times> Program list" where
  "plan m = (programs m, vc_Programs (vcfg m))"

interpretation pl: bystander plan
  by unfold_locales (simp_all add: plan_def emit_def)

lemma plan_more: "world.more m = world.more n \<Longrightarrow> plan m = plan n"
  by (cases m; cases n) (simp add: plan_def machine.defs)

lemma plan_and_then [simp]:
  "(\<And>x s. plan (snd (k x s)) = plan s) \<Longrightarrow> plan (snd (and_then r k)) = plan (snd r)"
  by (cases r; cases "fst r") (auto simp: and_then_def split: outcome.split)

lemma plan_ignoring [simp]: "plan (ignoring r) = plan (snd r)"
  by (simp add: ignoring_def)

lemma plan_fold [simp]: "(\<And>x s. plan (f x s) = plan s) \<Longrightarrow> plan (fold f xs w) = plan w"
  by (induction xs arbitrary: w) simp_all

lemmas plan_world [simp] =
  more_OpenFile [THEN plan_more] more_MkdirAll [THEN plan_more] more_links [THEN plan_more] more_services [THEN plan_more]
  more_nfs [THEN plan_more] more_chrony [THEN plan_more] more_prepSbinPower [THEN plan_more] more_busybox [THEN plan_more]
  more_conf [THEN plan_more] more_config [THEN plan_more] more_sysctls [THEN plan_more] more_etc [THEN plan_more]
  more_etcGenerateFiles [THEN plan_more] more_requests [THEN plan_more] more_doMetadataRequest [THEN plan_more]
  more_updateHealthAzure [THEN plan_more] more_poll [THEN plan_more] more_configQueues [THEN plan_more]
  more_setTSOValues [THEN plan_more] more_route4 [THEN plan_more] more_gateway [THEN plan_more] more_links4 [THEN plan_more]
  more_dhcpDiscover [THEN plan_more] more_os_Mkdir [THEN plan_more] more_configRoutes [THEN plan_more]

lemma plan_updates [simp]:
  "plan (m\<lparr>ifcs := a\<rparr>) = plan m" "plan (m\<lparr>hostname := b\<rparr>) = plan m" "plan (m\<lparr>v_dns := c\<rparr>) = plan m"
  "plan (m\<lparr>searchDomains := d\<rparr>) = plan m" "plan (m\<lparr>hv_cloud := e\<rparr>) = plan m" "plan (m\<lparr>hv_hypervisor := f\<rparr>) = plan m"
  "plan (m\<lparr>hv_envs := g\<rparr>) = plan m" "plan (m\<lparr>initStatus := h\<rparr>) = plan m" "plan (m\<lparr>terminateWait := i\<rparr>) = plan m"
  "plan (m\<lparr>readOnly := j\<rparr>) = plan m" "plan (m\<lparr>diskname := k\<rparr>) = plan m" "plan (m\<lparr>isFirecracker := l\<rparr>) = plan m"
  by (simp_all add: plan_def)

subsection \<open>The network\<close>

lemma plan_or_panic [simp]: "plan (snd (or_panic env f r)) = plan (snd r)"
  by (cases r; cases "fst r") (auto simp: or_panic_def)

lemma plan_configInterface [simp]: "plan (snd (configInterface env nk key p msk r m)) = plan m"
  by (simp add: configInterface_def set_ifc_def Let_def)

lemma plan_use_options [simp]: "plan (use_options ofr m) = plan m"
proof -
  have "plan (add_ntp p m) = plan m" for p m by (simp add: add_ntp_def plan_def Let_def)
  moreover have "plan (add_search s m) = plan m" for s m by (simp add: add_search_def Let_def)
  ultimately show ?thesis by (simp add: use_options_def Let_def split: option.split)
qed

lemma plan_resolve_or [simp]: "plan (snd (resolve_or nk p port f m)) = plan m"
  by (simp add: resolve_or_def split: option.split)

lemma plan_fetchDHCP [simp]: "plan (snd (fetchDHCP env nk key m)) = plan m"
  by (simp add: fetchDHCP_def Let_def case_prod_beta split: boot_splits)

lemma plan_handleNetworkLink [simp]: "plan (snd (handleNetworkLink env nk t m)) = plan m"
  by (simp add: handleNetworkLink_def Let_def case_prod_beta)

lemma plan_run_tasks [simp]: "plan (snd (run_tasks env nk ts err m)) = plan m"
  by (induction ts arbitrary: err m) (simp_all add: case_prod_beta split: boot_splits)

lemma plan_setup_loop: "setup_loop nk is ic ts m = Some (r, m') \<Longrightarrow> plan m' = plan m"
proof (induction "is" arbitrary: ic ts m)
  case (Cons i "is")
  have link: "plan n' = plan n" if "startLink nk x n = (r, n')" for x n r n'
    using that plan_world by (metis more_links4(2) plan_more snd_conv)
  have dump: "plan n' = plan n" if "handleNetworkTCPDump nk x y n = Some n'" for x y n n'
    using that by (auto simp: handleNetworkTCPDump_def Let_def split: if_splits)
  have dev: "plan (setup_device nk x y n) = plan n" "plan (setup_localhost nk k n) = plan n" "plan (set_ifc k z n) = plan n"
    for x y n k z by (simp_all add: setup_device_def setup_localhost_def set_ifc_def Let_def)
  show ?case
    using Cons.prems
    by (auto simp: Let_def dev split: option.splits prod.splits outcome.splits if_splits dest!: Cons.IH link dump)
qed simp

lemma plan_print_ifcs [simp]: "plan (snd (print_ifcs is ks m)) = plan m"
  by (induction ks arbitrary: m) (simp_all split: option.split)

lemma plan_sortAndPrint [simp]: "plan (snd (sortAndPrint is m)) = plan m"
  by (simp add: sortAndPrint_def)

lemma plan_networkSetup:
  assumes "networkSetup env nk m = Some (r, m')"
  shows "plan m' = plan m"
proof (cases "nk_Interfaces nk")
  case (Ok ifaces)
  then show ?thesis
  proof (cases "setup_loop nk ifaces 0 [] m")
    case (Some x)
    obtain r1 m1 where x: "x = (r1, m1)" by (cases x)
    have 1: "plan m1 = plan m" using Some x plan_setup_loop by blast
    show ?thesis
    proof (cases r1)
      case (Ok tasks)
      have "m' = snd (the (networkSetup env nk m))" using assms by simp
      then show ?thesis using Some x Ok \<open>nk_Interfaces nk = _\<close> 1 by (simp add: networkSetup_def Let_def)
    qed (use assms Some x Ok 1 in \<open>auto simp: networkSetup_def\<close>)
  qed (use assms in \<open>auto simp: networkSetup_def\<close>)
qed (use assms in \<open>auto simp: networkSetup_def\<close>)

subsection \<open>Services and configuration\<close>

lemma plan_mountFs [simp]: "plan (snd (mountFs env a b c m)) = plan m"
  by (simp add: mountFs_def Let_def case_prod_beta split: boot_splits)

lemma plan_systemConfig [simp]: "plan (snd (systemConfig env kn ord sc hn n m)) = plan m"
proof -
  have "plan (snd (setupSharedMemory env m)) = plan m" for m
    by (simp add: setupSharedMemory_def Let_def case_prod_beta split: boot_splits)
  then show ?thesis by (simp add: systemConfig_def Let_def)
qed

lemma plan_power [simp]: "plan (listenToPowerEvent ep m) = plan m"
proof -
  have "plan (snd (listenToPowerEventFile ep n m)) = plan m" for n m
    by (simp add: listenToPowerEventFile_def Let_def case_prod_beta split: boot_splits)
  then have "plan (listen_files ep ns m) = plan m" for ns m
    by (induction ns arbitrary: m) (simp_all add: Let_def case_prod_beta split: bool.split)
  then show ?thesis by (simp add: listenToPowerEvent_def Let_def split: boot_splits)
qed

lemma plan_setupVtty [simp]: "plan (snd (setupVtty mode tm)) = plan (snd tm)"
proof -
  have "plan (assign_std m) = plan m" for m by (simp add: assign_std_def case_prod_beta split: outcome.split)
  moreover have "plan (snd (open_tty p f m)) = plan m" for p f m
    by (simp add: open_tty_def case_prod_beta split: outcome.split)
  ultimately show ?thesis
    by (simp add: setupVtty_def enableTTY_def enableTTYS_def Let_def case_prod_beta split: StdoutMode.split)
qed

lemma plan_startDNS [simp]: "plan (snd (startDNS de a b ds m)) = plan m"
  by (simp add: startDNS_def Let_def case_prod_beta split: boot_splits)

subsection \<open>Cloud metadata\<close>

lemma plan_set_env [simp]: "plan (set_env k x m) = plan m"
  by (simp add: set_env_def)

lemma plan_ifc_envs [simp]: "plan (snd (ifc_envs is m)) = plan m"
  by (induction "is" m rule: ifc_envs.induct) (simp_all add: Let_def case_prod_beta split: boot_splits)

lemma plan_basicEnv [simp]: "plan (snd (basicEnv ce m)) = plan m"
  by (simp add: basicEnv_def Let_def case_prod_beta split: boot_splits)

lemma plan_hypervisorGuess [simp]: "plan (snd (hypervisorGuess bios m)) = plan m"
  by (simp add: hypervisorGuess_def Let_def case_prod_beta split: boot_splits)

lemma plan_probe_ifcs [simp]: "plan (probe_ifcs ce cr is m) = plan m"
  by (induction "is" arbitrary: m) (auto simp: Let_def case_prod_beta split: outcome.split)

lemma plan_probe [simp]: "plan (probe ce cr m) = plan m"
proof -
  have "plan (probe_userdata ce cr m) = plan m" for m
    by (simp add: probe_userdata_def set_user_env_def Let_def case_prod_beta split: outcome.split)
  moreover have "plan (probe_hostname ce cr m) = plan m" for m
    by (simp add: probe_hostname_def Let_def case_prod_beta split: outcome.split)
  moreover have "plan (identity_env d kv m) = plan m" for d kv m
    by (simp add: identity_env_def split: option.split jsonval.split)
  then have "plan (probe_identity ce cr m) = plan m" for m
    by (simp add: probe_identity_def Let_def case_prod_beta split: outcome.split)
  ultimately show ?thesis by (simp add: probe_def)
qed

lemma plan_fetchCloudMetadata [simp]: "plan (snd (fetchCloudMetadata ce m)) = plan m"
  by (simp add: fetchCloudMetadata_def Let_def)

subsection \<open>Logging\<close>

definition log_plan :: "logstate \<Rightarrow> program list \<times> Program list" where
  "log_plan s = plan (ls_m s)"

lemma log_plan_and_then [simp]:
  "(\<And>x s. log_plan (snd (k x s)) = log_plan s) \<Longrightarrow> log_plan (snd (and_then r k)) = log_plan (snd r)"
  by (cases r; cases "fst r") (auto simp: and_then_def split: outcome.split)

lemma log_plan_fold [simp]: "(\<And>x s. log_plan (f x s) = log_plan s) \<Longrightarrow> log_plan (fold f xs s) = log_plan s"
  by (induction xs arbitrary: s) simp_all

lemma log_plan_inputs [simp]:
  "log_plan (add_sec x s) = log_plan s" "log_plan (add_input n x s) = log_plan s"
  "log_plan (addSystemLogging is s) = log_plan s" "log_plan (addKernelLogging s) = log_plan s"
  "log_plan (addStdoutLogging s) = log_plan s" "log_plan (add_filters s) = log_plan s"
proof -
  show 1: "log_plan (add_sec x s) = log_plan s" for x s by (simp add: log_plan_def add_sec_def)
  show 2: "log_plan (add_input n x s) = log_plan s" for n x s
    using 1 [of x "s\<lparr>ls_inputs := n # ls_inputs s\<rparr>"] by (simp add: add_input_def log_plan_def)
  show "log_plan (addSystemLogging is s) = log_plan s" by (simp add: addSystemLogging_def 1 2 Let_def)
  show "log_plan (addKernelLogging s) = log_plan s" "log_plan (addStdoutLogging s) = log_plan s"
    by (simp_all add: addKernelLogging_def addStdoutLogging_def 2)
  show "log_plan (add_filters s) = log_plan s" by (simp add: add_filters_def 1 Let_def split: option.split)
qed

lemma log_plan_machine:
  "log_plan (on_machine f s) = plan (f (ls_m s))" "log_plan (s\<lparr>ls_m := m\<rparr>) = plan m"
  by (simp_all add: on_machine_def log_plan_def)

lemma plan_vlogs [simp]: "plan (mount_vlogs env m) = plan m" "plan (redir env m) = plan m"
proof -
  show 1: "plan (mount_vlogs env m) = plan m" for m by (simp add: mount_vlogs_def)
  show "plan (redir env m) = plan m" by (simp add: redir_def 1 Let_def case_prod_beta split: outcome.split)
qed

lemma log_plan_output [simp]: "log_plan (snd (addLogginOutput e mt es s)) = log_plan s"
proof -
  have "plan (snd (output_lines es ls m)) = plan m" for ls m
    by (induction ls arbitrary: m) (auto simp: Let_def split: list.split option.split)
  then show ?thesis
    by (simp add: addLogginOutput_def case_prod_beta log_plan_machine split: outcome.split)
      (simp add: log_plan_def)
qed

lemma log_plan_progs [simp]: "log_plan (addProgLogging env lo ps s) = log_plan s"
proof -
  have "log_plan (add_log_file env lo l s) = log_plan s" for l s
    by (simp add: add_log_file_def Let_def log_plan_machine split: outcome.split) (simp add: log_plan_def)
  then show ?thesis by (simp add: addProgLogging_def log_plan_machine) (simp add: log_plan_def)
qed

lemma log_plan_redir [simp]: "log_plan (on_machine (redir env) s) = log_plan s"
  by (simp add: log_plan_machine) (simp add: log_plan_def)

lemma log_plan_entries [simp]: "log_plan (snd (log_entries env lo ls s)) = log_plan s"
proof -
  have "log_plan (on_machine (logDebug f) s) = log_plan s" for f s
    by (simp add: log_plan_machine) (simp add: log_plan_def)
  then have "log_plan (snd (log_entry env lo l s)) = log_plan s" for l s
    by (simp add: log_entry_def Let_def)
  then show ?thesis by (induction ls arbitrary: s) simp_all
qed

lemma plan_startLogging [simp]: "plan (snd (startLogging env lo m)) = plan m"
proof -
  have fw: "plan (start_forwarder lo secs m) = plan m" for secs m
    by (simp add: start_forwarder_def Let_def case_prod_beta split: outcome.split option.split)
  have ls: "plan (ls_m (snd (log_entries env lo l s))) = plan (ls_m s)"
    "plan (ls_m (add_filters s)) = plan (ls_m s)" for l s
    using log_plan_entries log_plan_inputs(6) by (simp_all add: log_plan_def)
  show ?thesis
    by (simp add: startLogging_def Let_def case_prod_beta fw ls split: outcome.split)
qed

section \<open>The stages\<close>

text \<open>A worker that keeps the programs, however it ends.\<close>

definition planless :: "(machine \<Rightarrow> run) \<Rightarrow> bool" where
  "planless w \<longleftrightarrow> (\<forall>m r m'. w m = Some (r, m') \<longrightarrow> plan m' = plan m)"

lemma planless_some: "(\<And>m. plan (snd (f m)) = plan m) \<Longrightarrow> planless (\<lambda>m. Some (f m))"
  unfolding planless_def by (metis option.inject snd_conv)

lemma planless_join:
  "list_all planless ws \<Longrightarrow> join_workers ws err blk m = Some (r, m') \<Longrightarrow> plan m' = plan m"
proof (induction ws arbitrary: err blk m)
  case Nil
  then show ?case by (auto split: option.splits if_splits)
next
  case (Cons w ws)
  show ?case
  proof (cases "w m")
    case None
    then show ?thesis using Cons.prems Cons.IH [of err True m] by simp
  next
    case (Some x)
    obtain rw m1 where x: "x = (rw, m1)" by (cases x)
    have 1: "plan m1 = plan m" using Cons.prems(1) Some x by (simp add: planless_def)
    show ?thesis
    proof (cases rw)
      case (Ok u)
      then show ?thesis using Cons.prems Cons.IH [of err blk m1] Some x 1 by simp
    next
      case (Err e)
      then show ?thesis
        using Cons.prems Cons.IH [of "Some e" blk m1] Some x 1 by (cases err) auto
    qed (use Cons.prems Some x 1 in auto)
  qed
qed

lemma planless_network: "planless (network_worker be)"
  unfolding planless_def network_worker_def
  by (auto split: option.splits prod.splits outcome.splits dest: plan_networkSetup)

lemma planless_config: "planless (config_worker be)"
proof -
  have "config_worker be = (\<lambda>m. Some (case systemConfig (be_sys be) (be_kn be) (be_ord be) (vc_Sysctl (vcfg m)) (hostname m)
      (int (sy_MaxFDs (vc_System (vcfg m)))) m of
        (Err e, m) \<Rightarrow> (Ok (), logError ''can not setup basic config: %s'' m) | r \<Rightarrow> r))"
    by (auto simp: config_worker_def fun_eq_iff split: prod.splits outcome.splits)
  then show ?thesis
    by (simp only:) (rule planless_some, simp add: case_prod_beta split: outcome.split)
qed

lemma planless_etc: "planless (etc_worker be)"
proof -
  have "etc_worker be = (\<lambda>m. Some (if readOnly m then (Ok (), m)
      else case etcGenerateFiles (be_statik be) (be_ord be) (hostname m) (v_user m) m of
        (Err e, m) \<Rightarrow> (Err e, logError ''error creating etc files: %s'' m) | r \<Rightarrow> r))"
    by (auto simp: etc_worker_def fun_eq_iff split: prod.splits outcome.splits)
  then show ?thesis
    by (simp only:) (rule planless_some, simp add: case_prod_beta split: outcome.split)
qed

lemma planless_setup:
  assumes "set (be_setup_order be) \<subseteq> {..<3}"
  shows "list_all planless (setup_workers be)"
proof -
  have "planless ([network_worker be, config_worker be, etc_worker be] ! i)" if "i < 3" for i
    using that planless_network planless_config planless_etc by (auto simp: less_Suc_eq numeral_3_eq_3)
  then show ?thesis using assms by (auto simp: list_all_iff setup_workers_def)
qed

lemma planless_post_workers:
  "planless (nfs_worker be)" "planless (logging_worker be)" "planless (cloud_worker be)" "planless (busybox_worker be)"
  "planless (chrony_worker be)"
proof -
  show "planless (nfs_worker be)" unfolding nfs_worker_def by (rule planless_some) simp
  show "planless (busybox_worker be)" unfolding busybox_worker_def by (rule planless_some) simp
  show "planless (chrony_worker be)" unfolding chrony_worker_def by (rule planless_some) simp
  have "logging_worker be = (\<lambda>m. Some (if vc_Logging (vcfg m) \<noteq> [] \<and> \<not> readOnly m then startLogging (be_sys be) (be_lo be) m
      else if vc_Logging (vcfg m) \<noteq> [] then (Ok (), logWarn ''filesystem read-only, can not start logging'' m) else (Ok (), m)))"
    by (simp add: logging_worker_def fun_eq_iff)
  then show "planless (logging_worker be)" by (simp only:) (rule planless_some, simp)
  have "cloud_worker be = (\<lambda>m. Some (case ReadFile ''/sys/devices/virtual/dmi/id/bios_vendor'' m of
      Ok bios \<Rightarrow> fetchCloudMetadata (be_ce be) ((snd (hypervisorGuess bios m))
        \<lparr>hv_hypervisor := fst (fst (hypervisorGuess bios m)), hv_cloud := snd (fst (hypervisorGuess bios m))\<rparr>)
    | _ \<Rightarrow> basicEnv (be_ce be) ((logWarn ''can not read bios vendor'' m)\<lparr>hv_hypervisor := hvUnknown, hv_cloud := cpUnknown\<rparr>)))"
    by (simp add: cloud_worker_def fun_eq_iff case_prod_beta split: outcome.split)
  then show "planless (cloud_worker be)" by (simp only:) (rule planless_some, simp split: outcome.split)
qed

lemma planless_post:
  assumes "set (be_post_order be) \<subseteq> {..<5}"
  shows "list_all planless (post_workers be)"
proof -
  have "planless ([nfs_worker be, logging_worker be, cloud_worker be, busybox_worker be, chrony_worker be] ! i)" if "i < 5" for i
  proof -
    have "i = 0 \<or> i = 1 \<or> i = 2 \<or> i = 3 \<or> i = 4" using that by linarith
    then show ?thesis using planless_post_workers [of be] by (elim disjE) simp_all
  qed
  then show ?thesis using assms by (auto simp: list_all_iff post_workers_def)
qed

text \<open>A program as \<open>prepProgram\<close> leaves it.\<close>

definition prepared :: "nat \<Rightarrow> Program \<Rightarrow> program" where
  "prepared i p = \<lparr>pr_path = [], pr_vcfgProg = p, pr_progIndex = i, pr_exitClosed = False, pr_env = [],
     pr_args = [], pr_logs = [], pr_cmd = None, pr_reaper = False\<rparr>"

lemma prep_fold:
  "programs (fold (\<lambda>(i, p) m. prepProgram p i m) ips m) = programs m @ map (\<lambda>(i, p). prepared i p) ips \<and>
   vcfg (fold (\<lambda>(i, p) m. prepProgram p i m) ips m) = vcfg m"
  by (induction ips arbitrary: m) (auto simp: prepProgram_def prepared_def)

lemma plan_prep_programs:
  "plan (prep_programs m) =
     (programs m @ map (\<lambda>(i, p). prepared i p) (List.enumerate 0 (vc_Programs (vcfg m))), vc_Programs (vcfg m))"
  using prep_fold by (simp add: plan_def prep_programs_def)

lemma plan_update_hostname [simp]: "plan (update_hostname hn m) = plan m"
  by (simp add: update_hostname_def Let_def)

lemma plan_write_resolv [simp]: "plan (snd (write_resolv m)) = plan m"
  by (simp add: write_resolv_def)

lemma after_setup_plan:
  assumes "after_setup hn m = (Ok (), m')"
  shows "plan m' =
    (programs m @ map (\<lambda>(i, p). prepared i p) (List.enumerate 0 (vc_Programs (vcfg m))), vc_Programs (vcfg m))"
proof -
  obtain m1 where w: "write_resolv m = (Ok (), m1)"
    and m': "m' = logDebug ''system setup successful'' (prep_programs (update_hostname hn m1))"
    using assms by (auto simp: after_setup_def and_then_Ok_iff)
  have "plan (update_hostname hn m1) = plan m" using plan_write_resolv [of m] by (simp add: w)
  then have "programs (update_hostname hn m1) = programs m" "vc_Programs (vcfg (update_hostname hn m1)) = vc_Programs (vcfg m)"
    unfolding plan_def by simp_all
  then show ?thesis by (simp add: m' plan_prep_programs)
qed

lemma plan_background [simp]:
  "plan (snd (setup_background be m)) = plan m" "plan (snd (choose_hostname be m)) = plan m"
  by (simp_all add: setup_background_def choose_hostname_def Let_def split: outcome.split)

lemma Setup_cases:
  assumes "set (be_setup_order be) \<subseteq> {..<3}" and "Setup be b = Some (r, b')" and "\<And>x. r \<noteq> Panic x"
  shows "r \<noteq> Ok () \<and> plan (bt_m b') = plan (bt_m b) \<or>
    (\<exists>hn m. plan m = plan (bt_m b) \<and> after_setup hn m = (r, bt_m b'))"
proof -
  let ?m = "logDebug ''output mode: %v'' (bt_m b)"
  obtain t m1 where v: "setupVtty (sy_StdoutMode (vc_System (vcfg (bt_m b)))) (bt_tty b, ?m) = (t, m1)" by (metis prod.collapse)
  obtain r1 m2 where h: "and_then (setup_background be m1) (\<lambda>_ m. choose_hostname be m) = (r1, m2)" by (metis prod.collapse)
  have "plan m1 = plan (bt_m b)" using plan_setupVtty [of "sy_StdoutMode (vc_System (vcfg (bt_m b)))" "(bt_tty b, ?m)"] unfolding v by simp
  moreover have "plan m2 = plan m1"
    using plan_and_then [of "\<lambda>_ m. choose_hostname be m" "setup_background be m1"] by (simp add: h)
  ultimately have 2: "plan m2 = plan (bt_m b)" by simp
  show ?thesis
  proof (cases r1)
    case (Ok hn)
    obtain rj m3 where j: "join_workers (setup_workers be) None False (logDebug ''system setup waiting to finish'' m2) = Some (rj, m3)"
      and np: "\<And>x. rj \<noteq> Panic x"
      using assms(2,3) by (auto simp: Setup_def v h Ok Let_def split: option.splits outcome.splits prod.splits)
    define m4 where "m4 = (if is_ok rj then m3 else SystemPanic (be_sys be) ''system setup failed: %s'' m3)"
    have "plan m4 = plan (bt_m b)"
      using planless_join [OF planless_setup [OF assms(1)] j] 2 by (simp add: m4_def)
    moreover have "after_setup hn m4 = (r, bt_m b')"
      using assms(2) np by (cases rj) (auto simp: Setup_def v h Ok j m4_def Let_def split: prod.splits)
    ultimately show ?thesis by blast
  qed (use assms(2,3) 2 in \<open>auto simp: Setup_def v h Let_def\<close>)
qed

lemma Setup_programs:
  assumes "set (be_setup_order be) \<subseteq> {..<3}" and "Setup be b = Some (Ok (), b')"
  shows "plan (bt_m b') = (programs (bt_m b) @
      map (\<lambda>(i, p). prepared i p) (List.enumerate 0 (vc_Programs (vcfg (bt_m b)))), vc_Programs (vcfg (bt_m b)))"
proof -
  obtain hn m where "plan m = plan (bt_m b)" "after_setup hn m = (Ok (), bt_m b')"
    using Setup_cases [OF assms] by auto
  with after_setup_plan show ?thesis by (simp add: plan_def)
qed

lemma Setup_failed:
  assumes "set (be_setup_order be) \<subseteq> {..<3}" and "Setup be b = Some (Err e, b')"
  shows "plan (bt_m b') = plan (bt_m b)"
proof -
  have "plan m' = plan m" if "after_setup hn m = (Err e, m')" for hn m m'
  proof -
    obtain r n where w: "write_resolv m = (r, n)" by (cases "write_resolv m")
    with that have "m' = n" by (cases r) (simp_all add: after_setup_def)
    with plan_write_resolv [of m] w show ?thesis by simp
  qed
  with Setup_cases [OF assms] show ?thesis by fastforce
qed

lemma PostSetup_programs:
  assumes "set (be_post_order be) \<subseteq> {..<5}" and "PostSetup be b = Some (Ok (), b')"
  shows "plan (bt_m b') = plan (bt_m b)"
proof -
  obtain r1 m1 where e: "basicEnv (be_ce be) (bt_m b) = (r1, m1)" by (metis prod.collapse)
  obtain rd dns m2 where d: "startDNS (be_de be) defaultDNSAddr True (bt_dns b) m1 = ((rd, dns), m2)" by (metis prod.collapse)
  have 2: "plan m2 = plan (bt_m b)"
    using plan_basicEnv [of "be_ce be" "bt_m b"] plan_startDNS [of "be_de be" defaultDNSAddr True "bt_dns b" m1] by (simp add: e d)
  define m3 where "m3 = (if is_ok rd then m2 else logWarn ''can not start local DNS server'' m2)"
  have 3: "plan m3 = plan (bt_m b)" using 2 by (simp add: m3_def)
  have p: "PostSetup be b = (case join_workers (post_workers be) None False m3 of
      None \<Rightarrow> None
    | Some (Panic x, m) \<Rightarrow> Some (Panic x, b\<lparr>bt_dns := dns, bt_m := m\<rparr>)
    | Some (r, m) \<Rightarrow> Some (Ok (), b\<lparr>bt_dns := dns, bt_m := (logDebug ''post setup finished successfully''
        (if is_ok r then m else SystemPanic (be_sys be) ''system post-setup failed: %s'' m))\<lparr>initStatus := statusRun\<rparr>\<rparr>))"
  proof (cases r1)
    case (Panic x)
    then show ?thesis using assms(2) by (simp add: PostSetup_def e)
  qed (auto simp: PostSetup_def e d m3_def [symmetric] Let_def split: option.split prod.split outcome.split)
  obtain rj m4 where j: "join_workers (post_workers be) None False m3 = Some (rj, m4)"
    using assms(2) p by (auto split: option.splits)
  have "plan m4 = plan (bt_m b)" using planless_join [OF planless_post [OF assms(1)] j] 3 by simp
  then show ?thesis using assms(2) p j by (cases rj) auto
qed

subsection \<open>The first stage\<close>

text \<open>The configuration on a disk: the boot loader block says where it is, and its bytes are decoded.\<close>

definition disk_config :: "bootfmt \<Rightarrow> dev \<Rightarrow> VCFG outcome" where
  "disk_config fmt d =
     (let f0 = snd (f_seek (int vcfgOffset) \<lparr>fdev = d, fpos = 0\<rparr>); (r, f1) = f_read (bf_size fmt) f0 in
      bind_out r (\<lambda>blc.
        bind_out (f_read_some (bf_ConfigLen fmt blc) (snd (f_seek (int (vcfgOffset + bf_ConfigOffset fmt blc)) f1)))
          (bf_Unmarshal fmt)))"

lemma readVCFG_Ok:
  assumes "readVCFG fmt p d m = (Ok (), m')"
  shows "\<exists>cfg. disk_config fmt d = Ok cfg \<and> plan m' = (programs m, vc_Programs cfg)"
  using assms
  by (auto simp: readVCFG_def openVCFGFile_def disk_config_def plan_def and_then_Ok_iff bind_out_Ok_iff Let_def
      split: prod.splits outcome.splits if_splits)

lemma more_cmdline [simp]: "world.more (snd (hasCmdLineString ss w)) = world.more w"
  by (simp add: hasCmdLineString_def Let_def split: outcome.split)

lemma more_mount_loop [simp]: "world.more (snd (mount_loop part ro ls v w)) = world.more w"
  by (induction ls arbitrary: v w) (simp_all add: Let_def case_prod_beta split: option.split)

lemma more_mount_options [simp]: "world.more (snd (setupMountOptions disk ro w)) = world.more w"
  by (simp add: setupMountOptions_def Let_def case_prod_beta split: outcome.split)

lemmas plan_mount [simp] = more_cmdline [THEN plan_more] more_mount_options [THEN plan_more]

lemma plan_mount_options [simp]: "plan (mount_options m) = plan m"
  by (simp add: mount_options_def Let_def case_prod_beta split: outcome.split)

lemma plan_data_disk [simp]: "plan (snd (use_data_disk be f m)) = plan m"
proof -
  have "plan (create_log env n m) = plan m" for env n m
    by (simp add: create_log_def case_prod_beta split: outcome.split)
  moreover have "plan (snd (set_first_network nws m)) = plan m" for nws m
    by (simp add: set_first_network_def plan_def Let_def case_prod_beta split: option.split list.split)
  ultimately show ?thesis by (simp add: use_data_disk_def Let_def case_prod_beta)
qed

lemma plan_direktiv_disk [simp]: "plan (snd (direktiv_disk be m)) = plan m"
proof -
  have "plan (snd (scan_disks be fs m)) = plan m" for fs m
    by (induction fs arbitrary: m) (simp_all add: Let_def case_prod_beta split: outcome.split)
  then show ?thesis by (simp add: direktiv_disk_def Let_def case_prod_beta split: outcome.split)
qed

lemma plan_directories [simp]: "plan (snd (setupBasicDirectories env base m)) = plan m"
proof -
  have "plan (snd (mount_dirs env ds m)) = plan m" for ds m
    by (induction ds arbitrary: m) (auto simp: case_prod_beta)
  then show ?thesis by (simp add: setupBasicDirectories_def Let_def case_prod_beta split: outcome.split)
qed

lemma plan_growDisks [simp]: "plan (snd (snd (growDisks kern (d, m)))) = plan m"
proof -
  have "plan (snd (resize_filesystem kern fm bs m)) = plan m" for fm bs m
    by (simp add: resize_filesystem_def resize_xfs_def resize_ext_def answer_def Let_def split: Format.split outcome.split option.split)
  then have "plan (snd (resize_mounted kern e p f m)) = plan m" for e p f m
    by (simp add: resize_mounted_def answer_def Let_def split: outcome.split option.split)
  then have "plan (snd (snd (growDisk kern p (f, m)))) = plan m" for p f m
    by (simp add: growDisk_def Let_def case_prod_beta split: outcome.split option.split)
  then show ?thesis by (simp add: growDisks_def Let_def case_prod_beta split: outcome.split)
qed

lemma load_config_programs:
  assumes "load_config be d m = (Ok (), m')"
  shows "\<exists>cfg. disk_config (be_fmt be) d = Ok cfg \<and> plan m' = (programs m, vc_Programs cfg)"
proof -
  obtain p where p: "bootDisk m = Ok p" using assms by (cases "bootDisk m") (simp_all add: load_config_def)
  obtain m1 where r: "readVCFG (be_fmt be) p d (m\<lparr>diskname := p\<rparr>) = (Ok (), m1)" and "direktiv_disk be (mount_options m1) = (Ok (), m')"
    using assms by (auto simp: load_config_def p split: prod.splits outcome.splits)
  then have "plan m' = plan m1" using plan_direktiv_disk [of be "mount_options m1"] by simp
  with readVCFG_Ok [OF r] show ?thesis by simp
qed

lemma PreSetup_programs:
  assumes "PreSetup be b = (Ok (), b')"
  shows "\<exists>cfg. disk_config (be_fmt be) (bt_disk b) = Ok cfg \<and> plan (bt_m b') = (programs (bt_m b), vc_Programs cfg)"
proof -
  obtain t m1 where 1: "setupVtty StdoutModeUnknown (bt_tty b, bt_m b) = (t, m1)" by (metis prod.collapse)
  obtain m2 where 2: "setupBasicDirectories (be_sys be) ''/'' m1 = (Ok (), m2)"
    using assms by (auto simp: PreSetup_def 1 Let_def split: prod.splits outcome.splits)
  obtain m3 where 3: "load_config be (bt_disk b) (emit (EvCall ''go'' [''checkLogs'']) m2) = (Ok (), m3)"
    using assms by (auto simp: PreSetup_def 1 2 Let_def split: prod.splits outcome.splits)
  obtain d m4 where 4: "growDisks (be_kern be) (bt_disk b, m3) = (Ok (), d, m4)"
    and b': "bt_m b' = set_terminate_wait (logDebug ''pre-setup finished successfully'' m4)"
    using assms by (auto simp: PreSetup_def 1 2 3 Let_def split: prod.splits outcome.splits)
  have "plan m2 = plan (bt_m b)"
    using plan_setupVtty [of StdoutModeUnknown "(bt_tty b, bt_m b)"] plan_directories [of "be_sys be" "''/''" m1] by (simp add: 1 2)
  then have "programs m2 = programs (bt_m b)" by (simp add: plan_def)
  moreover have "plan m4 = plan m3" using plan_growDisks [of "be_kern be" "bt_disk b" m3] by (simp add: 4)
  then have "plan (bt_m b') = plan m3" by (simp add: b' set_terminate_wait_def Let_def)
  ultimately show ?thesis using load_config_programs [OF 3] by simp
qed

end
