(* ===== verification/VinitdSpec.thy ===== *)
theory VinitdSpec
  imports BootFrame
begin

text \<open>
  Properties that span the stages of the boot: the sequential join against the interleaved one, the
  remount of the root file system, the time programs get to terminate, and the power commands.
\<close>

section \<open>Sequential and interleaved join\<close>

text \<open>A worker that ends with a given error, or none, whatever the state.\<close>

definition worker_of :: "goerr option \<times> ('s \<Rightarrow> 's) \<Rightarrow> 's \<Rightarrow> (unit outcome \<times> 's) option" where
  "worker_of rf s = Some (case fst rf of None \<Rightarrow> Ok () | Some e \<Rightarrow> Err e, snd rf s)"

definition reports :: "(goerr option \<times> ('s \<Rightarrow> 's)) list \<Rightarrow> goerr list" where
  "reports spec = List.map_filter fst spec"

lemma reports_simps [simp]:
  "reports [] = []" "reports (rf # spec) = (case fst rf of None \<Rightarrow> reports spec | Some e \<Rightarrow> e # reports spec)"
  by (simp_all add: reports_def split: option.splits)

lemma worker_of_simps [simp]:
  "fst rf = None \<Longrightarrow> worker_of rf s = Some (Ok (), snd rf s)"
  "fst rf = Some e \<Longrightarrow> worker_of rf s = Some (Err e, snd rf s)"
  by (simp_all add: worker_of_def)

lemma join_after_error:
  "\<exists>s'. join_workers (map worker_of spec) (Some e) False s =
     Some (if reports spec = [] then Err e else Panic SendOnClosed, s')"
proof (induction spec arbitrary: s)
  case (Cons rf spec)
  then show ?case by (cases "fst rf") simp_all
qed simp

lemma join_result:
  "\<exists>s'. join_workers (map worker_of spec) None False s =
     Some (case reports spec of [] \<Rightarrow> Ok () | [e] \<Rightarrow> Err e | _ \<Rightarrow> Panic SendOnClosed, s')"
proof (induction spec arbitrary: s)
  case (Cons rf spec)
  show ?case
  proof (cases "fst rf")
    case None
    then show ?thesis using Cons [of "snd rf s"] by simp
  next
    case (Some e)
    then show ?thesis using join_after_error [of spec e "snd rf s"]
      by (auto split: list.splits)
  qed
qed simp

lemma reports_card:
  "length (reports spec) = card (failing (length spec) (\<lambda>i. fst (spec ! i)))"
proof -
  have "length (reports spec) = length (filter (\<lambda>rf. fst rf \<noteq> None) spec)"
    by (induction spec) (auto split: option.splits)
  also have "\<dots> = card {i. i < length spec \<and> fst (spec ! i) \<noteq> None}"
    by (rule length_filter_conv_card)
  finally show ?thesis by (simp add: failing_def)
qed

lemma reports_mem: "e \<in> set (reports spec) \<longleftrightarrow> (\<exists>i < length spec. fst (spec ! i) = Some e)"
proof -
  have "e \<in> set (reports spec) \<longleftrightarrow> (\<exists>rf \<in> set spec. fst rf = Some e)"
    by (induction spec) (auto split: option.splits)
  also have "\<dots> \<longleftrightarrow> (\<exists>i < length spec. fst (spec ! i) = Some e)"
    by (metis in_set_conv_nth)
  finally show ?thesis .
qed

section \<open>The remount of the root\<close>

text \<open>A successful remount: its target, type, options and flags.\<close>

definition root_mount :: "string \<Rightarrow> bool \<Rightarrow> event \<Rightarrow> bool" where
  "root_mount part ro e \<longleftrightarrow>
     (\<exists>fstype flags opts. e = EvMount part ''/'' fstype flags opts \<and> root_opts fstype = Some opts \<and>
        (flags mod 2 = 1 \<longleftrightarrow> ro) \<and> flags div 32 mod 2 = 1)"

lemma root_flags_bits: "root_flags rec ro mod 2 = 1 \<longleftrightarrow> ro" "root_flags rec ro div 32 mod 2 = 1"
  by (cases rec; cases ro; simp add: root_flags_def MS_REMOUNT_def MS_NOATIME_def MS_LAZYTIME_def MS_RDONLY_def)+

lemma trace_hasCmdLineString:
  "\<exists>es. w_trace (snd (hasCmdLineString ss w)) = w_trace w @ es \<and> list_all (\<lambda>e. \<exists>l f. e = EvLog l f) es"
  by (auto simp: hasCmdLineString_def Let_def split: outcome.splits)

lemma mount_loop_Ok:
  "mount_loop part ro ls v w = (Ok (), w') \<Longrightarrow>
     \<exists>es e. w_trace w' = w_trace w @ es @ [e] \<and> list_all (\<lambda>e. \<exists>l f. e = EvLog l f) es \<and> root_mount part ro e"
proof (induction ls arbitrary: v w)
  case (Cons l ls)
  define v1 where "v1 = scan_mount l v"
  obtain rec w1 where h: "hasCmdLineString ''recordmode'' (logDebug ''mount options %s'' w) = (rec, w1)"
    by (cases "hasCmdLineString ''recordmode'' (logDebug ''mount options %s'' w)") auto
  obtain es where es: "w_trace w1 = w_trace w @ EvLog ''debug'' ''mount options %s'' # es"
    "list_all (\<lambda>e. \<exists>l f. e = EvLog l f) es"
    using trace_hasCmdLineString [of "''recordmode''" "logDebug ''mount options %s'' w"] by (auto simp: h)
  show ?case
  proof (cases "ml_path v1 = ''/''")
    case False
    then have "mount_loop part ro ls v1 w1 = (Ok (), w')"
      using Cons.prems by (simp add: v1_def [symmetric] h)
    from Cons.IH [OF this] es show ?thesis by auto
  next
    case True
    then obtain opts where "root_opts (ml_fstype v1) = Some opts"
      "w_trace w' = w_trace w1 @ [EvLog ''debug'' ''config %s filesystem on %s, %s'',
         EvLog ''debug'' ''using fs opts %s, flags %x'', EvMount part ''/'' (ml_fstype v1) (root_flags rec ro) opts]"
      using Cons.prems
      by (auto simp: v1_def [symmetric] h syscall_Mount_def Let_def split: option.splits)
    with es show ?thesis
      by (intro exI [of _ "EvLog ''debug'' ''mount options %s'' # es @
          [EvLog ''debug'' ''config %s filesystem on %s, %s'', EvLog ''debug'' ''using fs opts %s, flags %x'']"]
          exI [of _ "EvMount part ''/'' (ml_fstype v1) (root_flags rec ro) opts"])
        (auto simp: root_mount_def root_flags_bits simp del: One_nat_def)
  qed
qed simp

section \<open>Terminating\<close>

lemma set_terminate_wait_pos: "0 < terminateWait (set_terminate_wait m)"
  by (simp add: set_terminate_wait_def Let_def)

section \<open>Properties\<close>






text \<open>A machine whose root is an ext4 file system and whose kernel was started with \<^verbatim>\<open>ro\<close>.\<close>

definition mounted_world :: world where
  "mounted_world = (world_of [])\<lparr>w_fs := (\<lambda>q. if q = [''proc'', ''mounts'']
       then Some (File (''sys /sys sysfs rw'' @ newline @ ''dev / ext4 ro'' @ newline))
     else if q = [''proc'', ''cmdline''] then Some (File ''quiet ro'')
     else if q = [''dev'', ''vtty''] then Some (File []) else Some Dir)\<rparr>"

lemma mounted_simps:
  "w_trace mounted_world = []" "w_deny mounted_world f p = None"
  "is_ok (os_Open ''/proc/mounts'' mounted_world)"
  "ReadFile ''/proc/mounts'' mounted_world = Ok (''sys /sys sysfs rw'' @ newline @ ''dev / ext4 ro'' @ newline)"
  "raw_lines (''sys /sys sysfs rw'' @ newline @ ''dev / ext4 ro'' @ newline) = [''sys /sys sysfs rw'', ''dev / ext4 ro'']"
  by (simp add: mounted_world_def world_of_def, simp add: mounted_world_def world_of_def, code_simp, code_simp, code_simp)

lemma mount_loop_root:
  assumes "w_deny w = (\<lambda>f p. None)"
  shows "fst (mount_loop part ro [''sys /sys sysfs rw'', ''dev / ext4 ro''] v w) = Ok ()"
proof -
  have d: "hasCmdLineString ss w1 = (b, w2) \<Longrightarrow> w_deny w2 = w_deny w1" for ss b and w1 w2 :: "'a world_scheme"
    by (auto simp: hasCmdLineString_def Let_def split: outcome.splits if_splits)
  have sw: "scan_word ''sys /sys sysfs rw'' = Some (''sys'', '' /sys sysfs rw'')"
    "scan_word '' /sys sysfs rw'' = Some (''/sys'', '' sysfs rw'')" "scan_word '' sysfs rw'' = Some (''sysfs'', '' rw'')"
    "scan_word ''dev / ext4 ro'' = Some (''dev'', '' / ext4 ro'')" "scan_word '' / ext4 ro'' = Some (''/'', '' ext4 ro'')"
    "scan_word '' ext4 ro'' = Some (''ext4'', '' ro'')" "scan_word '' rw'' = Some (''rw'', [])"
    "scan_word '' ro'' = Some (''ro'', [])"
    by (simp_all add: scan_word_def Fields_def trim_left.simps fields_from.simps space_eval Let_def char_of_def bit_0)
  have "ml_path (scan_mount ''sys /sys sysfs rw'' v) = ''/sys''"
    "ml_path (scan_mount ''dev / ext4 ro'' v) = ''/''" "ml_fstype (scan_mount ''dev / ext4 ro'' v) = ''ext4''" for v
    by (simp_all only: scan_mount_def sw option.case prod.case Let_def) simp_all
  then show ?thesis using assms
    by (auto simp: root_opts_def syscall_Mount_def Let_def dest!: d split: prod.split)
qed


text \<open>
  C30.  The power commands do what their names say.  The program called as \<^verbatim>\<open>/sbin/poweroff\<close> or
  \<^verbatim>\<open>/sbin/reboot\<close> sends one signal to process 1, and the reaction of process 1 to that signal is a
  shutdown that ends with the matching reboot call; on a machine under Firecracker, which has no
  power-off, the call is always a restart.
\<close>

theorem power_commands:
  assumes "arg0 = AppPoweroff \<or> arg0 = AppReboot" and "fst (OpenFile False False ''/dev/vtty'' w) = Ok q"
    and "initStatus m \<noteq> statusPoweroff"
  shows "\<exists>sig. w_trace (main_tool arg0 None w) = w_trace w @ [EvKill 1 sig] \<and>
    initStatus (waitForSignal env sig m) = statusPoweroff \<and>
    last (w_trace (waitForSignal env sig m)) =
      EvReboot (if isFirecracker m \<or> arg0 = AppReboot then REBOOT_CMD_RESTART else REBOOT_CMD_POWER_OFF)"
proof -
  let ?sig = "if arg0 = AppPoweroff then SIGPWR else SIGINT"
  obtain w1 where o: "OpenFile False False ''/dev/vtty'' w = (Ok q, w1)"
    using assms(2) by (cases "OpenFile False False ''/dev/vtty'' w") auto
  then have "w_trace w1 = w_trace w"
    by (auto simp: OpenFile_def split: outcome.splits if_splits)
  then have "w_trace (main_tool arg0 None w) = w_trace w @ [EvKill 1 ?sig]"
    by (simp add: main_tool_def o)
  moreover have "initStatus (waitForSignal env ?sig m) = statusPoweroff" for env
    using assms(3) by (simp add: waitForSignal_def shutdown_first Let_def)
  moreover have "AppPoweroff \<noteq> AppReboot" "SIGINT \<noteq> SIGPWR"
    by (simp_all add: AppPoweroff_def AppReboot_def SIGINT_def SIGPWR_def)
  ultimately show ?thesis
    using assms(1,3) by (intro exI [of _ ?sig]) (auto simp: waitForSignal_def shutdown_last Let_def)
qed


theorem power_commands_witness:
  "\<exists>sig. w_trace (main_tool AppPoweroff None mounted_world) = [EvKill 1 sig] \<and>
    last (w_trace (waitForSignal quiet_system sig (New mounted_world))) = EvReboot REBOOT_CMD_POWER_OFF"
proof -
  have "fst (OpenFile False False ''/dev/vtty'' mounted_world) = Ok [''dev'', ''vtty'']" by code_simp
  from power_commands [OF disjI1 [OF refl] this, of "New mounted_world" quiet_system]
  show ?thesis by (simp add: mounted_simps AppPoweroff_def AppReboot_def New_def) blast
qed


section \<open>The first stage\<close>

lemma growDisk_Ok:
  assumes "gpt_layout N0 k (fdev f)" and "sound_dev (fdev f)" and "dsize (fdev f) < 2 ^ 63"
    and "(N0 + 1) * 512 < dsize (fdev f)" and "growDisk kern p (f, m) = (Ok (), f', m')"
  shows "fdev f' = grown N0 k (dsize (fdev f) div 512) (fdev f)"
  using open_and_grow [OF assms(1-4), of p] assms(5) by (auto simp: growDisk_def split: prod.splits)

lemma PreSetup_Ok:
  assumes "PreSetup be b = (Ok (), b')"
  obtains m m1 d where "growDisks (be_kern be) (bt_disk b, m) = (Ok (), d, m1)" and "bt_disk b' = d"
    and "bt_m b' = set_terminate_wait (logDebug ''pre-setup finished successfully'' m1)"
  using assms by (auto simp: PreSetup_def Let_def split: prod.splits outcome.splits)

text \<open>
  C25.  The first stage prepares the disk, the shutdown and the programs.  When \<open>PreSetup\<close> succeeds on a
  GPT disk that has grown by more than one sector, the disk is a consistent GPT disk of its full size, and the
  configured programs are those of the configuration on the disk.  The
  time programs have to terminate is the configured one, or three seconds when the configuration has
  none, so it is never zero.
\<close>

theorem PreSetup_correct:
  assumes "PreSetup be b = (Ok (), b')"
    and "gpt_layout N0 k (bt_disk b)" and "sound_dev (bt_disk b)" and "dsize (bt_disk b) < 2 ^ 63"
    and "(N0 + 1) * 512 < dsize (bt_disk b)"
  shows "gpt_valid (dsize (bt_disk b) div 512) k (bt_disk b') \<and> 0 < terminateWait (bt_m b') \<and>
    terminateWait (bt_m b') =
      (case sy_TerminateWait (vc_System (vcfg (bt_m b'))) of 0 \<Rightarrow> 3000 | Suc n \<Rightarrow> Suc n) \<and>
    (\<exists>cfg. disk_config (be_fmt be) (bt_disk b) = Ok cfg \<and> vc_Programs (vcfg (bt_m b')) = vc_Programs cfg)"
proof -
  obtain m m1 where g: "growDisks (be_kern be) (bt_disk b, m) = (Ok (), bt_disk b', m1)"
    and t: "bt_m b' = set_terminate_wait (logDebug ''pre-setup finished successfully'' m1)"
    using PreSetup_Ok [OF assms(1)] by metis
  have "bt_disk b' = grown N0 k (dsize (bt_disk b) div 512) (bt_disk b)"
    using g growDisk_Ok [of N0 k "\<lparr>fdev = bt_disk b, fpos = 0\<rparr>"] assms(2-5)
    by (auto simp: growDisks_def split: outcome.splits prod.splits)
  with grown_valid [OF assms(2,4) grew_sectors [OF assms(5)]] PreSetup_programs [OF assms(1)] show ?thesis
    by (auto simp: plan_def t set_terminate_wait_def Let_def split: nat.split)
qed


text \<open>A machine whose boot disk is \<^verbatim>\<open>/dev/sda\<close>, without kernel arguments and terminals.\<close>

definition boot_fs :: fs where
  "boot_fs q = (if q = [''proc'', ''bootdev''] then Some (File ''/dev/sda'')
     else if q = [''dev'', ''sda''] then Some (File [])
     else if q = [''proc'', ''mounts''] \<or> q = [''proc'', ''cmdline''] then None else Some Dir)"

definition boot_fmt :: bootfmt where
  "boot_fmt = \<lparr>bf_size = 512, bf_ConfigOffset = (\<lambda>_. 512), bf_ConfigLen = (\<lambda>_. 16),
     bf_Unmarshal = (\<lambda>_. Ok zero_VCFG)\<rparr>"

definition boot_start :: boot where
  "boot_start = \<lparr>bt_m = New ((world_of [])\<lparr>w_fs := boot_fs\<rparr>), bt_disk = ext_dev 200,
     bt_tty = \<lparr>tt_tty = None, tt_ttyS = None, tt_ttyRedir = None\<rparr>, bt_dns = []\<rparr>"

definition booting :: "machine \<Rightarrow> bool" where
  "booting m \<longleftrightarrow> w_fs m = boot_fs \<and> w_deny m = (\<lambda>_ _. None)"

lemma booting_simps [simp]:
  "booting (emit e m) = booting m" "booting (log l f m) = booting m"
  "booting (m\<lparr>diskname := p\<rparr>) = booting m" "booting (m\<lparr>readOnly := r\<rparr>) = booting m"
  "booting (m\<lparr>vcfg := c\<rparr>) = booting m" "booting (m\<lparr>v_user := u\<rparr>) = booting m"
  by (simp_all add: booting_def)

lemma boot_paths:
  "resolve boot_fs True ''/dev/ttyS0'' = Ok ([''dev'', ''ttyS0''], Some Dir)"
  "resolve boot_fs True ''/dev/tty1'' = Ok ([''dev'', ''tty1''], Some Dir)"
  "resolve boot_fs True ''/dev/vtty'' = Ok ([''dev'', ''vtty''], Some Dir)"
  "resolve boot_fs False ''/dev/fd'' = Ok ([''dev'', ''fd''], Some Dir)"
  "resolve boot_fs True ''/tmp'' = Ok ([''tmp''], Some Dir)" "resolve boot_fs True ''/proc'' = Ok ([''proc''], Some Dir)"
  "resolve boot_fs True ''/sys'' = Ok ([''sys''], Some Dir)"
  "resolve boot_fs True ''/dev/pts'' = Ok ([''dev'', ''pts''], Some Dir)"
  "resolve boot_fs True ''/proc/bootdev'' = Ok ([''proc'', ''bootdev''], Some (File ''/dev/sda''))"
  "resolve boot_fs True ''/dev/sda'' = Ok ([''dev'', ''sda''], Some (File []))"
  "resolve boot_fs True ''/proc/mounts'' = Ok ([''proc'', ''mounts''], None)"
  "resolve boot_fs True ''/proc/cmdline'' = Ok ([''proc'', ''cmdline''], None)"
  by code_simp+

lemma booting_setupVtty: "booting m \<Longrightarrow> booting (snd (setupVtty StdoutModeUnknown (t, m)))"
  by (simp add: setupVtty_def enableTTYS_def enableTTY_def open_tty_def assign_std_def OpenFile_def open_write_def
      defaultTTY_def boot_paths booting_def)

lemma booting_mountFs:
  assumes "booting m" and "resolve boot_fs True p = Ok (q, Some Dir)"
  shows "\<exists>m'. mountFs env p t os m = (Ok (), m') \<and> booting m'"
  using assms by (auto simp: mountFs_def os_Stat_def stat_node_def IsNotExist_def syscall_Mount_def booting_def)

lemma booting_directories:
  assumes "booting m"
  shows "\<exists>m'. setupBasicDirectories env ''/'' m = (Ok (), m') \<and> booting m'"
proof -
  have p: "basic_dirs ''/'' = [(''/proc'', ''proc''), (''/sys'', ''sysfs''), (''/dev/pts'', ''devpts'')]"
    "PathJoin [''/'', ''/tmp''] = ''/tmp''" by code_simp+
  have b: "booting (ignoring (os_Chmod ''/tmp'' 511 m))"
    using assms by (auto simp: ignoring_def os_Chmod_def os_Stat_def stat_node_def booting_def boot_paths)
  have "\<exists>m'. mount_dirs env (basic_dirs ''/'') m = (Ok (), m') \<and> booting m'" if "booting m" for m
    using booting_mountFs [OF that boot_paths(6), of env "''proc''" "[]"]
      booting_mountFs [OF _ boot_paths(7), of _ env "''sysfs''" "[]"]
      booting_mountFs [OF _ boot_paths(8), of _ env "''devpts''" "[]"] by (fastforce simp: p)
  from this [OF b] show ?thesis
    by (auto simp: setupBasicDirectories_def p ignoring_def os_Symlink_def booting_def boot_paths)
qed

lemma booting_cmdline: "booting m \<Longrightarrow> hasCmdLineString ss m = (False, m)"
  by (simp add: hasCmdLineString_def ReadFile_def booting_def boot_paths)

lemma booting_load_config:
  assumes "booting m" and "be_fmt be = boot_fmt"
  shows "\<exists>m'. load_config be (ext_dev 200) m = (Ok (), m') \<and> booting m' \<and> vcfg m' = zero_VCFG"
proof -
  have d: "bootDisk m = Ok ''/dev/sda''"
    using assms(1) by (simp add: bootDisk_def ReadFile_def booting_def boot_paths)
  have "os_Open ''/dev/sda'' m = Ok (File [])" if "booting m" for m
    using that by (simp add: os_Open_def booting_def boot_paths)
  then have v: "\<exists>m'. readVCFG boot_fmt ''/dev/sda'' (ext_dev 200) m = (Ok (), m') \<and> booting m' \<and> vcfg m' = zero_VCFG"
    if "booting m" for m
    using that by (auto simp: readVCFG_def openVCFGFile_def boot_fmt_def vcfgOffset_def f_read_ok f_read_some_def
        any_bad_sound ext_dev_facts Let_def sectorSize_def)
  have mo: "booting (mount_options m)" "vcfg (mount_options m) = vcfg m" if "booting m" for m
    using that by (auto simp: mount_options_def booting_cmdline setupMountOptions_def os_Open_def booting_def boot_paths)
  from v [of "m\<lparr>diskname := ''/dev/sda''\<rparr>"] assms(1) obtain m1 where
    "readVCFG boot_fmt ''/dev/sda'' (ext_dev 200) (m\<lparr>diskname := ''/dev/sda''\<rparr>) = (Ok (), m1)" "booting m1"
    "vcfg m1 = zero_VCFG" by auto
  then show ?thesis
    using mo [of m1] by (auto simp: load_config_def d assms(2) direktiv_disk_def booting_cmdline)
qed


lemma booting_growDisks:
  assumes "booting m"
  shows "\<exists>d m'. growDisks sample_kern (ext_dev 200, m) = (Ok (), d, m') \<and> vcfg m' = vcfg m"
proof -
  have "bootDisk m = Ok ''/dev/sda''" "open_write False ''/dev/sda'' m = Ok [''dev'', ''sda'']"
    "w_deny m ''open'' ''/'' = None"
    using assms by (simp_all add: bootDisk_def ReadFile_def open_write_def booting_def boot_paths)
  moreover have "accepting sample_kern 4096 sample_geom" by (simp add: accepting_def sample_kern_def)
  ultimately show ?thesis
    using growDisk_ok [of 100 1 "\<lparr>fdev = ext_dev 200, fpos = 0\<rparr>" sample_kern 4096 sample_geom m "''/dev/sda''"]
      ext_dev_facts(1) [of 200]
    by (auto simp: growDisks_def ext_dev_facts(2-) flushDisk_def split: outcome.split)
qed

lemma boot_start_PreSetup:
  assumes "be_kern be = sample_kern" and "be_fmt be = boot_fmt"
  shows "\<exists>b'. PreSetup be boot_start = (Ok (), b') \<and> vcfg (bt_m b') = zero_VCFG"
proof -
  have "booting (bt_m boot_start)" by (simp add: booting_def boot_start_def New_def world_of_def)
  then obtain t m1 where 1: "setupVtty StdoutModeUnknown (bt_tty boot_start, bt_m boot_start) = (t, m1)" "booting m1"
    using booting_setupVtty [of "bt_m boot_start" "bt_tty boot_start"] by (metis prod.collapse)
  obtain m2 where 2: "setupBasicDirectories (be_sys be) ''/'' m1 = (Ok (), m2)" "booting m2"
    using booting_directories [OF 1(2)] by blast
  obtain m3 where 3: "load_config be (ext_dev 200) (emit (EvCall ''go'' [''checkLogs'']) m2) = (Ok (), m3)"
    "booting m3" "vcfg m3 = zero_VCFG"
    using booting_load_config [of "emit (EvCall ''go'' [''checkLogs'']) m2" be] 2(2) assms(2) by auto
  obtain d m4 where 4: "growDisks sample_kern (ext_dev 200, m3) = (Ok (), d, m4)" "vcfg m4 = vcfg m3"
    using booting_growDisks [OF 3(2)] by blast
  have d: "bt_disk boot_start = ext_dev 200" by (simp add: boot_start_def)
  show ?thesis
    by (simp add: PreSetup_def 1 2 3 4 d assms Let_def set_terminate_wait_def)
qed

theorem PreSetup_correct_witness:
  "\<forall>be. \<exists>b'. PreSetup (be\<lparr>be_kern := sample_kern, be_fmt := boot_fmt\<rparr>) boot_start = (Ok (), b') \<and>
    gpt_valid 200 1 (bt_disk b') \<and> terminateWait (bt_m b') = 3000"
proof
  fix be :: bootenv
  let ?be = "be\<lparr>be_kern := sample_kern, be_fmt := boot_fmt\<rparr>"
  obtain b' where b: "PreSetup ?be boot_start = (Ok (), b')" "vcfg (bt_m b') = zero_VCFG"
    using boot_start_PreSetup [of ?be] by auto
  have d: "bt_disk boot_start = ext_dev 200" by (simp add: boot_start_def)
  have "gpt_valid 200 1 (bt_disk b') \<and> terminateWait (bt_m b') = 3000"
    using PreSetup_correct [OF b(1), of 100 1] ext_dev_facts(1) [of 200]
    by (simp add: d ext_dev_facts(2-) b(2) zero_VCFG_def zero_System_def)
  with b(1) show "\<exists>b'. PreSetup ?be boot_start = (Ok (), b') \<and> gpt_valid 200 1 (bt_disk b') \<and>
      terminateWait (bt_m b') = 3000" by blast
qed

end
