(* ===== verification/LaunchJoin.thy ===== *)
theory LaunchJoin
  imports LaunchSpec
begin

text \<open>
  \<open>Launch\<close> with its goroutines interleaved: one per program, which starts it and reports an error on an
  unbuffered channel before it counts the wait group down, and the main goroutine, which waits for the
  counter to reach zero or for the first error.  The start of a program is one step; the steps of different goroutines
  come in any order, also while and after the main goroutine shuts the machine down.
\<close>

section \<open>What the start of one program does to the others\<close>

definition others :: "nat \<Rightarrow> machine \<Rightarrow> program option list" where
  "others i m = map (\<lambda>j. if j = i then None else Some (programs m ! j)) [0..<length (programs m)]"

interpretation ot: start_bystander i "others i" for i
  by unfold_locales (auto simp: others_def set_program_def)

interpretation cf: start_frame i "\<lambda>m. (pr_vcfgProg (programs m ! i), pr_progIndex (programs m ! i))" for i
  by unfold_locales (auto simp: same_config_def nth_set_program)

lemma others_register [simp]: "others i (register_signal env j p m) = others i m"
  by (simp add: others_def register_signal_def split: outcome.split)

lemma others_nth:
  assumes "others i m = others i n" and "j \<noteq> i" and "j < length (programs m)"
  shows "programs m ! j = programs n ! j"
proof -
  have l: "length (programs m) = length (programs n)" using arg_cong [OF assms(1), of length] by (simp add: others_def)
  have "others i m ! j = others i n ! j" using assms(1) by simp
  with assms(2,3) l show ?thesis by (simp add: others_def)
qed

lemma launchProgram_others:
  assumes "launchProgram env i m = Some (r, m')" and "j \<noteq> i" and "j < length (programs m)"
  shows "programs m' ! j = programs m ! j"
proof -
  have "others i m' = others i m" using ot.F_launchProgram [OF assms(1)] by (auto split: if_splits)
  from others_nth [OF this [symmetric] assms(2,3)] show ?thesis by simp
qed

lemma launchProgram_length:
  "launchProgram env i m = Some (r, m') \<Longrightarrow> length (programs m') = length (programs m)"
  by (drule launchProgram_frame) (auto simp: registered_def frame_of_def split: if_splits)

lemma launchProgram_signals:
  "launchProgram env i m = Some (r, m') \<Longrightarrow> map_of (terminateSignals m) j \<noteq> None \<Longrightarrow>
   map_of (terminateSignals m') j \<noteq> None"
  by (drule launchProgram_frame) (auto simp: registered_def frame_of_def split: if_splits)

text \<open>The program record of a configured program that runs.\<close>

definition running :: "launchenv \<Rightarrow> Program \<Rightarrow> program \<Rightarrow> bool" where
  "running env P p \<longleftrightarrow>
     (\<exists>q pid. pr_vcfgProg q = P \<and> le_start env (make_cmd env (launched_record q)) = Ok pid \<and>
       pr_cmd p = Some (make_cmd env (launched_record q)\<lparr>cmd_Pid := Some pid\<rparr>))"

lemma programs_register [simp]: "programs (register_signal env i p m) = programs m"
  by (simp add: register_signal_def split: outcome.split)

lemma launchProgram_started:
  assumes "launchProgram env i m = Some (Ok (), m')" and "i < length (programs m)"
  shows "running env (pr_vcfgProg (programs m ! i)) (programs m' ! i)"
proof -
  define P where "P = pr_vcfgProg (programs m ! i)"
  obtain n where p: "prepare env i m = (Ok (), n)" and s: "start_prepared env i P n = Some (Ok (), m')"
    using assms(1) by (auto simp: launchProgram_eq P_def split: outcome.splits prod.splits)
  obtain r1 m1 where b: "bootstrap env i (vp_Bootstrap P) (logDebug ''launching %s'' n) = Some (r1, m1)"
    using s by (auto simp: start_prepared_def split: option.splits prod.splits)
  define m2 where "m2 = logDebug ''launch envs %v'' (logDebug ''launch args %v'' m1)"
  obtain r3 m3 where l: "launch env i m2 = (r3, m3)" by (cases "launch env i m2")
  have k: "r3 = Ok ()" "m' = register_signal env i P m3"
    using s by (cases r1; cases r3; simp add: start_prepared_def b m2_def [symmetric] l)+
  have "pr_vcfgProg (programs m2 ! i) = P"
    using cf.F_bootstrap [OF b] cf.F_prepare [OF p] by (simp add: m2_def P_def)
  moreover have "frame_of m2 = frame_of m"
    using fr.F_bootstrap [OF b] fr.F_prepare [OF p] by (simp add: m2_def)
  then have "i < length (programs m2)" using assms(2) frame_programs [of m2 m] by simp
  ultimately show ?thesis
    using launch_Ok [of env i m2 m3] l k by (auto simp: running_def P_def)
qed

section \<open>The goroutines\<close>

datatype lphase = Starting | Reporting goerr | Started | Reported

datatype lmain = Selecting | Panicking goerr | LJoined | LFailed goerr

record launching =
  la_ws :: "lphase list"
  la_wg :: nat
  la_main :: lmain
  la_crash :: "gopanic option"
  la_m :: machine

definition la_init :: "machine \<Rightarrow> launching" where
  "la_init m = \<lparr>la_ws = replicate (length (programs m)) Starting, la_wg = length (vc_Programs (vcfg m)),
     la_main = Selecting, la_crash = None, la_m = launch_start m\<rparr>"

inductive la_step :: "launchenv \<Rightarrow> sysview \<Rightarrow> launching \<Rightarrow> launching \<Rightarrow> bool"
  for env :: launchenv and sv :: sysview where
  la_ok: "\<lbrakk>la_crash s = None; i < length (la_ws s); la_ws s ! i = Starting;
      launchProgram env i (la_m s) = Some (Ok (), m'); la_wg s = Suc k\<rbrakk> \<Longrightarrow>
    la_step env sv s (s\<lparr>la_ws := (la_ws s)[i := Started], la_wg := k, la_m := m'\<rparr>)"
| la_negative: "\<lbrakk>la_crash s = None; i < length (la_ws s); la_ws s ! i = Starting;
      launchProgram env i (la_m s) = Some (Ok (), m'); la_wg s = 0\<rbrakk> \<Longrightarrow>
    la_step env sv s (s\<lparr>la_crash := Some NegativeWaitGroup, la_m := m'\<rparr>)"
| la_err: "\<lbrakk>la_crash s = None; i < length (la_ws s); la_ws s ! i = Starting;
      launchProgram env i (la_m s) = Some (Err e, m')\<rbrakk> \<Longrightarrow>
    la_step env sv s (s\<lparr>la_ws := (la_ws s)[i := Reporting e], la_m := m'\<rparr>)"
| la_panic: "\<lbrakk>la_crash s = None; i < length (la_ws s); la_ws s ! i = Starting;
      launchProgram env i (la_m s) = Some (Panic x, m')\<rbrakk> \<Longrightarrow>
    la_step env sv s (s\<lparr>la_crash := Some x, la_m := m'\<rparr>)"
| la_receive: "\<lbrakk>la_crash s = None; la_main s = Selecting; i < length (la_ws s); la_ws s ! i = Reporting e;
      la_wg s = Suc k\<rbrakk> \<Longrightarrow>
    la_step env sv s (s\<lparr>la_ws := (la_ws s)[i := Reported], la_wg := k, la_main := Panicking e\<rparr>)"
| la_receive_negative: "\<lbrakk>la_crash s = None; la_main s = Selecting; i < length (la_ws s);
      la_ws s ! i = Reporting e; la_wg s = 0\<rbrakk> \<Longrightarrow>
    la_step env sv s (s\<lparr>la_crash := Some NegativeWaitGroup\<rparr>)"
| la_shutdown: "\<lbrakk>la_crash s = None; la_main s = Panicking e\<rbrakk> \<Longrightarrow>
    la_step env sv s (s\<lparr>la_main := LFailed e, la_m := launched (SystemPanic sv ''starting program failed: %s'' (la_m s))\<rparr>)"
| la_join: "\<lbrakk>la_crash s = None; la_main s = Selecting; la_wg s = 0\<rbrakk> \<Longrightarrow>
    la_step env sv s (s\<lparr>la_main := LJoined, la_m := launched (la_m s)\<rparr>)"

inductive_cases la_stepE: "la_step env sv s s'"

inductive la_reach :: "launchenv \<Rightarrow> sysview \<Rightarrow> machine \<Rightarrow> launching \<Rightarrow> bool"
  for env :: launchenv and sv :: sysview and m :: machine where
  la_start: "la_reach env sv m (la_init m)"
| la_next: "la_reach env sv m s \<Longrightarrow> la_step env sv s s' \<Longrightarrow> la_reach env sv m s'"

definition la_final :: "launchenv \<Rightarrow> sysview \<Rightarrow> launching \<Rightarrow> bool" where
  "la_final env sv s \<longleftrightarrow> (\<forall>s'. \<not> la_step env sv s s')"

section \<open>What reachable states look like\<close>

primrec pending :: "lphase \<Rightarrow> bool" where
  "pending Starting = True"
| "pending (Reporting e) = True"
| "pending Started = False"
| "pending Reported = False"

lemma pending_iff: "pending p \<longleftrightarrow> p = Starting \<or> (\<exists>e. p = Reporting e)"
  by (cases p) simp_all

lemma pending_update:
  assumes "i < length ws" and "pending (ws ! i)"
  shows "length (filter pending (ws[i := p])) =
    (if pending p then length (filter pending ws) else length (filter pending ws) - 1)"
proof -
  have ws: "ws = take i ws @ ws ! i # drop (Suc i) ws" using assms(1) by (rule id_take_nth_drop)
  have u: "ws[i := p] = take i ws @ p # drop (Suc i) ws" using assms(1) by (simp add: upd_conv_take_nth_drop)
  show ?thesis using assms(2) by (subst (2 3) ws) (simp add: u)
qed

definition one_reported :: "lphase list \<Rightarrow> bool" where
  "one_reported ws \<longleftrightarrow> (\<exists>!i. i < length ws \<and> ws ! i = Reported)"

text \<open>A program not started yet is as it was; a started one runs and has its termination signal.\<close>

definition slot_inv :: "launchenv \<Rightarrow> machine \<Rightarrow> launching \<Rightarrow> nat \<Rightarrow> bool" where
  "slot_inv env m s i \<longleftrightarrow>
     (la_ws s ! i = Starting \<longrightarrow> programs (la_m s) ! i = programs m ! i) \<and>
     (la_ws s ! i = Started \<longrightarrow> running env (pr_vcfgProg (programs m ! i)) (programs (la_m s) ! i) \<and>
        map_of (terminateSignals (la_m s)) i \<noteq> None)"

definition main_inv :: "machine \<Rightarrow> launching \<Rightarrow> bool" where
  "main_inv m s \<longleftrightarrow>
     (case la_main s of
        Selecting \<Rightarrow> power_of (la_m s) = power_of m \<and> Reported \<notin> set (la_ws s)
      | Panicking e \<Rightarrow> power_of (la_m s) = power_of m \<and> one_reported (la_ws s)
      | LJoined \<Rightarrow> power_of (la_m s) = (statusLaunched, reboots m) \<and> set (la_ws s) \<subseteq> {Started}
      | LFailed e \<Rightarrow> power_of (la_m s) = (statusLaunched, Suc (reboots m)) \<and> one_reported (la_ws s))"

definition la_inv :: "launchenv \<Rightarrow> machine \<Rightarrow> launching \<Rightarrow> bool" where
  "la_inv env m s \<longleftrightarrow>
     (case la_crash s of
        None \<Rightarrow>
          length (la_ws s) = length (programs m) \<and> length (programs (la_m s)) = length (programs m) \<and>
          la_wg s = length (filter pending (la_ws s)) \<and>
          (\<forall>i < length (programs m). slot_inv env m s i) \<and> main_inv m s
      | Some x \<Rightarrow> \<exists>i n n'. launchProgram env i n = Some (Panic x, n'))"

interpretation ps: bystander "\<lambda>m. (programs m, terminateSignals m)"
  by unfold_locales (simp_all add: emit_def)

lemma launched_keeps [simp]:
  "programs (launched m) = programs m" "terminateSignals (launched m) = terminateSignals m"
  "programs (launch_start m) = programs m"
  by (simp_all add: launched_def launch_start_def)

lemma panic_keeps [simp]:
  "programs (SystemPanic sv f m) = programs m" "terminateSignals (SystemPanic sv f m) = terminateSignals m"
  using ps.view_SystemPanic [of sv f m] by (simp_all only: prod.inject)

lemma la_inv_init:
  assumes "length (vc_Programs (vcfg m)) = length (programs m)"
  shows "la_inv env m (la_init m)"
  using assms by (simp add: la_inv_def la_init_def slot_inv_def main_inv_def filter_replicate)

text \<open>The start of program \<open>i\<close>, whatever comes of it, keeps what is known of the other slots.\<close>

lemma slot_inv_start:
  assumes "launchProgram env i (la_m s) = Some (r, m')" and "slot_inv env m s j" and "j \<noteq> i"
    and "j < length (programs (la_m s))"
  shows "slot_inv env m (s\<lparr>la_ws := (la_ws s)[i := p], la_wg := k, la_m := m'\<rparr>) j"
  using assms(2,3) launchProgram_others [OF assms(1,3,4)] launchProgram_signals [OF assms(1)]
  by (simp add: slot_inv_def)

lemma one_reported_update:
  assumes "i < length ws" and "ws ! i \<noteq> Reported" and "p \<noteq> Reported"
  shows "one_reported (ws[i := p]) = one_reported ws" "Reported \<in> set (ws[i := p]) \<longleftrightarrow> Reported \<in> set ws"
proof -
  have "(j < length (ws[i := p]) \<and> ws[i := p] ! j = Reported) = (j < length ws \<and> ws ! j = Reported)" for j
    using assms by (cases "j = i") auto
  then show "one_reported (ws[i := p]) = one_reported ws" "Reported \<in> set (ws[i := p]) \<longleftrightarrow> Reported \<in> set ws"
    by (simp_all only: one_reported_def in_set_conv_nth)
qed

lemma main_inv_start:
  assumes "launchProgram env i (la_m s) = Some (r, m')" and "main_inv m s" and "i < length (la_ws s)"
    and "la_ws s ! i = Starting" and "p \<noteq> Reported"
  shows "main_inv m (s\<lparr>la_ws := (la_ws s)[i := p], la_wg := k, la_m := m'\<rparr>)"
proof -
  have "la_main s \<noteq> LJoined" using assms(2,4) nth_mem [OF assms(3)] by (auto simp: main_inv_def)
  then show ?thesis
    using assms(2) launchProgram_power [OF assms(1)] one_reported_update [OF assms(3) _ assms(5)] assms(4)
    by (auto simp: main_inv_def split: lmain.splits)
qed

lemma la_inv_start:
  assumes "la_inv env m s" and "launchProgram env i (la_m s) = Some (r, m')" and "i < length (la_ws s)"
    and "la_ws s ! i = Starting" and "la_crash s = None"
    and "r = Ok () \<and> p = Started \<or> (\<exists>e. p = Reporting e)" and "k = (if pending p then la_wg s else la_wg s - 1)"
  shows "la_inv env m (s\<lparr>la_ws := (la_ws s)[i := p], la_wg := k, la_m := m'\<rparr>)"
proof -
  note inv = assms(1) [unfolded la_inv_def assms(5), simplified]
  have i: "i < length (programs (la_m s))" using inv assms(3) by simp
  have "slot_inv env m (s\<lparr>la_ws := (la_ws s)[i := p], la_wg := k, la_m := m'\<rparr>) j" if "j < length (programs m)" for j
  proof (cases "j = i")
    case True
    have "programs (la_m s) ! i = programs m ! i" using inv assms(4) that True by (simp add: slot_inv_def)
    with True assms(3,6) show ?thesis
      using launchProgram_started [of env i "la_m s" m'] launchProgram_frame [OF assms(2)] assms(2) i
      by (auto simp: slot_inv_def registered_def frame_of_def)
  next
    case False
    with inv that show ?thesis by (intro slot_inv_start [OF assms(2)]) auto
  qed
  moreover have "main_inv m (s\<lparr>la_ws := (la_ws s)[i := p], la_wg := k, la_m := m'\<rparr>)"
    using inv assms(5,6) by (intro main_inv_start [OF assms(2) _ assms(3,4)]) auto
  moreover have "k = length (filter pending ((la_ws s)[i := p]))"
    using inv assms(4,7) pending_update [OF assms(3), of p] by simp
  ultimately show ?thesis
    using inv assms(5) launchProgram_length [OF assms(2)] by (simp add: la_inv_def)
qed

lemma la_inv_positive:
  assumes "la_inv env m s" and "la_crash s = None" and "i < length (la_ws s)" and "pending (la_ws s ! i)"
  shows "0 < la_wg s"
proof -
  have "la_ws s ! i \<in> set (filter pending (la_ws s))" using assms(3,4) by simp
  then have "filter pending (la_ws s) \<noteq> []" by (metis empty_iff list.set(1))
  then show ?thesis using assms(1,2) by (simp add: la_inv_def)
qed

lemma la_inv_receive:
  assumes "la_inv env m s" and "la_crash s = None" and "la_main s = Selecting" and "i < length (la_ws s)"
    and "la_ws s ! i = Reporting e" and "la_wg s = Suc k"
  shows "la_inv env m (s\<lparr>la_ws := (la_ws s)[i := Reported], la_wg := k, la_main := Panicking e\<rparr>)"
proof -
  note inv = assms(1) [unfolded la_inv_def assms(2), simplified]
  have no: "la_ws s ! j \<noteq> Reported" if "j < length (la_ws s)" for j
    using inv assms(3) nth_mem [OF that] by (auto simp: main_inv_def)
  have "one_reported ((la_ws s)[i := Reported])"
    using no assms(4) by (auto simp: one_reported_def nth_list_update intro!: ex1I [of _ i] split: if_splits)
  moreover have "power_of (la_m s) = power_of m" using inv assms(2,3) by (simp add: main_inv_def)
  moreover have "slot_inv env m (s\<lparr>la_ws := (la_ws s)[i := Reported], la_wg := k, la_main := Panicking e\<rparr>) j"
    if "j < length (programs m)" for j
    using inv that assms(4) by (cases "j = i") (simp_all add: slot_inv_def)
  moreover have "k = length (filter pending ((la_ws s)[i := Reported]))"
    using inv assms(5,6) pending_update [OF assms(4), of Reported] by auto
  ultimately show ?thesis using inv assms(2) by (simp add: la_inv_def main_inv_def)
qed

lemma la_inv_join:
  assumes "la_inv env m s" and "la_crash s = None" and "la_main s = Selecting" and "la_wg s = 0"
  shows "la_inv env m (s\<lparr>la_main := LJoined, la_m := launched (la_m s)\<rparr>)"
proof -
  note inv = assms(1) [unfolded la_inv_def assms(2), simplified]
  have "filter pending (la_ws s) = []" using inv assms(4) by simp
  then have "\<not> pending p \<and> p \<noteq> Reported" if "p \<in> set (la_ws s)" for p
    using that inv assms(2,3) by (auto simp: main_inv_def filter_empty_conv)
  then have "p = Started" if "p \<in> set (la_ws s)" for p using that by (cases p) force+
  then have "set (la_ws s) \<subseteq> {Started}" by blast
  moreover have "reboots (la_m s) = reboots m" using inv assms(2,3) by (simp add: main_inv_def power_of_def)
  ultimately show ?thesis
    using inv assms(2) by (simp add: la_inv_def main_inv_def slot_inv_def)
qed

lemma la_inv_shutdown:
  assumes "la_inv env m s" and "la_crash s = None" and "la_main s = Panicking e" and "initStatus m \<noteq> statusPoweroff"
  shows "la_inv env m (s\<lparr>la_main := LFailed e, la_m := launched (SystemPanic sv f (la_m s))\<rparr>)"
proof -
  note inv = assms(1) [unfolded la_inv_def assms(2), simplified]
  have p: "initStatus (la_m s) \<noteq> statusPoweroff" "reboots (la_m s) = reboots m"
    using inv assms(2-4) by (simp_all add: main_inv_def power_of_def)
  show ?thesis
    using inv assms(2,3) reboots_panic [OF p(1), of sv f] p(2) by (simp add: la_inv_def main_inv_def slot_inv_def)
qed

lemma la_inv_step:
  assumes "la_inv env m s" and "la_step env sv s s'" and "initStatus m \<noteq> statusPoweroff"
  shows "la_inv env m s'"
  using assms(2)
proof cases
  case (la_ok i m' k)
  then show ?thesis using la_inv_start [OF assms(1) la_ok(5,3,4,2), of Started k] by simp
next
  case (la_negative i m')
  then show ?thesis using la_inv_positive [OF assms(1), of i] by simp
next
  case (la_err i e m')
  then show ?thesis using la_inv_start [OF assms(1) la_err(5,3,4,2), of "Reporting e" "la_wg s"] by simp
next
  case (la_panic i x m')
  then show ?thesis by (auto simp: la_inv_def)
next
  case (la_receive i e k)
  then show ?thesis using la_inv_receive [OF assms(1)] by simp
next
  case (la_receive_negative i e)
  then show ?thesis using la_inv_positive [OF assms(1), of i] by simp
next
  case (la_shutdown e)
  then show ?thesis using la_inv_shutdown [OF assms(1)] assms(3) by simp
next
  case la_join
  then show ?thesis using la_inv_join [OF assms(1)] by simp
qed

lemma la_reach_inv:
  assumes "la_reach env sv m s" and "length (vc_Programs (vcfg m)) = length (programs m)"
    and "initStatus m \<noteq> statusPoweroff"
  shows "la_inv env m s"
  using assms(1) by (induction rule: la_reach.induct) (use assms(2,3) la_inv_init la_inv_step in blast)+

section \<open>Final states\<close>

lemma la_final_starting:
  assumes "la_final env sv s" and "la_crash s = None" and "i < length (la_ws s)" and "la_ws s ! i = Starting"
  shows "launchProgram env i (la_m s) = None"
proof (rule ccontr)
  assume "launchProgram env i (la_m s) \<noteq> None"
  then obtain r n where l: "launchProgram env i (la_m s) = Some (r, n)" by auto
  show False
  proof (cases r)
    case (Ok u)
    with l have l: "launchProgram env i (la_m s) = Some (Ok (), n)" by simp
    show ?thesis using assms(1) la_ok [OF assms(2,3,4) l] la_negative [OF assms(2,3,4) l]
      by (cases "la_wg s") (auto simp: la_final_def)
  qed (use assms(1) l la_err [OF assms(2,3,4), of env] la_panic [OF assms(2,3,4), of env] in \<open>auto simp: la_final_def\<close>)
qed

lemma la_final_main:
  assumes "la_final env sv s" and "la_crash s = None"
  shows "la_main s \<noteq> Panicking e"
    and "la_main s = Selecting \<Longrightarrow> 0 < la_wg s"
    and "la_main s = Selecting \<Longrightarrow> i < length (la_ws s) \<Longrightarrow> la_ws s ! i \<noteq> Reporting e"
  using assms la_shutdown [of s e env sv] la_join [of s env sv] la_receive [of s i e _ env sv]
    la_receive_negative [of s i e env sv]
  by (auto simp: la_final_def) (metis gr0_conv_Suc neq0_conv)+

section \<open>Every run ends\<close>

primrec lphase_work :: "lphase \<Rightarrow> nat" where
  "lphase_work Starting = 2"
| "lphase_work (Reporting e) = 1"
| "lphase_work Started = 0"
| "lphase_work Reported = 0"

primrec lmain_work :: "lmain \<Rightarrow> nat" where
  "lmain_work Selecting = 2"
| "lmain_work (Panicking e) = 1"
| "lmain_work LJoined = 0"
| "lmain_work (LFailed e) = 0"

definition la_work :: "launching \<Rightarrow> nat" where
  "la_work s = sum_list (map lphase_work (la_ws s)) + lmain_work (la_main s) + (if la_crash s = None then 1 else 0)"

lemma la_step_work: "la_step env sv s s' \<Longrightarrow> la_work s' < la_work s"
  by (erule la_stepE) (auto simp: la_work_def intro!: add_less_le_mono sum_list_update_less less_SucI)

lemma la_run_work: "(la_step env sv ^^ k) s s' \<Longrightarrow> k + la_work s' \<le> la_work s"
proof (induction k arbitrary: s')
  case (Suc k)
  then obtain t where "(la_step env sv ^^ k) s t" "la_step env sv t s'" by auto
  with Suc.IH [of t] la_step_work [of env sv t s'] show ?case by simp
qed simp

lemma la_run_bounded: "(la_step env sv ^^ k) (la_init m) s \<Longrightarrow> k \<le> 2 * length (programs m) + 3"
  using la_run_work [of k env sv "la_init m" s] by (simp add: la_work_def la_init_def sum_list_replicate)

section \<open>Properties\<close>

text \<open>
  C6.  How \<open>Launch\<close> ends, in every interleaving of its goroutines.  With \<open>n\<close> programs they make at most \<open>2 n + 3\<close>
  steps.  \<open>Launch\<close> does not return only when no start has failed
  and some program waits for ever.  If it returns because all goroutines are done, every program
  runs, with its termination signal registered, and no reboot has been asked for.  If it returns because of an
  error, exactly one error has been taken and one reboot call made; every other program runs, is left
  with its own error, or waits for ever.  In both cases the status is \<open>statusLaunched\<close>.  The process crashes only
  by a panic of a start itself, never by the wait group or the channel.
\<close>

theorem launch_outcome:
  assumes "la_reach env sv m s" and "la_final env sv s"
    and "length (vc_Programs (vcfg m)) = length (programs m)" and "initStatus m \<noteq> statusPoweroff"
  shows "(\<forall>k t. (la_step env sv ^^ k) (la_init m) t \<longrightarrow> k \<le> 2 * length (programs m) + 3) \<and>
    (case la_crash s of
      Some x \<Rightarrow> \<exists>i n n'. launchProgram env i n = Some (Panic x, n')
    | None \<Rightarrow>
        (\<forall>i < length (programs m). case la_ws s ! i of
            Starting \<Rightarrow> launchProgram env i (la_m s) = None
          | Started \<Rightarrow> running env (pr_vcfgProg (programs m ! i)) (programs (la_m s) ! i) \<and>
              map_of (terminateSignals (la_m s)) i \<noteq> None
          | _ \<Rightarrow> \<exists>e. la_main s = LFailed e) \<and>
        (case la_main s of
            Selecting \<Rightarrow> power_of (la_m s) = power_of m \<and> Starting \<in> set (la_ws s)
          | Panicking e \<Rightarrow> False
          | LJoined \<Rightarrow> power_of (la_m s) = (statusLaunched, reboots m) \<and> set (la_ws s) \<subseteq> {Started}
          | LFailed e \<Rightarrow> power_of (la_m s) = (statusLaunched, Suc (reboots m)) \<and> one_reported (la_ws s)))"
proof (cases "la_crash s")
  case (Some x)
  with la_reach_inv [OF assms(1,3,4)] la_run_bounded show ?thesis by (auto simp: la_inv_def)
next
  case None
  note inv = la_reach_inv [OF assms(1,3,4), unfolded la_inv_def None, simplified]
  have slots: "case la_ws s ! i of
      Starting \<Rightarrow> launchProgram env i (la_m s) = None
    | Started \<Rightarrow> running env (pr_vcfgProg (programs m ! i)) (programs (la_m s) ! i) \<and>
        map_of (terminateSignals (la_m s)) i \<noteq> None
    | _ \<Rightarrow> \<exists>e. la_main s = LFailed e" if "i < length (programs m)" for i
  proof -
    have i: "i < length (la_ws s)" using that inv by simp
    have sl: "slot_inv env m s i" using that inv by simp
    have "la_ws s ! i = Started" if "la_main s = LJoined"
      using inv that subsetD [OF _ nth_mem [OF i]] by (auto simp: main_inv_def)
    moreover have "la_ws s ! i \<noteq> Reported" if "la_main s = Selecting"
    proof -
      have "Reported \<notin> set (la_ws s)" using inv that by (simp add: main_inv_def)
      with i show ?thesis by (metis nth_mem)
    qed
    ultimately show ?thesis
      using sl la_final_starting [OF assms(2) None i] la_final_main [OF assms(2) None] i
      by (cases "la_main s"; cases "la_ws s ! i") (auto simp: slot_inv_def)
  qed
  moreover have "Starting \<in> set (la_ws s)" if "la_main s = Selecting"
  proof -
    have "filter pending (la_ws s) \<noteq> []" using inv la_final_main(2) [OF assms(2) None that] by auto
    then obtain p where "p \<in> set (la_ws s)" "pending p" by (auto simp: filter_empty_conv)
    then show ?thesis
      using la_final_main(3) [OF assms(2) None that] by (auto simp: pending_iff in_set_conv_nth)
  qed
  ultimately show ?thesis
    using None inv la_final_main(1) [OF assms(2) None] la_run_bounded by (auto simp: main_inv_def split: lmain.splits)
qed

section \<open>The goroutines one after the other\<close>

text \<open>
  \<open>tried\<close>: the goroutine of a program has come to the end of its start, or has been seen to wait for ever.  \<open>ready\<close>: the
  goroutines in the list are still to run, all others of the set \<open>A\<close> have been tried.
\<close>

definition tried :: "launchenv \<Rightarrow> sysview \<Rightarrow> machine \<Rightarrow> lphase list \<Rightarrow> nat \<Rightarrow> bool" where
  "tried env sv m ws i \<longleftrightarrow> ws ! i \<noteq> Starting \<or>
     (\<exists>s. la_reach env sv m s \<and> la_crash s = None \<and> la_ws s ! i = Starting \<and> launchProgram env i (la_m s) = None)"

definition ready :: "launchenv \<Rightarrow> sysview \<Rightarrow> machine \<Rightarrow> nat set \<Rightarrow> nat list \<Rightarrow> launching \<Rightarrow> bool" where
  "ready env sv m A is s \<longleftrightarrow> la_crash s = None \<and> distinct is \<and>
     (\<forall>i \<in> set is. i < length (la_ws s) \<and> la_ws s ! i = Starting) \<and>
     (\<forall>i \<in> A. i \<in> set is \<or> tried env sv m (la_ws s) i)"

lemma ready_waits:
  assumes "ready env sv m A (i # is) s" and "la_reach env sv m s" and "launchProgram env i (la_m s) = None"
  shows "ready env sv m A is s"
  using assms by (auto simp: ready_def tried_def)

lemma ready_update:
  assumes "ready env sv m A (i # is) s" and "ws = (la_ws s)[i := p]" and "p \<noteq> Starting"
    and "la_ws t = ws" and "la_crash t = None"
  shows "ready env sv m A is t"
  using assms by (auto simp: ready_def tried_def nth_list_update)

lemma ready_Cons:
  assumes "ready env sv m A (i # is) s" and "p \<noteq> Starting"
  shows "ready env sv m A is (s\<lparr>la_ws := (la_ws s)[i := p], la_m := m'\<rparr>)"
    and "ready env sv m A is (s\<lparr>la_ws := (la_ws s)[i := p], la_wg := k, la_m := m'\<rparr>)"
  using assms(1) by (intro ready_update [OF assms(1) refl assms(2)]; simp add: ready_def)+

lemma launch_late_run:
  assumes "launch_late env is (la_wg s) (la_m s) = (r, m')" and "la_reach env sv m s"
    and "ready env sv m A is s" and "la_main s = LFailed e"
  shows "\<exists>s'. la_reach env sv m s' \<and> la_m s' = m' \<and>
    (case r of Ok _ \<Rightarrow> la_crash s' = None \<and> la_main s' = LFailed e \<and> (\<forall>i \<in> A. tried env sv m (la_ws s') i)
      | Err _ \<Rightarrow> False | Panic x \<Rightarrow> la_crash s' = Some x)"
  using assms
proof (induction "is" arbitrary: s)
  case Nil
  then show ?case by (auto simp: ready_def)
next
  case (Cons i "is")
  have c: "la_crash s = None" and i: "i < length (la_ws s)" and st: "la_ws s ! i = Starting"
    using Cons.prems(3) by (simp_all add: ready_def)
  note step = la_next [OF Cons.prems(2)]
  show ?case
  proof (cases "launchProgram env i (la_m s)")
    case None
    with Cons.prems Cons.IH [of s] ready_waits [of env sv m A i "is" s] show ?thesis by simp
  next
    case (Some rn)
    then obtain q n where l: "launchProgram env i (la_m s) = Some (q, n)" by (cases rn) simp
    show ?thesis
    proof (cases q)
      case (Ok u)
      with l have l: "launchProgram env i (la_m s) = Some (Ok (), n)" by simp
      show ?thesis
      proof (cases "la_wg s")
        case 0
        with Cons.prems(1) l step [OF la_negative [OF c i st l 0]] show ?thesis
          by (intro exI [of _ "s\<lparr>la_crash := Some NegativeWaitGroup, la_m := n\<rparr>"]) auto
      next
        case (Suc k)
        with Cons.prems l show ?thesis
          by (intro Cons.IH [OF _ step [OF la_ok [OF c i st l Suc]]]) (auto intro: ready_Cons)
      qed
    next
      case (Err e')
      with l Cons.prems show ?thesis
        by (intro Cons.IH [OF _ step [OF la_err [OF c i st, of env e' n]]]) (auto intro: ready_Cons)
    next
      case (Panic x)
      with l Cons.prems(1) step [OF la_panic [OF c i st, of env x n]] show ?thesis
        by (intro exI [of _ "s\<lparr>la_crash := Some x, la_m := n\<rparr>"]) auto
    qed
  qed
qed

text \<open>The result of \<open>launch_all\<close> as a run in which the goroutines of \<open>A\<close> have been tried.\<close>

definition run_result :: "launchenv \<Rightarrow> sysview \<Rightarrow> machine \<Rightarrow> nat set \<Rightarrow> run \<Rightarrow> bool" where
  "run_result env sv m A res \<longleftrightarrow>
     (\<exists>s. la_reach env sv m s \<and>
       (case res of
          None \<Rightarrow> la_crash s = None \<and> la_main s = Selecting \<and> 0 < la_wg s \<and> (\<forall>i \<in> A. tried env sv m (la_ws s) i)
        | Some (Ok _, m') \<Rightarrow> la_crash s = None \<and> la_m s = m' \<and> (la_main s = LJoined \<or> (\<exists>e. la_main s = LFailed e)) \<and>
            (\<forall>i \<in> A. tried env sv m (la_ws s) i)
        | Some (Err _, m') \<Rightarrow> False
        | Some (Panic x, m') \<Rightarrow> la_crash s = Some x \<and> la_m s = m'))"

lemma launch_all_err:
  assumes "la_reach env sv m s" and "ready env sv m A (i # is) s" and "la_main s = Selecting"
    and "launchProgram env i (la_m s) = Some (Err e, n)"
  shows "run_result env sv m A (launch_all env sv (i # is) (la_wg s) (la_m s))"
proof -
  have c: "la_crash s = None" and i: "i < length (la_ws s)" and st: "la_ws s ! i = Starting"
    using assms(2) by (simp_all add: ready_def)
  define s1 where "s1 = s\<lparr>la_ws := (la_ws s)[i := Reporting e], la_m := n\<rparr>"
  have r1: "la_reach env sv m s1" unfolding s1_def by (rule la_next [OF assms(1) la_err [OF c i st assms(4)]])
  have s1: "la_crash s1 = None" "la_main s1 = Selecting" "i < length (la_ws s1)" "la_ws s1 ! i = Reporting e"
    using c i assms(3) by (simp_all add: s1_def)
  show ?thesis
  proof (cases "la_wg s")
    case 0
    then have "la_wg s1 = 0" by (simp add: s1_def)
    from la_next [OF r1 la_receive_negative [OF s1 this]] show ?thesis
      using 0 assms(4) unfolding run_result_def
      by (intro exI [of _ "s1\<lparr>la_crash := Some NegativeWaitGroup\<rparr>"]) (simp add: s1_def)
  next
    case (Suc k)
    then have k: "la_wg s1 = Suc k" by (simp add: s1_def)
    define s2 where "s2 = s1\<lparr>la_ws := (la_ws s1)[i := Reported], la_wg := k, la_main := Panicking e\<rparr>"
    have r2: "la_reach env sv m s2" unfolding s2_def by (rule la_next [OF r1 la_receive [OF s1 k]])
    define s3 where "s3 = s2\<lparr>la_main := LFailed e, la_m := launched (SystemPanic sv ''starting program failed: %s'' (la_m s2))\<rparr>"
    have r3: "la_reach env sv m s3"
      unfolding s3_def by (rule la_next [OF r2 la_shutdown]) (simp_all add: s2_def s1_def c)
    have s3: "la_wg s3 = k" "la_m s3 = launched (SystemPanic sv ''starting program failed: %s'' n)" "la_main s3 = LFailed e"
      by (simp_all add: s3_def s2_def s1_def)
    have rd: "ready env sv m A is s3"
      by (rule ready_update [OF assms(2) refl, of Reported]) (simp_all add: s3_def s2_def s1_def c)
    obtain r m' where late: "launch_late env is (la_wg s3) (la_m s3) = (r, m')"
      by (cases "launch_late env is (la_wg s3) (la_m s3)")
    from launch_late_run [OF late r3 rd s3(3)] show ?thesis
      using late Suc assms(4) by (cases r) (auto simp: run_result_def s3)
  qed
qed

lemma launch_all_run:
  assumes "la_reach env sv m s" and "ready env sv m A is s" and "la_main s = Selecting"
  shows "run_result env sv m A (launch_all env sv is (la_wg s) (la_m s))"
  using assms
proof (induction "is" arbitrary: s)
  case Nil
  then have c: "la_crash s = None" by (simp add: ready_def)
  show ?case
  proof (cases "la_wg s")
    case 0
    from la_next [OF Nil.prems(1) la_join [OF c Nil.prems(3) 0]] show ?thesis
      using 0 c Nil.prems(2) unfolding run_result_def ready_def
      by (intro exI [of _ "s\<lparr>la_main := LJoined, la_m := launched (la_m s)\<rparr>"]) simp
  next
    case (Suc k)
    then show ?thesis using c Nil unfolding run_result_def ready_def by (intro exI [of _ s]) simp
  qed
next
  case (Cons i "is")
  have c: "la_crash s = None" and i: "i < length (la_ws s)" and st: "la_ws s ! i = Starting"
    using Cons.prems(2) by (simp_all add: ready_def)
  note step = la_next [OF Cons.prems(1)]
  show ?case
  proof (cases "launchProgram env i (la_m s)")
    case None
    with Cons.prems Cons.IH [of s] ready_waits [of env sv m A i "is" s] show ?thesis by simp
  next
    case (Some rn)
    then obtain q n where l: "launchProgram env i (la_m s) = Some (q, n)" by (cases rn) simp
    show ?thesis
    proof (cases q)
      case (Ok u)
      with l have l: "launchProgram env i (la_m s) = Some (Ok (), n)" by simp
      show ?thesis
      proof (cases "la_wg s")
        case 0
        with l step [OF la_negative [OF c i st l 0]] show ?thesis unfolding run_result_def
          by (intro exI [of _ "s\<lparr>la_crash := Some NegativeWaitGroup, la_m := n\<rparr>"]) simp
      next
        case (Suc k)
        from Cons.IH [OF step [OF la_ok [OF c i st l Suc]]] ready_Cons(2) [OF Cons.prems(2)] show ?thesis
          using Cons.prems(3) l Suc by simp
      qed
    next
      case (Err e)
      with l launch_all_err [OF Cons.prems] show ?thesis by simp
    next
      case (Panic x)
      with l step [OF la_panic [OF c i st, of env x n]] show ?thesis unfolding run_result_def
        by (intro exI [of _ "s\<lparr>la_crash := Some x, la_m := n\<rparr>"]) simp
    qed
  qed
qed

lemma Launch_run:
  assumes "distinct ord"
  shows "run_result env sv m {i \<in> set ord. i < length (programs m)} (Launch env sv ord m)"
proof -
  let ?A = "{i \<in> set ord. i < length (programs m)}"
  have "ready env sv m ?A (filter (\<lambda>i. i < length (programs m)) ord) (la_init m)"
    using assms by (auto simp: ready_def la_init_def)
  from launch_all_run [OF la_start this] show ?thesis by (simp add: Launch_def la_init_def)
qed

section \<open>The result of \<open>Launch\<close>\<close>

lemma Launch_Ok:
  assumes "Launch env sv ord m = Some (Ok (), m')" and "distinct ord"
    and "length (vc_Programs (vcfg m)) = length (programs m)" and "initStatus m \<noteq> statusPoweroff"
  shows "initStatus m' = statusLaunched" and "length (programs m') = length (programs m)"
    and "reboots m' = reboots m \<or> reboots m' = Suc (reboots m)"
    and "reboots m' = reboots m \<Longrightarrow> i < length (programs m) \<Longrightarrow>
      running env (pr_vcfgProg (programs m ! i)) (programs m' ! i) \<and> map_of (terminateSignals m') i \<noteq> None"
proof -
  obtain s where r: "la_reach env sv m s" and c: "la_crash s = None" and m': "la_m s = m'"
    and main: "la_main s = LJoined \<or> (\<exists>e. la_main s = LFailed e)"
    using Launch_run [OF assms(2), of env sv m] assms(1) by (auto simp: run_result_def)
  note inv = la_reach_inv [OF r assms(3,4), unfolded la_inv_def c, simplified]
  show "initStatus m' = statusLaunched" "length (programs m') = length (programs m)"
    "reboots m' = reboots m \<or> reboots m' = Suc (reboots m)"
    using main m' inv by (auto simp: main_inv_def power_of_def)
  show "running env (pr_vcfgProg (programs m ! i)) (programs m' ! i) \<and> map_of (terminateSignals m') i \<noteq> None"
    if "reboots m' = reboots m" "i < length (programs m)"
  proof -
    have i: "i < length (la_ws s)" using that(2) inv by simp
    have "set (la_ws s) \<subseteq> {Started}" using main m' inv that(1) by (auto simp: main_inv_def power_of_def)
    from subsetD [OF this nth_mem [OF i]] have "la_ws s ! i = Started" by simp
    moreover have "slot_inv env m s i" using inv that(2) by simp
    ultimately show ?thesis using m' by (auto simp: slot_inv_def)
  qed
qed


section \<open>Two programs that cannot be started\<close>

definition failing_env :: launchenv where
  "failing_env = sample_env\<lparr>le_ProgramArgs := \<lambda>_. Err EINVAL\<rparr>"

definition duo :: machine where
  "duo = (prepProgram sample_program 1 (prepProgram sample_program 0 (New (world_of []))))
     \<lparr>vcfg := zero_VCFG\<lparr>vc_Programs := [sample_program, sample_program]\<rparr>\<rparr>"

lemma duo_simps:
  "length (programs duo) = 2" "length (vc_Programs (vcfg duo)) = length (programs duo)"
  "initStatus duo \<noteq> statusPoweroff" "reboots duo = 0"
  by (simp_all add: duo_def prepProgram_def New_def reboots_def world_of_def)

lemma failing_start: "\<exists>m'. launchProgram failing_env i m = Some (Err EINVAL, m')"
  by (simp add: launchProgram_def failing_env_def Let_def)

lemma duo_run:
  "\<exists>s. la_reach failing_env quiet_system duo s \<and> la_final failing_env quiet_system s \<and> la_crash s = None \<and>
     la_ws s = [Reported, Reporting EINVAL] \<and> la_main s = LFailed EINVAL"
proof -
  let ?s = "\<lambda>ws wg mn n. \<lparr>la_ws = ws, la_wg = wg, la_main = mn, la_crash = None, la_m = n\<rparr>"
  have init: "la_init duo = ?s [Starting, Starting] 2 Selecting (launch_start duo)"
    using duo_simps by (simp add: la_init_def numeral_2_eq_2)
  obtain m1 where m1: "launchProgram failing_env 0 (launch_start duo) = Some (Err EINVAL, m1)"
    using failing_start by blast
  obtain m2 where m2: "launchProgram failing_env 1 m1 = Some (Err EINVAL, m2)" using failing_start by blast
  define m3 where "m3 = launched (SystemPanic quiet_system ''starting program failed: %s'' m2)"
  note next_step = la_next [where env = failing_env and sv = quiet_system and m = duo]
  have "la_reach failing_env quiet_system duo (?s [Reporting EINVAL, Starting] 2 Selecting m1)"
    using next_step [OF la_start la_err [of "la_init duo" 0 failing_env EINVAL m1]] m1 by (simp add: init)
  from next_step [OF this la_err [of _ 1 failing_env EINVAL m2]] m2
  have "la_reach failing_env quiet_system duo (?s [Reporting EINVAL, Reporting EINVAL] 2 Selecting m2)" by simp
  from next_step [OF this la_receive [of _ 0 EINVAL 1]]
  have "la_reach failing_env quiet_system duo (?s [Reported, Reporting EINVAL] 1 (Panicking EINVAL) m2)" by simp
  from next_step [OF this la_shutdown [of _ EINVAL]]
  have "la_reach failing_env quiet_system duo (?s [Reported, Reporting EINVAL] 1 (LFailed EINVAL) m3)"
    by (simp add: m3_def)
  moreover have "la_final failing_env quiet_system (?s [Reported, Reporting EINVAL] 1 (LFailed EINVAL) m3)"
    unfolding la_final_def by (intro allI notI, erule la_stepE) (auto simp: less_Suc_eq)
  ultimately show ?thesis by fastforce
qed

theorem launch_outcome_witness:
  "\<exists>s. la_reach failing_env quiet_system duo s \<and> la_final failing_env quiet_system s \<and>
     power_of (la_m s) = (statusLaunched, 1) \<and> one_reported (la_ws s)"
proof -
  obtain s where s: "la_reach failing_env quiet_system duo s" "la_final failing_env quiet_system s" "la_crash s = None"
      "la_main s = LFailed EINVAL" using duo_run by blast
  with launch_outcome [OF s(1,2) duo_simps(2,3)] duo_simps(4) show ?thesis by auto
qed


end
