(* ===== verification/BootSpec.thy ===== *)
theory BootSpec
  imports VinitdSpec ServicesSpec LaunchJoin DhcpSpec
begin

text \<open>
  The whole boot: what has become of the configured programs when the main program has run its stages.
\<close>

section \<open>From power-on to the running programs\<close>

lemma plan_early [simp]: "plan (LogDebugEarly t m) = plan m"
  by (simp add: LogDebugEarly_def case_prod_beta more_OpenFile [THEN plan_more] split: outcome.split option.split)

definition early :: "string \<Rightarrow> boot \<Rightarrow> boot" where
  "early name b = on_m (LogDebugEarly (''starting seq '' @ name)) b"

lemma plan_early_stage [simp]: "plan (bt_m (early name b)) = plan (bt_m b)" "bt_disk (early name b) = bt_disk b"
  by (simp_all add: early_def on_m_def)

lemma early_programs [simp]:
  "programs (bt_m (early name b)) = programs (bt_m b)"
  "vc_Programs (vcfg (bt_m (early name b))) = vc_Programs (vcfg (bt_m b))"
  using plan_early_stage(1) [of name b] unfolding plan_def by simp_all

lemma status_early: "initStatus (bt_m (early name b)) = initStatus (bt_m b)"
  by (simp add: early_def on_m_def LogDebugEarly_def OpenFile_def split: outcome.split option.split)

definition power_on :: "world \<Rightarrow> dev \<Rightarrow> boot" where
  "power_on w d = \<lparr>bt_m = New w, bt_disk = d, bt_tty = \<lparr>tt_tty = None, tt_ttyS = None, tt_ttyRedir = None\<rparr>, bt_dns = []\<rparr>"

lemma programs_power_on: "programs (bt_m (power_on w d)) = []"
  by (simp add: power_on_def New_def)

lemma disk_power_on: "bt_disk (power_on w d) = d"
  by (simp add: power_on_def)

lemma PostSetup_result:
  assumes "PostSetup be b = Some (r, b')" and "\<And>x. r \<noteq> Panic x"
  shows "r = Ok () \<and> initStatus (bt_m b') = statusRun"
  using assms by (auto simp: PostSetup_def Let_def split: prod.splits outcome.splits option.splits)

lemma Launch_result:
  assumes "Launch env sv ord m = Some (r, m')" and "distinct ord" and "\<And>x. r \<noteq> Panic x"
  shows "r = Ok ()"
  using Launch_run [OF assms(2), of env sv m] assms(1,3) by (cases r) (auto simp: run_result_def)

lemma Launch_nothing_prepared:
  assumes "Launch env sv ord m = Some (r, m')" and "programs m = []"
  shows "vc_Programs (vcfg m) = []"
  using assms by (simp add: Launch_def split: if_splits)

lemma main_init_stages:
  assumes "main_init be w d = Some (Ok (), b')" and "PreSetup be (early ''pre-setup'' (power_on w d)) = (Ok (), b1)"
    and "distinct (be_launch_order be)"
  obtains r2 b2 b3 where
    "Setup be (early ''setup'' b1) = Some (r2, b2)" and "\<And>x. r2 \<noteq> Panic x" and
    "PostSetup be (early ''post-setup'' (if is_ok r2 then b2 else on_m (SystemPanic (be_sys be) ''can not run %s: %s'') b2)) =
       Some (Ok (), b3)" and
    "Launch (be_launch be) (be_sys be) (be_launch_order be) (bt_m (early ''launch'' b3)) = Some (Ok (), bt_m b')"
proof -
  have main: "run_stages be (tl (stages be)) b1 = Some (Ok (), b')"
    using assms(1,2) by (simp add: main_init_def stages_def early_def power_on_def)
  obtain r2 b2 where s: "Setup be (early ''setup'' b1) = Some (r2, b2)" and r2: "\<And>x. r2 \<noteq> Panic x"
    using main by (auto simp: stages_def early_def split: option.splits prod.splits outcome.splits)
  define b2' where "b2' = (if is_ok r2 then b2 else on_m (SystemPanic (be_sys be) ''can not run %s: %s'') b2)"
  have main: "run_stages be (drop 2 (stages be)) b2' = Some (Ok (), b')"
    using main s r2 by (cases r2) (simp_all add: stages_def early_def b2'_def)
  obtain r3 b3 where p: "PostSetup be (early ''post-setup'' b2') = Some (r3, b3)" and r3: "\<And>x. r3 \<noteq> Panic x"
    using main by (auto simp: stages_def early_def split: option.splits prod.splits outcome.splits)
  have ok3: "r3 = Ok ()" using PostSetup_result [OF p r3] by simp
  then have "run_stages be (drop 3 (stages be)) b3 = Some (Ok (), b')"
    using main p by (simp add: stages_def early_def)
  then obtain r4 m4 where l: "Launch (be_launch be) (be_sys be) (be_launch_order be) (bt_m (early ''launch'' b3)) = Some (r4, m4)"
    and r4: "\<And>x. r4 \<noteq> Panic x"
    and b': "bt_m b' = (if is_ok r4 then m4 else SystemPanic (be_sys be) ''can not run %s: %s'' m4)"
    by (auto simp: stages_def early_def Launch_stage_def on_m_def split: option.splits prod.splits outcome.splits)
  have "r4 = Ok ()" by (rule Launch_result [OF l assms(3) r4])
  with that [OF s r2] p ok3 l b' show ?thesis by (simp add: b2'_def)
qed


section \<open>A machine that boots\<close>

text \<open>
  Hardly any file of this machine can be opened: its disk, the kernel's arguments, which mount the root
  read-only, and the terminal.  Its disk has grown, and its configuration has one program.
\<close>

definition calm_fs :: fs where
  "calm_fs = w_fs (world_of [(''/dev'', Dir), (''/dev/sda'', File []), (''/dev/vtty'', File []), (''/proc'', Dir),
     (''/proc/bootdev'', File ''/dev/sda''), (''/proc/cmdline'', File ''ro'')])"

definition calm_deny :: "string \<Rightarrow> string \<Rightarrow> goerr option" where
  "calm_deny op p =
     (if op = ''mount'' \<and> List.member [''/proc'', ''/sys'', ''/dev/pts''] p \<or>
         op = ''open'' \<and> List.member [''/'', ''/proc/bootdev'', ''/proc/cmdline'', ''/dev/sda'', ''/dev/vtty''] p
      then None else Some EINVAL)"

definition calm_program :: Program where
  "calm_program = plain_program\<lparr>vp_Args := ''/app''\<rparr>"

definition calm_cfg :: VCFG where
  "calm_cfg = zero_VCFG\<lparr>vc_Programs := [calm_program]\<rparr>"

definition calm_env :: bootenv where
  "calm_env =
     \<lparr>be_sys = quiet_system, be_nk = silent_nk, be_kern = sample_kern,
      be_fmt = boot_fmt\<lparr>bf_Unmarshal := \<lambda>_. Ok calm_cfg\<rparr>, be_kn = (\<lambda>_ x. x), be_ord = id,
      be_statik = (\<lambda>_. Err EINVAL), be_ce = quiet_cloud, be_de = dns_sample, be_lo = plain_lo, be_lookup = (\<lambda>_. Err EINVAL),
      be_chrony = None, be_busybox = Err EINVAL, be_launch = sample_env, be_epoll = \<lparr>ep_Create = None, ep_Ctl = None\<rparr>,
      be_rnd = (\<lambda>_. 0), be_unicode = id, be_SaltedHostname = (\<lambda>_. ''vorteil''), be_blocks = Ok [],
      be_device = (\<lambda>_. ext_dev 200), be_network_in = (\<lambda>_. Err EINVAL),
      be_setup_order = [2, 0, 1], be_post_order = [2, 4, 1, 0, 3], be_launch_order = [0]\<rparr>"

definition at_ease :: "machine \<Rightarrow> bool" where
  "at_ease m \<longleftrightarrow> w_fs m = calm_fs \<and> w_deny m = calm_deny \<and> reboots m = 0 \<and>
     ifcs m = [] \<and> v_dns m = [] \<and> searchDomains m = []"

lemma traced_fields [simp]:
  "diskname (emit e m) = diskname m" "searchDomains (emit e m) = searchDomains m" "readOnly (emit e m) = readOnly m"
  "diskname (log l f m) = diskname m" "searchDomains (log l f m) = searchDomains m" "readOnly (log l f m) = readOnly m"
  by (simp_all add: emit_def log_def)

lemma at_ease_simps [simp]:
  "\<not> is_reboot e \<Longrightarrow> at_ease (emit e m) = at_ease m" "at_ease (m\<lparr>hostname := a\<rparr>) = at_ease m"
  "at_ease (m\<lparr>hv_envs := b\<rparr>) = at_ease m" "at_ease (m\<lparr>hv_cloud := c\<rparr>) = at_ease m" "at_ease (m\<lparr>hv_hypervisor := d\<rparr>) = at_ease m"
  "at_ease (m\<lparr>programs := ps\<rparr>) = at_ease m" "at_ease (m\<lparr>initStatus := st\<rparr>) = at_ease m" "at_ease (m\<lparr>diskname := p\<rparr>) = at_ease m"
  "at_ease (m\<lparr>vcfg := v\<rparr>) = at_ease m" "at_ease (m\<lparr>v_user := u\<rparr>) = at_ease m" "at_ease (m\<lparr>readOnly := r\<rparr>) = at_ease m"
  "at_ease m \<Longrightarrow> at_ease (m\<lparr>v_dns := []\<rparr>)" "at_ease (m\<lparr>terminateWait := t\<rparr>) = at_ease m"
  by (simp_all add: at_ease_def reboots_def emit_def)

lemma calm_log [simp]: "at_ease (log l f m) = at_ease m"
  by (simp add: log_def is_reboot_def)

lemma calm_set_env [simp]: "at_ease (set_env k x m) = at_ease m"
  by (simp add: set_env_def)

lemma calm_paths:
  "resolve calm_fs True ''/dev/vtty'' = Ok ([''dev'', ''vtty''], Some (File []))"
  "resolve calm_fs True ''/dev/sda'' = Ok ([''dev'', ''sda''], Some (File []))"
  "resolve calm_fs True ''/proc/bootdev'' = Ok ([''proc'', ''bootdev''], Some (File ''/dev/sda''))"
  "resolve calm_fs True ''/proc/cmdline'' = Ok ([''proc'', ''cmdline''], Some (File ''ro''))"
  "calm_fs [''dev'', ''vtty''] = Some (File [])"
  by code_simp+

lemma calm_refuses:
  assumes "at_ease m"
  shows "calm_deny ''open'' p = Some EINVAL \<Longrightarrow> ReadFile p m = Err EINVAL"
    "calm_deny ''open'' p = Some EINVAL \<Longrightarrow> os_Open p m = Err EINVAL"
    "calm_deny ''open'' p = Some EINVAL \<Longrightarrow> OpenFile c t p m = (Err EINVAL, m)"
    "calm_deny ''open'' p = Some EINVAL \<Longrightarrow> WriteFile p x m = (Err EINVAL, m)"
    "os_Stat p m = Err EINVAL" "os_Remove p m = (Err EINVAL, m)" "os_Chmod p n m = (Err EINVAL, m)"
    "os_Symlink q p m = (Err EINVAL, m)"
    "calm_deny ''mount'' p = Some EINVAL \<Longrightarrow> syscall_Mount a p c' n o' m = (Err EINVAL, m)"
  using assms
  by (simp_all add: at_ease_def ReadFile_def os_Stat_def stat_node_def os_Open_def OpenFile_def open_write_def WriteFile_def
      os_Remove_def os_Chmod_def os_Symlink_def syscall_Mount_def and_then_def)
    (simp_all add: calm_deny_def)

lemma calm_allows:
  assumes "at_ease m"
  shows "OpenFile c t ''/dev/vtty'' m = (Ok [''dev'', ''vtty''], m)"
    "ReadFile ''/proc/bootdev'' m = Ok ''/dev/sda''" "ReadFile ''/proc/cmdline'' m = Ok ''ro''"
    "os_Open ''/dev/sda'' m = Ok (File [])" "open_write False ''/dev/sda'' m = Ok [''dev'', ''sda'']"
proof -
  have "put_file [''dev'', ''vtty''] [] m = m"
    using assms calm_paths(5) by (simp add: at_ease_def put_file_def fun_upd_idem)
  then show "OpenFile c t ''/dev/vtty'' m = (Ok [''dev'', ''vtty''], m)"
    using assms by (simp add: OpenFile_def open_write_def at_ease_def calm_deny_def calm_paths)
qed (use assms in \<open>simp_all add: ReadFile_def os_Open_def open_write_def at_ease_def calm_deny_def calm_paths\<close>)

subsection \<open>The first stage\<close>

lemma calm_vtty: "at_ease m \<Longrightarrow> at_ease (snd (setupVtty mode (t, m)))"
  by (cases mode)
    (simp_all add: setupVtty_def enableTTY_def enableTTYS_def open_tty_def assign_std_def defaultTTY_def calm_refuses
      calm_allows calm_deny_def Let_def)

lemma calm_mountFs:
  assumes "at_ease m" and "calm_deny ''mount'' p = None"
  shows "\<exists>m'. mountFs env p t os m = (Ok (), m') \<and> at_ease m'"
proof -
  have "w_deny m ''mount'' p = None" using assms by (simp add: at_ease_def)
  then show ?thesis
    using assms(1) by (simp add: mountFs_def calm_refuses(5) IsNotExist_def syscall_Mount_def is_reboot_def)
qed

lemma calm_directories:
  assumes "at_ease m"
  shows "\<exists>m'. setupBasicDirectories env ''/'' m = (Ok (), m') \<and> at_ease m'"
proof -
  have p: "basic_dirs ''/'' = [(''/proc'', ''proc''), (''/sys'', ''sysfs''), (''/dev/pts'', ''devpts'')]"
    "PathJoin [''/'', ''/tmp''] = ''/tmp''" by code_simp+
  have d: "calm_deny ''mount'' ''/proc'' = None" "calm_deny ''mount'' ''/sys'' = None" "calm_deny ''mount'' ''/dev/pts'' = None"
    by (simp_all add: calm_deny_def)
  obtain m1 where 1: "mountFs env ''/proc'' ''proc'' [] m = (Ok (), m1)" "at_ease m1" using calm_mountFs [OF assms d(1)] by blast
  obtain m2 where 2: "mountFs env ''/sys'' ''sysfs'' [] m1 = (Ok (), m2)" "at_ease m2" using calm_mountFs [OF 1(2) d(2)] by blast
  obtain m3 where 3: "mountFs env ''/dev/pts'' ''devpts'' [] m2 = (Ok (), m3)" "at_ease m3" using calm_mountFs [OF 2(2) d(3)] by blast
  have "mount_dirs env (basic_dirs ''/'') m = (Ok (), m3)" by (simp add: p 1 2 3)
  then show ?thesis
    using assms 3(2) by (simp add: setupBasicDirectories_def p ignoring_def calm_refuses)
qed

text \<open>The machine once its configuration is read.\<close>

definition configured :: "machine \<Rightarrow> bool" where
  "configured m \<longleftrightarrow> at_ease m \<and> readOnly m \<and> diskname m = ''/dev/sda'' \<and> vcfg m = calm_cfg"

lemma calm_cmdline:
  assumes "at_ease m"
  shows "\<exists>m'. hasCmdLineString ss m = (ss = ''ro'', m') \<and> at_ease m' \<and> settings m' = settings m \<and> diskname m' = diskname m"
proof -
  have "Split (TrimSuffix ''ro'' newline) '' '' = [''ro'']" by code_simp
  then show ?thesis
    using assms by (auto simp: hasCmdLineString_def calm_allows Let_def settings_def)
qed

lemma calm_readVCFG:
  assumes "at_ease m" and "fmt = boot_fmt\<lparr>bf_Unmarshal := \<lambda>_. Ok calm_cfg\<rparr>"
  shows "\<exists>m'. readVCFG fmt ''/dev/sda'' (ext_dev 200) m = (Ok (), m') \<and> at_ease m' \<and> vcfg m' = calm_cfg \<and> diskname m' = diskname m"
  using assms by (auto simp: readVCFG_def openVCFGFile_def calm_allows boot_fmt_def vcfgOffset_def f_read_ok f_read_some_def
        any_bad_sound ext_dev_facts Let_def sectorSize_def)

lemma calm_load_config:
  assumes "at_ease m"
  shows "\<exists>m'. load_config calm_env (ext_dev 200) m = (Ok (), m') \<and> configured m'"
proof -
  have d: "bootDisk m = Ok ''/dev/sda''" using assms by (simp add: bootDisk_def calm_allows)
  obtain m1 where 1: "readVCFG (be_fmt calm_env) ''/dev/sda'' (ext_dev 200) (m\<lparr>diskname := ''/dev/sda''\<rparr>) = (Ok (), m1)"
    "at_ease m1" "vcfg m1 = calm_cfg" "diskname m1 = ''/dev/sda''"
    using calm_readVCFG [of "m\<lparr>diskname := ''/dev/sda''\<rparr>" "be_fmt calm_env"] assms by (auto simp: calm_env_def)
  obtain m2 where 2: "hasCmdLineString ''ro'' m1 = (True, m2)" "at_ease m2" "vcfg m2 = calm_cfg" "diskname m2 = ''/dev/sda''"
    using calm_cmdline [OF 1(2), of "''ro''"] 1 by (auto simp: settings_def)
  have 3: "mount_options m1 = logError ''can not setup mount options: %s'' (m2\<lparr>readOnly := True\<rparr>)"
    using 2 by (simp add: mount_options_def setupMountOptions_def calm_refuses calm_deny_def)
  obtain m4 where 4: "hasCmdLineString ''direktiv'' (mount_options m1) = (False, m4)" "at_ease m4"
    "settings m4 = settings (mount_options m1)" "diskname m4 = ''/dev/sda''"
    using calm_cmdline [of "mount_options m1" "''direktiv''"] 2 by (auto simp: 3)
  have "configured m4" using 2 4 by (simp add: configured_def settings_def 3)
  then show ?thesis using 1 4 by (auto simp: load_config_def d direktiv_disk_def)
qed

lemma calm_growDisks:
  assumes "configured m"
  shows "\<exists>d m'. growDisks sample_kern (ext_dev 200, m) = (Ok (), d, m') \<and> configured m'"
proof -
  have c: "at_ease m" using assms by (simp add: configured_def)
  have "bootDisk m = Ok ''/dev/sda''" "open_write False ''/dev/sda'' m = Ok [''dev'', ''sda'']" "w_deny m ''open'' ''/'' = None"
    using c calm_allows [OF c] by (simp_all add: bootDisk_def at_ease_def calm_deny_def)
  moreover have "accepting sample_kern 4096 sample_geom" by (simp add: accepting_def sample_kern_def)
  moreover have "configured (flushDisk p (m\<lparr>w_trace := w_trace m @ es\<rparr>))" if "filter is_reboot es = []" for p es
    using assms that by (simp add: flushDisk_def configured_def at_ease_def reboots_def is_reboot_def split: outcome.split)
  ultimately show ?thesis
    using growDisk_ok [of 100 1 "\<lparr>fdev = ext_dev 200, fpos = 0\<rparr>" sample_kern 4096 sample_geom m "''/dev/sda''"]
      ext_dev_facts(1) [of 200]
    by (auto simp: growDisks_def ext_dev_facts(2-) is_reboot_def)
qed

lemma calm_PreSetup:
  assumes "at_ease (bt_m b)" and "bt_disk b = ext_dev 200"
  shows "\<exists>b'. PreSetup calm_env b = (Ok (), b') \<and> configured (bt_m b') \<and> bt_dns b' = bt_dns b"
proof -
  obtain t m1 where 1: "setupVtty StdoutModeUnknown (bt_tty b, bt_m b) = (t, m1)" "at_ease m1"
    using calm_vtty [OF assms(1), of StdoutModeUnknown "bt_tty b"] by (metis prod.collapse)
  obtain m2 where 2: "setupBasicDirectories (be_sys calm_env) ''/'' m1 = (Ok (), m2)" "at_ease m2"
    using calm_directories [OF 1(2)] by blast
  obtain m3 where 3: "load_config calm_env (ext_dev 200) (emit (EvCall ''go'' [''checkLogs'']) m2) = (Ok (), m3)" "configured m3"
    using calm_load_config [of "emit (EvCall ''go'' [''checkLogs'']) m2"] 2(2) by (auto simp: is_reboot_def)
  obtain d m4 where 4: "growDisks sample_kern (ext_dev 200, m3) = (Ok (), d, m4)" "configured m4"
    using calm_growDisks [OF 3(2)] by blast
  have "be_kern calm_env = sample_kern" by (simp add: calm_env_def)
  then show ?thesis
    using 4(2) by (simp add: PreSetup_def 1 2 3 4 assms Let_def set_terminate_wait_def configured_def)
qed

subsection \<open>The second stage\<close>

lemma configured_calm: "configured m \<Longrightarrow> at_ease m"
  by (simp add: configured_def)

lemma configured_simps [simp]:
  "\<not> is_reboot e \<Longrightarrow> configured (emit e m) = configured m" "configured (log l f m) = configured m"
  "configured (m\<lparr>hostname := a\<rparr>) = configured m" "configured (m\<lparr>hv_envs := b\<rparr>) = configured m"
  "configured (m\<lparr>hv_cloud := c\<rparr>) = configured m" "configured (m\<lparr>hv_hypervisor := d\<rparr>) = configured m"
  "configured (m\<lparr>programs := ps\<rparr>) = configured m" "configured (m\<lparr>initStatus := st\<rparr>) = configured m"
  by (simp_all add: configured_def)

lemma configured_set_env [simp]: "configured (set_env k x m) = configured m"
  by (simp add: set_env_def)

lemmas refused = configured_calm calm_refuses calm_deny_def

lemma configured_vtty: "configured m \<Longrightarrow> configured (snd (setupVtty mode (t, m)))"
  by (cases mode)
    (simp_all add: setupVtty_def enableTTY_def enableTTYS_def open_tty_def assign_std_def defaultTTY_def refused
      calm_allows Let_def)

lemma configured_early: "configured (bt_m b) \<Longrightarrow> configured (bt_m (early name b))" "bt_dns (early name b) = bt_dns b"
  by (simp_all add: early_def on_m_def LogDebugEarly_def refused)

lemma calm_scheduler:
  "changeDiskScheduler ''/dev/sda'' m = (Ok (), ignoring (WriteFile ''/sys/block/sda/queue/scheduler'' ''noop'' m))"
proof -
  have "SplitN ''/dev/sda'' ''/'' 3 = [[], ''dev'', ''sda'']" by code_simp
  then show ?thesis by (simp add: changeDiskScheduler_def)
qed

lemma calm_background:
  assumes "configured m"
  shows "\<exists>m'. setup_background calm_env m = (Ok (), m') \<and> configured m'"
proof -
  have "diskname m = ''/dev/sda''" "\<And>m. configured m \<Longrightarrow> readOnly m" using assms by (simp_all add: configured_def)
  then show ?thesis
    using assms by (simp add: setup_background_def and_then_def Let_def ignoring_def listenToPowerEvent_def refused
      printVersion_def calm_scheduler is_reboot_def)
qed

lemma calm_hostname:
  assumes "configured m"
  shows "\<exists>m'. choose_hostname calm_env m = (Ok ''vorteil'', m') \<and> configured m'"
proof -
  have "setHostname (\<lambda>_. 0) id ''vorteil'' = Ok ''vorteil''" by code_simp
  then show ?thesis using assms by (simp add: choose_hostname_def calm_env_def)
qed

lemma calm_config: "configured m \<Longrightarrow> \<exists>m'. config_worker calm_env m = Some (Ok (), m') \<and> configured m'"
  by (simp add: config_worker_def systemConfig_def enableContainers_def Let_def ignoring_def refused and_then_def)

lemma calm_etc: "configured m \<Longrightarrow> etc_worker calm_env m = Some (Ok (), m)"
  by (simp add: etc_worker_def configured_def)

lemma calm_network:
  assumes "configured m"
  shows "\<exists>m'. network_worker calm_env m = Some (Ok (), m') \<and> configured m'"
proof -
  have "ifcs m = []" "vc_Routing (vcfg m) = []" "\<And>w. print_ifcs [] [] w = (Ok (), w)"
    using assms by (simp_all add: configured_def at_ease_def calm_cfg_def zero_VCFG_def)
  then show ?thesis
    using assms by (simp add: network_worker_def networkSetup_def calm_env_def silent_nk_def and_then_def sortAndPrint_def
        Let_def)
qed

lemma calm_prep: "configured (prep_programs m) = configured m"
proof -
  have "configured (fold (\<lambda>(i, p) m. prepProgram p i m) ps m) = configured m" for ps and m :: machine
  proof (induction ps arbitrary: m)
    case (Cons a ps)
    have "configured (prepProgram p i m) = configured m" for p i unfolding prepProgram_def by (rule configured_simps)
    then show ?case by (cases a) (simp only: fold_simps comp_apply Cons.IH prod.case)
  qed simp
  then show ?thesis unfolding prep_programs_def .
qed

lemma calm_after:
  assumes "configured m"
  shows "\<exists>m'. after_setup hn m = (Ok (), m') \<and> configured m'"
proof -
  have "searchDomains m = []" using assms by (simp add: configured_def at_ease_def)
  moreover have "configured (update_hostname hn m)"
    using assms by (simp add: update_hostname_def Let_def ignoring_def refused genHostnameFile_def and_then_def)
  ultimately show ?thesis by (simp add: after_setup_def write_resolv_def and_then_def calm_prep)
qed

lemma calm_orders [simp]:
  "be_setup_order calm_env = [2, 0, 1]" "be_post_order calm_env = [2, 4, 1, 0, 3]" "be_launch_order calm_env = [0]"
  "be_ce calm_env = quiet_cloud" "be_launch calm_env = sample_env"
  by (simp_all add: calm_env_def)

lemma calm_Setup:
  assumes "configured (bt_m b)"
  shows "\<exists>b'. Setup calm_env b = Some (Ok (), b') \<and> configured (bt_m b') \<and> bt_dns b' = bt_dns b"
proof -
  define m1 where "m1 = logDebug ''output mode: %v'' (bt_m b)"
  obtain t m2 where vt: "setupVtty (sy_StdoutMode (vc_System (vcfg m1))) (bt_tty b, m1) = (t, m2)" and "configured m2"
    using configured_vtty [of m1 "sy_StdoutMode (vc_System (vcfg m1))" "bt_tty b"] assms by (metis m1_def configured_simps(2) prod.collapse)
  then obtain m3 where sb: "setup_background calm_env m2 = (Ok (), m3)" and "configured m3" using calm_background by blast
  then obtain m4 where ch: "choose_hostname calm_env m3 = (Ok ''vorteil'', m4)" and "configured m4" using calm_hostname by blast
  then have m5: "configured (logDebug ''system setup waiting to finish'' m4)" by simp
  then obtain m6 where n: "network_worker calm_env (logDebug ''system setup waiting to finish'' m4) = Some (Ok (), m6)"
    and "configured m6" using calm_network by blast
  then obtain m7 where c: "config_worker calm_env m6 = Some (Ok (), m7)" and "configured m7" using calm_config by blast
  then obtain m8 where a: "after_setup ''vorteil'' m7 = (Ok (), m8)" and m8: "configured m8" using calm_after by blast
  have j: "join_workers (setup_workers calm_env) None False (logDebug ''system setup waiting to finish'' m4) = Some (Ok (), m7)"
    using calm_etc [OF m5] by (simp add: setup_workers_def n c)
  show ?thesis using m8 by (simp add: Setup_def Let_def m1_def [symmetric] vt sb ch and_then_def j a)
qed

subsection \<open>The third stage\<close>

lemma calm_basicEnv:
  assumes "configured m"
  shows "\<exists>m'. basicEnv quiet_cloud m = (Ok (), m') \<and> configured m'"
proof -
  have "ifcs m = []" using assms by (simp add: configured_def at_ease_def)
  then show ?thesis using assms by (simp add: basicEnv_def Let_def quiet_cloud_def)
qed

lemma calm_dns:
  assumes "configured m"
  shows "\<exists>m'. startDNS de a v [] m = ((Ok (), []), m') \<and> configured m'"
proof -
  have c: "v_dns m = []" "sy_DNS (vc_System (vcfg m)) = []" "uniqueIPs [] = []" "configured (m\<lparr>v_dns := []\<rparr>)"
    using assms by (simp_all add: configured_def at_ease_def calm_cfg_def zero_VCFG_def zero_System_def uniqueIPs_def reboots_def)
  then show ?thesis by (simp add: startDNS_def Let_def printDNS_def)
qed

lemma calm_post_workers:
  assumes "configured m"
  shows "\<exists>m'. cloud_worker calm_env m = Some (Ok (), m') \<and> configured m'"
    "\<exists>m'. chrony_worker calm_env m = Some (Ok (), m') \<and> configured m'"
    "logging_worker calm_env m = Some (Ok (), m)" "nfs_worker calm_env m = Some (Ok (), m)"
    "busybox_worker calm_env m = Some (Ok (), m)"
proof -
  have c: "vc_Logging (vcfg m) = []" "vc_NFS (vcfg m) = []" "sy_NTP (vc_System (vcfg m)) = []"
    using assms by (simp_all add: configured_def calm_cfg_def zero_VCFG_def zero_System_def)
  show "\<exists>m'. cloud_worker calm_env m = Some (Ok (), m') \<and> configured m'"
    using calm_basicEnv assms by (simp add: cloud_worker_def refused)
  show "\<exists>m'. chrony_worker calm_env m = Some (Ok (), m') \<and> configured m'"
    using assms by (simp add: chrony_worker_def setupChronyD_def c Let_def refused)
  show "logging_worker calm_env m = Some (Ok (), m)" by (simp add: logging_worker_def c)
  show "nfs_worker calm_env m = Some (Ok (), m)" by (simp add: nfs_worker_def setupNFS_def c)
  show "busybox_worker calm_env m = Some (Ok (), m)"
    using assms by (simp add: busybox_worker_def runBusyboxScript_def refused)
qed

lemma calm_PostSetup:
  assumes "configured (bt_m b)" "bt_dns b = []"
  shows "\<exists>b'. PostSetup calm_env b = Some (Ok (), b') \<and> configured (bt_m b')"
proof -
  obtain m1 where e: "basicEnv quiet_cloud (bt_m b) = (Ok (), m1)" and "configured m1"
    using calm_basicEnv [OF assms(1)] by blast
  then obtain m2 where d: "startDNS (be_de calm_env) defaultDNSAddr True [] m1 = ((Ok (), []), m2)" and "configured m2"
    using calm_dns by blast
  then obtain m3 where c: "cloud_worker calm_env m2 = Some (Ok (), m3)" and "configured m3"
    using calm_post_workers(1) by blast
  then obtain m4 where h: "chrony_worker calm_env m3 = Some (Ok (), m4)" and m4: "configured m4"
    using calm_post_workers(2) by blast
  then have "join_workers (post_workers calm_env) None False m2 = Some (Ok (), m4)"
    by (simp add: post_workers_def c h calm_post_workers(3,4,5))
  then show ?thesis using assms(2) m4 by (simp add: PostSetup_def e d Let_def)
qed

subsection \<open>The last stage\<close>

lemma configured_set_program [simp]: "configured (set_program i p m) = configured m"
  by (simp add: set_program_def)

lemma calm_prepare:
  assumes "configured m" and "programs m = [p]" and "pr_vcfgProg p = calm_program"
  shows "\<exists>n q. prepare sample_env 0 m = (Ok (), n) \<and> configured n \<and> programs n = [q] \<and> pr_vcfgProg q = calm_program"
proof -
  define es where "es = envs (le_parse sample_env) (vp_Env calm_program) (le_ord sample_env 0 (hv_envs m))"
  have "is_ok (env_map [] es)" by (simp add: es_def env_map_total envs_def envs_loop_entries)
  then have a: "args ord [] es = Ok []" for ord by (cases "env_map [] es") (simp_all add: args_def)
  have "Split ''/app'' '' '' = [''/app'']" by code_simp
  then have b: "le_ProgramArgs sample_env calm_program = Ok [''/app'']" by (simp add: sample_env_def calm_program_def)
  have c: "calculatePath ''/app'' calm_program w = (Ok ''/app'', w)" for w :: machine
    by (simp add: calculatePath_def IsAbs_def)
  show ?thesis
    using assms by (simp add: prepare_def Let_def es_def [symmetric] a b c set_program_def)
qed

lemma calm_launch:
  assumes "configured m" and "programs m = [p]" and "pr_vcfgProg p = calm_program"
  shows "\<exists>m'. launch sample_env 0 m = (Ok (), m')"
proof -
  define q where "q = launched_record p"
  have "vp_Stdout (pr_vcfgProg q) = ''/dev/vtty''" "vp_Stderr (pr_vcfgProg q) = ''/dev/vtty''"
    by (simp_all add: q_def launched_record_fields assms(3) calm_program_def plain_program_def fixDefaults_def defaultTTY_def)
  moreover have "ensure_dir f w = w" if "configured w" for f w
    using that by (simp add: ensure_dir_def refused IsNotExist_def)
  ultimately show ?thesis
    using assms(1,2) by (simp add: launch_eq Let_def q_def [symmetric] calm_allows configured_calm exec_step_def sample_env_def)
qed

lemma calm_launchProgram:
  assumes "configured m" and "programs m = [p]" and "pr_vcfgProg p = calm_program"
  shows "\<exists>m'. launchProgram sample_env 0 m = Some (Ok (), m')"
proof -
  obtain n q where n: "prepare sample_env 0 m = (Ok (), n)" "configured n" "programs n = [q]" "pr_vcfgProg q = calm_program"
    using calm_prepare [OF assms] by blast
  define n' where "n' = logDebug ''launch envs %v'' (logDebug ''launch args %v'' (logDebug ''launching %s'' n))"
  obtain m' where "launch sample_env 0 n' = (Ok (), m')"
    using calm_launch [of n' q] n by (auto simp: n'_def)
  moreover have "vp_Bootstrap calm_program = []" by (simp add: calm_program_def plain_program_def)
  ultimately show ?thesis
    using assms(2,3) n by (simp add: launchProgram_eq start_prepared_def n'_def)
qed

lemma calm_Launch:
  assumes "configured m" and "programs m = [p]" and "pr_vcfgProg p = calm_program"
  shows "\<exists>m'. Launch sample_env sv [0] m = Some (Ok (), m') \<and> reboots m' = 0"
proof -
  have "configured (launch_start m)" "programs (launch_start m) = [p]"
    using assms(1,2) by (simp_all add: launch_start_def is_reboot_def)
  then obtain m' where l: "launchProgram sample_env 0 (launch_start m) = Some (Ok (), m')"
    using calm_launchProgram assms(3) by blast
  have "length (vc_Programs (vcfg m)) = 1" using assms(1) by (simp add: configured_def calm_cfg_def)
  moreover have "reboots m' = 0"
    using launchProgram_power [OF l] assms(1) power_start [of m] by (simp add: power_of_def configured_def at_ease_def)
  moreover have "reboots (launched m') = reboots m'" using power_launched [of m'] by (simp add: power_of_def)
  ultimately show ?thesis using l assms(2) by (simp add: Launch_def)
qed

definition calm_world :: world where
  "calm_world = (world_of [])\<lparr>w_fs := calm_fs, w_deny := calm_deny\<rparr>"

lemma calm_early: "at_ease (bt_m b) \<Longrightarrow> at_ease (bt_m (early name b))"
  by (simp add: early_def on_m_def LogDebugEarly_def calm_refuses calm_deny_def)

lemma calm_main:
  "\<exists>b1 b'. PreSetup calm_env (early ''pre-setup'' (power_on calm_world (ext_dev 200))) = (Ok (), b1) \<and>
     main_init calm_env calm_world (ext_dev 200) = Some (Ok (), b') \<and> reboots (bt_m b') = 0"
proof -
  have "at_ease (bt_m (power_on calm_world (ext_dev 200)))" "bt_dns (power_on calm_world (ext_dev 200)) = []"
    by (simp_all add: power_on_def at_ease_def New_def calm_world_def world_of_def reboots_def)
  then obtain b1 where b1: "PreSetup calm_env (early ''pre-setup'' (power_on calm_world (ext_dev 200))) = (Ok (), b1)"
    "configured (bt_m b1)" "bt_dns b1 = []"
    using calm_PreSetup [of "early ''pre-setup'' (power_on calm_world (ext_dev 200))"] calm_early configured_early(2)
    by (auto simp: disk_power_on)
  obtain b2 where b2: "Setup calm_env (early ''setup'' b1) = Some (Ok (), b2)" "configured (bt_m b2)" "bt_dns b2 = []"
    using calm_Setup [of "early ''setup'' b1"] b1 configured_early by auto
  obtain b3 where b3: "PostSetup calm_env (early ''post-setup'' b2) = Some (Ok (), b3)" "configured (bt_m b3)"
    using calm_PostSetup [of "early ''post-setup'' b2"] b2 configured_early by auto
  have orders: "set (be_setup_order calm_env) \<subseteq> {..<3}" "set (be_post_order calm_env) \<subseteq> {..<5}" by simp_all
  have "programs (bt_m b1) = []" using PreSetup_programs [OF b1(1)] by (auto simp: plan_def programs_power_on)
  moreover have "vc_Programs (vcfg (bt_m b1)) = [calm_program]" using b1(2) by (simp add: configured_def calm_cfg_def)
  ultimately have ps: "programs (bt_m (early ''launch'' b3)) = [prepared 0 calm_program]"
    using Setup_programs [OF orders(1) b2(1)] PostSetup_programs [OF orders(2) b3(1)] by (simp add: plan_def)
  have "configured (bt_m (early ''launch'' b3))" using b3(2) configured_early by blast
  then obtain m' where l: "Launch sample_env (be_sys calm_env) [0] (bt_m (early ''launch'' b3)) = Some (Ok (), m')" "reboots m' = 0"
    using calm_Launch [OF _ ps] by (auto simp: prepared_def)
  have "main_init calm_env calm_world (ext_dev 200) = Some (Ok (), (early ''launch'' b3)\<lparr>bt_m := m'\<rparr>)"
    using b1(1) b2(1) b3(1) l(1)
    by (simp add: main_init_def stages_def early_def power_on_def Launch_stage_def)
  with b1(1) l(2) show ?thesis by auto
qed


end
