(* ===== verification/Spec2Isabelle.thy ===== *)
theory Spec2Isabelle
  imports GptGrow Utils Hostname LaunchSpec Etc Disk Conf Cloud NetworkSpec DhcpSpec Lease Helper ServicesSpec Logging
    WatchSpec VmToolsSpec ForkJoin VinitdSpec BootSpec
begin

text \<open>
  \<^bold>\<open>vinitd\<close> is the first process of a vorteil machine: it grows the boot disk, reads the configuration
  from it, sets up files, kernel parameters and the network, starts the configured programs, and
  shuts the machine down when they end or someone asks for it.  This library models the Go and C sources
  under \<^verbatim>\<open>src/\<close> and proves what makes them correct.  File names below are relative to
  \<^verbatim>\<open>src/pkg/vorteil/\<close> unless they start with \<^verbatim>\<open>cmd/\<close>.

  \<^bold>\<open>How the program is modelled.\<close>
  Every Go function is a HOL function of the same name; a loop or an anonymous function of some size is
  a function of its own beside it.  A call that can fail returns an \<open>outcome\<close>: \<open>Ok\<close>, \<open>Err\<close> with an error
  value, or \<open>Panic\<close> with what the Go runtime reports (index out of range, nil dereference, division by
  zero, send on a closed channel).  Effects are passed explicitly.  The record \<open>world\<close> of theory \<open>OsModel\<close> holds the file
  tree, the refusals of the kernel (\<open>w_deny\<close>), what other processes do to the tree while time passes,
  the clock, and the trace of everything visible from outside (log lines with level and format,
  written files, mounts, signals, ioctls, started programs, the reboot call).  The record \<open>machine\<close> of theory
  \<open>VTypes\<close> extends it by the package variables and the fields of \<open>Vinitd\<close>.  A block device is a \<open>dev\<close>
  with contents, a size and unreadable offsets.  A Go map is an association list, and wherever the
  program iterates over a map the order is a parameter.  Something that may wait for ever returns an
  \<open>option\<close>, with \<open>None\<close> for not returning; such loops are \<open>partial_function (option)\<close>.

  Code of other modules and of the kernel is a parameter: \<open>sysview\<close> (the process table), \<open>launchenv\<close>
  (process creation, HTTP and TCP answers, the shell-word parser), \<open>netkern\<close> (links, DHCP, ethtool,
  routes), \<open>cloudenv\<close> (the metadata servers, the JSON decoder), \<open>diskkern\<close> (the resize calls), \<open>bootfmt\<close>
  (the boot loader block and the configuration decoder), \<open>dnsenv\<close>, \<open>logenv\<close>, \<open>epoll\<close>; theory \<open>Vinitd\<close>
  collects them in \<open>bootenv\<close>.  Beside these, \<open>leasekern\<close> stands for the sockets and the exchange of a lease renewal, \<open>sockview\<close>
  for the socket of the process connector, \<open>logkern\<close> for the epoll calls of \<open>checkLogs\<close>, \<open>routekern\<close> for what \<^verbatim>\<open>helper.c\<close> calls, and
  \<open>vmenv\<close> for the hypervisor behind the three port instructions of \<^verbatim>\<open>vmtools.c\<close>; \<open>ve_ParseFloat\<close> in it answers for the texts
  that the model of \<open>ParseFloat\<close> does not cover.

  \<^bold>\<open>The theories.\<close>
  \<^item> \<open>Prelude\<close>: outcomes, sequencing (\<open>and_then\<close>), the collections of simplification rules, lists and words.
  \<^item> \<open>GoBinary\<close>, \<open>GoStrings\<close>, \<open>GoNet\<close>: what the program uses of \<^verbatim>\<open>encoding/binary\<close>, \<^verbatim>\<open>strings\<close>, \<^verbatim>\<open>strconv\<close>,
    \<^verbatim>\<open>path/filepath\<close> and \<^verbatim>\<open>net\<close>, with the locale \<open>codec\<close> for fixed-size encodings.
  \<^item> \<open>BlockDev\<close>, \<open>OsModel\<close>, \<open>VTypes\<close>, \<open>FileView\<close>, \<open>Frame\<close>: devices, the file tree with symbolic links, the
    types of \<^verbatim>\<open>types.go\<close>, what a component sees of a file, and what operations leave alone.
  \<^item> \<open>GptTypes\<close>, \<open>Gpt\<close>, \<open>GptSpec\<close>, \<open>GptGrow\<close> (\<^verbatim>\<open>gpt.go\<close>, the zero reader of \<^verbatim>\<open>gptutil.go\<close>): the on-disk
    structures as records of machine words with their encodings, the operations of the modifier, the
    specification \<open>gpt_valid\<close> of a consistent disk.  Growing makes a grown disk consistent, keeps
    every byte of the partitions and is idempotent.
  \<^item> \<open>Disk\<close> (\<^verbatim>\<open>disk.go\<close>, \<open>detectFormat\<close>): mounts, and growing end to end down to the ioctls.
  \<^item> \<open>Conf\<close> and \<open>Cloud\<close> (\<^verbatim>\<open>conf.go\<close>, parts of \<^verbatim>\<open>chelper.go\<close>): the configuration block, cgroups, limits and
    sysctls; metadata requests, the environment they set, the polling loop.
  \<^item> \<open>Etc\<close> (\<^verbatim>\<open>etc.go\<close>), \<open>Utils\<close> and \<open>Uptime\<close> (\<^verbatim>\<open>utils.go\<close>, \<open>UptimeForTools\<close> of \<^verbatim>\<open>chelper.go\<close>; the second has the
    floating-point numbers with their rounding), \<open>Hostname\<close> (\<open>setHostname\<close>, \<open>validateHostname\<close> of \<^verbatim>\<open>network.go\<close>).
  \<^item> \<open>Ethtool\<close>, \<open>Network\<close>, \<open>NetworkSpec\<close>, \<open>DhcpSpec\<close> (\<^verbatim>\<open>network.go\<close>, \<open>addNetworkRoute4\<close>): device detection, DHCP, addresses,
    routes, queues, with the ethtool requests as the bytes the kernel reads and writes.  \<open>Lease\<close> (\<open>renewDHCP\<close> and the goroutine of \<open>fetchDHCP\<close>): when an offer is acknowledged, when the lease is renewed, and
    which sockets are left open.  \<open>Helper\<close> (\<^verbatim>\<open>helper.c\<close>): the structures handed to the kernel for a route, and how the
    kernel reads them.
  \<^item> \<open>Services\<close>, \<open>ServicesSpec\<close> (\<^verbatim>\<open>dns.go\<close>, \<^verbatim>\<open>nfs.go\<close>, \<^verbatim>\<open>ntp.go\<close>, \<^verbatim>\<open>power.go\<close>, \<^verbatim>\<open>rnd.go\<close>, terminals and levels
    of \<^verbatim>\<open>log.go\<close>) and \<open>Logging\<close> (\<^verbatim>\<open>logging.go\<close>).
  \<^item> \<open>Netlink\<close>, \<open>Process\<close>, \<open>ShutdownSpec\<close> (\<^verbatim>\<open>process.go\<close> and every caller of \<open>shutdown\<close>): the wire formats of the
    process connector, the handlers that lead to a shutdown as a step relation \<open>handler_step\<close>, and the
    unsynchronised status check as the interleaved steps \<open>sd_step\<close>.  \<open>WatchSpec\<close>: the connector from its socket to the
    shutdown, over any sequence of datagrams.
  \<^item> \<open>VmTools\<close>, \<open>VmToolsSpec\<close> (\<^verbatim>\<open>vmtools.c\<close>, \<^verbatim>\<open>vmtools.h\<close>): the thread that talks to a VMware host.  Arrays are byte lists of their
    length and an access outside one is a \<open>Panic\<close>, so that a round that returns \<open>Ok\<close> has stayed inside them; the addresses in the
    registers are left out.  No round leaves the arrays, the power commands of the host end in the
    shutdown of \<^verbatim>\<open>power.go\<close>, and the patched guest-info message is the encoding of what the kernel knows of the cards.
  \<^item> \<open>LaunchEnv\<close>, \<open>Launch\<close>, \<open>LaunchFrame\<close>, \<open>LaunchSpec\<close> (\<^verbatim>\<open>launch.go\<close>): paths, environment and arguments, bootstrap
    instructions, credentials, start and registration of programs, and what the start of one program leaves alone.
    \<open>LaunchJoin\<close>: the goroutines of \<open>Launch\<close> as the step relation \<open>la_step\<close>, how every run of them ends, and that \<open>Launch\<close> with a
    fixed order of goroutines is one of the runs.
  \<^item> \<open>ForkJoin\<close>: the pattern \<open>networkSetup\<close>, \<open>Setup\<close> and \<open>PostSetup\<close> share (goroutines, an unbuffered error channel,
    a wait group, a select) as the step relation \<open>fj_step\<close>.
  \<^item> \<open>Vinitd\<close>, \<open>VinitdSpec\<close> (\<^verbatim>\<open>vinitd.go\<close>, \<^verbatim>\<open>cmd/vorteil.go\<close>): the stages of the boot, their workers and the main
    program.  \<open>BootFrame\<close>, \<open>BootSpec\<close>: what the stages leave alone, and the boot as a whole, from the configuration on
    the disk to the running programs.

  \<^bold>\<open>Interfaces.\<close>  The locale \<open>codec\<close> is interpreted for every on-disk, netlink and ethtool structure, \<open>file_store\<close>
  for reading and writing files of the tree, \<open>writer\<close> for the sysctl files, \<open>latch\<close> for the shutdown
  status (its lemmas are the core of the at-most-once theorem), \<open>steady\<close> twice for the operations of the VMware
  tools that always return and keep their state well-formed, \<open>bystander\<close> five times, for the views of the
  machine that logging and file operations leave alone, and \<open>start_frame\<close> with its extension \<open>start_bystander\<close>, for the views that the
  start of a program leaves alone: the other programs, its own configuration, the status and the reboot calls.

  \<^bold>\<open>Interleaving.\<close>  Theory \<open>ForkJoin\<close> leaves the order of the workers' steps free and shows that every run
  ends and how; \<open>join_workers\<close> of theory \<open>Vinitd\<close>, which the stages use, runs whole workers one after the other in
  an order that is a parameter, and is shown to have the outcome of every interleaved run.  Theory \<open>LaunchJoin\<close> does the same for
  \<open>Launch\<close>, whose steps change the machine itself: the start of one program is a step, and the steps come in any order,
  also after the first error has begun the shutdown.  What the workers of the other stages
  do to shared state is modelled for whole workers in any order only.  A goroutine that is started and not waited
  for runs where it is started; one that loops for ever is modelled by
  the body of its loop, or by any number of its rounds.

  \<^bold>\<open>Bounds.\<close>  Integers are kept at their width where they meet the disk, the wire or the kernel;
  \<^verbatim>\<open>LastLBA\<close> arithmetic is modulo 2 to the 64, and the theorems about growing assume a device below
  2 to the 63 bytes, the range of the signed offsets the program seeks to.  Times are milliseconds and
  natural numbers; the overflow of a configured waiting time beyond 292 years is not modelled.  Resolving a path follows at most 40
  links, as Linux does.  No theorem rests on fuel: loops are structural, have a termination
  proof, or are partial functions whose return is a theorem.

  \<^bold>\<open>Not modelled, and why.\<close>
  \<^item> Interleavings inside the start of one program or inside a worker of \<open>Setup\<close>, \<open>PostSetup\<close> and \<open>networkSetup\<close>: the code has
    data races there (unsynchronised assignments of shared variables), for which the language gives no meaning.
  \<^item> The formatting and filtering of log lines by the logging library: a log line is an event with its level
    and format string.
  \<^item> The maps \<open>procs\<close> and \<open>internal\<close> of \<^verbatim>\<open>process.go\<close>, which are created and never used.
  \<^item> \<^verbatim>\<open>statik.go\<close> (an import only; the embedded files are a parameter), \<open>ceiling\<close> (never called), and the
    unused constants and types.
\<close>

end
